(* ===== verification/Prelude.thy ===== *)
theory Prelude
  imports Main "HOL-Library.Word" "HOL-Library.Product_Lexorder"
begin

text \<open>
  Shared vocabulary of the development.

  \<^item> the machine integers of the C++ sources (\<open>std::uint8_t\<close> ... \<open>std::uint64_t\<close>) as words;
  \<^item> the shape of every fallible operation: a function on the state that returns an error
    or a value together with the state it leaves behind. A \<open>PEF_TRY\<close> that fails returns at
    once, but everything mutated before it stays mutated, which is why the error case also
    carries a state;
  \<^item> a small weakest-precondition calculus for such operations, used by every invariant
    proof about the runtime;
  \<^item> generic facts on lists and sorting.
\<close>

section \<open>Machine integers\<close>

type_synonym u8 = "8 word"
type_synonym u16 = "16 word"
type_synonym u32 = "32 word"
type_synonym u64 = "64 word"

type_synonym bytes = "u8 list"

section \<open>Collections of facts\<close>

named_theorems wp_rules \<open>weakest-precondition equations of the operation combinators\<close>
named_theorems codec_rt \<open>round-trip equations of the field codecs\<close>
named_theorems codec_len \<open>lengths of encodings\<close>

section \<open>Fallible state-passing operations\<close>

type_synonym ('e, 's, 'a) oper = "'s \<Rightarrow> ('e + 'a) \<times> 's"

definition op_return :: "'a \<Rightarrow> ('e, 's, 'a) oper" where
  "op_return a s = (Inr a, s)"

definition op_fail :: "'e \<Rightarrow> ('e, 's, 'a) oper" where
  "op_fail e s = (Inl e, s)"

definition op_read :: "('s \<Rightarrow> ('e, 's, 'a) oper) \<Rightarrow> ('e, 's, 'a) oper" where
  "op_read f s = f s s"

definition op_modify :: "('s \<Rightarrow> 's) \<Rightarrow> ('e, 's, unit) oper" where
  "op_modify f s = (Inr (), f s)"

text \<open>\<open>PEF_TRY\<close>: propagate a failing status, otherwise go on.\<close>

definition pef_try ::
  "('e, 's, 'a) oper \<Rightarrow> ('a \<Rightarrow> ('e, 's, 'b) oper) \<Rightarrow> ('e, 's, 'b) oper" where
  "pef_try m f s = (case m s of (Inl e, s') \<Rightarrow> (Inl e, s') | (Inr a, s') \<Rightarrow> f a s')"

text \<open>A loop \<open>for (x : xs) { PEF_TRY(f x); }\<close>.\<close>

primrec op_for :: "('x \<Rightarrow> ('e, 's, unit) oper) \<Rightarrow> 'x list \<Rightarrow> ('e, 's, unit) oper" where
  "op_for f [] = op_return ()"
| "op_for f (x # xs) = pef_try (f x) (\<lambda>_. op_for f xs)"

section \<open>Weakest preconditions\<close>

definition wp :: "('e, 's, 'a) oper \<Rightarrow> ('e + 'a \<Rightarrow> 's \<Rightarrow> bool) \<Rightarrow> 's \<Rightarrow> bool" where
  "wp m Q s \<longleftrightarrow> (case m s of (r, s') \<Rightarrow> Q r s')"

lemma wpI: "(\<And>r s'. m s = (r, s') \<Longrightarrow> Q r s') \<Longrightarrow> wp m Q s"
  by (simp add: wp_def split: prod.split)

lemma wpD: "wp m Q s \<Longrightarrow> m s = (r, s') \<Longrightarrow> Q r s'"
  by (simp add: wp_def)

lemma wp_snd: "wp m (\<lambda>r s'. P s') s \<longleftrightarrow> P (snd (m s))"
  by (simp add: wp_def split: prod.split)

lemma wp_mono: "wp m Q s \<Longrightarrow> (\<And>r s'. Q r s' \<Longrightarrow> Q' r s') \<Longrightarrow> wp m Q' s"
  by (cases "m s") (simp add: wp_def)

lemma wp_return [wp_rules]: "wp (op_return a) Q s = Q (Inr a) s"
  by (simp add: wp_def op_return_def)

lemma wp_fail [wp_rules]: "wp (op_fail e) Q s = Q (Inl e) s"
  by (simp add: wp_def op_fail_def)

lemma wp_read [wp_rules]: "wp (op_read f) Q s = wp (f s) Q s"
  by (simp add: wp_def op_read_def)

lemma wp_modify [wp_rules]: "wp (op_modify f) Q s = Q (Inr ()) (f s)"
  by (simp add: wp_def op_modify_def)

lemma wp_try [wp_rules]:
  "wp (pef_try m f) Q s =
     wp m (\<lambda>r s'. case r of Inl e \<Rightarrow> Q (Inl e) s' | Inr a \<Rightarrow> wp (f a) Q s') s"
  by (simp add: wp_def pef_try_def split: prod.split sum.split)

lemma wp_if [wp_rules]:
  "wp (if b then m else m') Q s = (if b then wp m Q s else wp m' Q s)"
  by simp

text \<open>Loops: an invariant that every iteration keeps, on success and on failure.\<close>

lemma wp_for:
  assumes "I s"
    and "\<And>x s. x \<in> set xs \<Longrightarrow> I s \<Longrightarrow> wp (f x) (\<lambda>r s'. I s') s"
  shows "wp (op_for f xs) (\<lambda>r s'. I s') s"
  using assms
proof (induction xs arbitrary: s)
  case Nil
  then show ?case by (simp add: wp_return)
next
  case (Cons x xs)
  have head: "wp (f x) (\<lambda>r s'. I s') s"
    using Cons.prems by simp
  have tail: "wp (op_for f xs) (\<lambda>r s'. I s') s'" if "I s'" for s'
    by (rule Cons.IH [OF that]) (simp add: Cons.prems(2))
  show ?case
    unfolding op_for.simps wp_try
    by (rule wp_mono [OF head]) (simp add: tail split: sum.split)
qed

section \<open>Preorders of states\<close>

text \<open>
  A relation between the state before and after an operation that is reflexive and
  transitive composes along \<open>PEF_TRY\<close> chains and loops, whether or not they fail halfway.
  The development interprets this locale on the refinement of the abstract transition system,
  on the agreement of memory and journal, and on the invariants of the derived indexes and of
  the request cache.
\<close>

locale state_preorder =
  fixes R :: "'s \<Rightarrow> 's \<Rightarrow> bool"
  assumes R_refl: "R s s"
    and R_trans: "R s t \<Longrightarrow> R t u \<Longrightarrow> R s u"
begin

lemma R_return: "R s (snd (op_return a s))"
  by (simp add: op_return_def R_refl)

lemma R_fail: "R s (snd (op_fail e s))"
  by (simp add: op_fail_def R_refl)

lemma R_try:
  assumes "R s (snd (m s))"
    and "\<And>a s'. m s = (Inr a, s') \<Longrightarrow> R s' (snd (f a s'))"
  shows "R s (snd (pef_try m f s))"
  using assms by (auto simp: pef_try_def split: prod.splits sum.splits intro: R_trans)

lemma R_for:
  assumes "\<And>x s. x \<in> set xs \<Longrightarrow> R s (snd (f x s))"
  shows "R s (snd (op_for f xs s))"
  using assms
proof (induction xs arbitrary: s)
  case Nil
  then show ?case by (simp add: R_return)
next
  case (Cons x xs)
  then show ?case by (auto intro: R_try)
qed

end

section \<open>Lists\<close>

lemma find_Some_mem: "find P xs = Some x \<Longrightarrow> x \<in> set xs \<and> P x"
  by (induction xs) (auto split: if_splits)

lemma find_append:
  "find P (xs @ ys) = (case find P xs of None \<Rightarrow> find P ys | Some x \<Rightarrow> Some x)"
  by (induction xs) auto

lemma drop_length_append [simp]: "drop (length xs + n) (xs @ ys) = drop n ys"
  by simp

lemma take_drop_mid: "take (length ys) (drop (length xs) (xs @ ys @ zs)) = ys"
  by simp

lemma find_name:
  assumes "\<And>v. v \<in> set vals" "distinct (map name vals)"
  shows "find (\<lambda>c. name c = t) vals = Some v \<longleftrightarrow> t = name v"
proof
  assume "t = name v"
  have "find (\<lambda>c. name c = t) vals \<noteq> None"
    using assms(1) [of v] \<open>t = name v\<close> by (auto simp: find_None_iff)
  then obtain w where w: "find (\<lambda>c. name c = t) vals = Some w" by blast
  then have "name w = name v" using find_Some_mem [OF w] \<open>t = name v\<close> by simp
  then have "w = v"
    using inj_onD [of name "set vals" w v] assms by (simp add: distinct_map)
  with w show "find (\<lambda>c. name c = t) vals = Some v" by simp
qed (auto dest: find_Some_mem)

end
