(* ===== verification/Status_Codes.thy ===== *)
theory Status_Codes
  imports Prelude
begin

text \<open>
  \<open>include/pef/status.hpp\<close> and \<open>src/status.cpp\<close>: the deterministic refusal codes. A
  \<open>Status\<close> is modelled by its code; the message text is diagnostic only and no decision
  of the fabric reads it. A failing status is the left summand of an operation's result.
\<close>

datatype Code =
    Ok | InvalidArgument | NotFound | AlreadyExists | IllegalTransition | StaleEpoch
  | StaleWorkerBoot | StaleLease | StaleExecutionGeneration | StaleIncarnation
  | StaleContinuation | StaleCheckpointGeneration | StalePolicyGeneration
  | StaleBindingGeneration | StaleRequest | DuplicateRequest | DuplicateCommit
  | AmbiguousCompletion | UnresolvedAmbiguity | AuthorityRevoked | FencedCode
  | LifecycleRefused | PolicyRefused | UnsupportedCode | LimitExceeded | CorruptState
  | TruncatedState | PersistenceFailure | TransportFailure | ProtocolViolation
  | ShuttingDown | Internal

fun code_name :: "Code \<Rightarrow> string" where
  "code_name Ok = ''OK''"
| "code_name InvalidArgument = ''INVALID_ARGUMENT''"
| "code_name NotFound = ''NOT_FOUND''"
| "code_name AlreadyExists = ''ALREADY_EXISTS''"
| "code_name IllegalTransition = ''ILLEGAL_TRANSITION''"
| "code_name StaleEpoch = ''STALE_EPOCH''"
| "code_name StaleWorkerBoot = ''STALE_WORKER_BOOT''"
| "code_name StaleLease = ''STALE_LEASE''"
| "code_name StaleExecutionGeneration = ''STALE_EXECUTION_GENERATION''"
| "code_name StaleIncarnation = ''STALE_INCARNATION''"
| "code_name StaleContinuation = ''STALE_CONTINUATION''"
| "code_name StaleCheckpointGeneration = ''STALE_CHECKPOINT_GENERATION''"
| "code_name StalePolicyGeneration = ''STALE_POLICY_GENERATION''"
| "code_name StaleBindingGeneration = ''STALE_BINDING_GENERATION''"
| "code_name StaleRequest = ''STALE_REQUEST''"
| "code_name DuplicateRequest = ''DUPLICATE_REQUEST''"
| "code_name DuplicateCommit = ''DUPLICATE_COMMIT''"
| "code_name AmbiguousCompletion = ''AMBIGUOUS_COMPLETION''"
| "code_name UnresolvedAmbiguity = ''UNRESOLVED_AMBIGUITY''"
| "code_name AuthorityRevoked = ''AUTHORITY_REVOKED''"
| "code_name FencedCode = ''FENCED''"
| "code_name LifecycleRefused = ''LIFECYCLE_REFUSED''"
| "code_name PolicyRefused = ''POLICY_REFUSED''"
| "code_name UnsupportedCode = ''UNSUPPORTED''"
| "code_name LimitExceeded = ''LIMIT_EXCEEDED''"
| "code_name CorruptState = ''CORRUPT_STATE''"
| "code_name TruncatedState = ''TRUNCATED_STATE''"
| "code_name PersistenceFailure = ''PERSISTENCE_FAILURE''"
| "code_name TransportFailure = ''TRANSPORT_FAILURE''"
| "code_name ProtocolViolation = ''PROTOCOL_VIOLATION''"
| "code_name ShuttingDown = ''SHUTTING_DOWN''"
| "code_name Internal = ''INTERNAL''"

definition all_codes :: "Code list" where
  "all_codes = [Ok, InvalidArgument, NotFound, AlreadyExists, IllegalTransition, StaleEpoch,
     StaleWorkerBoot, StaleLease, StaleExecutionGeneration, StaleIncarnation,
     StaleContinuation, StaleCheckpointGeneration, StalePolicyGeneration,
     StaleBindingGeneration, StaleRequest, DuplicateRequest, DuplicateCommit,
     AmbiguousCompletion, UnresolvedAmbiguity, AuthorityRevoked, FencedCode,
     LifecycleRefused, PolicyRefused, UnsupportedCode, LimitExceeded, CorruptState,
     TruncatedState, PersistenceFailure, TransportFailure, ProtocolViolation,
     ShuttingDown, Internal]"

text \<open>The operations of the fabric: an error is a refusal code.\<close>

type_synonym ('s, 'a) status_op = "(Code, 's, 'a) oper"

lemma all_codes_complete: "c \<in> set all_codes"
  by (cases c) (simp_all add: all_codes_def)

lemma all_codes_count: "length all_codes = 32"
  by (simp add: all_codes_def)

end
