(* ===== verification/Lifecycle.thy ===== *)
theory Lifecycle
  imports Status_Codes
begin

text \<open>
  \<open>include/pef/lifecycle.hpp\<close> and \<open>src/lifecycle.cpp\<close>: the execution lifecycle, its
  transition table and the state classes. The enumeration's unscoped names that clash with
  other enumerations of the sources carry the suffix \<open>_L\<close>.
\<close>

datatype Lifecycle =
    Created_L | Ready | Running | Checkpointing | Suspending | Suspended | RecoveryRequired
  | Recovering | Resuming | Draining | Completed_L | Failed_L | Cancelled | Fenced | Retired

definition lifecycles :: "Lifecycle list" where
  "lifecycles = [Created_L, Ready, Running, Checkpointing, Suspending, Suspended,
     RecoveryRequired, Recovering, Resuming, Draining, Completed_L, Failed_L, Cancelled,
     Fenced, Retired]"

fun lifecycle_name :: "Lifecycle \<Rightarrow> string" where
  "lifecycle_name Created_L = ''CREATED''"
| "lifecycle_name Ready = ''READY''"
| "lifecycle_name Running = ''RUNNING''"
| "lifecycle_name Checkpointing = ''CHECKPOINTING''"
| "lifecycle_name Suspending = ''SUSPENDING''"
| "lifecycle_name Suspended = ''SUSPENDED''"
| "lifecycle_name RecoveryRequired = ''RECOVERY_REQUIRED''"
| "lifecycle_name Recovering = ''RECOVERING''"
| "lifecycle_name Resuming = ''RESUMING''"
| "lifecycle_name Draining = ''DRAINING''"
| "lifecycle_name Completed_L = ''COMPLETED''"
| "lifecycle_name Failed_L = ''FAILED''"
| "lifecycle_name Cancelled = ''CANCELLED''"
| "lifecycle_name Fenced = ''FENCED''"
| "lifecycle_name Retired = ''RETIRED''"

text \<open>The ordinal loop of \<open>parse_lifecycle\<close> visits the states in declaration order.\<close>

definition parse_lifecycle :: "string \<Rightarrow> Lifecycle option" where
  "parse_lifecycle text = find (\<lambda>c. lifecycle_name c = text) lifecycles"

text \<open>The rows of \<open>build_table\<close>.\<close>

fun targets :: "Lifecycle \<Rightarrow> Lifecycle list" where
  "targets Created_L = [Ready, Suspended, Fenced, Cancelled, Retired, Failed_L]"
| "targets Ready = [Running, Suspended, Fenced, Cancelled, Retired, Failed_L, RecoveryRequired]"
| "targets Running = [Checkpointing, Suspending, Draining, Suspended, RecoveryRequired, Fenced,
     Failed_L, Cancelled, Completed_L]"
| "targets Checkpointing = [Running, Suspending, Suspended, RecoveryRequired, Fenced, Failed_L,
     Cancelled]"
| "targets Suspending = [Suspended, RecoveryRequired, Fenced, Failed_L, Cancelled]"
| "targets Suspended = [Resuming, Ready, RecoveryRequired, Fenced, Failed_L, Cancelled, Retired]"
| "targets RecoveryRequired = [Recovering, Suspended, Fenced, Failed_L, Cancelled, Retired]"
| "targets Recovering = [Resuming, RecoveryRequired, Suspended, Fenced, Failed_L, Cancelled]"
| "targets Resuming = [Running, RecoveryRequired, Suspended, Fenced, Failed_L, Cancelled]"
| "targets Draining = [Completed_L, Cancelled, Failed_L, RecoveryRequired, Fenced, Retired,
     Suspended]"
| "targets Completed_L = [Retired]"
| "targets Failed_L = [RecoveryRequired, Retired, Cancelled, Fenced]"
| "targets Cancelled = [Retired]"
| "targets Fenced = [RecoveryRequired, Retired, Cancelled]"
| "targets Retired = []"

definition is_legal_transition :: "Lifecycle \<Rightarrow> Lifecycle \<Rightarrow> bool" where
  "is_legal_transition from to = List.member (targets from) to"

fun is_resting_state :: "Lifecycle \<Rightarrow> bool" where
  "is_resting_state s = (s \<in> {Created_L, Ready, Suspended, RecoveryRequired, Completed_L,
     Failed_L, Cancelled, Fenced, Retired})"

fun is_active_state :: "Lifecycle \<Rightarrow> bool" where
  "is_active_state s = (s \<in> {Running, Checkpointing, Suspending, Recovering, Resuming, Draining})"

fun is_terminal_state :: "Lifecycle \<Rightarrow> bool" where
  "is_terminal_state s = (s \<in> {Completed_L, Cancelled, Retired})"

fun admits_new_continuation :: "Lifecycle \<Rightarrow> bool" where
  "admits_new_continuation s = (s \<in> {Ready, Running, Checkpointing, Suspended, Resuming,
     Recovering, Draining})"

fun requires_recovery :: "Lifecycle \<Rightarrow> bool" where
  "requires_recovery s = (s \<in> {RecoveryRequired, Recovering, Fenced, Failed_L})"

section \<open>Facts about the table\<close>

lemma lifecycles_complete: "l \<in> set lifecycles"
  by (cases l) (simp_all add: lifecycles_def)

lemma all_lifecycles: "(\<forall>l. P l) \<longleftrightarrow> list_all P lifecycles"
  using lifecycles_complete by (auto simp: list_all_iff)

lemma no_self_transition [simp]: "\<not> is_legal_transition l l"
  by (cases l) (simp_all add: is_legal_transition_def)

lemma resting_iff_not_active: "is_resting_state l \<longleftrightarrow> \<not> is_active_state l"
  by (cases l) simp_all

text \<open>Reachability along legal transitions.\<close>

definition evolves :: "Lifecycle \<Rightarrow> Lifecycle \<Rightarrow> bool" where
  "evolves = rtranclp is_legal_transition"

lemma evolves_refl [simp]: "evolves l l"
  by (simp add: evolves_def)

lemma evolves_trans: "evolves a b \<Longrightarrow> evolves b c \<Longrightarrow> evolves a c"
  by (simp add: evolves_def)

lemma evolves_step: "is_legal_transition a b \<Longrightarrow> evolves a b"
  by (simp add: evolves_def r_into_rtranclp)

lemma evolves_legal_trans: "evolves a b \<Longrightarrow> is_legal_transition b c \<Longrightarrow> evolves a c"
  by (simp add: evolves_def)

lemma legal_from_Retired: "is_legal_transition Retired l \<longleftrightarrow> False"
  by (simp add: is_legal_transition_def)

lemma legal_from_Completed: "is_legal_transition Completed_L l \<longleftrightarrow> l = Retired"
  by (simp add: is_legal_transition_def)

lemma legal_from_Cancelled: "is_legal_transition Cancelled l \<longleftrightarrow> l = Retired"
  by (simp add: is_legal_transition_def)

lemma evolves_from_Retired: "evolves Retired l \<longleftrightarrow> l = Retired"
  unfolding evolves_def
  by (auto elim: converse_rtranclpE simp: legal_from_Retired)

lemma evolves_from_Completed: "evolves Completed_L l \<longleftrightarrow> l \<in> {Completed_L, Retired}"
proof
  show "evolves Completed_L l \<Longrightarrow> l \<in> {Completed_L, Retired}"
    unfolding evolves_def
    by (erule converse_rtranclpE)
      (auto simp: legal_from_Completed evolves_from_Retired [unfolded evolves_def])
qed (auto intro: evolves_step simp: legal_from_Completed)

lemma evolves_from_Cancelled: "evolves Cancelled l \<longleftrightarrow> l \<in> {Cancelled, Retired}"
proof
  show "evolves Cancelled l \<Longrightarrow> l \<in> {Cancelled, Retired}"
    unfolding evolves_def
    by (erule converse_rtranclpE)
      (auto simp: legal_from_Cancelled evolves_from_Retired [unfolded evolves_def])
qed (auto intro: evolves_step simp: legal_from_Cancelled)

lemma active_to_recovery:
  "is_active_state l \<or> l = Fenced \<Longrightarrow> is_legal_transition l RecoveryRequired"
  by (cases l) (simp_all add: is_legal_transition_def)

end
