(* ===== verification/Side_Effect.thy ===== *)
theory Side_Effect
  imports Prelude
begin

text \<open>
  \<open>include/pef/side_effect.hpp\<close> and \<open>src/side_effect.cpp\<close>: the side-effect taxonomy,
  evidence kinds, action statuses and ambiguity states with their classification
  predicates. \<open>Unknown\<close>, \<open>None\<close>, \<open>Failed\<close>, ... carry a suffix where the name is taken.
\<close>

datatype SideEffectClass =
  Pure | Idempotent | RepeatableWithKey | Compensatable | NonRepeatable | Unknown_SE

definition side_effect_classes :: "SideEffectClass list" where
  "side_effect_classes = [Pure, Idempotent, RepeatableWithKey, Compensatable, NonRepeatable,
     Unknown_SE]"

fun side_effect_class_name :: "SideEffectClass \<Rightarrow> string" where
  "side_effect_class_name Pure = ''PURE''"
| "side_effect_class_name Idempotent = ''IDEMPOTENT''"
| "side_effect_class_name RepeatableWithKey = ''REPEATABLE_WITH_KEY''"
| "side_effect_class_name Compensatable = ''COMPENSATABLE''"
| "side_effect_class_name NonRepeatable = ''NON_REPEATABLE''"
| "side_effect_class_name Unknown_SE = ''UNKNOWN''"

definition parse_side_effect_class :: "string \<Rightarrow> SideEffectClass option" where
  "parse_side_effect_class text =
     find (\<lambda>c. side_effect_class_name c = text) side_effect_classes"

fun auto_replayable :: "SideEffectClass \<Rightarrow> bool" where
  "auto_replayable Pure = True"
| "auto_replayable Idempotent = True"
| "auto_replayable RepeatableWithKey = True"
| "auto_replayable Compensatable = False"
| "auto_replayable NonRepeatable = False"
| "auto_replayable Unknown_SE = False"

definition requires_request_key :: "SideEffectClass \<Rightarrow> bool" where
  "requires_request_key cls \<longleftrightarrow> cls = RepeatableWithKey"

definition forbids_automatic_retry :: "SideEffectClass \<Rightarrow> bool" where
  "forbids_automatic_retry cls \<longleftrightarrow> cls = NonRepeatable \<or> cls = Unknown_SE"

definition requires_compensation :: "SideEffectClass \<Rightarrow> bool" where
  "requires_compensation cls \<longleftrightarrow> cls = Compensatable"

fun physically_repeatable :: "SideEffectClass \<Rightarrow> bool" where
  "physically_repeatable Pure = True"
| "physically_repeatable Idempotent = True"
| "physically_repeatable RepeatableWithKey = True"
| "physically_repeatable Compensatable = True"
| "physically_repeatable NonRepeatable = False"
| "physically_repeatable Unknown_SE = False"

datatype EvidenceKind = None_EK | Real | Synthetic | Unsupported_EK

definition evidence_kinds :: "EvidenceKind list" where
  "evidence_kinds = [None_EK, Real, Synthetic, Unsupported_EK]"

fun evidence_kind_name :: "EvidenceKind \<Rightarrow> string" where
  "evidence_kind_name None_EK = ''NONE''"
| "evidence_kind_name Real = ''REAL''"
| "evidence_kind_name Synthetic = ''SYNTHETIC''"
| "evidence_kind_name Unsupported_EK = ''UNSUPPORTED''"

definition parse_evidence_kind :: "string \<Rightarrow> EvidenceKind option" where
  "parse_evidence_kind text = find (\<lambda>c. evidence_kind_name c = text) evidence_kinds"

datatype ActionStatus =
    Prepared | InFlight | EffectApplied | EffectNotApplied | CompletedUnacknowledged
  | Committed | Failed | Ambiguous | Compensated | Abandoned

definition action_statuses :: "ActionStatus list" where
  "action_statuses = [Prepared, InFlight, EffectApplied, EffectNotApplied,
     CompletedUnacknowledged, Committed, Failed, Ambiguous, Compensated, Abandoned]"

fun action_status_name :: "ActionStatus \<Rightarrow> string" where
  "action_status_name Prepared = ''PREPARED''"
| "action_status_name InFlight = ''IN_FLIGHT''"
| "action_status_name EffectApplied = ''EFFECT_APPLIED''"
| "action_status_name EffectNotApplied = ''EFFECT_NOT_APPLIED''"
| "action_status_name CompletedUnacknowledged = ''COMPLETED_UNACKNOWLEDGED''"
| "action_status_name Committed = ''COMMITTED''"
| "action_status_name Failed = ''FAILED''"
| "action_status_name Ambiguous = ''AMBIGUOUS''"
| "action_status_name Compensated = ''COMPENSATED''"
| "action_status_name Abandoned = ''ABANDONED''"

definition parse_action_status :: "string \<Rightarrow> ActionStatus option" where
  "parse_action_status text = find (\<lambda>c. action_status_name c = text) action_statuses"

fun action_is_physically_sealed :: "ActionStatus \<Rightarrow> bool" where
  "action_is_physically_sealed s = (s \<in> {Committed, Ambiguous, Compensated, Abandoned,
     CompletedUnacknowledged, EffectApplied})"

datatype AmbiguityState =
    Open | ResolvedApplied | ResolvedNotApplied | Accepted | Abandoned_AS
  | ManualResolutionRequired_AS

definition ambiguity_states :: "AmbiguityState list" where
  "ambiguity_states = [Open, ResolvedApplied, ResolvedNotApplied, Accepted, Abandoned_AS,
     ManualResolutionRequired_AS]"

fun ambiguity_state_name :: "AmbiguityState \<Rightarrow> string" where
  "ambiguity_state_name Open = ''OPEN''"
| "ambiguity_state_name ResolvedApplied = ''RESOLVED_APPLIED''"
| "ambiguity_state_name ResolvedNotApplied = ''RESOLVED_NOT_APPLIED''"
| "ambiguity_state_name Accepted = ''ACCEPTED''"
| "ambiguity_state_name Abandoned_AS = ''ABANDONED''"
| "ambiguity_state_name ManualResolutionRequired_AS = ''MANUAL_RESOLUTION_REQUIRED''"

definition parse_ambiguity_state :: "string \<Rightarrow> AmbiguityState option" where
  "parse_ambiguity_state text = find (\<lambda>c. ambiguity_state_name c = text) ambiguity_states"

definition ambiguity_is_open :: "AmbiguityState \<Rightarrow> bool" where
  "ambiguity_is_open s \<longleftrightarrow> s = Open \<or> s = ManualResolutionRequired_AS"

section \<open>Facts about the taxonomy\<close>

lemma side_effect_classes_complete: "c \<in> set side_effect_classes"
  by (cases c) (simp_all add: side_effect_classes_def)

lemma evidence_kinds_complete: "c \<in> set evidence_kinds"
  by (cases c) (simp_all add: evidence_kinds_def)

lemma action_statuses_complete: "c \<in> set action_statuses"
  by (cases c) (simp_all add: action_statuses_def)

lemma ambiguity_states_complete: "c \<in> set ambiguity_states"
  by (cases c) (simp_all add: ambiguity_states_def)

text \<open>
  A class is either replayable without a receipt, or needs compensation, or forbids
  automatic retry: the three predicates partition the taxonomy.
\<close>

lemma taxonomy_partition:
  "(auto_replayable c \<and> \<not> requires_compensation c \<and> \<not> forbids_automatic_retry c) \<or>
   (\<not> auto_replayable c \<and> requires_compensation c \<and> \<not> forbids_automatic_retry c) \<or>
   (\<not> auto_replayable c \<and> \<not> requires_compensation c \<and> forbids_automatic_retry c)"
  by (cases c) (simp_all add: requires_compensation_def forbids_automatic_retry_def)

lemma forbids_retry_not_replayable: "forbids_automatic_retry c \<Longrightarrow> \<not> auto_replayable c"
  by (cases c) (simp_all add: forbids_automatic_retry_def)

end
