(* ===== verification/Hashing.thy ===== *)
theory Hashing
  imports Prelude
begin

unbundle bit_operations_syntax

text \<open>
  \<open>include/pef/hash.hpp\<close> and \<open>src/hash.cpp\<close>: FNV-1a, the canonical hash builder, the
  reflected CRC-64/ECMA-182 used for frame integrity, and the hexadecimal text form of
  identities. All arithmetic is on words of the width the code uses.
\<close>

section \<open>FNV-1a and the hash builder\<close>

definition kFnvOffsetBasis :: u64 where
  "kFnvOffsetBasis = 0xcbf29ce484222325"

definition kFnvPrime :: u64 where
  "kFnvPrime = 0x00000100000001b3"

definition fnv1a_step :: "u64 \<Rightarrow> u8 \<Rightarrow> u64" where
  "fnv1a_step h b = (h XOR ucast b) * kFnvPrime"

text \<open>A byte of a character: the source casts \<open>char\<close> to \<open>std::uint8_t\<close>.\<close>

definition byte_of_char :: "char \<Rightarrow> u8" where
  "byte_of_char c = word_of_nat (of_char c)"

definition char_of_byte :: "u8 \<Rightarrow> char" where
  "char_of_byte b = char_of (unat b)"

definition fnv1a :: "string \<Rightarrow> u64" where
  "fnv1a text = foldl fnv1a_step kFnvOffsetBasis (map byte_of_char text)"

text \<open>
  A \<open>HashBuilder\<close> is its 64-bit state; each member function maps the state to the next.
\<close>

definition hb_new :: u64 where
  "hb_new = kFnvOffsetBasis"

definition hb_byte :: "u64 \<Rightarrow> u8 \<Rightarrow> u64" where
  "hb_byte state b = fnv1a_step state b"

definition hb_raw :: "u64 \<Rightarrow> bytes \<Rightarrow> u64" where
  "hb_raw state bs = foldl hb_byte state bs"

text \<open>The bytes \<open>(v >> shift) & 0xFF\<close> for \<open>shift = 0, 8, ...\<close>, lowest first.\<close>

definition le_bytes :: "nat \<Rightarrow> 'a::len word \<Rightarrow> bytes" where
  "le_bytes n v = map (\<lambda>i. ucast (drop_bit (8 * i) v AND 0xFF)) [0..<n]"

definition hb_u16 :: "u64 \<Rightarrow> u16 \<Rightarrow> u64" where
  "hb_u16 state v = hb_raw state (le_bytes 2 v)"

definition hb_u32 :: "u64 \<Rightarrow> u32 \<Rightarrow> u64" where
  "hb_u32 state v = hb_raw state (le_bytes 4 v)"

definition hb_u64 :: "u64 \<Rightarrow> u64 \<Rightarrow> u64" where
  "hb_u64 state v = hb_raw state (le_bytes 8 v)"

definition hb_text :: "u64 \<Rightarrow> string \<Rightarrow> u64" where
  "hb_text state t = hb_raw (hb_u64 state (word_of_nat (length t))) (map byte_of_char t)"

section \<open>CRC-64/ECMA-182\<close>

definition kPoly :: u64 where
  "kPoly = 0xC96C5795D7870F42"

definition crc64_bit :: "u64 \<Rightarrow> u64" where
  "crc64_bit crc = (if crc AND 1 \<noteq> 0 then drop_bit 1 crc XOR kPoly else drop_bit 1 crc)"

text \<open>The table entry of one byte: eight applications of the bit step.\<close>

definition crc64_table :: "u8 \<Rightarrow> u64" where
  "crc64_table i = (crc64_bit ^^ 8) (ucast i)"

definition crc64_update :: "u64 \<Rightarrow> u8 \<Rightarrow> u64" where
  "crc64_update crc b = crc64_table (ucast (crc XOR ucast b)) XOR drop_bit 8 crc"

definition crc64_ecma :: "bytes \<Rightarrow> u64" where
  "crc64_ecma bs = foldl crc64_update 0xFFFFFFFFFFFFFFFF bs XOR 0xFFFFFFFFFFFFFFFF"

section \<open>Hexadecimal text\<close>

definition hex_digit :: "nat \<Rightarrow> char" where
  "hex_digit d = ''0123456789abcdef'' ! d"

text \<open>
  The loops of \<open>hex64\<close>, \<open>hex32\<close> and \<open>hex16\<close> fill the string from the last position:
  digit \<open>i\<close> from the right is \<open>value >> 4 i & 0xF\<close>.
\<close>

definition hex_digits :: "nat \<Rightarrow> 'a::len word \<Rightarrow> string" where
  "hex_digits n v = map (\<lambda>i. hex_digit (unat (drop_bit (4 * i) v AND 0xF))) (rev [0..<n])"

definition hex64 :: "u64 \<Rightarrow> string" where
  "hex64 v = hex_digits 16 v"

definition hex32 :: "u32 \<Rightarrow> string" where
  "hex32 v = hex_digits 8 v"

definition hex16 :: "u16 \<Rightarrow> string" where
  "hex16 v = hex_digits 4 v"

definition hex_value :: "char \<Rightarrow> u64 option" where
  "hex_value c =
     (let n = (of_char c :: nat) in
      if 48 \<le> n \<and> n \<le> 57 then Some (word_of_nat (n - 48))
      else if 97 \<le> n \<and> n \<le> 102 then Some (word_of_nat (n - 97 + 10))
      else if 65 \<le> n \<and> n \<le> 70 then Some (word_of_nat (n - 65 + 10))
      else None)"

fun parse_hex_loop :: "u64 \<Rightarrow> string \<Rightarrow> u64 option" where
  "parse_hex_loop value [] = Some value"
| "parse_hex_loop value (c # cs) =
     (case hex_value c of
        None \<Rightarrow> None
      | Some digit \<Rightarrow> parse_hex_loop (push_bit 4 value OR digit) cs)"

definition parse_hex_u64 :: "string \<Rightarrow> u64 option" where
  "parse_hex_u64 text = (if length text \<noteq> 16 then None else parse_hex_loop 0 text)"

section \<open>Facts\<close>

lemma of_char_less_256: "(of_char c :: nat) < 256"
proof -
  have "(of_char c :: nat) = of_char c mod 256"
    using of_char_of [of "of_char c :: nat"] by simp
  then show ?thesis by (metis mod_less_divisor zero_less_numeral)
qed

lemma char_of_byte_of_char [simp]: "char_of_byte (byte_of_char c) = c"
proof -
  have "(of_char c :: nat) < 256" by (rule of_char_less_256)
  then show ?thesis
    by (simp add: byte_of_char_def char_of_byte_def unat_of_nat take_bit_nat_eq_self)
qed

lemma map_char_of_byte_of_char [simp]: "map char_of_byte (map byte_of_char s) = s"
  by (simp add: comp_def)

lemma length_le_bytes [simp]: "length (le_bytes n v) = n"
  by (simp add: le_bytes_def)

lemma hb_raw_append: "hb_raw h (xs @ ys) = hb_raw (hb_raw h xs) ys"
  by (simp add: hb_raw_def)

text \<open>
  One FNV step is injective in the state for a fixed byte (the prime is odd), and
  injective in the byte for a fixed state: the last byte of an input always matters.
\<close>

definition kFnvPrimeInverse :: u64 where
  "kFnvPrimeInverse = 0xce965057aff6957b"

lemma kFnvPrime_inverse: "kFnvPrime * kFnvPrimeInverse = 1"
  by (simp add: kFnvPrime_def kFnvPrimeInverse_def)

lemma mult_kFnvPrime_inj: "a * kFnvPrime = b * kFnvPrime \<Longrightarrow> a = b"
proof -
  assume "a * kFnvPrime = b * kFnvPrime"
  then have "a * kFnvPrime * kFnvPrimeInverse = b * kFnvPrime * kFnvPrimeInverse" by simp
  then show "a = b" by (simp add: mult.assoc kFnvPrime_inverse)
qed

lemma fnv1a_step_inj_state: "fnv1a_step a x = fnv1a_step b x \<Longrightarrow> a = b"
proof -
  assume "fnv1a_step a x = fnv1a_step b x"
  then have "a XOR ucast x = b XOR ucast x"
    unfolding fnv1a_step_def by (rule mult_kFnvPrime_inj)
  then have "(a XOR ucast x) XOR ucast x = (b XOR ucast x) XOR ucast x" by simp
  then show "a = b" by (simp add: xor.assoc)
qed

lemma hb_raw_inj_state: "hb_raw a xs = hb_raw b xs \<Longrightarrow> a = b"
proof (induction xs arbitrary: a b)
  case Nil
  then show ?case by (simp add: hb_raw_def)
next
  case (Cons x xs)
  then have "hb_byte a x = hb_byte b x" by (simp add: hb_raw_def)
  then show ?case by (simp add: hb_byte_def fnv1a_step_inj_state)
qed

section \<open>Hexadecimal digits\<close>

lemma hex_value_digit: "d < 16 \<Longrightarrow> hex_value (hex_digit d) = Some (word_of_nat d)"
proof -
  assume "d < 16"
  then have "d \<in> set [0..<16]" by simp
  moreover have "\<forall>d \<in> set [0..<16]. hex_value (hex_digit d) = Some (word_of_nat d)" by code_simp
  ultimately show ?thesis by blast
qed

lemma nibble: "unat ((x :: u64) AND 0xF) < 16"
proof -
  have "x AND 0xF = take_bit 4 x" by (simp add: take_bit_eq_mask mask_eq_exp_minus_1)
  then have "unat (x AND 0xF) = take_bit 4 (unat x)" by (simp add: unsigned_take_bit_eq)
  also have "\<dots> < 2 ^ 4" by (rule take_bit_nat_less_exp)
  finally show ?thesis by simp
qed

lemma parse_hex_digits:
  fixes v :: u64
  shows "parse_hex_loop acc (hex_digits n v) = Some (push_bit (4 * n) acc OR take_bit (4 * n) v)"
proof (induction n arbitrary: acc)
  case 0
  then show ?case by (simp add: hex_digits_def)
next
  case (Suc n)
  let ?d = "drop_bit (4 * n) v AND 0xF"
  have digits: "hex_digits (Suc n) v = hex_digit (unat ?d) # hex_digits n v"
    by (simp add: hex_digits_def)
  have join: "push_bit (4 * n) (push_bit 4 acc OR ?d) OR take_bit (4 * n) v =
      push_bit (4 * Suc n) acc OR take_bit (4 * Suc n) v"
  proof (rule bit_word_eqI)
    fix k
    assume "k < LENGTH(64)"
    have mask: "?d = take_bit 4 (drop_bit (4 * n) v)"
      by (simp add: take_bit_eq_mask mask_eq_exp_minus_1)
    show "bit (push_bit (4 * n) (push_bit 4 acc OR ?d) OR take_bit (4 * n) v) k =
        bit (push_bit (4 * Suc n) acc OR take_bit (4 * Suc n) v) k"
      unfolding mask using \<open>k < LENGTH(64)\<close>
      by (auto simp: bit_or_iff bit_push_bit_iff bit_take_bit_iff bit_drop_bit_eq add.commute)
  qed
  show ?case
    unfolding digits parse_hex_loop.simps hex_value_digit [OF nibble] option.case Suc.IH
    using join by simp
qed

end
