(* ===== verification/Byte_Codec.thy ===== *)
theory Byte_Codec
  imports Hashing
begin

unbundle bit_operations_syntax

text \<open>
  \<open>include/pef/bytes.hpp\<close>, \<open>src/bytes.cpp\<close> and the field codec of
  \<open>include/pef/codec.hpp\<close>. A \<open>ByteWriter\<close> is the list of bytes it has appended; a
  \<open>ByteReader\<close> keeps its data, offset, sticky failure flag and limits. Every codec is a
  pair of a writer and a reader; the locale \<open>field_codec\<close> states the two laws a pair
  promises (reading back what was written, and accepting only what the writer produces),
  and is interpreted on every codec of the code.
\<close>

section \<open>Writer\<close>

definition w_u8 :: "u8 \<Rightarrow> bytes" where
  "w_u8 v = [v]"

definition w_u16 :: "u16 \<Rightarrow> bytes" where
  "w_u16 v = le_bytes 2 v"

definition w_u32 :: "u32 \<Rightarrow> bytes" where
  "w_u32 v = le_bytes 4 v"

definition w_u64 :: "u64 \<Rightarrow> bytes" where
  "w_u64 v = le_bytes 8 v"

definition w_boolean :: "bool \<Rightarrow> bytes" where
  "w_boolean v = w_u8 (if v then 1 else 0)"

definition w_blob :: "bytes \<Rightarrow> bytes" where
  "w_blob b = w_u64 (word_of_nat (length b)) @ b"

definition w_text :: "string \<Rightarrow> bytes" where
  "w_text s = w_u32 (word_of_nat (length s)) @ map byte_of_char s"

section \<open>Reader\<close>

record DecodeLimits =
  max_blob :: nat
  max_string :: nat
  max_container :: nat
  max_total :: nat

definition default_decode_limits :: DecodeLimits where
  "default_decode_limits =
     \<lparr>max_blob = 16 * 1024 * 1024, max_string = 64 * 1024, max_container = 2 ^ 20,
      max_total = 256 * 1024 * 1024\<rparr>"

record ByteReader =
  br_data :: bytes
  br_offset :: nat
  br_ok :: bool
  br_limits :: DecodeLimits

definition reader_on :: "bytes \<Rightarrow> DecodeLimits \<Rightarrow> ByteReader" where
  "reader_on b limits = \<lparr>br_data = b, br_offset = 0, br_ok = True, br_limits = limits\<rparr>"

definition br_fail :: "ByteReader \<Rightarrow> ByteReader" where
  "br_fail r = r\<lparr>br_ok := False\<rparr>"

definition br_remaining :: "ByteReader \<Rightarrow> nat" where
  "br_remaining r = (if br_ok r then length (br_data r) - br_offset r else 0)"

definition at_end :: "ByteReader \<Rightarrow> bool" where
  "at_end r \<longleftrightarrow> br_ok r \<and> br_offset r = length (br_data r)"

definition br_require :: "nat \<Rightarrow> ByteReader \<Rightarrow> bool \<times> ByteReader" where
  "br_require n r =
     (if \<not> br_ok r then (False, r)
      else if n > length (br_data r) - br_offset r then (False, br_fail r)
      else if br_offset r + n > max_total (br_limits r) then (False, br_fail r)
      else (True, r))"

definition br_u8 :: "ByteReader \<Rightarrow> u8 \<times> ByteReader" where
  "br_u8 r =
     (case br_require 1 r of
        (False, r') \<Rightarrow> (0, r')
      | (True, r') \<Rightarrow> (br_data r' ! br_offset r', r'\<lparr>br_offset := br_offset r' + 1\<rparr>))"

text \<open>
  The loops of \<open>u32\<close> and \<open>u64\<close>: \<open>n\<close> further bytes, the first at bit position \<open>8 i\<close>.
\<close>

fun br_le :: "nat \<Rightarrow> nat \<Rightarrow> 'a::len word \<Rightarrow> ByteReader \<Rightarrow> 'a word \<times> ByteReader" where
  "br_le i 0 value r = (value, r)"
| "br_le i (Suc n) value r =
     (case br_u8 r of (b, r') \<Rightarrow> br_le (Suc i) n (value OR push_bit (8 * i) (ucast b)) r')"

definition br_u16 :: "ByteReader \<Rightarrow> u16 \<times> ByteReader" where
  "br_u16 r =
     (case br_u8 r of (lo, r1) \<Rightarrow>
      case br_u8 r1 of (hi, r2) \<Rightarrow> (ucast lo OR push_bit 8 (ucast hi), r2))"

definition br_u32 :: "ByteReader \<Rightarrow> u32 \<times> ByteReader" where
  "br_u32 r = br_le 0 4 0 r"

definition br_u64 :: "ByteReader \<Rightarrow> u64 \<times> ByteReader" where
  "br_u64 r = br_le 0 8 0 r"

definition br_boolean :: "ByteReader \<Rightarrow> bool \<times> ByteReader" where
  "br_boolean r =
     (case br_u8 r of (raw, r') \<Rightarrow>
        if \<not> br_ok r' then (False, r')
        else if raw > 1 then (False, br_fail r')
        else (raw = 1, r'))"

definition br_blob :: "ByteReader \<Rightarrow> bytes \<times> ByteReader" where
  "br_blob r =
     (case br_u64 r of (declared, r1) \<Rightarrow>
        if \<not> br_ok r1 then ([], r1)
        else if unat declared > max_blob (br_limits r1) then ([], br_fail r1)
        else (case br_require (unat declared) r1 of
                (False, r2) \<Rightarrow> ([], r2)
              | (True, r2) \<Rightarrow>
                  (take (unat declared) (drop (br_offset r2) (br_data r2)),
                   r2\<lparr>br_offset := br_offset r2 + unat declared\<rparr>)))"

definition br_text :: "ByteReader \<Rightarrow> string \<times> ByteReader" where
  "br_text r =
     (case br_u32 r of (declared, r1) \<Rightarrow>
        if \<not> br_ok r1 then ([], r1)
        else if unat declared > max_string (br_limits r1) then ([], br_fail r1)
        else (case br_require (unat declared) r1 of
                (False, r2) \<Rightarrow> ([], r2)
              | (True, r2) \<Rightarrow>
                  (map char_of_byte (take (unat declared) (drop (br_offset r2) (br_data r2))),
                   r2\<lparr>br_offset := br_offset r2 + unat declared\<rparr>)))"

section \<open>Field codec\<close>

text \<open>
  \<open>read_field\<close> returns a bool and fills its output: the output is present exactly when the
  bool is true.
\<close>

type_synonym 'a field_reader = "ByteReader \<Rightarrow> 'a option \<times> ByteReader"

definition checked :: "(ByteReader \<Rightarrow> 'a \<times> ByteReader) \<Rightarrow> 'a field_reader" where
  "checked p r = (case p r of (v, r') \<Rightarrow> (if br_ok r' then Some v else None, r'))"

definition read_u8 :: "u8 field_reader" where
  "read_u8 = checked br_u8"

definition read_u16 :: "u16 field_reader" where
  "read_u16 = checked br_u16"

definition read_u32 :: "u32 field_reader" where
  "read_u32 = checked br_u32"

definition read_u64 :: "u64 field_reader" where
  "read_u64 = checked br_u64"

definition read_bool :: "bool field_reader" where
  "read_bool = checked br_boolean"

definition read_text :: "string field_reader" where
  "read_text = checked br_text"

definition read_blob :: "bytes field_reader" where
  "read_blob = checked br_blob"

text \<open>
  Enumerations are written as their ordinal in one byte. The list of the values in
  declaration order plays the part of the ordinals; an ordinal outside it is what
  \<open>pef_valid_enum\<close> rejects.
\<close>

definition enum_ordinal :: "'a list \<Rightarrow> 'a \<Rightarrow> nat" where
  "enum_ordinal vals v = length (takeWhile (\<lambda>x. x \<noteq> v) vals)"

definition write_enum :: "'a list \<Rightarrow> 'a \<Rightarrow> bytes" where
  "write_enum vals v = w_u8 (word_of_nat (enum_ordinal vals v))"

definition read_enum :: "'a list \<Rightarrow> 'a field_reader" where
  "read_enum vals r =
     (case br_u8 r of (raw, r') \<Rightarrow>
        if \<not> br_ok r' \<or> \<not> unat raw < length vals then (None, br_fail r')
        else (Some (vals ! unat raw), r'))"

text \<open>The short-circuit chain \<open>read_field(r, m1) && read_field(r, m2) && ...\<close>.\<close>

definition and_then :: "'a field_reader \<Rightarrow> ('a \<Rightarrow> 'b field_reader) \<Rightarrow> 'b field_reader" where
  "and_then p f r = (case p r of (None, r') \<Rightarrow> (None, r') | (Some a, r') \<Rightarrow> f a r')"

definition decoded :: "'a \<Rightarrow> 'a field_reader" where
  "decoded a r = (if br_ok r then Some a else None, r)"

definition write_optional :: "('a \<Rightarrow> bytes) \<Rightarrow> 'a option \<Rightarrow> bytes" where
  "write_optional w v =
     (case v of Some x \<Rightarrow> w_boolean True @ w x | None \<Rightarrow> w_boolean False)"

definition read_optional :: "'a field_reader \<Rightarrow> 'a option field_reader" where
  "read_optional p r =
     (case br_boolean r of (b, r1) \<Rightarrow>
        if b \<and> br_ok r1
        then (case p r1 of
                (None, r2) \<Rightarrow> (None, r2)
              | (Some x, r2) \<Rightarrow> (if br_ok r2 then Some (Some x) else None, r2))
        else (if br_ok r1 then Some None else None, r1))"

definition write_vector :: "('a \<Rightarrow> bytes) \<Rightarrow> 'a list \<Rightarrow> bytes" where
  "write_vector w vs = w_u32 (word_of_nat (length vs)) @ concat (map w vs)"

fun read_elements :: "nat \<Rightarrow> 'a field_reader \<Rightarrow> 'a list field_reader" where
  "read_elements 0 p = decoded []"
| "read_elements (Suc n) p = and_then p (\<lambda>x. and_then (read_elements n p) (\<lambda>xs. decoded (x # xs)))"

definition read_vector :: "'a field_reader \<Rightarrow> 'a list field_reader" where
  "read_vector p r =
     (case br_u32 r of (count, r1) \<Rightarrow>
        if \<not> br_ok r1 \<or> unat count > max_container (br_limits r1) then (None, br_fail r1)
        else read_elements (unat count) p r1)"

text \<open>\<open>decode_from_bytes\<close>: decode and require that no byte is left.\<close>

definition decode_from_bytes :: "'a field_reader \<Rightarrow> bytes \<Rightarrow> 'a option" where
  "decode_from_bytes p b =
     (case p (reader_on b default_decode_limits) of
        (None, r) \<Rightarrow> None
      | (Some a, r) \<Rightarrow> if at_end r then Some a else None)"

section \<open>Readers in the middle of a buffer\<close>

text \<open>
  An unfailed reader is determined by its limits, the bytes it has consumed and the bytes
  it has still to read.
\<close>

definition mid :: "DecodeLimits \<Rightarrow> bytes \<Rightarrow> bytes \<Rightarrow> ByteReader" where
  "mid lim pre rest =
     \<lparr>br_data = pre @ rest, br_offset = length pre, br_ok = True, br_limits = lim\<rparr>"

lemma mid_sel [simp]:
  "br_data (mid lim pre rest) = pre @ rest" "br_offset (mid lim pre rest) = length pre"
  "br_ok (mid lim pre rest)" "br_limits (mid lim pre rest) = lim"
  by (simp_all add: mid_def)

lemma mid_advance:
  "rest = used @ rest' \<Longrightarrow>
   (mid lim pre rest)\<lparr>br_offset := length pre + length used\<rparr> = mid lim (pre @ used) rest'"
  by (simp add: mid_def)

lemma reader_on_mid: "reader_on b lim = mid lim [] b"
  by (simp add: reader_on_def mid_def)

lemma at_end_mid [simp]: "at_end (mid lim pre rest) \<longleftrightarrow> rest = []"
  by (simp add: at_end_def)

text \<open>
  Decoding never reads outside its buffer: the offset stays inside the data and the data
  and the limits never change.
\<close>

definition reader_wf :: "ByteReader \<Rightarrow> bool" where
  "reader_wf r \<longleftrightarrow> br_offset r \<le> length (br_data r)"

lemma reader_wf_mid:
  assumes "reader_wf r" and "br_ok r"
  shows "r = mid (br_limits r) (take (br_offset r) (br_data r)) (drop (br_offset r) (br_data r))"
  using assms by (simp add: reader_wf_def mid_def)

section \<open>The codec laws\<close>

text \<open>
  \<open>yields p Q\<close>: whenever the reader \<open>p\<close> succeeds on an unfailed reader it has consumed a
  prefix of the remaining bytes, and \<open>Q\<close> relates the value to that prefix.
\<close>

definition yields :: "'a field_reader \<Rightarrow> ('a \<Rightarrow> bytes \<Rightarrow> bool) \<Rightarrow> bool" where
  "yields p Q \<longleftrightarrow>
     (\<forall>lim pre bs a r'. p (mid lim pre bs) = (Some a, r') \<longrightarrow>
        (\<exists>used rest. bs = used @ rest \<and> r' = mid lim (pre @ used) rest \<and> Q a used))"

lemma yieldsD:
  "yields p Q \<Longrightarrow> p (mid lim pre bs) = (Some a, r') \<Longrightarrow>
   \<exists>used rest. bs = used @ rest \<and> r' = mid lim (pre @ used) rest \<and> Q a used"
  unfolding yields_def by blast

lemma yields_and_then:
  assumes p: "yields p Q"
    and f: "\<And>a u. Q a u \<Longrightarrow> yields (f a) (\<lambda>b u'. Q' b (u @ u'))"
  shows "yields (and_then p f) Q'"
  unfolding yields_def
proof (intro allI impI)
  fix lim pre bs b r'
  assume run: "and_then p f (mid lim pre bs) = (Some b, r')"
  obtain a r1 where pr: "p (mid lim pre bs) = (Some a, r1)" and fr: "f a r1 = (Some b, r')"
    using run by (auto simp: and_then_def split: prod.splits option.splits)
  from yieldsD [OF p pr] obtain u rest
    where u: "bs = u @ rest" "r1 = mid lim (pre @ u) rest" "Q a u" by blast
  from yieldsD [OF f [OF u(3)] fr [unfolded u(2)]] obtain u' rest'
    where u': "rest = u' @ rest'" "r' = mid lim ((pre @ u) @ u') rest'" "Q' b (u @ u')" by blast
  show "\<exists>used rest. bs = used @ rest \<and> r' = mid lim (pre @ used) rest \<and> Q' b used"
    by (rule exI [of _ "u @ u'"], rule exI [of _ rest']) (simp add: u(1) u')
qed

lemma yields_decoded: "Q a [] \<Longrightarrow> yields (decoded a) Q"
  unfolding yields_def decoded_def by (metis append_Nil append_Nil2 mid_sel(3) option.inject prod.inject)

lemma and_then_simps [simp]:
  "p r = (None, r') \<Longrightarrow> and_then p f r = (None, r')"
  "p r = (Some a, r') \<Longrightarrow> and_then p f r = f a r'"
  by (simp_all add: and_then_def)

lemma decoded_mid [simp]: "decoded a (mid lim pre rest) = (Some a, mid lim pre rest)"
  by (simp add: decoded_def)

locale field_codec =
  fixes wr :: "'a \<Rightarrow> bytes"
    and rd :: "'a field_reader"
    and wf :: "DecodeLimits \<Rightarrow> 'a \<Rightarrow> bool"
  assumes read_write:
      "wf lim a \<Longrightarrow> length pre + length (wr a) + length rest \<le> max_total lim \<Longrightarrow>
       rd (mid lim pre (wr a @ rest)) = (Some a, mid lim (pre @ wr a) rest)"
    and read_canonical: "yields rd (\<lambda>a used. used = wr a)"
begin

text \<open>Reading back a whole buffer.\<close>

lemma decode_write:
  assumes "wf default_decode_limits a"
    and "length (wr a) \<le> max_total default_decode_limits"
  shows "decode_from_bytes rd (wr a) = Some a"
  using read_write [OF assms(1), of "[]" "[]"] assms(2)
  by (simp add: decode_from_bytes_def reader_on_mid)

text \<open>Only canonical bytes decode.\<close>

lemma decode_canonical: "decode_from_bytes rd b = Some a \<Longrightarrow> b = wr a"
  by (auto simp: decode_from_bytes_def reader_on_mid split: prod.splits option.splits if_splits
      dest!: yieldsD [OF read_canonical])

text \<open>The writer is injective on the values the reader accepts.\<close>

lemma write_inj:
  assumes "wf lim a" "wf lim b" "wr a = wr b" "length (wr a) \<le> max_total lim"
  shows "a = b"
  using read_write [OF assms(1), of "[]" "[]"] read_write [OF assms(2), of "[]" "[]"] assms(3,4)
  by simp

end

section \<open>Integers\<close>

lemma br_require_mid:
  "br_require n (mid lim pre rest) =
     (if n \<le> length rest \<and> length pre + n \<le> max_total lim then (True, mid lim pre rest)
      else (False, br_fail (mid lim pre rest)))"
  by (auto simp: br_require_def)

lemma br_u8_mid_Cons:
  "length pre + 1 \<le> max_total lim \<Longrightarrow>
   br_u8 (mid lim pre (b # rest)) = (b, mid lim (pre @ [b]) rest)"
  by (simp add: br_u8_def br_require_mid mid_advance [where used = "[b]", simplified])

lemma br_u8_failed: "\<not> br_ok r \<Longrightarrow> br_u8 r = (0, r)"
  by (simp add: br_u8_def br_require_def)

lemma br_u8_mid_inv:
  assumes "br_u8 (mid lim pre bs) = (v, r')" and "br_ok r'"
  shows "\<exists>rest. bs = v # rest \<and> r' = mid lim (pre @ [v]) rest"
proof (cases bs)
  case Nil
  with assms show ?thesis by (auto simp: br_u8_def br_require_mid br_fail_def)
next
  case (Cons b rest)
  with assms show ?thesis
    by (cases "length pre + 1 \<le> max_total lim")
      (auto simp: br_u8_mid_Cons, auto simp: br_u8_def br_require_mid br_fail_def)
qed

text \<open>The value of a little-endian run of bytes, the first at bit position \<open>8 i\<close>.\<close>

fun le_value :: "nat \<Rightarrow> 'a::len word \<Rightarrow> bytes \<Rightarrow> 'a word" where
  "le_value i acc [] = acc"
| "le_value i acc (b # bs) = le_value (Suc i) (acc OR push_bit (8 * i) (ucast b)) bs"

lemma br_le_mid:
  "length pre + length bs \<le> max_total lim \<Longrightarrow>
   br_le i (length bs) acc (mid lim pre (bs @ rest)) =
     (le_value i acc bs, mid lim (pre @ bs) rest)"
  by (induction bs arbitrary: i acc pre) (simp_all add: br_u8_mid_Cons)

lemma br_le_failed: "\<not> br_ok r \<Longrightarrow> \<not> br_ok (snd (br_le i n acc r))"
  by (induction n arbitrary: i acc r) (simp_all add: br_u8_failed)

lemma br_le_mid_inv:
  assumes "br_le i n acc (mid lim pre bs) = (v, r')" and "br_ok r'"
  shows "\<exists>used rest. bs = used @ rest \<and> length used = n \<and> v = le_value i acc used \<and>
    r' = mid lim (pre @ used) rest"
  using assms
proof (induction n arbitrary: i acc pre bs)
  case 0
  then show ?case by auto
next
  case (Suc n)
  obtain b r1 where b: "br_u8 (mid lim pre bs) = (b, r1)" by fastforce
  with Suc.prems have run: "br_le (Suc i) n (acc OR push_bit (8 * i) (ucast b)) r1 = (v, r')"
    by simp
  have "br_ok r1"
    using br_le_failed [of r1 "Suc i" n "acc OR push_bit (8 * i) (ucast b)"] run Suc.prems(2)
    by auto
  with b obtain rest where r1: "bs = b # rest" "r1 = mid lim (pre @ [b]) rest"
    by (blast dest: br_u8_mid_inv)
  from Suc.IH [OF run [unfolded r1(2)] Suc.prems(2)] obtain used rest' where
    "rest = used @ rest'" "length used = n"
    "v = le_value (Suc i) (acc OR push_bit (8 * i) (ucast b)) used"
    "r' = mid lim ((pre @ [b]) @ used) rest'" by blast
  then show ?case
    by (intro exI [of _ "b # used"] exI [of _ rest']) (simp add: r1(1))
qed

text \<open>Splitting a word into bytes and putting it together again, and conversely.\<close>

lemma le_bytes_Suc: "le_bytes (Suc n) v = le_bytes n v @ [ucast (drop_bit (8 * n) v AND 0xFF)]"
  by (simp add: le_bytes_def)

lemma le_value_append:
  "le_value i acc (xs @ ys) = le_value (i + length xs) (le_value i acc xs) ys"
  by (induction xs arbitrary: i acc) simp_all

lemma and_0xFF: "(x :: 'a::len word) AND 0xFF = take_bit 8 x"
proof -
  have "(0xFF :: 'a word) = mask 8" by (simp add: mask_eq_exp_minus_1)
  then show ?thesis by (simp only: take_bit_eq_mask)
qed

lemma le_value_le_bytes: "le_value 0 0 (le_bytes n (v :: 'a::len word)) = take_bit (8 * n) v"
proof (induction n)
  case 0
  then show ?case by (simp add: le_bytes_def)
next
  case (Suc n)
  show ?case
    by (rule bit_word_eqI)
      (auto simp: le_bytes_Suc le_value_append Suc.IH bit_or_iff bit_take_bit_iff
        bit_push_bit_iff bit_ucast_iff bit_drop_bit_eq and_0xFF)
qed

text \<open>Bit \<open>k\<close> of a run of bytes is bit \<open>k mod 8\<close> of byte \<open>k div 8\<close>.\<close>

lemma bit_shifted_byte:
  "bit (push_bit (8 * i) (ucast (x :: u8) :: 'a::len word)) k \<longleftrightarrow>
     k < LENGTH('a) \<and> 8 * i \<le> k \<and> k < 8 * Suc i \<and> bit x (k mod 8)"
proof (cases "8 * i \<le> k \<and> k < 8 * Suc i")
  case True
  then obtain d where "k = 8 * i + d" "d < 8" by (auto dest: le_Suc_ex)
  then have "k mod 8 = k - 8 * i" by simp
  with True show ?thesis by (auto simp: bit_push_bit_iff bit_ucast_iff)
next
  case False
  then show ?thesis
    by (auto simp: bit_push_bit_iff bit_ucast_iff dest: bit_imp_le_length)
qed

lemma bit_le_value:
  "bit (le_value i acc xs :: 'a::len word) k \<longleftrightarrow>
     bit acc k \<or> (k < LENGTH('a) \<and> 8 * i \<le> k \<and> k < 8 * (i + length xs) \<and>
       bit (xs ! (k div 8 - i)) (k mod 8))"
proof (induction xs arbitrary: i acc)
  case Nil
  then show ?case by auto
next
  case (Cons x xs)
  have nth: "(x # xs) ! (k div 8 - i) = (if k < 8 * Suc i then x else xs ! (k div 8 - Suc i))"
    if "8 * i \<le> k"
  proof (cases "k < 8 * Suc i")
    case True
    with that obtain d where "k = 8 * i + d" "d < 8" by (auto dest: le_Suc_ex)
    then have "k div 8 = i" by simp
    with True show ?thesis by simp
  next
    case False
    then have "Suc i \<le> k div 8" by (simp add: less_eq_div_iff_mult_less_eq)
    then have "k div 8 - i = Suc (k div 8 - Suc i)" by simp
    with False show ?thesis by simp
  qed
  show ?case
    by (auto simp: Cons.IH bit_or_iff bit_shifted_byte nth split: if_splits)
qed

lemma le_bytes_le_value:
  assumes len: "length bs * 8 = LENGTH('a::len)"
  shows "le_bytes (length bs) (le_value 0 0 bs :: 'a word) = bs"
proof (rule nth_equalityI)
  fix j
  assume "j < length (le_bytes (length bs) (le_value 0 0 bs :: 'a word))"
  then have j: "j < length bs" by simp
  show "le_bytes (length bs) (le_value 0 0 bs :: 'a word) ! j = bs ! j"
  proof (rule bit_word_eqI)
    fix k
    assume k: "k < LENGTH(8)"
    have "8 * j + k < LENGTH('a)" using len j k by simp
    moreover have "(8 * j + k) div 8 = j" "(8 * j + k) mod 8 = k" using k by simp_all
    ultimately show "bit (le_bytes (length bs) (le_value 0 0 bs :: 'a word) ! j) k \<longleftrightarrow>
        bit (bs ! j) k"
      using j k
      by (simp add: le_bytes_def and_0xFF bit_ucast_iff bit_take_bit_iff bit_drop_bit_eq
          bit_le_value)
  qed
qed simp

section \<open>The codecs of the code satisfy the laws\<close>

abbreviation any_value :: "DecodeLimits \<Rightarrow> 'a \<Rightarrow> bool" where
  "any_value lim a \<equiv> True"

lemma yields_checked:
  assumes "\<And>lim pre bs v r'. p (mid lim pre bs) = (v, r') \<Longrightarrow> br_ok r' \<Longrightarrow>
    \<exists>used rest. bs = used @ rest \<and> r' = mid lim (pre @ used) rest \<and> Q v used"
  shows "yields (checked p) Q"
  using assms unfolding yields_def checked_def
  by (auto split: prod.splits if_splits)

lemma br_le_word:
  assumes "length pre + n \<le> max_total lim" and "8 * n = LENGTH('a::len)"
  shows "br_le 0 n (0 :: 'a word) (mid lim pre (le_bytes n v @ rest)) =
    (v, mid lim (pre @ le_bytes n v) rest)"
  using br_le_mid [of pre "le_bytes n v" lim 0 "0 :: 'a word" rest] assms
  by (simp add: le_value_le_bytes)

lemma yields_br_le:
  assumes "n * 8 = LENGTH('a::len)"
  shows "yields (checked (br_le 0 n (0 :: 'a word))) (\<lambda>v used. used = le_bytes n v)"
proof (rule yields_checked)
  fix lim pre bs and v :: "'a word" and r'
  assume "br_le 0 n 0 (mid lim pre bs) = (v, r')" "br_ok r'"
  then obtain used rest where u: "bs = used @ rest" "length used = n" "v = le_value 0 0 used"
    "r' = mid lim (pre @ used) rest" by (blast dest: br_le_mid_inv)
  then have "used = le_bytes n v" using le_bytes_le_value [of used, where 'a = 'a] assms by simp
  with u show "\<exists>used rest. bs = used @ rest \<and> r' = mid lim (pre @ used) rest \<and>
    used = le_bytes n v" by blast
qed

lemma br_u16_eq: "br_u16 r = br_le 0 2 0 r"
  by (simp add: br_u16_def eval_nat_numeral split: prod.split)

interpretation u8_codec: field_codec w_u8 read_u8 any_value
proof
  show "yields read_u8 (\<lambda>a used. used = w_u8 a)"
    unfolding read_u8_def by (rule yields_checked) (auto simp: w_u8_def dest: br_u8_mid_inv)
qed (simp add: read_u8_def checked_def w_u8_def br_u8_mid_Cons)

interpretation u16_codec: field_codec w_u16 read_u16 any_value
proof
  show "yields read_u16 (\<lambda>a used. used = w_u16 a)"
    using yields_br_le [of 2, where 'a = 16] by (simp add: read_u16_def w_u16_def br_u16_eq [abs_def])
qed (simp add: read_u16_def checked_def w_u16_def br_u16_eq br_le_word)

interpretation u32_codec: field_codec w_u32 read_u32 any_value
proof
  show "yields read_u32 (\<lambda>a used. used = w_u32 a)"
    using yields_br_le [of 4, where 'a = 32] by (simp add: read_u32_def w_u32_def br_u32_def [abs_def])
qed (simp add: read_u32_def checked_def w_u32_def br_u32_def br_le_word)

interpretation u64_codec: field_codec w_u64 read_u64 any_value
proof
  show "yields read_u64 (\<lambda>a used. used = w_u64 a)"
    using yields_br_le [of 8, where 'a = 64] by (simp add: read_u64_def w_u64_def br_u64_def [abs_def])
qed (simp add: read_u64_def checked_def w_u64_def br_u64_def br_le_word)

interpretation bool_codec: field_codec w_boolean read_bool any_value
proof
  show "yields read_bool (\<lambda>a used. used = w_boolean a)"
    unfolding read_bool_def
  proof (rule yields_checked)
    fix lim pre bs v r'
    assume run: "br_boolean (mid lim pre bs) = (v, r')" and ok: "br_ok r'"
    obtain raw r1 where raw: "br_u8 (mid lim pre bs) = (raw, r1)" by fastforce
    with run ok have "br_ok r1" and small: "raw \<le> 1" and v: "v = (raw = 1)" and "r' = r1"
      by (auto simp: br_boolean_def br_fail_def split: if_splits)
    with raw obtain rest where "bs = raw # rest" "r' = mid lim (pre @ [raw]) rest"
      by (blast dest: br_u8_mid_inv)
    moreover have "raw = 0 \<or> raw = 1"
      using small by unat_arith
    ultimately show "\<exists>used rest. bs = used @ rest \<and> r' = mid lim (pre @ used) rest \<and>
        used = w_boolean v"
      by (intro exI [of _ "[raw]"] exI [of _ rest]) (auto simp: w_boolean_def w_u8_def v)
  qed
qed (simp add: read_bool_def checked_def w_boolean_def w_u8_def br_boolean_def br_u8_mid_Cons)

text \<open>Strings: the length must fit its 32-bit prefix and the reader's bound.\<close>

definition wf_text :: "DecodeLimits \<Rightarrow> string \<Rightarrow> bool" where
  "wf_text lim s \<longleftrightarrow> length s \<le> max_string lim \<and> length s < 2 ^ 32"

lemma byte_of_char_of_byte [simp]: "byte_of_char (char_of_byte b) = b"
proof -
  have "unat b < 256" using unsigned_less [of b, where 'a = nat] by simp
  then show ?thesis by (simp add: byte_of_char_def char_of_byte_def of_char_of)
qed

lemma map_byte_of_char_of_byte [simp]: "map (byte_of_char \<circ> char_of_byte) bs = bs"
  by (induction bs) simp_all

lemma unat_word32_of_length: "n < 2 ^ 32 \<Longrightarrow> unat (word_of_nat n :: u32) = n"
  by (simp add: unat_of_nat)

lemma unat_word64_of_length: "n < 2 ^ 64 \<Longrightarrow> unat (word_of_nat n :: u64) = n"
  by (simp add: unat_of_nat)

lemma br_u32_mid:
  "length pre + 4 \<le> max_total lim \<Longrightarrow>
   br_u32 (mid lim pre (w_u32 v @ rest)) = (v, mid lim (pre @ w_u32 v) rest)"
  by (simp add: br_u32_def w_u32_def br_le_word)

lemma br_boolean_mid:
  "length pre + 1 \<le> max_total lim \<Longrightarrow>
   br_boolean (mid lim pre (w_boolean b @ rest)) = (b, mid lim (pre @ w_boolean b) rest)"
  by (simp add: w_boolean_def w_u8_def br_boolean_def br_u8_mid_Cons)

lemma br_u32_mid_inv:
  assumes "br_u32 (mid lim pre bs) = (v, r')" and "br_ok r'"
  shows "\<exists>rest. bs = w_u32 v @ rest \<and> r' = mid lim (pre @ w_u32 v) rest"
  using yieldsD [OF u32_codec.read_canonical, of lim pre bs v r'] assms
  by (auto simp: read_u32_def checked_def)

lemma length_w [simp, codec_len]:
  "length (w_u8 a) = 1" "length (w_u16 b) = 2" "length (w_u32 c) = 4" "length (w_u64 d) = 8"
  "length (w_boolean e) = 1"
  by (simp_all add: w_u8_def w_u16_def w_u32_def w_u64_def w_boolean_def)

lemma length_w_text [simp, codec_len]: "length (w_text s) = 4 + length s"
  by (simp add: w_text_def)

lemma length_write_enum [simp, codec_len]: "length (write_enum vals v) = 1"
  by (simp add: write_enum_def)

interpretation text_codec: field_codec w_text read_text wf_text
proof
  fix lim s and pre rest :: bytes
  assume "wf_text lim s" and "length pre + length (w_text s) + length rest \<le> max_total lim"
  then show "read_text (mid lim pre (w_text s @ rest)) = (Some s, mid lim (pre @ w_text s) rest)"
    by (simp add: read_text_def checked_def br_text_def w_text_def br_u32_mid wf_text_def
        unat_word32_of_length br_require_mid comp_def)
next
  show "yields read_text (\<lambda>s used. used = w_text s)"
    unfolding read_text_def
  proof (rule yields_checked)
    fix lim pre bs s r'
    assume run: "br_text (mid lim pre bs) = (s, r')" and ok: "br_ok r'"
    obtain n r1 where n: "br_u32 (mid lim pre bs) = (n, r1)" by fastforce
    with run ok have "br_ok r1" by (auto simp: br_text_def split: if_splits)
    with n obtain rest where r1: "bs = w_u32 n @ rest" "r1 = mid lim (pre @ w_u32 n) rest"
      by (blast dest: br_u32_mid_inv)
    with run ok n have fits: "unat n \<le> length rest" and s: "s = map char_of_byte (take (unat n) rest)"
      and r': "r' = r1\<lparr>br_offset := br_offset r1 + unat n\<rparr>"
      by (auto simp: br_text_def br_require_mid br_fail_def split: if_splits)
    have "w_text s = w_u32 n @ take (unat n) rest"
      using fits by (simp add: w_text_def s comp_def)
    with r1 r' fits show "\<exists>used rest. bs = used @ rest \<and> r' = mid lim (pre @ used) rest \<and>
        used = w_text s"
      by (intro exI [of _ "w_text s"] exI [of _ "drop (unat n) rest"]) (simp add: mid_def)
  qed
qed

lemma enum_ordinal_nth:
  assumes "distinct vals" and "i < length vals"
  shows "enum_ordinal vals (vals ! i) = i"
proof -
  have "takeWhile (\<lambda>x. x \<noteq> vals ! i) vals = take i vals"
    by (rule takeWhile_eq_take_P_nth) (use assms in \<open>auto simp: nth_eq_iff_index_eq\<close>)
  then show ?thesis using assms by (simp add: enum_ordinal_def)
qed

lemma enum_codec:
  assumes distinct: "distinct vals" and complete: "\<And>v. v \<in> set vals"
    and small: "length vals \<le> 256"
  shows "field_codec (write_enum vals) (read_enum vals) any_value"
proof
  fix lim :: DecodeLimits and v :: 'a and pre rest :: bytes
  assume bound: "length pre + length (write_enum vals v) + length rest \<le> max_total lim"
  obtain i where i: "i < length vals" "vals ! i = v"
    using complete [of v] by (auto simp: in_set_conv_nth)
  have "enum_ordinal vals v = i"
    using enum_ordinal_nth [OF distinct i(1)] i(2) by simp
  moreover have "unat (word_of_nat i :: u8) = i" using i small by (simp add: unat_of_nat)
  ultimately show "read_enum vals (mid lim pre (write_enum vals v @ rest)) =
      (Some v, mid lim (pre @ write_enum vals v) rest)"
    using i bound by (simp add: read_enum_def write_enum_def w_u8_def br_u8_mid_Cons)
next
  show "yields (read_enum vals) (\<lambda>v used. used = write_enum vals v)"
    unfolding yields_def
  proof (intro allI impI)
    fix lim pre bs v r'
    assume run: "read_enum vals (mid lim pre bs) = (Some v, r')"
    obtain raw r1 where raw: "br_u8 (mid lim pre bs) = (raw, r1)" by fastforce
    with run have ok: "br_ok r1" and less: "unat raw < length vals" and v: "v = vals ! unat raw"
      and "r' = r1" by (auto simp: read_enum_def split: if_splits)
    with raw obtain rest where r: "bs = raw # rest" "r' = mid lim (pre @ [raw]) rest"
      by (blast dest: br_u8_mid_inv)
    have "enum_ordinal vals v = unat raw"
      unfolding v by (rule enum_ordinal_nth [OF distinct less])
    then have "write_enum vals v = [raw]" by (simp add: write_enum_def w_u8_def)
    with r show "\<exists>used rest. bs = used @ rest \<and> r' = mid lim (pre @ used) rest \<and>
        used = write_enum vals v" by (intro exI [of _ "[raw]"] exI [of _ rest]) simp
  qed
qed

text \<open>Vectors and optionals of a lawful element codec are lawful.\<close>

definition wf_vector :: "(DecodeLimits \<Rightarrow> 'a \<Rightarrow> bool) \<Rightarrow> DecodeLimits \<Rightarrow> 'a list \<Rightarrow> bool" where
  "wf_vector ok lim vs \<longleftrightarrow>
     length vs \<le> max_container lim \<and> length vs < 2 ^ 32 \<and> list_all (ok lim) vs"

definition wf_optional :: "(DecodeLimits \<Rightarrow> 'a \<Rightarrow> bool) \<Rightarrow> DecodeLimits \<Rightarrow> 'a option \<Rightarrow> bool" where
  "wf_optional ok lim v \<longleftrightarrow> (case v of None \<Rightarrow> True | Some x \<Rightarrow> ok lim x)"

context field_codec
begin

lemma read_elements_write:
  "list_all (wf lim) vs \<Longrightarrow>
   length pre + length (concat (map wr vs)) + length rest \<le> max_total lim \<Longrightarrow>
   read_elements (length vs) rd (mid lim pre (concat (map wr vs) @ rest)) =
     (Some vs, mid lim (pre @ concat (map wr vs)) rest)"
  by (induction vs arbitrary: pre) (simp_all add: read_write and_then_def)

lemma yields_read_elements:
  "yields (read_elements n rd) (\<lambda>vs used. length vs = n \<and> used = concat (map wr vs))"
proof (induction n)
  case 0
  then show ?case by (simp add: yields_decoded)
next
  case (Suc n)
  show ?case
    unfolding read_elements.simps
    by (rule yields_and_then [OF read_canonical], rule yields_and_then [OF Suc.IH],
        rule yields_decoded) simp
qed

lemma vector_codec: "field_codec (write_vector wr) (read_vector rd) (wf_vector wf)"
proof
  fix lim :: DecodeLimits and vs :: "'a list" and pre rest :: bytes
  assume "wf_vector wf lim vs"
    and "length pre + length (write_vector wr vs) + length rest \<le> max_total lim"
  then show "read_vector rd (mid lim pre (write_vector wr vs @ rest)) =
      (Some vs, mid lim (pre @ write_vector wr vs) rest)"
    by (simp add: read_vector_def write_vector_def wf_vector_def br_u32_mid
        unat_word32_of_length read_elements_write)
next
  show "yields (read_vector rd) (\<lambda>vs used. used = write_vector wr vs)"
    unfolding yields_def
  proof (intro allI impI)
    fix lim pre bs vs r'
    assume run: "read_vector rd (mid lim pre bs) = (Some vs, r')"
    obtain n r1 where n: "br_u32 (mid lim pre bs) = (n, r1)" by fastforce
    with run have ok: "br_ok r1" and elems: "read_elements (unat n) rd r1 = (Some vs, r')"
      by (auto simp: read_vector_def split: if_splits)
    from n ok obtain rest where r1: "bs = w_u32 n @ rest" "r1 = mid lim (pre @ w_u32 n) rest"
      by (blast dest: br_u32_mid_inv)
    from yieldsD [OF yields_read_elements elems [unfolded r1(2)]] obtain used rest'
      where u: "rest = used @ rest'" "r' = mid lim ((pre @ w_u32 n) @ used) rest'"
        "length vs = unat n" "used = concat (map wr vs)" by blast
    then have "write_vector wr vs = w_u32 n @ used" by (simp add: write_vector_def)
    with r1 u show "\<exists>used rest. bs = used @ rest \<and> r' = mid lim (pre @ used) rest \<and>
        used = write_vector wr vs"
      by (intro exI [of _ "w_u32 n @ used"] exI [of _ rest']) simp
  qed
qed

lemma optional_codec: "field_codec (write_optional wr) (read_optional rd) (wf_optional wf)"
proof
  fix lim :: DecodeLimits and v :: "'a option" and pre rest :: bytes
  assume "wf_optional wf lim v"
    and "length pre + length (write_optional wr v) + length rest \<le> max_total lim"
  then show "read_optional rd (mid lim pre (write_optional wr v @ rest)) =
      (Some v, mid lim (pre @ write_optional wr v) rest)"
    by (cases v) (simp_all add: read_optional_def write_optional_def wf_optional_def
        br_boolean_mid read_write)
next
  show "yields (read_optional rd) (\<lambda>v used. used = write_optional wr v)"
    unfolding yields_def
  proof (intro allI impI)
    fix lim pre bs v r'
    assume run: "read_optional rd (mid lim pre bs) = (Some v, r')"
    obtain b r1 where b: "br_boolean (mid lim pre bs) = (b, r1)" by fastforce
    have ok: "br_ok r1"
      using run b by (auto simp: read_optional_def split: if_splits)
    from b ok have "read_bool (mid lim pre bs) = (Some b, r1)"
      by (simp add: read_bool_def checked_def)
    from yieldsD [OF bool_codec.read_canonical this] obtain rest
      where r1: "bs = w_boolean b @ rest" "r1 = mid lim (pre @ w_boolean b) rest" by blast
    show "\<exists>used rest. bs = used @ rest \<and> r' = mid lim (pre @ used) rest \<and>
        used = write_optional wr v"
    proof (cases b)
      case False
      with run b ok have "v = None" "r' = r1" by (auto simp: read_optional_def)
      with r1 False show ?thesis
        by (intro exI [of _ "w_boolean b"] exI [of _ rest]) (simp add: write_optional_def)
    next
      case True
      with run b ok obtain x where x: "rd r1 = (Some x, r')" and v: "v = Some x"
        by (auto simp: read_optional_def split: prod.splits option.splits if_splits)
      from yieldsD [OF read_canonical x [unfolded r1(2)]] obtain rest'
        where "rest = wr x @ rest'" "r' = mid lim ((pre @ w_boolean b) @ wr x) rest'" by blast
      with r1 True v show ?thesis
        by (intro exI [of _ "w_boolean b @ wr x"] exI [of _ rest'])
          (simp add: write_optional_def)
    qed
  qed
qed

end

text \<open>The round-trip equations of the primitive fields, for the record codecs.\<close>

lemmas primitive_round_trips [codec_rt] =
  u8_codec.read_write [OF TrueI] u16_codec.read_write [OF TrueI] u32_codec.read_write [OF TrueI]
  u64_codec.read_write [OF TrueI] bool_codec.read_write [OF TrueI] text_codec.read_write

end
