(* ===== verification/Records.thy ===== *)
theory Records
  imports Lifecycle Side_Effect Byte_Codec "HOL-Library.List_Lexorder"
begin

text \<open>
  \<open>include/pef/records.hpp\<close>, \<open>src/records.cpp\<close>, \<open>include/pef/policy.hpp\<close>,
  \<open>src/policy.cpp\<close>, \<open>include/pef/identity.hpp\<close> and the record types of
  \<open>include/pef/persistence.hpp\<close>.

  Every \<open>Id<Tag>\<close> and \<open>Gen<Tag>\<close> is its 64-bit value; the tag separates domains at C++
  compile time and carries no data. Zero is the nil id and the unestablished generation.
  The fields of a struct carry a prefix (\<open>act_\<close>, \<open>exec_\<close>, ...) and stand in the canonical
  durable order of its \<open>RecordTraits\<close>.
\<close>

section \<open>Identities\<close>

definition nil_id :: u64 where
  "nil_id = 0"

abbreviation id_valid :: "u64 \<Rightarrow> bool" where
  "id_valid i \<equiv> i \<noteq> 0"

text \<open>\<open>Gen::next\<close>: the addition wraps at 64 bits.\<close>

definition gen_next :: "u64 \<Rightarrow> u64" where
  "gen_next g = g + 1"

fun parse_decimal_loop :: "u64 \<Rightarrow> string \<Rightarrow> u64 option" where
  "parse_decimal_loop value [] = Some value"
| "parse_decimal_loop value (c # cs) =
     (let n = (of_char c :: nat) in
      if n < 48 \<or> n > 57 then None
      else (let digit = word_of_nat (n - 48) in
        if value > (0xFFFFFFFFFFFFFFFF - digit) div 10 then None
        else parse_decimal_loop (value * 10 + digit) cs))"

definition parse_id :: "string \<Rightarrow> bool \<Rightarrow> u64 option" where
  "parse_id text allow_decimal =
     (case (if length text = 16 then parse_hex_loop 0 text else None) of
        Some value \<Rightarrow> Some value
      | None \<Rightarrow> if allow_decimal \<and> text \<noteq> [] then parse_decimal_loop 0 text else None)"

definition parse_gen :: "string \<Rightarrow> bool \<Rightarrow> u64 option" where
  "parse_gen text allow_decimal = parse_id text allow_decimal"

section \<open>Enumerations of the durable records\<close>

datatype BindingDomain =
  Memory | Model | Tool | Resource | Environment | Filesystem | Hardware | Custom

definition binding_domains :: "BindingDomain list" where
  "binding_domains = [Memory, Model, Tool, Resource, Environment, Filesystem, Hardware, Custom]"

fun binding_domain_name :: "BindingDomain \<Rightarrow> string" where
  "binding_domain_name Memory = ''MEMORY''"
| "binding_domain_name Model = ''MODEL''"
| "binding_domain_name Tool = ''TOOL''"
| "binding_domain_name Resource = ''RESOURCE''"
| "binding_domain_name Environment = ''ENVIRONMENT''"
| "binding_domain_name Filesystem = ''FILESYSTEM''"
| "binding_domain_name Hardware = ''HARDWARE''"
| "binding_domain_name Custom = ''CUSTOM''"

definition parse_binding_domain :: "string \<Rightarrow> BindingDomain option" where
  "parse_binding_domain text = find (\<lambda>c. binding_domain_name c = text) binding_domains"

datatype CheckpointState =
    Created_CS | Verified | Current | Stale_CS | Superseded_CS | Corrupt
  | RevalidationRequired_CS | Unsupported_CS

definition checkpoint_states :: "CheckpointState list" where
  "checkpoint_states = [Created_CS, Verified, Current, Stale_CS, Superseded_CS, Corrupt,
     RevalidationRequired_CS, Unsupported_CS]"

fun checkpoint_state_name :: "CheckpointState \<Rightarrow> string" where
  "checkpoint_state_name Created_CS = ''CREATED''"
| "checkpoint_state_name Verified = ''VERIFIED''"
| "checkpoint_state_name Current = ''CURRENT''"
| "checkpoint_state_name Stale_CS = ''STALE''"
| "checkpoint_state_name Superseded_CS = ''SUPERSEDED''"
| "checkpoint_state_name Corrupt = ''CORRUPT''"
| "checkpoint_state_name RevalidationRequired_CS = ''REVALIDATION_REQUIRED''"
| "checkpoint_state_name Unsupported_CS = ''UNSUPPORTED''"

definition parse_checkpoint_state :: "string \<Rightarrow> CheckpointState option" where
  "parse_checkpoint_state text = find (\<lambda>c. checkpoint_state_name c = text) checkpoint_states"

definition checkpoint_can_seed_continuation :: "CheckpointState \<Rightarrow> bool" where
  "checkpoint_can_seed_continuation state \<longleftrightarrow> state = Verified \<or> state = Current"

datatype ContinuationState =
  Valid | Stale | RevalidationRequired_CT | Ambiguous_CT | Unsupported_CT | Invalid

definition continuation_states :: "ContinuationState list" where
  "continuation_states = [Valid, Stale, RevalidationRequired_CT, Ambiguous_CT, Unsupported_CT,
     Invalid]"

fun continuation_state_name :: "ContinuationState \<Rightarrow> string" where
  "continuation_state_name Valid = ''VALID''"
| "continuation_state_name Stale = ''STALE''"
| "continuation_state_name RevalidationRequired_CT = ''REVALIDATION_REQUIRED''"
| "continuation_state_name Ambiguous_CT = ''AMBIGUOUS''"
| "continuation_state_name Unsupported_CT = ''UNSUPPORTED''"
| "continuation_state_name Invalid = ''INVALID''"

definition parse_continuation_state :: "string \<Rightarrow> ContinuationState option" where
  "parse_continuation_state text =
     find (\<lambda>c. continuation_state_name c = text) continuation_states"

datatype LeaseState = Active | Superseded | Revoked

definition lease_states :: "LeaseState list" where
  "lease_states = [Active, Superseded, Revoked]"

fun lease_state_name :: "LeaseState \<Rightarrow> string" where
  "lease_state_name Active = ''ACTIVE''"
| "lease_state_name Superseded = ''SUPERSEDED''"
| "lease_state_name Revoked = ''REVOKED''"

definition parse_lease_state :: "string \<Rightarrow> LeaseState option" where
  "parse_lease_state text = find (\<lambda>c. lease_state_name c = text) lease_states"

datatype ReplayStatus = Admitted | Rejected | Completed

definition replay_statuses :: "ReplayStatus list" where
  "replay_statuses = [Admitted, Rejected, Completed]"

fun replay_status_name :: "ReplayStatus \<Rightarrow> string" where
  "replay_status_name Admitted = ''ADMITTED''"
| "replay_status_name Rejected = ''REJECTED''"
| "replay_status_name Completed = ''COMPLETED''"

definition parse_replay_status :: "string \<Rightarrow> ReplayStatus option" where
  "parse_replay_status text = find (\<lambda>c. replay_status_name c = text) replay_statuses"

datatype AmbiguityHandling = RefuseAutomaticRetry | ManualResolutionRequired | RequireCompensation

definition ambiguity_handlings :: "AmbiguityHandling list" where
  "ambiguity_handlings = [RefuseAutomaticRetry, ManualResolutionRequired, RequireCompensation]"

datatype RecoveryPreference =
  PreferNewestValidCheckpoint | PreferCheckpointBeforeInterruption | RequireManualSelection

definition recovery_preferences :: "RecoveryPreference list" where
  "recovery_preferences =
     [PreferNewestValidCheckpoint, PreferCheckpointBeforeInterruption, RequireManualSelection]"

datatype StaleBindingBehavior = Refuse | RequireRevalidation

definition stale_binding_behaviors :: "StaleBindingBehavior list" where
  "stale_binding_behaviors = [Refuse, RequireRevalidation]"

datatype ReplayAllowance = SafeClassesOnly | AllowCompensatedReplay | ForbidReplay

definition replay_allowances :: "ReplayAllowance list" where
  "replay_allowances = [SafeClassesOnly, AllowCompensatedReplay, ForbidReplay]"

datatype DurabilityMode = DurableOnCommit | JournaledNotFlushed

definition durability_modes :: "DurabilityMode list" where
  "durability_modes = [DurableOnCommit, JournaledNotFlushed]"

section \<open>Policy\<close>

text \<open>\<open>policy.hpp\<close>.\<close>

record ExecutionPolicy =
  pol_id :: u64
  pol_generation :: u64
  pol_checkpoint_interval_actions :: u32
  pol_allow_older_checkpoints :: bool
  pol_max_checkpoints_per_execution :: u32
  pol_replay_allowance :: ReplayAllowance
  pol_max_replay_depth :: u32
  pol_allow_recompute :: bool
  pol_ambiguity_handling :: AmbiguityHandling
  pol_ambiguity_blocks_later_progress :: bool
  pol_recovery_preference :: RecoveryPreference
  pol_allow_recovery_from_failed :: bool
  pol_stale_binding_behavior :: StaleBindingBehavior
  pol_policy_change_invalidates_continuations :: bool
  pol_durability :: DurabilityMode
  pol_max_action_history :: u32
  pol_max_replay_records :: u32
  pol_max_ambiguity_records :: u32
  pol_max_continuation_history :: u32

definition validate_policy :: "ExecutionPolicy \<Rightarrow> string option" where
  "validate_policy policy =
     (if \<not> id_valid (pol_id policy) then Some ''policy id must be non-nil''
      else if pol_generation policy = 0 then Some ''policy generation must be established''
      else if pol_max_checkpoints_per_execution policy = 0 then
        Some ''max_checkpoints_per_execution must be at least 1''
      else if pol_max_checkpoints_per_execution policy > 4096 then
        Some ''max_checkpoints_per_execution exceeds the supported bound of 4096''
      else if pol_max_replay_depth policy > 64 then
        Some ''max_replay_depth exceeds the supported bound of 64''
      else if pol_max_action_history policy = 0 then Some ''max_action_history must be at least 1''
      else if pol_max_action_history policy > 10000000 then
        Some ''max_action_history exceeds the supported bound of 10000000''
      else if pol_max_replay_records policy > 1000000 then
        Some ''max_replay_records exceeds the supported bound of 1000000''
      else if pol_max_ambiguity_records policy > 1000000 then
        Some ''max_ambiguity_records exceeds the supported bound of 1000000''
      else if pol_max_continuation_history policy > 1000000 then
        Some ''max_continuation_history exceeds the supported bound of 1000000''
      else if pol_replay_allowance policy = ForbidReplay \<and> pol_allow_recompute policy then
        Some ''allow_recompute cannot be combined with ReplayAllowance::ForbidReplay''
      else if pol_ambiguity_handling policy = RequireCompensation \<and>
              \<not> pol_ambiguity_blocks_later_progress policy then
        Some ''RequireCompensation requires ambiguity_blocks_later_progress''
      else None)"

definition hb_bool :: "u64 \<Rightarrow> bool \<Rightarrow> u64" where
  "hb_bool h b = hb_byte h (if b then 1 else 0)"

definition hb_enum :: "'a list \<Rightarrow> u64 \<Rightarrow> 'a \<Rightarrow> u64" where
  "hb_enum vals h v = hb_byte h (word_of_nat (enum_ordinal vals v))"

definition policy_digest :: "ExecutionPolicy \<Rightarrow> u64" where
  "policy_digest policy =
     (let h = hb_u64 (hb_u64 hb_new (pol_id policy)) (pol_generation policy);
          h = hb_u32 h (pol_checkpoint_interval_actions policy);
          h = hb_bool h (pol_allow_older_checkpoints policy);
          h = hb_u32 h (pol_max_checkpoints_per_execution policy);
          h = hb_enum replay_allowances h (pol_replay_allowance policy);
          h = hb_u32 h (pol_max_replay_depth policy);
          h = hb_bool h (pol_allow_recompute policy);
          h = hb_enum ambiguity_handlings h (pol_ambiguity_handling policy);
          h = hb_bool h (pol_ambiguity_blocks_later_progress policy);
          h = hb_enum recovery_preferences h (pol_recovery_preference policy);
          h = hb_bool h (pol_allow_recovery_from_failed policy);
          h = hb_enum stale_binding_behaviors h (pol_stale_binding_behavior policy);
          h = hb_bool h (pol_policy_change_invalidates_continuations policy);
          h = hb_enum durability_modes h (pol_durability policy);
          h = hb_u32 h (pol_max_action_history policy);
          h = hb_u32 h (pol_max_replay_records policy);
          h = hb_u32 h (pol_max_ambiguity_records policy)
      in hb_u32 h (pol_max_continuation_history policy))"

text \<open>The member initialisers of the struct with the id and generation 1.\<close>

definition default_policy :: "u64 \<Rightarrow> ExecutionPolicy" where
  "default_policy i =
     \<lparr>pol_id = i, pol_generation = 1, pol_checkpoint_interval_actions = 0,
      pol_allow_older_checkpoints = False, pol_max_checkpoints_per_execution = 8,
      pol_replay_allowance = SafeClassesOnly, pol_max_replay_depth = 4,
      pol_allow_recompute = True, pol_ambiguity_handling = RefuseAutomaticRetry,
      pol_ambiguity_blocks_later_progress = True,
      pol_recovery_preference = PreferNewestValidCheckpoint,
      pol_allow_recovery_from_failed = False, pol_stale_binding_behavior = RequireRevalidation,
      pol_policy_change_invalidates_continuations = True, pol_durability = DurableOnCommit,
      pol_max_action_history = 100000, pol_max_replay_records = 4096,
      pol_max_ambiguity_records = 1024, pol_max_continuation_history = 4096\<rparr>"

section \<open>Evidence and bindings\<close>

text \<open>Evidence provenance.\<close>

record Evidence =
  ev_id :: u64
  ev_generation :: u64
  ev_kind :: EvidenceKind
  ev_source :: string
  ev_observed_sequence :: u64
  ev_observed_digest :: u64

definition evidence_present :: "Evidence \<Rightarrow> bool" where
  "evidence_present e \<longleftrightarrow> ev_kind e \<noteq> None_EK"

definition no_evidence :: Evidence where
  "no_evidence = \<lparr>ev_id = 0, ev_generation = 0, ev_kind = None_EK, ev_source = [],
     ev_observed_sequence = 0, ev_observed_digest = 0\<rparr>"

text \<open>External bindings referenced by an execution.\<close>

record BindingRef =
  bref_domain :: BindingDomain
  bref_id :: u64
  bref_generation :: u64
  bref_label :: string

text \<open>A canonical set of binding generations.\<close>

record BindingSet =
  bset_refs :: "BindingRef list"

definition empty_bindings :: BindingSet where
  "empty_bindings = \<lparr>bset_refs = []\<rparr>"

text \<open>
  \<open>operator<\<close> on binding references compares domain ordinal, id, generation and label in
  this order; labels compare as unsigned bytes. Two references with the same key are equal,
  so every sorting algorithm gives the same vector.
\<close>

definition bref_key :: "BindingRef \<Rightarrow> nat \<times> u64 \<times> u64 \<times> nat list" where
  "bref_key b = (enum_ordinal binding_domains (bref_domain b), bref_id b, bref_generation b,
     map of_char (bref_label b))"

definition bref_less :: "BindingRef \<Rightarrow> BindingRef \<Rightarrow> bool" where
  "bref_less a b \<longleftrightarrow>
     (if bref_domain a \<noteq> bref_domain b then
        enum_ordinal binding_domains (bref_domain a) < enum_ordinal binding_domains (bref_domain b)
      else if bref_id a \<noteq> bref_id b then bref_id a < bref_id b
      else if bref_generation a \<noteq> bref_generation b then bref_generation a < bref_generation b
      else map (of_char :: char \<Rightarrow> nat) (bref_label a) < map of_char (bref_label b))"

definition sort_refs :: "BindingRef list \<Rightarrow> BindingRef list" where
  "sort_refs refs = sort_key bref_key refs"

text \<open>The loop of \<open>canonicalize\<close> over the sorted references; \<open>last\<close> is \<open>deduped.back()\<close>.\<close>

fun dedup_refs :: "BindingRef option \<Rightarrow> BindingRef list \<Rightarrow> BindingRef list" where
  "dedup_refs back [] = []"
| "dedup_refs back (r # refs) =
     (case back of
        Some b \<Rightarrow> if bref_id b = bref_id r then dedup_refs back refs
                  else r # dedup_refs (Some r) refs
      | None \<Rightarrow> r # dedup_refs (Some r) refs)"

definition canonicalize :: "BindingSet \<Rightarrow> BindingSet" where
  "canonicalize bs = bs\<lparr>bset_refs := dedup_refs None (remdups_adj (sort_refs (bset_refs bs)))\<rparr>"

definition bset_find :: "BindingSet \<Rightarrow> u64 \<Rightarrow> BindingRef option" where
  "bset_find bs i = find (\<lambda>r. bref_id r = i) (bset_refs bs)"

definition bset_contains :: "BindingSet \<Rightarrow> u64 \<Rightarrow> bool" where
  "bset_contains bs i \<longleftrightarrow> bset_find bs i \<noteq> None"

definition same_generation_in :: "BindingSet \<Rightarrow> BindingRef \<Rightarrow> bool" where
  "same_generation_in other r \<longleftrightarrow>
     (case bset_find other (bref_id r) of
        None \<Rightarrow> False
      | Some m \<Rightarrow> bref_generation m = bref_generation r)"

definition equals_generations :: "BindingSet \<Rightarrow> BindingSet \<Rightarrow> bool" where
  "equals_generations a b \<longleftrightarrow>
     list_all (same_generation_in b) (bset_refs a) \<and>
     list_all (same_generation_in a) (bset_refs b)"

text \<open>The first adjacent pair of equal ids decides the message.\<close>

fun adjacent_defect :: "BindingRef list \<Rightarrow> string option" where
  "adjacent_defect (a # b # refs) =
     (if bref_id a = bref_id b then
        (if bref_generation a \<noteq> bref_generation b
         then Some ''binding set has duplicate ids with conflicting generations''
         else Some ''binding set contains a duplicate binding id'')
      else adjacent_defect (b # refs))"
| "adjacent_defect refs = None"

fun element_defect :: "BindingRef list \<Rightarrow> string option" where
  "element_defect [] = None"
| "element_defect (r # refs) =
     (if \<not> id_valid (bref_id r) then Some ''binding set contains a nil binding id''
      else if bref_generation r = 0 then
        Some ''binding set contains an unestablished binding generation''
      else if length (bref_label r) > 256 then Some ''binding set label exceeds 256 bytes''
      else element_defect refs)"

definition binding_set_defect :: "BindingSet \<Rightarrow> string option" where
  "binding_set_defect bs =
     (case adjacent_defect (sort_refs (bset_refs bs)) of
        Some d \<Rightarrow> Some d
      | None \<Rightarrow> element_defect (bset_refs bs))"

section \<open>Durable records\<close>

text \<open>Physical outcome and logical completion of an action are separate fields.\<close>

record ActionRecord =
  act_id :: u64
  act_generation :: u64
  act_execution :: u64
  act_execution_generation :: u64
  act_incarnation_generation :: u64
  act_sequence :: u64
  act_attempt :: u64
  act_attempt_generation :: u64
  act_effect_class :: SideEffectClass
  act_request_key :: string
  act_status :: ActionStatus
  act_effect_id :: u64
  act_effect_generation :: u64
  act_receipt :: Evidence
  act_replay_generation :: u64
  act_replayed_from :: u64
  act_replayed_from_generation :: u64
  act_commit :: u64
  act_dispatch_count :: u32

definition act_sealed :: "ActionRecord \<Rightarrow> bool" where
  "act_sealed a = action_is_physically_sealed (act_status a)"

text \<open>Action records are keyed by identity and generation, ordered lexicographically.\<close>

datatype ActionKey = ActionKey (key_id: u64) (key_generation: u64)

instantiation ActionKey :: linorder
begin

definition less_ActionKey :: "ActionKey \<Rightarrow> ActionKey \<Rightarrow> bool" where
  "less_ActionKey a b \<longleftrightarrow>
     (if key_id a \<noteq> key_id b then key_id a < key_id b
      else key_generation a < key_generation b)"

definition less_eq_ActionKey :: "ActionKey \<Rightarrow> ActionKey \<Rightarrow> bool" where
  "less_eq_ActionKey a b \<longleftrightarrow> a < b \<or> a = b"

instance
proof
  fix x y z :: ActionKey
  show "(x < y) = (x \<le> y \<and> \<not> y \<le> x)"
    by (cases x; cases y) (auto simp: less_ActionKey_def less_eq_ActionKey_def)
  show "x \<le> x" by (simp add: less_eq_ActionKey_def)
  show "x \<le> y \<Longrightarrow> y \<le> z \<Longrightarrow> x \<le> z"
    by (cases x; cases y; cases z)
      (auto simp: less_ActionKey_def less_eq_ActionKey_def split: if_splits)
  show "x \<le> y \<Longrightarrow> y \<le> x \<Longrightarrow> x = y"
    by (cases x; cases y) (auto simp: less_ActionKey_def less_eq_ActionKey_def split: if_splits)
  show "x \<le> y \<or> y \<le> x"
    by (cases x; cases y) (auto simp: less_ActionKey_def less_eq_ActionKey_def split: if_splits)
qed

end

definition action_key :: "ActionRecord \<Rightarrow> ActionKey" where
  "action_key a = ActionKey (act_id a) (act_generation a)"

text \<open>Durable progress.\<close>

record ProgressRecord =
  prog_id :: u64
  prog_generation :: u64
  prog_execution :: u64
  prog_execution_generation :: u64
  prog_action :: u64
  prog_action_generation :: u64
  prog_commit :: u64
  prog_epoch :: u64
  prog_ordinal :: u64
  prog_committed :: bool
  prog_durable_sequence :: u64

text \<open>A checkpoint and its lineage.\<close>

record CheckpointRecord =
  ckpt_id :: u64
  ckpt_generation :: u64
  ckpt_execution :: u64
  ckpt_execution_generation :: u64
  ckpt_incarnation_generation :: u64
  ckpt_progress_generation :: u64
  ckpt_action_generation :: u64
  ckpt_policy :: u64
  ckpt_policy_generation :: u64
  ckpt_bindings :: BindingSet
  ckpt_epoch :: u64
  ckpt_worker :: u64
  ckpt_boot :: u64
  ckpt_parent :: u64
  ckpt_parent_generation :: u64
  ckpt_lineage_depth :: u32
  ckpt_effect_boundary_ordinal :: u64
  ckpt_boundary_action :: u64
  ckpt_content_size :: u64
  ckpt_content_hash :: u64
  ckpt_state :: CheckpointState

text \<open>The durable statement that execution may continue from a point.\<close>

record ContinuationRecord =
  cont_id :: u64
  cont_generation :: u64
  cont_execution :: u64
  cont_execution_generation :: u64
  cont_incarnation :: u64
  cont_incarnation_generation :: u64
  cont_checkpoint :: u64
  cont_checkpoint_generation :: u64
  cont_progress_generation :: u64
  cont_action_generation :: u64
  cont_policy :: u64
  cont_policy_generation :: u64
  cont_bindings :: BindingSet
  cont_epoch :: u64
  cont_recovery :: u64
  cont_recovery_generation :: u64
  cont_state :: ContinuationState
  cont_resume_ordinal :: u64

text \<open>Continuation authority bound to one worker boot and one epoch.\<close>

record LeaseRecord =
  lease_id :: u64
  lease_generation :: u64
  lease_execution :: u64
  lease_execution_generation :: u64
  lease_incarnation :: u64
  lease_incarnation_generation :: u64
  lease_worker :: u64
  lease_boot :: u64
  lease_epoch :: u64
  lease_policy_generation :: u64
  lease_bindings :: BindingSet
  lease_state :: LeaseState

text \<open>An explicit intent to re-drive an action.\<close>

record ReplayRecord =
  rep_id :: u64
  rep_generation :: u64
  rep_execution :: u64
  rep_execution_generation :: u64
  rep_action :: u64
  rep_action_generation :: u64
  rep_new_action :: u64
  rep_new_action_generation :: u64
  rep_effect_class :: SideEffectClass
  rep_request_key :: string
  rep_progress_generation :: u64
  rep_checkpoint_generation :: u64
  rep_policy_generation :: u64
  rep_epoch :: u64
  rep_status :: ReplayStatus
  rep_evidence :: Evidence

text \<open>The durable admission that the outcome of an action is unknown.\<close>

record AmbiguityRecord =
  amb_id :: u64
  amb_generation :: u64
  amb_execution :: u64
  amb_execution_generation :: u64
  amb_action :: u64
  amb_action_generation :: u64
  amb_effect_class :: SideEffectClass
  amb_action_ordinal :: u64
  amb_state :: AmbiguityState
  amb_reason :: string
  amb_resolution_evidence :: Evidence
  amb_resolution_note :: string

text \<open>Logical commit identity.\<close>

record CommitRecord =
  com_id :: u64
  com_execution :: u64
  com_execution_generation :: u64
  com_action :: u64
  com_action_generation :: u64
  com_progress :: u64
  com_progress_generation :: u64
  com_epoch :: u64
  com_request :: u64

text \<open>The aggregate everything else hangs from.\<close>

record ExecutionRecord =
  exec_id :: u64
  exec_generation :: u64
  exec_incarnation :: u64
  exec_incarnation_generation :: u64
  exec_lifecycle :: Lifecycle
  exec_continuation :: u64
  exec_continuation_generation :: u64
  exec_progress :: u64
  exec_progress_generation :: u64
  exec_action_generation :: u64
  exec_action_frontier :: u64
  exec_blocked_above_ordinal :: u64
  exec_blocked :: bool
  exec_checkpoint :: u64
  exec_checkpoint_generation :: u64
  exec_policy :: u64
  exec_policy_generation :: u64
  exec_epoch :: u64
  exec_worker :: u64
  exec_boot :: u64
  exec_lease :: u64
  exec_lease_generation :: u64
  exec_last_commit :: u64
  exec_recovery :: u64
  exec_recovery_generation :: u64
  exec_ambiguity :: u64
  exec_ambiguity_generation :: u64
  exec_bindings :: BindingSet
  exec_committed_actions :: u64
  exec_replay_count :: u64
  exec_created_sequence :: u64

abbreviation has_worker :: "ExecutionRecord \<Rightarrow> bool" where
  "has_worker e \<equiv> id_valid (exec_worker e)"

abbreviation has_lease :: "ExecutionRecord \<Rightarrow> bool" where
  "has_lease e \<equiv> id_valid (exec_lease e)"

abbreviation ambiguity_open :: "ExecutionRecord \<Rightarrow> bool" where
  "ambiguity_open e \<equiv> id_valid (exec_ambiguity e)"

text \<open>A recovery attempt and its decision.\<close>

record RecoveryRecord =
  rec_id :: u64
  rec_generation :: u64
  rec_execution :: u64
  rec_execution_generation :: u64
  rec_decision :: u8
  rec_continuation :: u64
  rec_continuation_generation :: u64
  rec_checkpoint :: u64
  rec_checkpoint_generation :: u64
  rec_epoch :: u64
  rec_evidence :: Evidence
  rec_explanation :: string

text \<open>Store metadata (\<open>persistence.hpp\<close>).\<close>

record StoreMetaRecord =
  meta_store :: u64
  meta_epoch :: u64
  meta_next_execution_sequence :: u64
  meta_sequence :: u64
  meta_schema :: u32

text \<open>A durability barrier.\<close>

record BarrierRecord =
  bar_sequence :: u64
  bar_reason :: u32

text \<open>A logical commit and everything it implies, written as one record.\<close>

record CommitGroupRecord =
  grp_commit :: CommitRecord
  grp_progress :: ProgressRecord
  grp_action :: ActionRecord
  grp_execution :: ExecutionRecord

section \<open>Derived identities\<close>

text \<open>Every derivation feeds a domain salt and 64-bit components to a fresh builder.\<close>

definition derive :: "u64 \<Rightarrow> u64 list \<Rightarrow> u64" where
  "derive salt parts = foldl hb_u64 (hb_u64 hb_new salt) parts"

definition derive_commit_id :: "u64 \<Rightarrow> u64 \<Rightarrow> u64 \<Rightarrow> u64 \<Rightarrow> u64" where
  "derive_commit_id execution action action_generation progress_generation =
     derive 0x1001 [execution, action, action_generation, progress_generation]"

definition derive_side_effect_id :: "u64 \<Rightarrow> u64 \<Rightarrow> u64 \<Rightarrow> u64" where
  "derive_side_effect_id execution action action_generation =
     derive 0x1002 [execution, action, action_generation]"

definition derive_replay_id :: "u64 \<Rightarrow> u64 \<Rightarrow> u64" where
  "derive_replay_id action generation = derive 0x1003 [action, generation]"

definition derive_continuation_id :: "u64 \<Rightarrow> u64 \<Rightarrow> u64 \<Rightarrow> u64 \<Rightarrow> u64" where
  "derive_continuation_id execution incarnation progress generation =
     derive 0x1004 [execution, incarnation, progress, generation]"

definition derive_lease_id :: "u64 \<Rightarrow> u64 \<Rightarrow> u64 \<Rightarrow> u64 \<Rightarrow> u64" where
  "derive_lease_id execution worker boot generation =
     derive 0x1005 [execution, worker, boot, generation]"

definition derive_checkpoint_id :: "u64 \<Rightarrow> u64 \<Rightarrow> u64" where
  "derive_checkpoint_id execution generation = derive 0x1006 [execution, generation]"

definition derive_progress_id :: "u64 \<Rightarrow> u64 \<Rightarrow> u64" where
  "derive_progress_id execution generation = derive 0x1007 [execution, generation]"

definition derive_action_id :: "u64 \<Rightarrow> u64 \<Rightarrow> u64" where
  "derive_action_id execution ordinal = derive 0x1008 [execution, ordinal]"

definition derive_ambiguity_id :: "u64 \<Rightarrow> u64 \<Rightarrow> u64 \<Rightarrow> u64" where
  "derive_ambiguity_id execution action generation =
     derive 0x1009 [execution, action, generation]"

definition derive_recovery_id :: "u64 \<Rightarrow> u64 \<Rightarrow> u64" where
  "derive_recovery_id execution generation = derive 0x100a [execution, generation]"

definition derive_execution_id :: "u64 \<Rightarrow> u64 \<Rightarrow> u64" where
  "derive_execution_id store sequence = derive 0x100b [store, sequence]"

definition derive_incarnation_id :: "u64 \<Rightarrow> u64 \<Rightarrow> u64" where
  "derive_incarnation_id execution generation = derive 0x100c [execution, generation]"

definition derive_policy_id :: "u64 \<Rightarrow> u64 \<Rightarrow> u64" where
  "derive_policy_id execution generation = derive 0x100d [execution, generation]"

definition derive_attempt_id :: "u64 \<Rightarrow> u64 \<Rightarrow> u64" where
  "derive_attempt_id action generation = derive 0x100e [action, generation]"

section \<open>Facts\<close>

lemma enumerations_complete:
  "d \<in> set binding_domains" "cs \<in> set checkpoint_states" "ct \<in> set continuation_states"
  "ls \<in> set lease_states" "rs \<in> set replay_statuses" "ah \<in> set ambiguity_handlings"
  "rp \<in> set recovery_preferences" "sb \<in> set stale_binding_behaviors"
  "ra \<in> set replay_allowances" "dm \<in> set durability_modes"
  subgoal by (cases d) (simp_all add: binding_domains_def)
  subgoal by (cases cs) (simp_all add: checkpoint_states_def)
  subgoal by (cases ct) (simp_all add: continuation_states_def)
  subgoal by (cases ls) (simp_all add: lease_states_def)
  subgoal by (cases rs) (simp_all add: replay_statuses_def)
  subgoal by (cases ah) (simp_all add: ambiguity_handlings_def)
  subgoal by (cases rp) (simp_all add: recovery_preferences_def)
  subgoal by (cases sb) (simp_all add: stale_binding_behaviors_def)
  subgoal by (cases ra) (simp_all add: replay_allowances_def)
  subgoal by (cases dm) (simp_all add: durability_modes_def)
  done

section \<open>Canonical binding sets\<close>

lemma enum_domain_inj: "enum_ordinal binding_domains a = enum_ordinal binding_domains b \<longleftrightarrow> a = b"
  by (cases a; cases b; simp add: enum_ordinal_def binding_domains_def)

lemma bref_key_inj: "bref_key a = bref_key b \<longleftrightarrow> a = b"
proof -
  have "inj (map (of_char :: char \<Rightarrow> nat))" by (simp add: inj_def list_eq_iff_nth_eq) (metis nth_map of_char_eq_iff)
  then show ?thesis
    by (cases a; cases b) (auto simp: bref_key_def enum_domain_inj inj_eq)
qed

text \<open>The comparison is the lexicographic order of the keys, hence a strict linear order.\<close>

lemma bref_less_key: "bref_less a b \<longleftrightarrow> bref_key a < bref_key b"
  by (auto simp: bref_less_def bref_key_def enum_domain_inj less_prod_def')

fun differing_ids :: "BindingRef list \<Rightarrow> bool" where
  "differing_ids (a # b # refs) \<longleftrightarrow> bref_id a \<noteq> bref_id b \<and> differing_ids (b # refs)"
| "differing_ids _ = True"

lemma dedup_differing: "differing_ids (dedup_refs None refs)"
proof -
  have *: "differing_ids (b # dedup_refs (Some b) refs)" for b refs
    by (induction refs arbitrary: b) simp_all
  show "differing_ids (dedup_refs None refs)" by (cases refs) (simp_all add: *)
qed

lemma dedup_id: "differing_ids refs \<Longrightarrow> dedup_refs None refs = refs"
proof -
  have "differing_ids (b # refs) \<Longrightarrow> dedup_refs (Some b) refs = refs" for b refs
    by (induction refs arbitrary: b) auto
  then show "differing_ids refs \<Longrightarrow> dedup_refs None refs = refs" by (cases refs) simp_all
qed

lemma remdups_differing: "differing_ids refs \<Longrightarrow> remdups_adj refs = refs"
  by (induction refs rule: differing_ids.induct) auto

lemma set_dedup: "set (dedup_refs prev refs) \<subseteq> set refs"
  by (induction prev refs rule: dedup_refs.induct) (auto split: option.splits)

lemma sorted_dedup:
  "sorted (map bref_key refs) \<Longrightarrow> sorted (map bref_key (dedup_refs prev refs))"
  by (induction prev refs rule: dedup_refs.induct) (use set_dedup in \<open>fastforce split: option.splits\<close>)+

lemma sorted_canonical: "sorted (map bref_key (bset_refs (canonicalize bs)))"
proof -
  have "inj bref_key" by (simp add: inj_def bref_key_inj)
  then have "map bref_key (remdups_adj (sort_refs (bset_refs bs))) =
      remdups_adj (map bref_key (sort_refs (bset_refs bs)))"
    by (simp add: remdups_adj_map_injective)
  then show ?thesis by (simp add: canonicalize_def sorted_dedup sort_refs_def sorted_remdups_adj)
qed

end
