(* ===== verification/Record_Codec.thy ===== *)
theory Record_Codec
  imports Records
begin

text \<open>
  The canonical encoding of every durable record: \<open>encode_record\<close> and \<open>decode_record\<close> of
  \<open>include/pef/codec.hpp\<close> unfolded over the \<open>RecordTraits\<close> of \<open>records.hpp\<close> and
  \<open>persistence.hpp\<close>. Each record is an interpretation of the locale \<open>field_codec\<close>: it reads
  back what it wrote, and only canonical bytes decode. \<open>wf_R\<close> says that the strings and
  vectors of a record are within the reader's bounds.
\<close>

section \<open>Chains of fields\<close>

named_theorems codec_reads \<open>reading back one written field\<close>
named_theorems codec_yields \<open>only canonical bytes are read\<close>

definition reads :: "DecodeLimits \<Rightarrow> 'a field_reader \<Rightarrow> bytes \<Rightarrow> 'a \<Rightarrow> bool" where
  "reads lim p bs a \<longleftrightarrow>
     (\<forall>pre rest. length pre + length bs + length rest \<le> max_total lim \<longrightarrow>
        p (mid lim pre (bs @ rest)) = (Some a, mid lim (pre @ bs) rest))"

lemma reads_and_then:
  "reads lim p u a \<Longrightarrow> reads lim (f a) u' b \<Longrightarrow> reads lim (and_then p f) (u @ u') b"
  by (simp add: reads_def)

lemma reads_last:
  "reads lim p u a \<Longrightarrow> reads lim (and_then p (\<lambda>a. decoded (g a))) u (g a)"
  by (simp add: reads_def)

context field_codec
begin

lemma reads_write: "wf lim a \<Longrightarrow> reads lim rd (wr a) a"
  by (simp add: reads_def read_write)

end

lemma codec_from_chain:
  assumes "\<And>lim a. ok lim a \<Longrightarrow> reads lim rd (wr a) a"
    and "yields rd (\<lambda>a used. used = wr a)"
  shows "field_codec wr rd ok"
  using assms by unfold_locales (auto simp: reads_def)

lemmas primitive_reads [codec_reads] =
  u8_codec.reads_write u32_codec.reads_write u64_codec.reads_write bool_codec.reads_write
  text_codec.reads_write

lemmas primitive_yields [codec_yields] =
  u8_codec.read_canonical u32_codec.read_canonical u64_codec.read_canonical
  bool_codec.read_canonical text_codec.read_canonical

interpretation ReplayAllowance_codec: field_codec "write_enum replay_allowances" "read_enum replay_allowances" any_value
  by (rule enum_codec) (simp_all add: enumerations_complete, simp_all add: replay_allowances_def)

interpretation AmbiguityHandling_codec: field_codec "write_enum ambiguity_handlings" "read_enum ambiguity_handlings" any_value
  by (rule enum_codec) (simp_all add: enumerations_complete, simp_all add: ambiguity_handlings_def)

interpretation RecoveryPreference_codec: field_codec "write_enum recovery_preferences" "read_enum recovery_preferences" any_value
  by (rule enum_codec) (simp_all add: enumerations_complete, simp_all add: recovery_preferences_def)

interpretation StaleBindingBehavior_codec: field_codec "write_enum stale_binding_behaviors" "read_enum stale_binding_behaviors" any_value
  by (rule enum_codec) (simp_all add: enumerations_complete, simp_all add: stale_binding_behaviors_def)

interpretation DurabilityMode_codec: field_codec "write_enum durability_modes" "read_enum durability_modes" any_value
  by (rule enum_codec) (simp_all add: enumerations_complete, simp_all add: durability_modes_def)

interpretation EvidenceKind_codec: field_codec "write_enum evidence_kinds" "read_enum evidence_kinds" any_value
  by (rule enum_codec) (simp_all add: evidence_kinds_complete, simp_all add: evidence_kinds_def)

interpretation BindingDomain_codec: field_codec "write_enum binding_domains" "read_enum binding_domains" any_value
  by (rule enum_codec) (simp_all add: enumerations_complete, simp_all add: binding_domains_def)

interpretation SideEffectClass_codec: field_codec "write_enum side_effect_classes" "read_enum side_effect_classes" any_value
  by (rule enum_codec) (simp_all add: side_effect_classes_complete, simp_all add: side_effect_classes_def)

interpretation ActionStatus_codec: field_codec "write_enum action_statuses" "read_enum action_statuses" any_value
  by (rule enum_codec) (simp_all add: action_statuses_complete, simp_all add: action_statuses_def)

interpretation CheckpointState_codec: field_codec "write_enum checkpoint_states" "read_enum checkpoint_states" any_value
  by (rule enum_codec) (simp_all add: enumerations_complete, simp_all add: checkpoint_states_def)

interpretation ContinuationState_codec: field_codec "write_enum continuation_states" "read_enum continuation_states" any_value
  by (rule enum_codec) (simp_all add: enumerations_complete, simp_all add: continuation_states_def)

interpretation LeaseState_codec: field_codec "write_enum lease_states" "read_enum lease_states" any_value
  by (rule enum_codec) (simp_all add: enumerations_complete, simp_all add: lease_states_def)

interpretation ReplayStatus_codec: field_codec "write_enum replay_statuses" "read_enum replay_statuses" any_value
  by (rule enum_codec) (simp_all add: enumerations_complete, simp_all add: replay_statuses_def)

interpretation AmbiguityState_codec: field_codec "write_enum ambiguity_states" "read_enum ambiguity_states" any_value
  by (rule enum_codec) (simp_all add: ambiguity_states_complete, simp_all add: ambiguity_states_def)

interpretation Lifecycle_codec: field_codec "write_enum lifecycles" "read_enum lifecycles" any_value
  by (rule enum_codec) (simp_all add: lifecycles_complete, simp_all add: lifecycles_def)

lemmas enum_reads [codec_reads] =
  ReplayAllowance_codec.reads_write AmbiguityHandling_codec.reads_write
  RecoveryPreference_codec.reads_write StaleBindingBehavior_codec.reads_write
  DurabilityMode_codec.reads_write EvidenceKind_codec.reads_write
  BindingDomain_codec.reads_write SideEffectClass_codec.reads_write
  ActionStatus_codec.reads_write CheckpointState_codec.reads_write
  ContinuationState_codec.reads_write LeaseState_codec.reads_write
  ReplayStatus_codec.reads_write AmbiguityState_codec.reads_write Lifecycle_codec.reads_write

lemmas enum_yields [codec_yields] =
  ReplayAllowance_codec.read_canonical AmbiguityHandling_codec.read_canonical
  RecoveryPreference_codec.read_canonical StaleBindingBehavior_codec.read_canonical
  DurabilityMode_codec.read_canonical EvidenceKind_codec.read_canonical
  BindingDomain_codec.read_canonical SideEffectClass_codec.read_canonical
  ActionStatus_codec.read_canonical CheckpointState_codec.read_canonical
  ContinuationState_codec.read_canonical LeaseState_codec.read_canonical
  ReplayStatus_codec.read_canonical AmbiguityState_codec.read_canonical
  Lifecycle_codec.read_canonical

section \<open>Records\<close>

subsection \<open>\<open>ExecutionPolicy\<close>\<close>

definition encode_ExecutionPolicy :: "ExecutionPolicy \<Rightarrow> bytes" where
  "encode_ExecutionPolicy r =
     w_u64 (pol_id r) @ w_u64 (pol_generation r) @ w_u32 (pol_checkpoint_interval_actions r) @
     w_boolean (pol_allow_older_checkpoints r) @ w_u32 (pol_max_checkpoints_per_execution r) @
     write_enum replay_allowances (pol_replay_allowance r) @ w_u32 (pol_max_replay_depth r) @
     w_boolean (pol_allow_recompute r) @
     write_enum ambiguity_handlings (pol_ambiguity_handling r) @
     w_boolean (pol_ambiguity_blocks_later_progress r) @
     write_enum recovery_preferences (pol_recovery_preference r) @
     w_boolean (pol_allow_recovery_from_failed r) @
     write_enum stale_binding_behaviors (pol_stale_binding_behavior r) @
     w_boolean (pol_policy_change_invalidates_continuations r) @
     write_enum durability_modes (pol_durability r) @ w_u32 (pol_max_action_history r) @
     w_u32 (pol_max_replay_records r) @ w_u32 (pol_max_ambiguity_records r) @
     w_u32 (pol_max_continuation_history r)"

definition decode_ExecutionPolicy :: "ExecutionPolicy field_reader" where
  "decode_ExecutionPolicy =
     and_then read_u64 (\<lambda>id.
     and_then read_u64 (\<lambda>generation.
     and_then read_u32 (\<lambda>checkpoint_interval_actions.
     and_then read_bool (\<lambda>allow_older_checkpoints.
     and_then read_u32 (\<lambda>max_checkpoints_per_execution.
     and_then (read_enum replay_allowances) (\<lambda>replay_allowance.
     and_then read_u32 (\<lambda>max_replay_depth.
     and_then read_bool (\<lambda>allow_recompute.
     and_then (read_enum ambiguity_handlings) (\<lambda>ambiguity_handling.
     and_then read_bool (\<lambda>ambiguity_blocks_later_progress.
     and_then (read_enum recovery_preferences) (\<lambda>recovery_preference.
     and_then read_bool (\<lambda>allow_recovery_from_failed.
     and_then (read_enum stale_binding_behaviors) (\<lambda>stale_binding_behavior.
     and_then read_bool (\<lambda>policy_change_invalidates_continuations.
     and_then (read_enum durability_modes) (\<lambda>durability.
     and_then read_u32 (\<lambda>max_action_history.
     and_then read_u32 (\<lambda>max_replay_records.
     and_then read_u32 (\<lambda>max_ambiguity_records.
     and_then read_u32 (\<lambda>max_continuation_history.
     decoded
       \<lparr>pol_id = id, pol_generation = generation,
        pol_checkpoint_interval_actions = checkpoint_interval_actions,
        pol_allow_older_checkpoints = allow_older_checkpoints,
        pol_max_checkpoints_per_execution = max_checkpoints_per_execution,
        pol_replay_allowance = replay_allowance, pol_max_replay_depth = max_replay_depth,
        pol_allow_recompute = allow_recompute, pol_ambiguity_handling = ambiguity_handling,
        pol_ambiguity_blocks_later_progress = ambiguity_blocks_later_progress,
        pol_recovery_preference = recovery_preference,
        pol_allow_recovery_from_failed = allow_recovery_from_failed,
        pol_stale_binding_behavior = stale_binding_behavior,
        pol_policy_change_invalidates_continuations = policy_change_invalidates_continuations,
        pol_durability = durability, pol_max_action_history = max_action_history,
        pol_max_replay_records = max_replay_records,
        pol_max_ambiguity_records = max_ambiguity_records,
        pol_max_continuation_history = max_continuation_history\<rparr>)))))))))))))))))))"

interpretation ExecutionPolicy_codec: field_codec encode_ExecutionPolicy decode_ExecutionPolicy any_value
proof (rule codec_from_chain)
  fix lim :: DecodeLimits and r :: ExecutionPolicy
  assume "any_value lim r"
  then show "reads lim decode_ExecutionPolicy (encode_ExecutionPolicy r) r"
    by (cases r, unfold encode_ExecutionPolicy_def decode_ExecutionPolicy_def) 
      (simp, ((rule reads_and_then, rule codec_reads, simp)+)?, rule reads_last, rule codec_reads, simp)
next
  show "yields decode_ExecutionPolicy (\<lambda>r used. used = encode_ExecutionPolicy r)"
    unfolding decode_ExecutionPolicy_def
    by ((rule yields_and_then, rule codec_yields)+, rule yields_decoded, simp add: encode_ExecutionPolicy_def)
qed

declare ExecutionPolicy_codec.reads_write [codec_reads] ExecutionPolicy_codec.read_canonical [codec_yields]

subsection \<open>\<open>Evidence\<close>\<close>

definition encode_Evidence :: "Evidence \<Rightarrow> bytes" where
  "encode_Evidence r =
     w_u64 (ev_id r) @ w_u64 (ev_generation r) @ write_enum evidence_kinds (ev_kind r) @
     w_text (ev_source r) @ w_u64 (ev_observed_sequence r) @ w_u64 (ev_observed_digest r)"

definition decode_Evidence :: "Evidence field_reader" where
  "decode_Evidence =
     and_then read_u64 (\<lambda>id.
     and_then read_u64 (\<lambda>generation.
     and_then (read_enum evidence_kinds) (\<lambda>kind.
     and_then read_text (\<lambda>source.
     and_then read_u64 (\<lambda>observed_sequence.
     and_then read_u64 (\<lambda>observed_digest.
     decoded
       \<lparr>ev_id = id, ev_generation = generation, ev_kind = kind, ev_source = source,
        ev_observed_sequence = observed_sequence, ev_observed_digest = observed_digest\<rparr>))))))"

definition wf_Evidence :: "DecodeLimits \<Rightarrow> Evidence \<Rightarrow> bool" where
  "wf_Evidence lim r \<longleftrightarrow> wf_text lim (ev_source r)"

interpretation Evidence_codec: field_codec encode_Evidence decode_Evidence wf_Evidence
proof (rule codec_from_chain)
  fix lim :: DecodeLimits and r :: Evidence
  assume "wf_Evidence lim r"
  then show "reads lim decode_Evidence (encode_Evidence r) r"
    by (cases r, unfold encode_Evidence_def decode_Evidence_def) 
      (simp add: wf_Evidence_def, ((rule reads_and_then, rule codec_reads, simp)+)?, rule reads_last, rule codec_reads, simp)
next
  show "yields decode_Evidence (\<lambda>r used. used = encode_Evidence r)"
    unfolding decode_Evidence_def
    by ((rule yields_and_then, rule codec_yields)+, rule yields_decoded, simp add: encode_Evidence_def)
qed

declare Evidence_codec.reads_write [codec_reads] Evidence_codec.read_canonical [codec_yields]

subsection \<open>\<open>BindingRef\<close>\<close>

definition encode_BindingRef :: "BindingRef \<Rightarrow> bytes" where
  "encode_BindingRef r =
     write_enum binding_domains (bref_domain r) @ w_u64 (bref_id r) @
     w_u64 (bref_generation r) @ w_text (bref_label r)"

definition decode_BindingRef :: "BindingRef field_reader" where
  "decode_BindingRef =
     and_then (read_enum binding_domains) (\<lambda>domain.
     and_then read_u64 (\<lambda>id.
     and_then read_u64 (\<lambda>generation.
     and_then read_text (\<lambda>label.
     decoded
       \<lparr>bref_domain = domain, bref_id = id, bref_generation = generation, bref_label = label\<rparr>))))"

definition wf_BindingRef :: "DecodeLimits \<Rightarrow> BindingRef \<Rightarrow> bool" where
  "wf_BindingRef lim r \<longleftrightarrow> wf_text lim (bref_label r)"

interpretation BindingRef_codec: field_codec encode_BindingRef decode_BindingRef wf_BindingRef
proof (rule codec_from_chain)
  fix lim :: DecodeLimits and r :: BindingRef
  assume "wf_BindingRef lim r"
  then show "reads lim decode_BindingRef (encode_BindingRef r) r"
    by (cases r, unfold encode_BindingRef_def decode_BindingRef_def) 
      (simp add: wf_BindingRef_def, ((rule reads_and_then, rule codec_reads, simp)+)?, rule reads_last, rule codec_reads, simp)
next
  show "yields decode_BindingRef (\<lambda>r used. used = encode_BindingRef r)"
    unfolding decode_BindingRef_def
    by ((rule yields_and_then, rule codec_yields)+, rule yields_decoded, simp add: encode_BindingRef_def)
qed

declare BindingRef_codec.reads_write [codec_reads] BindingRef_codec.read_canonical [codec_yields]

interpretation BindingRefs_codec: field_codec "write_vector encode_BindingRef"
  "read_vector decode_BindingRef" "wf_vector wf_BindingRef"
  by (rule BindingRef_codec.vector_codec)

declare BindingRefs_codec.reads_write [codec_reads] BindingRefs_codec.read_canonical [codec_yields]

subsection \<open>\<open>BindingSet\<close>\<close>

definition encode_BindingSet :: "BindingSet \<Rightarrow> bytes" where
  "encode_BindingSet r =
     write_vector encode_BindingRef (bset_refs r)"

definition decode_BindingSet :: "BindingSet field_reader" where
  "decode_BindingSet =
     and_then (read_vector decode_BindingRef) (\<lambda>refs.
     decoded
       \<lparr>bset_refs = refs\<rparr>)"

definition wf_BindingSet :: "DecodeLimits \<Rightarrow> BindingSet \<Rightarrow> bool" where
  "wf_BindingSet lim r \<longleftrightarrow> wf_vector wf_BindingRef lim (bset_refs r)"

interpretation BindingSet_codec: field_codec encode_BindingSet decode_BindingSet wf_BindingSet
proof (rule codec_from_chain)
  fix lim :: DecodeLimits and r :: BindingSet
  assume "wf_BindingSet lim r"
  then show "reads lim decode_BindingSet (encode_BindingSet r) r"
    by (cases r, unfold encode_BindingSet_def decode_BindingSet_def) 
      (simp add: wf_BindingSet_def, ((rule reads_and_then, rule codec_reads, simp)+)?, rule reads_last, rule codec_reads, simp)
next
  show "yields decode_BindingSet (\<lambda>r used. used = encode_BindingSet r)"
    unfolding decode_BindingSet_def
    by ((rule yields_and_then, rule codec_yields)+, rule yields_decoded, simp add: encode_BindingSet_def)
qed

declare BindingSet_codec.reads_write [codec_reads] BindingSet_codec.read_canonical [codec_yields]

subsection \<open>\<open>ActionRecord\<close>\<close>

definition encode_ActionRecord :: "ActionRecord \<Rightarrow> bytes" where
  "encode_ActionRecord r =
     w_u64 (act_id r) @ w_u64 (act_generation r) @ w_u64 (act_execution r) @
     w_u64 (act_execution_generation r) @ w_u64 (act_incarnation_generation r) @
     w_u64 (act_sequence r) @ w_u64 (act_attempt r) @ w_u64 (act_attempt_generation r) @
     write_enum side_effect_classes (act_effect_class r) @ w_text (act_request_key r) @
     write_enum action_statuses (act_status r) @ w_u64 (act_effect_id r) @
     w_u64 (act_effect_generation r) @ encode_Evidence (act_receipt r) @
     w_u64 (act_replay_generation r) @ w_u64 (act_replayed_from r) @
     w_u64 (act_replayed_from_generation r) @ w_u64 (act_commit r) @
     w_u32 (act_dispatch_count r)"

definition decode_ActionRecord :: "ActionRecord field_reader" where
  "decode_ActionRecord =
     and_then read_u64 (\<lambda>id.
     and_then read_u64 (\<lambda>generation.
     and_then read_u64 (\<lambda>execution.
     and_then read_u64 (\<lambda>execution_generation.
     and_then read_u64 (\<lambda>incarnation_generation.
     and_then read_u64 (\<lambda>sequence.
     and_then read_u64 (\<lambda>attempt.
     and_then read_u64 (\<lambda>attempt_generation.
     and_then (read_enum side_effect_classes) (\<lambda>effect_class.
     and_then read_text (\<lambda>request_key.
     and_then (read_enum action_statuses) (\<lambda>status.
     and_then read_u64 (\<lambda>effect_id.
     and_then read_u64 (\<lambda>effect_generation.
     and_then decode_Evidence (\<lambda>receipt.
     and_then read_u64 (\<lambda>replay_generation.
     and_then read_u64 (\<lambda>replayed_from.
     and_then read_u64 (\<lambda>replayed_from_generation.
     and_then read_u64 (\<lambda>commit.
     and_then read_u32 (\<lambda>dispatch_count.
     decoded
       \<lparr>act_id = id, act_generation = generation, act_execution = execution,
        act_execution_generation = execution_generation,
        act_incarnation_generation = incarnation_generation, act_sequence = sequence,
        act_attempt = attempt, act_attempt_generation = attempt_generation,
        act_effect_class = effect_class, act_request_key = request_key, act_status = status,
        act_effect_id = effect_id, act_effect_generation = effect_generation,
        act_receipt = receipt, act_replay_generation = replay_generation,
        act_replayed_from = replayed_from,
        act_replayed_from_generation = replayed_from_generation, act_commit = commit,
        act_dispatch_count = dispatch_count\<rparr>)))))))))))))))))))"

definition wf_ActionRecord :: "DecodeLimits \<Rightarrow> ActionRecord \<Rightarrow> bool" where
  "wf_ActionRecord lim r \<longleftrightarrow> wf_text lim (act_request_key r) \<and> wf_Evidence lim (act_receipt r)"

interpretation ActionRecord_codec: field_codec encode_ActionRecord decode_ActionRecord wf_ActionRecord
proof (rule codec_from_chain)
  fix lim :: DecodeLimits and r :: ActionRecord
  assume "wf_ActionRecord lim r"
  then show "reads lim decode_ActionRecord (encode_ActionRecord r) r"
    by (cases r, unfold encode_ActionRecord_def decode_ActionRecord_def) 
      (simp add: wf_ActionRecord_def, ((rule reads_and_then, rule codec_reads, simp)+)?, rule reads_last, rule codec_reads, simp)
next
  show "yields decode_ActionRecord (\<lambda>r used. used = encode_ActionRecord r)"
    unfolding decode_ActionRecord_def
    by ((rule yields_and_then, rule codec_yields)+, rule yields_decoded, simp add: encode_ActionRecord_def)
qed

declare ActionRecord_codec.reads_write [codec_reads] ActionRecord_codec.read_canonical [codec_yields]

subsection \<open>\<open>ProgressRecord\<close>\<close>

definition encode_ProgressRecord :: "ProgressRecord \<Rightarrow> bytes" where
  "encode_ProgressRecord r =
     w_u64 (prog_id r) @ w_u64 (prog_generation r) @ w_u64 (prog_execution r) @
     w_u64 (prog_execution_generation r) @ w_u64 (prog_action r) @
     w_u64 (prog_action_generation r) @ w_u64 (prog_commit r) @ w_u64 (prog_epoch r) @
     w_u64 (prog_ordinal r) @ w_boolean (prog_committed r) @ w_u64 (prog_durable_sequence r)"

definition decode_ProgressRecord :: "ProgressRecord field_reader" where
  "decode_ProgressRecord =
     and_then read_u64 (\<lambda>id.
     and_then read_u64 (\<lambda>generation.
     and_then read_u64 (\<lambda>execution.
     and_then read_u64 (\<lambda>execution_generation.
     and_then read_u64 (\<lambda>action.
     and_then read_u64 (\<lambda>action_generation.
     and_then read_u64 (\<lambda>commit.
     and_then read_u64 (\<lambda>epoch.
     and_then read_u64 (\<lambda>ordinal.
     and_then read_bool (\<lambda>committed.
     and_then read_u64 (\<lambda>durable_sequence.
     decoded
       \<lparr>prog_id = id, prog_generation = generation, prog_execution = execution,
        prog_execution_generation = execution_generation, prog_action = action,
        prog_action_generation = action_generation, prog_commit = commit, prog_epoch = epoch,
        prog_ordinal = ordinal, prog_committed = committed,
        prog_durable_sequence = durable_sequence\<rparr>)))))))))))"

interpretation ProgressRecord_codec: field_codec encode_ProgressRecord decode_ProgressRecord any_value
proof (rule codec_from_chain)
  fix lim :: DecodeLimits and r :: ProgressRecord
  assume "any_value lim r"
  then show "reads lim decode_ProgressRecord (encode_ProgressRecord r) r"
    by (cases r, unfold encode_ProgressRecord_def decode_ProgressRecord_def) 
      (simp, ((rule reads_and_then, rule codec_reads, simp)+)?, rule reads_last, rule codec_reads, simp)
next
  show "yields decode_ProgressRecord (\<lambda>r used. used = encode_ProgressRecord r)"
    unfolding decode_ProgressRecord_def
    by ((rule yields_and_then, rule codec_yields)+, rule yields_decoded, simp add: encode_ProgressRecord_def)
qed

declare ProgressRecord_codec.reads_write [codec_reads] ProgressRecord_codec.read_canonical [codec_yields]

subsection \<open>\<open>CheckpointRecord\<close>\<close>

definition encode_CheckpointRecord :: "CheckpointRecord \<Rightarrow> bytes" where
  "encode_CheckpointRecord r =
     w_u64 (ckpt_id r) @ w_u64 (ckpt_generation r) @ w_u64 (ckpt_execution r) @
     w_u64 (ckpt_execution_generation r) @ w_u64 (ckpt_incarnation_generation r) @
     w_u64 (ckpt_progress_generation r) @ w_u64 (ckpt_action_generation r) @
     w_u64 (ckpt_policy r) @ w_u64 (ckpt_policy_generation r) @
     encode_BindingSet (ckpt_bindings r) @ w_u64 (ckpt_epoch r) @ w_u64 (ckpt_worker r) @
     w_u64 (ckpt_boot r) @ w_u64 (ckpt_parent r) @ w_u64 (ckpt_parent_generation r) @
     w_u32 (ckpt_lineage_depth r) @ w_u64 (ckpt_effect_boundary_ordinal r) @
     w_u64 (ckpt_boundary_action r) @ w_u64 (ckpt_content_size r) @
     w_u64 (ckpt_content_hash r) @ write_enum checkpoint_states (ckpt_state r)"

definition decode_CheckpointRecord :: "CheckpointRecord field_reader" where
  "decode_CheckpointRecord =
     and_then read_u64 (\<lambda>id.
     and_then read_u64 (\<lambda>generation.
     and_then read_u64 (\<lambda>execution.
     and_then read_u64 (\<lambda>execution_generation.
     and_then read_u64 (\<lambda>incarnation_generation.
     and_then read_u64 (\<lambda>progress_generation.
     and_then read_u64 (\<lambda>action_generation.
     and_then read_u64 (\<lambda>policy.
     and_then read_u64 (\<lambda>policy_generation.
     and_then decode_BindingSet (\<lambda>bindings.
     and_then read_u64 (\<lambda>epoch.
     and_then read_u64 (\<lambda>worker.
     and_then read_u64 (\<lambda>boot.
     and_then read_u64 (\<lambda>parent.
     and_then read_u64 (\<lambda>parent_generation.
     and_then read_u32 (\<lambda>lineage_depth.
     and_then read_u64 (\<lambda>effect_boundary_ordinal.
     and_then read_u64 (\<lambda>boundary_action.
     and_then read_u64 (\<lambda>content_size.
     and_then read_u64 (\<lambda>content_hash.
     and_then (read_enum checkpoint_states) (\<lambda>state.
     decoded
       \<lparr>ckpt_id = id, ckpt_generation = generation, ckpt_execution = execution,
        ckpt_execution_generation = execution_generation,
        ckpt_incarnation_generation = incarnation_generation,
        ckpt_progress_generation = progress_generation,
        ckpt_action_generation = action_generation, ckpt_policy = policy,
        ckpt_policy_generation = policy_generation, ckpt_bindings = bindings,
        ckpt_epoch = epoch, ckpt_worker = worker, ckpt_boot = boot, ckpt_parent = parent,
        ckpt_parent_generation = parent_generation, ckpt_lineage_depth = lineage_depth,
        ckpt_effect_boundary_ordinal = effect_boundary_ordinal,
        ckpt_boundary_action = boundary_action, ckpt_content_size = content_size,
        ckpt_content_hash = content_hash, ckpt_state = state\<rparr>)))))))))))))))))))))"

definition wf_CheckpointRecord :: "DecodeLimits \<Rightarrow> CheckpointRecord \<Rightarrow> bool" where
  "wf_CheckpointRecord lim r \<longleftrightarrow> wf_BindingSet lim (ckpt_bindings r)"

interpretation CheckpointRecord_codec: field_codec encode_CheckpointRecord decode_CheckpointRecord wf_CheckpointRecord
proof (rule codec_from_chain)
  fix lim :: DecodeLimits and r :: CheckpointRecord
  assume "wf_CheckpointRecord lim r"
  then show "reads lim decode_CheckpointRecord (encode_CheckpointRecord r) r"
    by (cases r, unfold encode_CheckpointRecord_def decode_CheckpointRecord_def) 
      (simp add: wf_CheckpointRecord_def, ((rule reads_and_then, rule codec_reads, simp)+)?, rule reads_last, rule codec_reads, simp)
next
  show "yields decode_CheckpointRecord (\<lambda>r used. used = encode_CheckpointRecord r)"
    unfolding decode_CheckpointRecord_def
    by ((rule yields_and_then, rule codec_yields)+, rule yields_decoded, simp add: encode_CheckpointRecord_def)
qed

declare CheckpointRecord_codec.reads_write [codec_reads] CheckpointRecord_codec.read_canonical [codec_yields]

subsection \<open>\<open>ContinuationRecord\<close>\<close>

definition encode_ContinuationRecord :: "ContinuationRecord \<Rightarrow> bytes" where
  "encode_ContinuationRecord r =
     w_u64 (cont_id r) @ w_u64 (cont_generation r) @ w_u64 (cont_execution r) @
     w_u64 (cont_execution_generation r) @ w_u64 (cont_incarnation r) @
     w_u64 (cont_incarnation_generation r) @ w_u64 (cont_checkpoint r) @
     w_u64 (cont_checkpoint_generation r) @ w_u64 (cont_progress_generation r) @
     w_u64 (cont_action_generation r) @ w_u64 (cont_policy r) @
     w_u64 (cont_policy_generation r) @ encode_BindingSet (cont_bindings r) @
     w_u64 (cont_epoch r) @ w_u64 (cont_recovery r) @ w_u64 (cont_recovery_generation r) @
     write_enum continuation_states (cont_state r) @ w_u64 (cont_resume_ordinal r)"

definition decode_ContinuationRecord :: "ContinuationRecord field_reader" where
  "decode_ContinuationRecord =
     and_then read_u64 (\<lambda>id.
     and_then read_u64 (\<lambda>generation.
     and_then read_u64 (\<lambda>execution.
     and_then read_u64 (\<lambda>execution_generation.
     and_then read_u64 (\<lambda>incarnation.
     and_then read_u64 (\<lambda>incarnation_generation.
     and_then read_u64 (\<lambda>checkpoint.
     and_then read_u64 (\<lambda>checkpoint_generation.
     and_then read_u64 (\<lambda>progress_generation.
     and_then read_u64 (\<lambda>action_generation.
     and_then read_u64 (\<lambda>policy.
     and_then read_u64 (\<lambda>policy_generation.
     and_then decode_BindingSet (\<lambda>bindings.
     and_then read_u64 (\<lambda>epoch.
     and_then read_u64 (\<lambda>recovery.
     and_then read_u64 (\<lambda>recovery_generation.
     and_then (read_enum continuation_states) (\<lambda>state.
     and_then read_u64 (\<lambda>resume_ordinal.
     decoded
       \<lparr>cont_id = id, cont_generation = generation, cont_execution = execution,
        cont_execution_generation = execution_generation, cont_incarnation = incarnation,
        cont_incarnation_generation = incarnation_generation, cont_checkpoint = checkpoint,
        cont_checkpoint_generation = checkpoint_generation,
        cont_progress_generation = progress_generation,
        cont_action_generation = action_generation, cont_policy = policy,
        cont_policy_generation = policy_generation, cont_bindings = bindings,
        cont_epoch = epoch, cont_recovery = recovery,
        cont_recovery_generation = recovery_generation, cont_state = state,
        cont_resume_ordinal = resume_ordinal\<rparr>))))))))))))))))))"

definition wf_ContinuationRecord :: "DecodeLimits \<Rightarrow> ContinuationRecord \<Rightarrow> bool" where
  "wf_ContinuationRecord lim r \<longleftrightarrow> wf_BindingSet lim (cont_bindings r)"

interpretation ContinuationRecord_codec: field_codec encode_ContinuationRecord decode_ContinuationRecord wf_ContinuationRecord
proof (rule codec_from_chain)
  fix lim :: DecodeLimits and r :: ContinuationRecord
  assume "wf_ContinuationRecord lim r"
  then show "reads lim decode_ContinuationRecord (encode_ContinuationRecord r) r"
    by (cases r, unfold encode_ContinuationRecord_def decode_ContinuationRecord_def) 
      (simp add: wf_ContinuationRecord_def, ((rule reads_and_then, rule codec_reads, simp)+)?, rule reads_last, rule codec_reads, simp)
next
  show "yields decode_ContinuationRecord (\<lambda>r used. used = encode_ContinuationRecord r)"
    unfolding decode_ContinuationRecord_def
    by ((rule yields_and_then, rule codec_yields)+, rule yields_decoded, simp add: encode_ContinuationRecord_def)
qed

declare ContinuationRecord_codec.reads_write [codec_reads] ContinuationRecord_codec.read_canonical [codec_yields]

subsection \<open>\<open>LeaseRecord\<close>\<close>

definition encode_LeaseRecord :: "LeaseRecord \<Rightarrow> bytes" where
  "encode_LeaseRecord r =
     w_u64 (lease_id r) @ w_u64 (lease_generation r) @ w_u64 (lease_execution r) @
     w_u64 (lease_execution_generation r) @ w_u64 (lease_incarnation r) @
     w_u64 (lease_incarnation_generation r) @ w_u64 (lease_worker r) @ w_u64 (lease_boot r) @
     w_u64 (lease_epoch r) @ w_u64 (lease_policy_generation r) @
     encode_BindingSet (lease_bindings r) @ write_enum lease_states (lease_state r)"

definition decode_LeaseRecord :: "LeaseRecord field_reader" where
  "decode_LeaseRecord =
     and_then read_u64 (\<lambda>id.
     and_then read_u64 (\<lambda>generation.
     and_then read_u64 (\<lambda>execution.
     and_then read_u64 (\<lambda>execution_generation.
     and_then read_u64 (\<lambda>incarnation.
     and_then read_u64 (\<lambda>incarnation_generation.
     and_then read_u64 (\<lambda>worker.
     and_then read_u64 (\<lambda>boot.
     and_then read_u64 (\<lambda>epoch.
     and_then read_u64 (\<lambda>policy_generation.
     and_then decode_BindingSet (\<lambda>bindings.
     and_then (read_enum lease_states) (\<lambda>state.
     decoded
       \<lparr>lease_id = id, lease_generation = generation, lease_execution = execution,
        lease_execution_generation = execution_generation, lease_incarnation = incarnation,
        lease_incarnation_generation = incarnation_generation, lease_worker = worker,
        lease_boot = boot, lease_epoch = epoch, lease_policy_generation = policy_generation,
        lease_bindings = bindings, lease_state = state\<rparr>))))))))))))"

definition wf_LeaseRecord :: "DecodeLimits \<Rightarrow> LeaseRecord \<Rightarrow> bool" where
  "wf_LeaseRecord lim r \<longleftrightarrow> wf_BindingSet lim (lease_bindings r)"

interpretation LeaseRecord_codec: field_codec encode_LeaseRecord decode_LeaseRecord wf_LeaseRecord
proof (rule codec_from_chain)
  fix lim :: DecodeLimits and r :: LeaseRecord
  assume "wf_LeaseRecord lim r"
  then show "reads lim decode_LeaseRecord (encode_LeaseRecord r) r"
    by (cases r, unfold encode_LeaseRecord_def decode_LeaseRecord_def) 
      (simp add: wf_LeaseRecord_def, ((rule reads_and_then, rule codec_reads, simp)+)?, rule reads_last, rule codec_reads, simp)
next
  show "yields decode_LeaseRecord (\<lambda>r used. used = encode_LeaseRecord r)"
    unfolding decode_LeaseRecord_def
    by ((rule yields_and_then, rule codec_yields)+, rule yields_decoded, simp add: encode_LeaseRecord_def)
qed

declare LeaseRecord_codec.reads_write [codec_reads] LeaseRecord_codec.read_canonical [codec_yields]

subsection \<open>\<open>ReplayRecord\<close>\<close>

definition encode_ReplayRecord :: "ReplayRecord \<Rightarrow> bytes" where
  "encode_ReplayRecord r =
     w_u64 (rep_id r) @ w_u64 (rep_generation r) @ w_u64 (rep_execution r) @
     w_u64 (rep_execution_generation r) @ w_u64 (rep_action r) @
     w_u64 (rep_action_generation r) @ w_u64 (rep_new_action r) @
     w_u64 (rep_new_action_generation r) @
     write_enum side_effect_classes (rep_effect_class r) @ w_text (rep_request_key r) @
     w_u64 (rep_progress_generation r) @ w_u64 (rep_checkpoint_generation r) @
     w_u64 (rep_policy_generation r) @ w_u64 (rep_epoch r) @
     write_enum replay_statuses (rep_status r) @ encode_Evidence (rep_evidence r)"

definition decode_ReplayRecord :: "ReplayRecord field_reader" where
  "decode_ReplayRecord =
     and_then read_u64 (\<lambda>id.
     and_then read_u64 (\<lambda>generation.
     and_then read_u64 (\<lambda>execution.
     and_then read_u64 (\<lambda>execution_generation.
     and_then read_u64 (\<lambda>action.
     and_then read_u64 (\<lambda>action_generation.
     and_then read_u64 (\<lambda>new_action.
     and_then read_u64 (\<lambda>new_action_generation.
     and_then (read_enum side_effect_classes) (\<lambda>effect_class.
     and_then read_text (\<lambda>request_key.
     and_then read_u64 (\<lambda>progress_generation.
     and_then read_u64 (\<lambda>checkpoint_generation.
     and_then read_u64 (\<lambda>policy_generation.
     and_then read_u64 (\<lambda>epoch.
     and_then (read_enum replay_statuses) (\<lambda>status.
     and_then decode_Evidence (\<lambda>evidence.
     decoded
       \<lparr>rep_id = id, rep_generation = generation, rep_execution = execution,
        rep_execution_generation = execution_generation, rep_action = action,
        rep_action_generation = action_generation, rep_new_action = new_action,
        rep_new_action_generation = new_action_generation, rep_effect_class = effect_class,
        rep_request_key = request_key, rep_progress_generation = progress_generation,
        rep_checkpoint_generation = checkpoint_generation,
        rep_policy_generation = policy_generation, rep_epoch = epoch, rep_status = status,
        rep_evidence = evidence\<rparr>))))))))))))))))"

definition wf_ReplayRecord :: "DecodeLimits \<Rightarrow> ReplayRecord \<Rightarrow> bool" where
  "wf_ReplayRecord lim r \<longleftrightarrow> wf_text lim (rep_request_key r) \<and> wf_Evidence lim (rep_evidence r)"

interpretation ReplayRecord_codec: field_codec encode_ReplayRecord decode_ReplayRecord wf_ReplayRecord
proof (rule codec_from_chain)
  fix lim :: DecodeLimits and r :: ReplayRecord
  assume "wf_ReplayRecord lim r"
  then show "reads lim decode_ReplayRecord (encode_ReplayRecord r) r"
    by (cases r, unfold encode_ReplayRecord_def decode_ReplayRecord_def) 
      (simp add: wf_ReplayRecord_def, ((rule reads_and_then, rule codec_reads, simp)+)?, rule reads_last, rule codec_reads, simp)
next
  show "yields decode_ReplayRecord (\<lambda>r used. used = encode_ReplayRecord r)"
    unfolding decode_ReplayRecord_def
    by ((rule yields_and_then, rule codec_yields)+, rule yields_decoded, simp add: encode_ReplayRecord_def)
qed

declare ReplayRecord_codec.reads_write [codec_reads] ReplayRecord_codec.read_canonical [codec_yields]

subsection \<open>\<open>AmbiguityRecord\<close>\<close>

definition encode_AmbiguityRecord :: "AmbiguityRecord \<Rightarrow> bytes" where
  "encode_AmbiguityRecord r =
     w_u64 (amb_id r) @ w_u64 (amb_generation r) @ w_u64 (amb_execution r) @
     w_u64 (amb_execution_generation r) @ w_u64 (amb_action r) @
     w_u64 (amb_action_generation r) @ write_enum side_effect_classes (amb_effect_class r) @
     w_u64 (amb_action_ordinal r) @ write_enum ambiguity_states (amb_state r) @
     w_text (amb_reason r) @ encode_Evidence (amb_resolution_evidence r) @
     w_text (amb_resolution_note r)"

definition decode_AmbiguityRecord :: "AmbiguityRecord field_reader" where
  "decode_AmbiguityRecord =
     and_then read_u64 (\<lambda>id.
     and_then read_u64 (\<lambda>generation.
     and_then read_u64 (\<lambda>execution.
     and_then read_u64 (\<lambda>execution_generation.
     and_then read_u64 (\<lambda>action.
     and_then read_u64 (\<lambda>action_generation.
     and_then (read_enum side_effect_classes) (\<lambda>effect_class.
     and_then read_u64 (\<lambda>action_ordinal.
     and_then (read_enum ambiguity_states) (\<lambda>state.
     and_then read_text (\<lambda>reason.
     and_then decode_Evidence (\<lambda>resolution_evidence.
     and_then read_text (\<lambda>resolution_note.
     decoded
       \<lparr>amb_id = id, amb_generation = generation, amb_execution = execution,
        amb_execution_generation = execution_generation, amb_action = action,
        amb_action_generation = action_generation, amb_effect_class = effect_class,
        amb_action_ordinal = action_ordinal, amb_state = state, amb_reason = reason,
        amb_resolution_evidence = resolution_evidence, amb_resolution_note = resolution_note\<rparr>))))))))))))"

definition wf_AmbiguityRecord :: "DecodeLimits \<Rightarrow> AmbiguityRecord \<Rightarrow> bool" where
  "wf_AmbiguityRecord lim r \<longleftrightarrow> wf_text lim (amb_reason r) \<and> wf_Evidence lim (amb_resolution_evidence r) \<and> wf_text lim (amb_resolution_note r)"

interpretation AmbiguityRecord_codec: field_codec encode_AmbiguityRecord decode_AmbiguityRecord wf_AmbiguityRecord
proof (rule codec_from_chain)
  fix lim :: DecodeLimits and r :: AmbiguityRecord
  assume "wf_AmbiguityRecord lim r"
  then show "reads lim decode_AmbiguityRecord (encode_AmbiguityRecord r) r"
    by (cases r, unfold encode_AmbiguityRecord_def decode_AmbiguityRecord_def) 
      (simp add: wf_AmbiguityRecord_def, ((rule reads_and_then, rule codec_reads, simp)+)?, rule reads_last, rule codec_reads, simp)
next
  show "yields decode_AmbiguityRecord (\<lambda>r used. used = encode_AmbiguityRecord r)"
    unfolding decode_AmbiguityRecord_def
    by ((rule yields_and_then, rule codec_yields)+, rule yields_decoded, simp add: encode_AmbiguityRecord_def)
qed

declare AmbiguityRecord_codec.reads_write [codec_reads] AmbiguityRecord_codec.read_canonical [codec_yields]

subsection \<open>\<open>CommitRecord\<close>\<close>

definition encode_CommitRecord :: "CommitRecord \<Rightarrow> bytes" where
  "encode_CommitRecord r =
     w_u64 (com_id r) @ w_u64 (com_execution r) @ w_u64 (com_execution_generation r) @
     w_u64 (com_action r) @ w_u64 (com_action_generation r) @ w_u64 (com_progress r) @
     w_u64 (com_progress_generation r) @ w_u64 (com_epoch r) @ w_u64 (com_request r)"

definition decode_CommitRecord :: "CommitRecord field_reader" where
  "decode_CommitRecord =
     and_then read_u64 (\<lambda>id.
     and_then read_u64 (\<lambda>execution.
     and_then read_u64 (\<lambda>execution_generation.
     and_then read_u64 (\<lambda>action.
     and_then read_u64 (\<lambda>action_generation.
     and_then read_u64 (\<lambda>progress.
     and_then read_u64 (\<lambda>progress_generation.
     and_then read_u64 (\<lambda>epoch.
     and_then read_u64 (\<lambda>request.
     decoded
       \<lparr>com_id = id, com_execution = execution,
        com_execution_generation = execution_generation, com_action = action,
        com_action_generation = action_generation, com_progress = progress,
        com_progress_generation = progress_generation, com_epoch = epoch, com_request = request\<rparr>)))))))))"

interpretation CommitRecord_codec: field_codec encode_CommitRecord decode_CommitRecord any_value
proof (rule codec_from_chain)
  fix lim :: DecodeLimits and r :: CommitRecord
  assume "any_value lim r"
  then show "reads lim decode_CommitRecord (encode_CommitRecord r) r"
    by (cases r, unfold encode_CommitRecord_def decode_CommitRecord_def) 
      (simp, ((rule reads_and_then, rule codec_reads, simp)+)?, rule reads_last, rule codec_reads, simp)
next
  show "yields decode_CommitRecord (\<lambda>r used. used = encode_CommitRecord r)"
    unfolding decode_CommitRecord_def
    by ((rule yields_and_then, rule codec_yields)+, rule yields_decoded, simp add: encode_CommitRecord_def)
qed

declare CommitRecord_codec.reads_write [codec_reads] CommitRecord_codec.read_canonical [codec_yields]

subsection \<open>\<open>ExecutionRecord\<close>\<close>

definition encode_ExecutionRecord :: "ExecutionRecord \<Rightarrow> bytes" where
  "encode_ExecutionRecord r =
     w_u64 (exec_id r) @ w_u64 (exec_generation r) @ w_u64 (exec_incarnation r) @
     w_u64 (exec_incarnation_generation r) @ write_enum lifecycles (exec_lifecycle r) @
     w_u64 (exec_continuation r) @ w_u64 (exec_continuation_generation r) @
     w_u64 (exec_progress r) @ w_u64 (exec_progress_generation r) @
     w_u64 (exec_action_generation r) @ w_u64 (exec_action_frontier r) @
     w_u64 (exec_blocked_above_ordinal r) @ w_boolean (exec_blocked r) @
     w_u64 (exec_checkpoint r) @ w_u64 (exec_checkpoint_generation r) @ w_u64 (exec_policy r) @
     w_u64 (exec_policy_generation r) @ w_u64 (exec_epoch r) @ w_u64 (exec_worker r) @
     w_u64 (exec_boot r) @ w_u64 (exec_lease r) @ w_u64 (exec_lease_generation r) @
     w_u64 (exec_last_commit r) @ w_u64 (exec_recovery r) @
     w_u64 (exec_recovery_generation r) @ w_u64 (exec_ambiguity r) @
     w_u64 (exec_ambiguity_generation r) @ encode_BindingSet (exec_bindings r) @
     w_u64 (exec_committed_actions r) @ w_u64 (exec_replay_count r) @
     w_u64 (exec_created_sequence r)"

definition decode_ExecutionRecord :: "ExecutionRecord field_reader" where
  "decode_ExecutionRecord =
     and_then read_u64 (\<lambda>id.
     and_then read_u64 (\<lambda>generation.
     and_then read_u64 (\<lambda>incarnation.
     and_then read_u64 (\<lambda>incarnation_generation.
     and_then (read_enum lifecycles) (\<lambda>lifecycle.
     and_then read_u64 (\<lambda>continuation.
     and_then read_u64 (\<lambda>continuation_generation.
     and_then read_u64 (\<lambda>progress.
     and_then read_u64 (\<lambda>progress_generation.
     and_then read_u64 (\<lambda>action_generation.
     and_then read_u64 (\<lambda>action_frontier.
     and_then read_u64 (\<lambda>blocked_above_ordinal.
     and_then read_bool (\<lambda>blocked.
     and_then read_u64 (\<lambda>checkpoint.
     and_then read_u64 (\<lambda>checkpoint_generation.
     and_then read_u64 (\<lambda>policy.
     and_then read_u64 (\<lambda>policy_generation.
     and_then read_u64 (\<lambda>epoch.
     and_then read_u64 (\<lambda>worker.
     and_then read_u64 (\<lambda>boot.
     and_then read_u64 (\<lambda>lease.
     and_then read_u64 (\<lambda>lease_generation.
     and_then read_u64 (\<lambda>last_commit.
     and_then read_u64 (\<lambda>recovery.
     and_then read_u64 (\<lambda>recovery_generation.
     and_then read_u64 (\<lambda>ambiguity.
     and_then read_u64 (\<lambda>ambiguity_generation.
     and_then decode_BindingSet (\<lambda>bindings.
     and_then read_u64 (\<lambda>committed_actions.
     and_then read_u64 (\<lambda>replay_count.
     and_then read_u64 (\<lambda>created_sequence.
     decoded
       \<lparr>exec_id = id, exec_generation = generation, exec_incarnation = incarnation,
        exec_incarnation_generation = incarnation_generation, exec_lifecycle = lifecycle,
        exec_continuation = continuation,
        exec_continuation_generation = continuation_generation, exec_progress = progress,
        exec_progress_generation = progress_generation,
        exec_action_generation = action_generation, exec_action_frontier = action_frontier,
        exec_blocked_above_ordinal = blocked_above_ordinal, exec_blocked = blocked,
        exec_checkpoint = checkpoint, exec_checkpoint_generation = checkpoint_generation,
        exec_policy = policy, exec_policy_generation = policy_generation, exec_epoch = epoch,
        exec_worker = worker, exec_boot = boot, exec_lease = lease,
        exec_lease_generation = lease_generation, exec_last_commit = last_commit,
        exec_recovery = recovery, exec_recovery_generation = recovery_generation,
        exec_ambiguity = ambiguity, exec_ambiguity_generation = ambiguity_generation,
        exec_bindings = bindings, exec_committed_actions = committed_actions,
        exec_replay_count = replay_count, exec_created_sequence = created_sequence\<rparr>)))))))))))))))))))))))))))))))"

definition wf_ExecutionRecord :: "DecodeLimits \<Rightarrow> ExecutionRecord \<Rightarrow> bool" where
  "wf_ExecutionRecord lim r \<longleftrightarrow> wf_BindingSet lim (exec_bindings r)"

interpretation ExecutionRecord_codec: field_codec encode_ExecutionRecord decode_ExecutionRecord wf_ExecutionRecord
proof (rule codec_from_chain)
  fix lim :: DecodeLimits and r :: ExecutionRecord
  assume "wf_ExecutionRecord lim r"
  then show "reads lim decode_ExecutionRecord (encode_ExecutionRecord r) r"
    by (cases r, unfold encode_ExecutionRecord_def decode_ExecutionRecord_def) 
      (simp add: wf_ExecutionRecord_def, ((rule reads_and_then, rule codec_reads, simp)+)?, rule reads_last, rule codec_reads, simp)
next
  show "yields decode_ExecutionRecord (\<lambda>r used. used = encode_ExecutionRecord r)"
    unfolding decode_ExecutionRecord_def
    by ((rule yields_and_then, rule codec_yields)+, rule yields_decoded, simp add: encode_ExecutionRecord_def)
qed

declare ExecutionRecord_codec.reads_write [codec_reads] ExecutionRecord_codec.read_canonical [codec_yields]

subsection \<open>\<open>RecoveryRecord\<close>\<close>

definition encode_RecoveryRecord :: "RecoveryRecord \<Rightarrow> bytes" where
  "encode_RecoveryRecord r =
     w_u64 (rec_id r) @ w_u64 (rec_generation r) @ w_u64 (rec_execution r) @
     w_u64 (rec_execution_generation r) @ w_u8 (rec_decision r) @ w_u64 (rec_continuation r) @
     w_u64 (rec_continuation_generation r) @ w_u64 (rec_checkpoint r) @
     w_u64 (rec_checkpoint_generation r) @ w_u64 (rec_epoch r) @
     encode_Evidence (rec_evidence r) @ w_text (rec_explanation r)"

definition decode_RecoveryRecord :: "RecoveryRecord field_reader" where
  "decode_RecoveryRecord =
     and_then read_u64 (\<lambda>id.
     and_then read_u64 (\<lambda>generation.
     and_then read_u64 (\<lambda>execution.
     and_then read_u64 (\<lambda>execution_generation.
     and_then read_u8 (\<lambda>decision.
     and_then read_u64 (\<lambda>continuation.
     and_then read_u64 (\<lambda>continuation_generation.
     and_then read_u64 (\<lambda>checkpoint.
     and_then read_u64 (\<lambda>checkpoint_generation.
     and_then read_u64 (\<lambda>epoch.
     and_then decode_Evidence (\<lambda>evidence.
     and_then read_text (\<lambda>explanation.
     decoded
       \<lparr>rec_id = id, rec_generation = generation, rec_execution = execution,
        rec_execution_generation = execution_generation, rec_decision = decision,
        rec_continuation = continuation, rec_continuation_generation = continuation_generation,
        rec_checkpoint = checkpoint, rec_checkpoint_generation = checkpoint_generation,
        rec_epoch = epoch, rec_evidence = evidence, rec_explanation = explanation\<rparr>))))))))))))"

definition wf_RecoveryRecord :: "DecodeLimits \<Rightarrow> RecoveryRecord \<Rightarrow> bool" where
  "wf_RecoveryRecord lim r \<longleftrightarrow> wf_Evidence lim (rec_evidence r) \<and> wf_text lim (rec_explanation r)"

interpretation RecoveryRecord_codec: field_codec encode_RecoveryRecord decode_RecoveryRecord wf_RecoveryRecord
proof (rule codec_from_chain)
  fix lim :: DecodeLimits and r :: RecoveryRecord
  assume "wf_RecoveryRecord lim r"
  then show "reads lim decode_RecoveryRecord (encode_RecoveryRecord r) r"
    by (cases r, unfold encode_RecoveryRecord_def decode_RecoveryRecord_def) 
      (simp add: wf_RecoveryRecord_def, ((rule reads_and_then, rule codec_reads, simp)+)?, rule reads_last, rule codec_reads, simp)
next
  show "yields decode_RecoveryRecord (\<lambda>r used. used = encode_RecoveryRecord r)"
    unfolding decode_RecoveryRecord_def
    by ((rule yields_and_then, rule codec_yields)+, rule yields_decoded, simp add: encode_RecoveryRecord_def)
qed

declare RecoveryRecord_codec.reads_write [codec_reads] RecoveryRecord_codec.read_canonical [codec_yields]

subsection \<open>\<open>StoreMetaRecord\<close>\<close>

definition encode_StoreMetaRecord :: "StoreMetaRecord \<Rightarrow> bytes" where
  "encode_StoreMetaRecord r =
     w_u64 (meta_store r) @ w_u64 (meta_epoch r) @ w_u64 (meta_next_execution_sequence r) @
     w_u64 (meta_sequence r) @ w_u32 (meta_schema r)"

definition decode_StoreMetaRecord :: "StoreMetaRecord field_reader" where
  "decode_StoreMetaRecord =
     and_then read_u64 (\<lambda>store.
     and_then read_u64 (\<lambda>epoch.
     and_then read_u64 (\<lambda>next_execution_sequence.
     and_then read_u64 (\<lambda>sequence.
     and_then read_u32 (\<lambda>schema.
     decoded
       \<lparr>meta_store = store, meta_epoch = epoch,
        meta_next_execution_sequence = next_execution_sequence, meta_sequence = sequence,
        meta_schema = schema\<rparr>)))))"

interpretation StoreMetaRecord_codec: field_codec encode_StoreMetaRecord decode_StoreMetaRecord any_value
proof (rule codec_from_chain)
  fix lim :: DecodeLimits and r :: StoreMetaRecord
  assume "any_value lim r"
  then show "reads lim decode_StoreMetaRecord (encode_StoreMetaRecord r) r"
    by (cases r, unfold encode_StoreMetaRecord_def decode_StoreMetaRecord_def) 
      (simp, ((rule reads_and_then, rule codec_reads, simp)+)?, rule reads_last, rule codec_reads, simp)
next
  show "yields decode_StoreMetaRecord (\<lambda>r used. used = encode_StoreMetaRecord r)"
    unfolding decode_StoreMetaRecord_def
    by ((rule yields_and_then, rule codec_yields)+, rule yields_decoded, simp add: encode_StoreMetaRecord_def)
qed

declare StoreMetaRecord_codec.reads_write [codec_reads] StoreMetaRecord_codec.read_canonical [codec_yields]

subsection \<open>\<open>BarrierRecord\<close>\<close>

definition encode_BarrierRecord :: "BarrierRecord \<Rightarrow> bytes" where
  "encode_BarrierRecord r =
     w_u64 (bar_sequence r) @ w_u32 (bar_reason r)"

definition decode_BarrierRecord :: "BarrierRecord field_reader" where
  "decode_BarrierRecord =
     and_then read_u64 (\<lambda>sequence.
     and_then read_u32 (\<lambda>reason.
     decoded
       \<lparr>bar_sequence = sequence, bar_reason = reason\<rparr>))"

interpretation BarrierRecord_codec: field_codec encode_BarrierRecord decode_BarrierRecord any_value
proof (rule codec_from_chain)
  fix lim :: DecodeLimits and r :: BarrierRecord
  assume "any_value lim r"
  then show "reads lim decode_BarrierRecord (encode_BarrierRecord r) r"
    by (cases r, unfold encode_BarrierRecord_def decode_BarrierRecord_def) 
      (simp, ((rule reads_and_then, rule codec_reads, simp)+)?, rule reads_last, rule codec_reads, simp)
next
  show "yields decode_BarrierRecord (\<lambda>r used. used = encode_BarrierRecord r)"
    unfolding decode_BarrierRecord_def
    by ((rule yields_and_then, rule codec_yields)+, rule yields_decoded, simp add: encode_BarrierRecord_def)
qed

declare BarrierRecord_codec.reads_write [codec_reads] BarrierRecord_codec.read_canonical [codec_yields]

subsection \<open>\<open>CommitGroupRecord\<close>\<close>

definition encode_CommitGroupRecord :: "CommitGroupRecord \<Rightarrow> bytes" where
  "encode_CommitGroupRecord r =
     encode_CommitRecord (grp_commit r) @ encode_ProgressRecord (grp_progress r) @
     encode_ActionRecord (grp_action r) @ encode_ExecutionRecord (grp_execution r)"

definition decode_CommitGroupRecord :: "CommitGroupRecord field_reader" where
  "decode_CommitGroupRecord =
     and_then decode_CommitRecord (\<lambda>commit.
     and_then decode_ProgressRecord (\<lambda>progress.
     and_then decode_ActionRecord (\<lambda>action.
     and_then decode_ExecutionRecord (\<lambda>execution.
     decoded
       \<lparr>grp_commit = commit, grp_progress = progress, grp_action = action,
        grp_execution = execution\<rparr>))))"

definition wf_CommitGroupRecord :: "DecodeLimits \<Rightarrow> CommitGroupRecord \<Rightarrow> bool" where
  "wf_CommitGroupRecord lim r \<longleftrightarrow> wf_ActionRecord lim (grp_action r) \<and> wf_ExecutionRecord lim (grp_execution r)"

interpretation CommitGroupRecord_codec: field_codec encode_CommitGroupRecord decode_CommitGroupRecord wf_CommitGroupRecord
proof (rule codec_from_chain)
  fix lim :: DecodeLimits and r :: CommitGroupRecord
  assume "wf_CommitGroupRecord lim r"
  then show "reads lim decode_CommitGroupRecord (encode_CommitGroupRecord r) r"
    by (cases r, unfold encode_CommitGroupRecord_def decode_CommitGroupRecord_def) 
      (simp add: wf_CommitGroupRecord_def, ((rule reads_and_then, rule codec_reads, simp)+)?, rule reads_last, rule codec_reads, simp)
next
  show "yields decode_CommitGroupRecord (\<lambda>r used. used = encode_CommitGroupRecord r)"
    unfolding decode_CommitGroupRecord_def
    by ((rule yields_and_then, rule codec_yields)+, rule yields_decoded, simp add: encode_CommitGroupRecord_def)
qed

declare CommitGroupRecord_codec.reads_write [codec_reads] CommitGroupRecord_codec.read_canonical [codec_yields]

section \<open>Digest\<close>

text \<open>\<open>record_digest\<close> hashes the canonical encoding.\<close>

definition record_digest :: "('a \<Rightarrow> bytes) \<Rightarrow> 'a \<Rightarrow> u64" where
  "record_digest enc r = foldl fnv1a_step kFnvOffsetBasis (enc r)"

end
