(* ===== verification/Record_Table.thy ===== *)
theory Record_Table
  imports Record_Codec
begin

text \<open>
  \<open>RecordTable\<close> of \<open>include/pef/persistence.hpp\<close>: a vector of records in insertion order
  with a hash index from key to position. The model keeps both (\<open>RecordTable\<close>), with the
  index as a partial function, since only its lookups matter. The rest of the development
  works on the insertion-order vector alone (\<open>tbl_find\<close>, \<open>tbl_upsert\<close>, \<open>tbl_erase\<close>); the
  refinement lemmas show that the indexed table implements it.
\<close>

section \<open>The indexed table\<close>

record ('k, 'r) RecordTable =
  tab_records :: "'r list"
  tab_index :: "'k \<Rightarrow> nat option"

definition tab_empty :: "('k, 'r) RecordTable" where
  "tab_empty = \<lparr>tab_records = [], tab_index = (\<lambda>_. None)\<rparr>"

definition tab_find :: "'k \<Rightarrow> ('k, 'r) RecordTable \<Rightarrow> 'r option" where
  "tab_find k t = map_option (\<lambda>i. tab_records t ! i) (tab_index t k)"

definition tab_upsert :: "('r \<Rightarrow> 'k) \<Rightarrow> 'r \<Rightarrow> ('k, 'r) RecordTable \<Rightarrow> ('k, 'r) RecordTable" where
  "tab_upsert get r t =
     (case tab_index t (get r) of
        Some i \<Rightarrow> t\<lparr>tab_records := (tab_records t)[i := r]\<rparr>
      | None \<Rightarrow> t\<lparr>tab_records := tab_records t @ [r],
                 tab_index := (tab_index t)(get r \<mapsto> length (tab_records t))\<rparr>)"

definition tab_erase :: "'k \<Rightarrow> ('k, 'r) RecordTable \<Rightarrow> bool \<times> ('k, 'r) RecordTable" where
  "tab_erase k t =
     (case tab_index t k of
        None \<Rightarrow> (False, t)
      | Some pos \<Rightarrow>
          (True, t\<lparr>tab_records := take pos (tab_records t) @ drop (Suc pos) (tab_records t),
                   tab_index := (\<lambda>k'. if k' = k then None
                     else map_option (\<lambda>i. if i > pos then i - 1 else i) (tab_index t k'))\<rparr>))"

definition tab_canonical_order :: "('r \<Rightarrow> 'k::linorder) \<Rightarrow> ('k, 'r) RecordTable \<Rightarrow> 'r list" where
  "tab_canonical_order get t = sort_key get (tab_records t)"

text \<open>The index names exactly the positions of the vector.\<close>

definition tab_ok :: "('r \<Rightarrow> 'k) \<Rightarrow> ('k, 'r) RecordTable \<Rightarrow> bool" where
  "tab_ok get t \<longleftrightarrow>
     (\<forall>k i. tab_index t k = Some i \<longleftrightarrow> i < length (tab_records t) \<and> get (tab_records t ! i) = k)"

section \<open>The insertion-order table\<close>

definition tbl_find :: "('r \<Rightarrow> 'k) \<Rightarrow> 'k \<Rightarrow> 'r list \<Rightarrow> 'r option" where
  "tbl_find get k rs = find (\<lambda>r. get r = k) rs"

fun tbl_upsert :: "('r \<Rightarrow> 'k) \<Rightarrow> 'r \<Rightarrow> 'r list \<Rightarrow> 'r list" where
  "tbl_upsert get r [] = [r]"
| "tbl_upsert get r (x # xs) =
     (if get x = get r then r # xs else x # tbl_upsert get r xs)"

definition tbl_erase :: "('r \<Rightarrow> 'k) \<Rightarrow> 'k \<Rightarrow> 'r list \<Rightarrow> 'r list" where
  "tbl_erase get k rs = filter (\<lambda>r. get r \<noteq> k) rs"

definition tbl_ok :: "('r \<Rightarrow> 'k) \<Rightarrow> 'r list \<Rightarrow> bool" where
  "tbl_ok get rs \<longleftrightarrow> distinct (map get rs)"

lemma tbl_find_Nil [simp]: "tbl_find get k [] = None"
  by (simp add: tbl_find_def)

lemma tbl_find_Cons [simp]:
  "tbl_find get k (x # xs) = (if get x = k then Some x else tbl_find get k xs)"
  by (simp add: tbl_find_def)

lemma tbl_find_Some: "tbl_find get k rs = Some r \<Longrightarrow> r \<in> set rs \<and> get r = k"
  unfolding tbl_find_def by (rule find_Some_mem)

lemma tbl_find_None: "tbl_find get k rs = None \<longleftrightarrow> k \<notin> get ` set rs"
  by (induction rs) auto

lemma tbl_find_upsert [simp]:
  "tbl_find get k (tbl_upsert get r rs) = (if k = get r then Some r else tbl_find get k rs)"
  by (induction rs) auto

lemma set_tbl_upsert_subset: "set (tbl_upsert get r rs) \<subseteq> insert r (set rs)"
  by (induction rs) auto

lemma mem_tbl_upsert: "r \<in> set (tbl_upsert get r rs)"
  by (induction rs) auto

lemma map_tbl_upsert:
  "map get (tbl_upsert get r rs) = (if get r \<in> get ` set rs then map get rs else map get rs @ [get r])"
  by (induction rs) auto

lemma tbl_ok_upsert [simp]: "tbl_ok get rs \<Longrightarrow> tbl_ok get (tbl_upsert get r rs)"
  by (simp add: tbl_ok_def map_tbl_upsert)

lemma key_neq: "get y \<notin> get ` A \<Longrightarrow> x \<in> A \<Longrightarrow> get x \<noteq> get y"
  by (metis imageI)

lemma set_tbl_upsert:
  "tbl_ok get rs \<Longrightarrow> set (tbl_upsert get r rs) = insert r {x \<in> set rs. get x \<noteq> get r}"
proof (induction rs)
  case (Cons a rs)
  have "get x \<noteq> get a" if "x \<in> set rs" for x
    using Cons.prems that by (auto simp: tbl_ok_def intro: key_neq [THEN notE])
  with Cons show ?case by (auto simp: tbl_ok_def)
qed simp

lemma tbl_find_mem: "tbl_ok get rs \<Longrightarrow> r \<in> set rs \<Longrightarrow> tbl_find get (get r) rs = Some r"
  by (induction rs) (auto simp: tbl_ok_def)

lemma tbl_upsert_fresh: "tbl_find get (get r) rs = None \<Longrightarrow> tbl_upsert get r rs = rs @ [r]"
  by (induction rs) (auto split: if_splits)

lemma tbl_upsert_same: "tbl_find get (get r) rs = Some r \<Longrightarrow> tbl_upsert get r rs = rs"
  by (induction rs) (auto split: if_splits)

lemma tbl_upsert_upsert:
  "get r = get r' \<Longrightarrow> tbl_upsert get r (tbl_upsert get r' rs) = tbl_upsert get r rs"
  by (induction rs) auto

lemma tbl_ok_Nil [simp]: "tbl_ok get []"
  by (simp add: tbl_ok_def)

lemma tbl_ok_erase [simp]: "tbl_ok get rs \<Longrightarrow> tbl_ok get (tbl_erase get k rs)"
  by (simp add: tbl_ok_def tbl_erase_def distinct_map_filter)

lemma tbl_find_erase:
  "tbl_find get k' (tbl_erase get k rs) = (if k' = k then None else tbl_find get k' rs)"
  by (induction rs) (auto simp: tbl_erase_def)

section \<open>The contract of a record table\<close>

text \<open>
  What a client of a table relies on. Replaying a journal is a sequence of upserts: the
  last record of a key wins, and replaying the same sequence again changes no lookup.
\<close>

locale record_store =
  fixes key :: "'r \<Rightarrow> 'k"
    and lookup :: "'k \<Rightarrow> 't \<Rightarrow> 'r option"
    and upsert :: "'r \<Rightarrow> 't \<Rightarrow> 't"
    and empty :: "'t"
    and ok :: "'t \<Rightarrow> bool"
  assumes ok_empty: "ok empty"
    and ok_upsert: "ok t \<Longrightarrow> ok (upsert r t)"
    and lookup_empty: "lookup k empty = None"
    and lookup_upsert:
      "ok t \<Longrightarrow> lookup k (upsert r t) = (if k = key r then Some r else lookup k t)"
    and lookup_key: "ok t \<Longrightarrow> lookup k t = Some r \<Longrightarrow> key r = k"
begin

lemma ok_replay: "ok t \<Longrightarrow> ok (fold upsert rs t)"
  by (induction rs arbitrary: t) (simp_all add: ok_upsert)

lemma lookup_replay:
  "ok t \<Longrightarrow> lookup k (fold upsert rs t) =
     (case find (\<lambda>r. key r = k) (rev rs) of None \<Rightarrow> lookup k t | Some r \<Rightarrow> Some r)"
  by (induction rs arbitrary: t)
    (auto simp: ok_upsert lookup_upsert find_append split: option.splits)

lemma replay_idempotent:
  "ok t \<Longrightarrow> lookup k (fold upsert rs (fold upsert rs t)) = lookup k (fold upsert rs t)"
  by (simp add: lookup_replay ok_replay split: option.splits)

end

interpretation list_table: record_store get "tbl_find get" "tbl_upsert get" "[]" "tbl_ok get"
  for get :: "'r \<Rightarrow> 'k"
  by unfold_locales (auto dest: tbl_find_Some)

section \<open>Refinement\<close>

lemma tab_ok_empty: "tab_ok get tab_empty"
  by (simp add: tab_ok_def tab_empty_def)

lemma tab_index_Some:
  "tab_ok get t \<Longrightarrow> tab_index t k = Some i \<longleftrightarrow>
     i < length (tab_records t) \<and> get (tab_records t ! i) = k"
  by (simp add: tab_ok_def)

lemma tab_index_nth:
  "tab_ok get t \<Longrightarrow> i < length (tab_records t) \<Longrightarrow> tab_index t (get (tab_records t ! i)) = Some i"
  by (simp add: tab_index_Some)

lemma tab_ok_inj:
  assumes "tab_ok get t" "i < length (tab_records t)" "j < length (tab_records t)"
    and "get (tab_records t ! i) = get (tab_records t ! j)"
  shows "i = j"
  using assms unfolding tab_ok_def by (metis option.inject)

lemma tab_ok_distinct: "tab_ok get t \<Longrightarrow> tbl_ok get (tab_records t)"
  unfolding tbl_ok_def distinct_conv_nth by (auto dest: tab_ok_inj)

lemma tbl_find_nth:
  "tbl_ok get rs \<Longrightarrow> i < length rs \<Longrightarrow> tbl_find get (get (rs ! i)) rs = Some (rs ! i)"
  by (simp add: tbl_find_mem)

lemma tab_find_refines: "tab_ok get t \<Longrightarrow> tab_find k t = tbl_find get k (tab_records t)"
proof (cases "tab_index t k")
  case None
  assume ok: "tab_ok get t"
  with None have "k \<notin> get ` set (tab_records t)"
    by (auto simp: in_set_conv_nth tab_index_nth)
  with None show ?thesis
    using tbl_find_None [of get k "tab_records t"] by (simp add: tab_find_def)
next
  case (Some i)
  assume ok: "tab_ok get t"
  with Some have "i < length (tab_records t)" "get (tab_records t ! i) = k"
    by (simp_all add: tab_ok_def)
  with Some show ?thesis
    using tbl_find_nth [OF tab_ok_distinct [OF ok]] by (auto simp: tab_find_def)
qed

lemma tbl_upsert_update:
  "tbl_ok get rs \<Longrightarrow> i < length rs \<Longrightarrow> get (rs ! i) = get r \<Longrightarrow> tbl_upsert get r rs = rs[i := r]"
proof (induction rs arbitrary: i)
  case (Cons x xs)
  show ?case
  proof (cases i)
    case 0
    with Cons.prems show ?thesis by simp
  next
    case (Suc j)
    with Cons.prems have "xs ! j \<in> set xs" "get (xs ! j) = get r" "get x \<notin> get ` set xs"
      by (simp_all add: tbl_ok_def)
    then have "get x \<noteq> get r" by (metis imageI)
    with Suc Cons show ?thesis by (simp add: tbl_ok_def)
  qed
qed simp

lemma tab_upsert_refines:
  assumes ok: "tab_ok get t"
  shows "tab_records (tab_upsert get r t) = tbl_upsert get r (tab_records t)"
proof (cases "tab_index t (get r)")
  case None
  then have "tbl_find get (get r) (tab_records t) = None"
    using tab_find_refines [OF ok, of "get r"] by (simp add: tab_find_def)
  with None show ?thesis by (simp add: tab_upsert_def tbl_upsert_fresh)
next
  case (Some i)
  with ok have "i < length (tab_records t)" "get (tab_records t ! i) = get r"
    by (simp_all add: tab_ok_def)
  with Some show ?thesis
    using tbl_upsert_update [OF tab_ok_distinct [OF ok]] by (simp add: tab_upsert_def)
qed

lemma tab_ok_upsert:
  assumes ok: "tab_ok get t"
  shows "tab_ok get (tab_upsert get r t)"
proof (cases "tab_index t (get r)")
  case None
  then have fresh: "get (tab_records t ! i) \<noteq> get r" if "i < length (tab_records t)" for i
    using tab_index_nth [OF ok that] by auto
  have index: "tab_index (tab_upsert get r t) = (tab_index t)(get r \<mapsto> length (tab_records t))"
    and recs: "tab_records (tab_upsert get r t) = tab_records t @ [r]"
    using None by (simp_all add: tab_upsert_def)
  show ?thesis
    unfolding tab_ok_def index recs
    using fresh by (auto simp: nth_append less_Suc_eq tab_index_Some [OF ok])
next
  case (Some i)
  with ok have i: "i < length (tab_records t)" "get (tab_records t ! i) = get r"
    by (simp_all add: tab_index_Some)
  have index: "tab_index (tab_upsert get r t) = tab_index t"
    and recs: "tab_records (tab_upsert get r t) = (tab_records t)[i := r]"
    using Some by (simp_all add: tab_upsert_def)
  show ?thesis
    unfolding tab_ok_def index recs
    using i by (auto simp: nth_list_update tab_index_Some [OF ok])
qed

lemma tab_find_upsert:
  "tab_ok get t \<Longrightarrow> tab_find k (tab_upsert get r t) = (if k = get r then Some r else tab_find k t)"
  using tab_find_refines [OF tab_ok_upsert [of get t r], of k] tab_find_refines [of get t k]
  by (simp add: tab_upsert_refines [of get])

interpretation indexed_table: record_store get tab_find "tab_upsert get" tab_empty "tab_ok get"
  for get :: "'r \<Rightarrow> 'k"
proof
  show "tab_find k tab_empty = None" for k
    by (simp add: tab_find_def tab_empty_def)
  show "tab_ok get t \<Longrightarrow> tab_find k t = Some r \<Longrightarrow> get r = k" for t k r
    using tbl_find_Some by (fastforce simp: tab_find_refines)
qed (simp_all add: tab_ok_empty tab_ok_upsert tab_find_upsert)

lemma filter_key_take_drop:
  assumes "tbl_ok get rs" "pos < length rs" "get (rs ! pos) = k"
  shows "filter (\<lambda>r. get r \<noteq> k) rs = take pos rs @ drop (Suc pos) rs"
proof -
  obtain xs y ys where rs: "rs = xs @ y # ys" "length xs = pos"
    using id_take_nth_drop [OF assms(2)] assms(2) by (metis length_take less_imp_le min_absorb2)
  with assms(3) have "get y = k" by auto
  moreover have "get x \<noteq> get y" if "x \<in> set xs \<union> set ys" for x
    using assms(1) that 
    by (elim UnE) (auto simp: tbl_ok_def rs intro: key_neq [THEN notE])
  ultimately show ?thesis
    using rs by (auto simp: filter_id_conv)
qed

lemma tab_erase_refines:
  assumes ok: "tab_ok get t"
  shows "tab_records (snd (tab_erase k t)) = tbl_erase get k (tab_records t)"
    and "fst (tab_erase k t) \<longleftrightarrow> tbl_find get k (tab_records t) \<noteq> None"
proof -
  show "fst (tab_erase k t) \<longleftrightarrow> tbl_find get k (tab_records t) \<noteq> None"
    using tab_find_refines [OF ok, of k, symmetric]
    by (cases "tab_index t k") (auto simp: tab_erase_def tab_find_def)
  show "tab_records (snd (tab_erase k t)) = tbl_erase get k (tab_records t)"
  proof (cases "tab_index t k")
    case None
    then have "k \<notin> get ` set (tab_records t)"
      using ok by (auto simp: in_set_conv_nth tab_index_nth)
    then have "filter (\<lambda>r. get r \<noteq> k) (tab_records t) = tab_records t"
      by (auto simp: filter_id_conv)
    with None show ?thesis by (simp add: tab_erase_def tbl_erase_def)
  next
    case (Some pos)
    with ok have "pos < length (tab_records t)" "get (tab_records t ! pos) = k"
      by (simp_all add: tab_ok_def)
    with Some show ?thesis
      using filter_key_take_drop [OF tab_ok_distinct [OF ok]]
      by (simp add: tab_erase_def tbl_erase_def)
  qed
qed

lemma tab_ok_erase:
  assumes ok: "tab_ok get t"
  shows "tab_ok get (snd (tab_erase k t))"
proof (cases "tab_index t k")
  case None
  with ok show ?thesis by (simp add: tab_erase_def)
next
  case (Some pos)
  with ok have pos: "pos < length (tab_records t)" "get (tab_records t ! pos) = k"
    by (simp_all add: tab_ok_def)
  have recs: "tab_records (snd (tab_erase k t)) =
      take pos (tab_records t) @ drop (Suc pos) (tab_records t)"
    and index: "tab_index (snd (tab_erase k t)) k' = (if k' = k then None
      else map_option (\<lambda>i. if i > pos then i - 1 else i) (tab_index t k'))" for k'
    using Some by (simp_all add: tab_erase_def)
  have nth: "(take pos (tab_records t) @ drop (Suc pos) (tab_records t)) ! i =
      tab_records t ! (if i < pos then i else Suc i)" for i
    using pos by (simp add: nth_append)
  have uniq: "get (tab_records t ! i) = k \<longleftrightarrow> i = pos" if "i < length (tab_records t)" for i
    using tab_ok_inj [OF ok that pos(1)] pos(2) by auto
  have moved: "map_option (\<lambda>i. if i > pos then i - 1 else i) (tab_index t k') = Some i \<longleftrightarrow>
      tab_index t k' = Some (if i < pos then i else Suc i)" if "k' \<noteq> k" for k' i
  proof -
    have "tab_index t k' \<noteq> Some pos" using that pos by (simp add: tab_index_Some [OF ok])
    then show ?thesis by (cases "tab_index t k'") auto
  qed
  show ?thesis
    unfolding tab_ok_def
  proof (intro allI)
    fix k' i
    let ?j = "if i < pos then i else Suc i"
    have bound: "i < length (tab_records t) - 1 \<longleftrightarrow> ?j < length (tab_records t)"
      using pos by auto
    have "tab_index (snd (tab_erase k t)) k' = Some i \<longleftrightarrow>
        k' \<noteq> k \<and> ?j < length (tab_records t) \<and> get (tab_records t ! ?j) = k'"
    proof (cases "k' = k")
      case False
      then have "tab_index (snd (tab_erase k t)) k' = Some i \<longleftrightarrow> tab_index t k' = Some ?j"
        by (simp only: index if_False moved [OF False])
      with False show ?thesis by (simp only: tab_index_Some [OF ok] simp_thms)
    qed (simp add: index)
    also have "\<dots> \<longleftrightarrow> ?j < length (tab_records t) \<and> get (tab_records t ! ?j) = k'"
      using uniq [of ?j] by auto
    finally show "tab_index (snd (tab_erase k t)) k' = Some i \<longleftrightarrow>
      i < length (tab_records (snd (tab_erase k t))) \<and>
      get (tab_records (snd (tab_erase k t)) ! i) = k'"
      using pos bound by (simp add: recs nth)
  qed
qed

text \<open>
  The canonical order depends only on which records the table holds: tables with the same
  lookups materialise to the same vector.
\<close>

lemma tab_canonical_order_unique:
  assumes "tab_ok get t" "tab_ok get t'" "\<And>k. tab_find k t = tab_find k t'"
  shows "tab_canonical_order get t = tab_canonical_order get t'"
proof -
  have dist: "tbl_ok get (tab_records t)" "tbl_ok get (tab_records t')"
    using assms by (simp_all add: tab_ok_distinct)
  have find: "tbl_find get k (tab_records t) = tbl_find get k (tab_records t')" for k
    using assms(3) [of k] tab_find_refines [OF assms(1)] tab_find_refines [OF assms(2)] by simp
  have "x \<in> set (tab_records t) \<longleftrightarrow> tbl_find get (get x) (tab_records t) = Some x" for x
    using tbl_find_mem [OF dist(1)] by (auto dest: tbl_find_Some)
  moreover have "x \<in> set (tab_records t') \<longleftrightarrow> tbl_find get (get x) (tab_records t') = Some x" for x
    using tbl_find_mem [OF dist(2)] by (auto dest: tbl_find_Some)
  ultimately have "set (tab_records t) = set (tab_records t')"
    by (auto simp: find)
  moreover have "distinct (tab_records t)" "distinct (tab_records t')"
    using dist by (auto simp: tbl_ok_def distinct_map)
  moreover have "inj_on get (set (tab_records t))"
    using dist(1) by (simp add: tbl_ok_def distinct_map)
  ultimately show ?thesis
    unfolding tab_canonical_order_def
    using dist by (intro map_sorted_distinct_set_unique [where f = get]) 
      (simp_all add: tbl_ok_def distinct_map)
qed

lemma tab_find_erase:
  "tab_ok get t \<Longrightarrow> tab_find j (snd (tab_erase k t)) = (if j = k then None else tab_find j t)"
  using tab_find_refines [OF tab_ok_erase [of get t k], of j] tab_find_refines [of get t j]
  by (simp add: tab_erase_refines tbl_find_erase)

end
