(* ===== verification/Durable_State.thy ===== *)
theory Durable_State
  imports Record_Table
begin

text \<open>
  \<open>DurableState\<close> and its functions (\<open>include/pef/persistence.hpp\<close>,
  \<open>src/persistence.cpp\<close>): the tables, the snapshot payload, \<open>apply_record\<close> and
  \<open>reconcile_state\<close>. A journal entry is described by the datatype \<open>Entry\<close>, one
  constructor per \<open>RecordKind\<close> with the record it carries.
\<close>

section \<open>Record kinds\<close>

datatype RecordKind =
    StoreMeta | Policy | Execution | Action | Progress | Checkpoint | Continuation | Lease
  | Replay | Ambiguity | Commit | Recovery | Barrier | CommitGroup

text \<open>The kinds in the order of their ordinals, which start at 1.\<close>

definition record_kinds :: "RecordKind list" where
  "record_kinds = [StoreMeta, Policy, Execution, Action, Progress, Checkpoint, Continuation,
     Lease, Replay, Ambiguity, Commit, Recovery, Barrier, CommitGroup]"

definition kMaxRecordKind :: nat where
  "kMaxRecordKind = 14"

fun record_kind_ordinal :: "RecordKind \<Rightarrow> nat" where
  "record_kind_ordinal StoreMeta = 1"
| "record_kind_ordinal Policy = 2"
| "record_kind_ordinal Execution = 3"
| "record_kind_ordinal Action = 4"
| "record_kind_ordinal Progress = 5"
| "record_kind_ordinal Checkpoint = 6"
| "record_kind_ordinal Continuation = 7"
| "record_kind_ordinal Lease = 8"
| "record_kind_ordinal Replay = 9"
| "record_kind_ordinal Ambiguity = 10"
| "record_kind_ordinal Commit = 11"
| "record_kind_ordinal Recovery = 12"
| "record_kind_ordinal Barrier = 13"
| "record_kind_ordinal CommitGroup = 14"

fun record_kind_name :: "RecordKind \<Rightarrow> string" where
  "record_kind_name StoreMeta = ''STORE_META''"
| "record_kind_name Policy = ''POLICY''"
| "record_kind_name Execution = ''EXECUTION''"
| "record_kind_name Action = ''ACTION''"
| "record_kind_name Progress = ''PROGRESS''"
| "record_kind_name Checkpoint = ''CHECKPOINT''"
| "record_kind_name Continuation = ''CONTINUATION''"
| "record_kind_name Lease = ''LEASE''"
| "record_kind_name Replay = ''REPLAY''"
| "record_kind_name Ambiguity = ''AMBIGUITY''"
| "record_kind_name Commit = ''COMMIT''"
| "record_kind_name Recovery = ''RECOVERY''"
| "record_kind_name Barrier = ''BARRIER''"
| "record_kind_name CommitGroup = ''COMMIT_GROUP''"

definition parse_record_kind :: "string \<Rightarrow> RecordKind option" where
  "parse_record_kind text = find (\<lambda>k. record_kind_name k = text) record_kinds"

lemma record_kinds_nth: "record_kinds ! (record_kind_ordinal k - 1) = k"
  by (cases k) (simp_all add: record_kinds_def)

lemma record_kind_ordinal_bounds: "1 \<le> record_kind_ordinal k" "record_kind_ordinal k \<le> kMaxRecordKind"
  by (cases k; simp add: kMaxRecordKind_def)+

section \<open>The state\<close>

definition kPersistenceSchemaVersion :: u32 where
  "kPersistenceSchemaVersion = 1"

record DurableState =
  ds_store :: u64
  ds_epoch :: u64
  ds_sequence :: u64
  ds_next_execution_sequence :: u64
  ds_schema :: u32
  ds_policies :: "ExecutionPolicy list"
  ds_executions :: "ExecutionRecord list"
  ds_actions :: "ActionRecord list"
  ds_progress :: "ProgressRecord list"
  ds_checkpoints :: "CheckpointRecord list"
  ds_continuations :: "ContinuationRecord list"
  ds_leases :: "LeaseRecord list"
  ds_replays :: "ReplayRecord list"
  ds_ambiguities :: "AmbiguityRecord list"
  ds_commits :: "CommitRecord list"
  ds_recoveries :: "RecoveryRecord list"

definition empty_state :: DurableState where
  "empty_state =
     \<lparr>ds_store = 0, ds_epoch = 0, ds_sequence = 0, ds_next_execution_sequence = 1,
      ds_schema = 0, ds_policies = [], ds_executions = [], ds_actions = [], ds_progress = [],
      ds_checkpoints = [], ds_continuations = [], ds_leases = [], ds_replays = [],
      ds_ambiguities = [], ds_commits = [], ds_recoveries = []\<rparr>"

text \<open>\<open>DurableState::clear\<close> empties the tables and leaves the scalar fields.\<close>

definition ds_clear :: "DurableState \<Rightarrow> DurableState" where
  "ds_clear s = s\<lparr>ds_policies := [], ds_executions := [], ds_actions := [], ds_progress := [],
     ds_checkpoints := [], ds_continuations := [], ds_leases := [], ds_replays := [],
     ds_ambiguities := [], ds_commits := [], ds_recoveries := []\<rparr>"

definition find_policy :: "u64 \<Rightarrow> DurableState \<Rightarrow> ExecutionPolicy option" where
  "find_policy i s = tbl_find pol_id i (ds_policies s)"

definition find_execution :: "u64 \<Rightarrow> DurableState \<Rightarrow> ExecutionRecord option" where
  "find_execution i s = tbl_find exec_id i (ds_executions s)"

definition find_action :: "u64 \<Rightarrow> u64 \<Rightarrow> DurableState \<Rightarrow> ActionRecord option" where
  "find_action i g s = tbl_find action_key (ActionKey i g) (ds_actions s)"

definition find_progress :: "u64 \<Rightarrow> DurableState \<Rightarrow> ProgressRecord option" where
  "find_progress i s = tbl_find prog_id i (ds_progress s)"

definition find_checkpoint :: "u64 \<Rightarrow> DurableState \<Rightarrow> CheckpointRecord option" where
  "find_checkpoint i s = tbl_find ckpt_id i (ds_checkpoints s)"

definition find_continuation :: "u64 \<Rightarrow> DurableState \<Rightarrow> ContinuationRecord option" where
  "find_continuation i s = tbl_find cont_id i (ds_continuations s)"

definition find_lease :: "u64 \<Rightarrow> DurableState \<Rightarrow> LeaseRecord option" where
  "find_lease i s = tbl_find lease_id i (ds_leases s)"

definition find_replay :: "u64 \<Rightarrow> DurableState \<Rightarrow> ReplayRecord option" where
  "find_replay i s = tbl_find rep_id i (ds_replays s)"

definition find_ambiguity :: "u64 \<Rightarrow> DurableState \<Rightarrow> AmbiguityRecord option" where
  "find_ambiguity i s = tbl_find amb_id i (ds_ambiguities s)"

definition find_commit :: "u64 \<Rightarrow> DurableState \<Rightarrow> CommitRecord option" where
  "find_commit i s = tbl_find com_id i (ds_commits s)"

definition find_recovery :: "u64 \<Rightarrow> DurableState \<Rightarrow> RecoveryRecord option" where
  "find_recovery i s = tbl_find rec_id i (ds_recoveries s)"

definition put_policy :: "ExecutionPolicy \<Rightarrow> DurableState \<Rightarrow> DurableState" where
  "put_policy r s = s\<lparr>ds_policies := tbl_upsert pol_id r (ds_policies s)\<rparr>"

definition put_execution :: "ExecutionRecord \<Rightarrow> DurableState \<Rightarrow> DurableState" where
  "put_execution r s = s\<lparr>ds_executions := tbl_upsert exec_id r (ds_executions s)\<rparr>"

definition put_action :: "ActionRecord \<Rightarrow> DurableState \<Rightarrow> DurableState" where
  "put_action r s = s\<lparr>ds_actions := tbl_upsert action_key r (ds_actions s)\<rparr>"

definition put_progress :: "ProgressRecord \<Rightarrow> DurableState \<Rightarrow> DurableState" where
  "put_progress r s = s\<lparr>ds_progress := tbl_upsert prog_id r (ds_progress s)\<rparr>"

definition put_checkpoint :: "CheckpointRecord \<Rightarrow> DurableState \<Rightarrow> DurableState" where
  "put_checkpoint r s = s\<lparr>ds_checkpoints := tbl_upsert ckpt_id r (ds_checkpoints s)\<rparr>"

definition put_continuation :: "ContinuationRecord \<Rightarrow> DurableState \<Rightarrow> DurableState" where
  "put_continuation r s = s\<lparr>ds_continuations := tbl_upsert cont_id r (ds_continuations s)\<rparr>"

definition put_lease :: "LeaseRecord \<Rightarrow> DurableState \<Rightarrow> DurableState" where
  "put_lease r s = s\<lparr>ds_leases := tbl_upsert lease_id r (ds_leases s)\<rparr>"

definition put_replay :: "ReplayRecord \<Rightarrow> DurableState \<Rightarrow> DurableState" where
  "put_replay r s = s\<lparr>ds_replays := tbl_upsert rep_id r (ds_replays s)\<rparr>"

definition put_ambiguity :: "AmbiguityRecord \<Rightarrow> DurableState \<Rightarrow> DurableState" where
  "put_ambiguity r s = s\<lparr>ds_ambiguities := tbl_upsert amb_id r (ds_ambiguities s)\<rparr>"

definition put_commit :: "CommitRecord \<Rightarrow> DurableState \<Rightarrow> DurableState" where
  "put_commit r s = s\<lparr>ds_commits := tbl_upsert com_id r (ds_commits s)\<rparr>"

definition put_recovery :: "RecoveryRecord \<Rightarrow> DurableState \<Rightarrow> DurableState" where
  "put_recovery r s = s\<lparr>ds_recoveries := tbl_upsert rec_id r (ds_recoveries s)\<rparr>"

lemmas ds_find_defs =
  find_policy_def find_execution_def find_action_def find_progress_def find_checkpoint_def
  find_continuation_def find_lease_def find_replay_def find_ambiguity_def find_commit_def
  find_recovery_def

lemmas ds_put_defs =
  put_policy_def put_execution_def put_action_def put_progress_def put_checkpoint_def
  put_continuation_def put_lease_def put_replay_def put_ambiguity_def put_commit_def
  put_recovery_def

text \<open>\<open>find_latest_action\<close>: the record of the highest generation, the earlier one on a tie.\<close>

definition later_action :: "ActionRecord option \<Rightarrow> ActionRecord \<Rightarrow> ActionRecord option" where
  "later_action best r =
     (case best of
        None \<Rightarrow> Some r
      | Some b \<Rightarrow> if act_generation r > act_generation b then Some r else Some b)"

definition find_latest_action :: "u64 \<Rightarrow> DurableState \<Rightarrow> ActionRecord option" where
  "find_latest_action i s =
     foldl (\<lambda>best r. if act_id r \<noteq> i then best else later_action best r) None (ds_actions s)"

section \<open>Journal entries\<close>

datatype Entry =
    MetaEntry StoreMetaRecord
  | PolicyEntry ExecutionPolicy
  | ExecutionEntry ExecutionRecord
  | ActionEntry ActionRecord
  | ProgressEntry ProgressRecord
  | CheckpointEntry CheckpointRecord
  | ContinuationEntry ContinuationRecord
  | LeaseEntry LeaseRecord
  | ReplayEntry ReplayRecord
  | AmbiguityEntry AmbiguityRecord
  | CommitEntry CommitRecord
  | RecoveryEntry RecoveryRecord
  | BarrierEntry BarrierRecord
  | GroupEntry CommitGroupRecord

fun entry_kind :: "Entry \<Rightarrow> RecordKind" where
  "entry_kind (MetaEntry r) = StoreMeta"
| "entry_kind (PolicyEntry r) = Policy"
| "entry_kind (ExecutionEntry r) = Execution"
| "entry_kind (ActionEntry r) = Action"
| "entry_kind (ProgressEntry r) = Progress"
| "entry_kind (CheckpointEntry r) = Checkpoint"
| "entry_kind (ContinuationEntry r) = Continuation"
| "entry_kind (LeaseEntry r) = Lease"
| "entry_kind (ReplayEntry r) = Replay"
| "entry_kind (AmbiguityEntry r) = Ambiguity"
| "entry_kind (CommitEntry r) = Commit"
| "entry_kind (RecoveryEntry r) = Recovery"
| "entry_kind (BarrierEntry r) = Barrier"
| "entry_kind (GroupEntry r) = CommitGroup"

fun entry_payload :: "Entry \<Rightarrow> bytes" where
  "entry_payload (MetaEntry r) = encode_StoreMetaRecord r"
| "entry_payload (PolicyEntry r) = encode_ExecutionPolicy r"
| "entry_payload (ExecutionEntry r) = encode_ExecutionRecord r"
| "entry_payload (ActionEntry r) = encode_ActionRecord r"
| "entry_payload (ProgressEntry r) = encode_ProgressRecord r"
| "entry_payload (CheckpointEntry r) = encode_CheckpointRecord r"
| "entry_payload (ContinuationEntry r) = encode_ContinuationRecord r"
| "entry_payload (LeaseEntry r) = encode_LeaseRecord r"
| "entry_payload (ReplayEntry r) = encode_ReplayRecord r"
| "entry_payload (AmbiguityEntry r) = encode_AmbiguityRecord r"
| "entry_payload (CommitEntry r) = encode_CommitRecord r"
| "entry_payload (RecoveryEntry r) = encode_RecoveryRecord r"
| "entry_payload (BarrierEntry r) = encode_BarrierRecord r"
| "entry_payload (GroupEntry r) = encode_CommitGroupRecord r"

text \<open>The decoding half of the cases of \<open>apply_record\<close>.\<close>

fun decode_entry :: "RecordKind \<Rightarrow> bytes \<Rightarrow> Entry option" where
  "decode_entry StoreMeta b = map_option MetaEntry (decode_from_bytes decode_StoreMetaRecord b)"
| "decode_entry Policy b = map_option PolicyEntry (decode_from_bytes decode_ExecutionPolicy b)"
| "decode_entry Execution b =
     map_option ExecutionEntry (decode_from_bytes decode_ExecutionRecord b)"
| "decode_entry Action b = map_option ActionEntry (decode_from_bytes decode_ActionRecord b)"
| "decode_entry Progress b =
     map_option ProgressEntry (decode_from_bytes decode_ProgressRecord b)"
| "decode_entry Checkpoint b =
     map_option CheckpointEntry (decode_from_bytes decode_CheckpointRecord b)"
| "decode_entry Continuation b =
     map_option ContinuationEntry (decode_from_bytes decode_ContinuationRecord b)"
| "decode_entry Lease b = map_option LeaseEntry (decode_from_bytes decode_LeaseRecord b)"
| "decode_entry Replay b = map_option ReplayEntry (decode_from_bytes decode_ReplayRecord b)"
| "decode_entry Ambiguity b =
     map_option AmbiguityEntry (decode_from_bytes decode_AmbiguityRecord b)"
| "decode_entry Commit b = map_option CommitEntry (decode_from_bytes decode_CommitRecord b)"
| "decode_entry Recovery b =
     map_option RecoveryEntry (decode_from_bytes decode_RecoveryRecord b)"
| "decode_entry Barrier b = map_option BarrierEntry (decode_from_bytes decode_BarrierRecord b)"
| "decode_entry CommitGroup b =
     map_option GroupEntry (decode_from_bytes decode_CommitGroupRecord b)"

text \<open>The state change of each case; a foreign store id is refused.\<close>

fun apply_entry :: "Entry \<Rightarrow> DurableState \<Rightarrow> DurableState option" where
  "apply_entry (MetaEntry m) s =
     (if id_valid (ds_store s) \<and> meta_store m \<noteq> ds_store s then None
      else Some (s\<lparr>ds_store := meta_store m, ds_epoch := meta_epoch m,
        ds_next_execution_sequence := meta_next_execution_sequence m,
        ds_schema := meta_schema m\<rparr>))"
| "apply_entry (PolicyEntry r) s = Some (put_policy r s)"
| "apply_entry (ExecutionEntry r) s = Some (put_execution r s)"
| "apply_entry (ActionEntry r) s = Some (put_action r s)"
| "apply_entry (ProgressEntry r) s = Some (put_progress r s)"
| "apply_entry (CheckpointEntry r) s = Some (put_checkpoint r s)"
| "apply_entry (ContinuationEntry r) s = Some (put_continuation r s)"
| "apply_entry (LeaseEntry r) s = Some (put_lease r s)"
| "apply_entry (ReplayEntry r) s = Some (put_replay r s)"
| "apply_entry (AmbiguityEntry r) s = Some (put_ambiguity r s)"
| "apply_entry (CommitEntry r) s = Some (put_commit r s)"
| "apply_entry (RecoveryEntry r) s = Some (put_recovery r s)"
| "apply_entry (BarrierEntry r) s = Some s"
| "apply_entry (GroupEntry g) s =
     Some (put_execution (grp_execution g) (put_action (grp_action g)
       (put_progress (grp_progress g) (put_commit (grp_commit g) s))))"

definition apply_record :: "RecordKind \<Rightarrow> bytes \<Rightarrow> DurableState \<Rightarrow> DurableState option" where
  "apply_record kind payload s =
     (case decode_entry kind payload of None \<Rightarrow> None | Some e \<Rightarrow> apply_entry e s)"

section \<open>Snapshot payload\<close>

definition write_table :: "('r \<Rightarrow> 'k::linorder) \<Rightarrow> ('r \<Rightarrow> bytes) \<Rightarrow> 'r list \<Rightarrow> bytes" where
  "write_table get enc rs = write_vector enc (sort_key get rs)"

definition read_table :: "('r \<Rightarrow> 'k) \<Rightarrow> 'r field_reader \<Rightarrow> 'r list field_reader" where
  "read_table get p = and_then (read_vector p) (\<lambda>rs. decoded (fold (tbl_upsert get) rs []))"

definition encode_DurableState :: "DurableState \<Rightarrow> bytes" where
  "encode_DurableState s =
     w_u32 (ds_schema s) @ w_u64 (ds_store s) @ w_u64 (ds_epoch s) @ w_u64 (ds_sequence s) @
     w_u64 (ds_next_execution_sequence s) @
     write_table pol_id encode_ExecutionPolicy (ds_policies s) @
     write_table exec_id encode_ExecutionRecord (ds_executions s) @
     write_table action_key encode_ActionRecord (ds_actions s) @
     write_table prog_id encode_ProgressRecord (ds_progress s) @
     write_table ckpt_id encode_CheckpointRecord (ds_checkpoints s) @
     write_table cont_id encode_ContinuationRecord (ds_continuations s) @
     write_table lease_id encode_LeaseRecord (ds_leases s) @
     write_table rep_id encode_ReplayRecord (ds_replays s) @
     write_table amb_id encode_AmbiguityRecord (ds_ambiguities s) @
     write_table com_id encode_CommitRecord (ds_commits s) @
     write_table rec_id encode_RecoveryRecord (ds_recoveries s)"

definition reject :: "'a field_reader" where
  "reject r = (None, r)"

definition decode_DurableState :: "DurableState field_reader" where
  "decode_DurableState =
     and_then read_u32 (\<lambda>schema.
     and_then read_u64 (\<lambda>store.
     and_then read_u64 (\<lambda>epoch.
     and_then read_u64 (\<lambda>sequence.
     and_then read_u64 (\<lambda>next_execution_sequence.
     if schema \<noteq> kPersistenceSchemaVersion then reject else
     and_then (read_table pol_id decode_ExecutionPolicy) (\<lambda>policies.
     and_then (read_table exec_id decode_ExecutionRecord) (\<lambda>executions.
     and_then (read_table action_key decode_ActionRecord) (\<lambda>actions.
     and_then (read_table prog_id decode_ProgressRecord) (\<lambda>progress.
     and_then (read_table ckpt_id decode_CheckpointRecord) (\<lambda>checkpoints.
     and_then (read_table cont_id decode_ContinuationRecord) (\<lambda>continuations.
     and_then (read_table lease_id decode_LeaseRecord) (\<lambda>leases.
     and_then (read_table rep_id decode_ReplayRecord) (\<lambda>replays.
     and_then (read_table amb_id decode_AmbiguityRecord) (\<lambda>ambiguities.
     and_then (read_table com_id decode_CommitRecord) (\<lambda>commits.
     and_then (read_table rec_id decode_RecoveryRecord) (\<lambda>recoveries.
     decoded
       \<lparr>ds_store = store, ds_epoch = epoch, ds_sequence = sequence,
        ds_next_execution_sequence = next_execution_sequence, ds_schema = schema,
        ds_policies = policies, ds_executions = executions, ds_actions = actions,
        ds_progress = progress, ds_checkpoints = checkpoints,
        ds_continuations = continuations, ds_leases = leases, ds_replays = replays,
        ds_ambiguities = ambiguities, ds_commits = commits,
        ds_recoveries = recoveries\<rparr>))))))))))))))))"

section \<open>Reconciliation\<close>

text \<open>The first loop: the committed progress of highest generation and how many there are.\<close>

fun scan_progress ::
  "u64 \<Rightarrow> ProgressRecord list \<Rightarrow> ProgressRecord option \<times> u64 \<Rightarrow> ProgressRecord option \<times> u64" where
  "scan_progress e [] acc = acc"
| "scan_progress e (p # ps) (best, committed) =
     (if prog_execution p \<noteq> e \<or> \<not> prog_committed p then scan_progress e ps (best, committed)
      else scan_progress e ps
        (case best of
           None \<Rightarrow> Some p
         | Some b \<Rightarrow> if prog_generation p > prog_generation b then Some p else Some b,
         committed + 1))"

text \<open>The second loop: the frontier and the action generation at it.\<close>

fun scan_actions :: "u64 \<Rightarrow> ActionRecord list \<Rightarrow> u64 \<times> u64 \<Rightarrow> u64 \<times> u64" where
  "scan_actions e [] acc = acc"
| "scan_actions e (a # as) (frontier, generation) =
     (if act_execution a \<noteq> e then scan_actions e as (frontier, generation)
      else if act_sequence a > frontier then scan_actions e as (act_sequence a, act_generation a)
      else if act_sequence a = frontier \<and> act_generation a > generation
        then scan_actions e as (frontier, act_generation a)
      else scan_actions e as (frontier, generation))"

text \<open>The promotion at the end of the loop body.\<close>

definition promote_progress ::
  "ExecutionRecord \<Rightarrow> ProgressRecord \<Rightarrow> u64 \<Rightarrow> DurableState \<Rightarrow>
   (DurableState \<times> CommitGroupRecord) option" where
  "promote_progress execution best committed s =
     (let next' = execution\<lparr>exec_progress_generation := prog_generation best,
            exec_progress := prog_id best, exec_last_commit := prog_commit best,
            exec_committed_actions := committed\<rparr>
      in case find_commit (prog_commit best) s of
           None \<Rightarrow> None
         | Some commit \<Rightarrow>
             (case find_action (com_action commit) (com_action_generation commit) s of
                None \<Rightarrow> None
              | Some action \<Rightarrow>
                  (let unsealed = (act_status action \<noteq> Committed \<or>
                       act_commit action \<noteq> com_id commit);
                     sealed = (if unsealed then action\<lparr>act_status := Committed,
                       act_commit := com_id commit\<rparr> else action);
                     s1 = (if unsealed then put_action sealed s else s);
                     s2 = put_execution next' s1
                   in Some (s2, \<lparr>grp_commit = commit, grp_progress = best, grp_action = sealed,
                       grp_execution = next'\<rparr>))))"

text \<open>One iteration for one identity; the accumulator is (state, repairs, changed).\<close>

definition reconcile_execution ::
  "u64 \<Rightarrow> DurableState \<times> CommitGroupRecord list \<times> bool \<Rightarrow>
   DurableState \<times> CommitGroupRecord list \<times> bool" where
  "reconcile_execution identity acc =
     (case acc of (s, repairs, changed) \<Rightarrow>
      case find_execution identity s of
        None \<Rightarrow> (s, repairs, changed)
      | Some execution \<Rightarrow>
          (let (best, committed) = scan_progress (exec_id execution) (ds_progress s) (None, 0);
               (frontier, generation) = scan_actions (exec_id execution) (ds_actions s)
                 (exec_action_frontier execution, exec_action_generation execution);
               moved = frontier \<noteq> exec_action_frontier execution;
               execution1 = (if moved then execution\<lparr>exec_action_frontier := frontier,
                 exec_action_generation := generation\<rparr> else execution);
               s1 = (if moved then put_execution execution1 s else s);
               changed1 = (changed \<or> moved)
           in case best of
                None \<Rightarrow> (s1, repairs, changed1)
              | Some b \<Rightarrow>
                  if prog_generation b \<le> exec_progress_generation execution1
                  then (s1, repairs, changed1)
                  else (case promote_progress execution1 b committed s1 of
                          None \<Rightarrow> (s1, repairs, changed1)
                        | Some (s2, repair) \<Rightarrow> (s2, repairs @ [repair], True))))"

definition reconcile_state :: "DurableState \<Rightarrow> DurableState \<times> CommitGroupRecord list \<times> bool" where
  "reconcile_state s =
     fold reconcile_execution (map exec_id (sort_key exec_id (ds_executions s))) (s, [], False)"

section \<open>Entries and their bytes\<close>

fun wf_entry :: "Entry \<Rightarrow> bool" where
  "wf_entry (ExecutionEntry r) = wf_ExecutionRecord default_decode_limits r"
| "wf_entry (ActionEntry r) = wf_ActionRecord default_decode_limits r"
| "wf_entry (CheckpointEntry r) = wf_CheckpointRecord default_decode_limits r"
| "wf_entry (ContinuationEntry r) = wf_ContinuationRecord default_decode_limits r"
| "wf_entry (LeaseEntry r) = wf_LeaseRecord default_decode_limits r"
| "wf_entry (ReplayEntry r) = wf_ReplayRecord default_decode_limits r"
| "wf_entry (AmbiguityEntry r) = wf_AmbiguityRecord default_decode_limits r"
| "wf_entry (RecoveryEntry r) = wf_RecoveryRecord default_decode_limits r"
| "wf_entry (GroupEntry r) = wf_CommitGroupRecord default_decode_limits r"
| "wf_entry e = True"

lemmas record_decode_write =
  StoreMetaRecord_codec.decode_write ExecutionPolicy_codec.decode_write
  ExecutionRecord_codec.decode_write ActionRecord_codec.decode_write
  ProgressRecord_codec.decode_write CheckpointRecord_codec.decode_write
  ContinuationRecord_codec.decode_write LeaseRecord_codec.decode_write
  ReplayRecord_codec.decode_write AmbiguityRecord_codec.decode_write
  CommitRecord_codec.decode_write RecoveryRecord_codec.decode_write
  BarrierRecord_codec.decode_write CommitGroupRecord_codec.decode_write

lemmas record_decode_canonical =
  StoreMetaRecord_codec.decode_canonical ExecutionPolicy_codec.decode_canonical
  ExecutionRecord_codec.decode_canonical ActionRecord_codec.decode_canonical
  ProgressRecord_codec.decode_canonical CheckpointRecord_codec.decode_canonical
  ContinuationRecord_codec.decode_canonical LeaseRecord_codec.decode_canonical
  ReplayRecord_codec.decode_canonical AmbiguityRecord_codec.decode_canonical
  CommitRecord_codec.decode_canonical RecoveryRecord_codec.decode_canonical
  BarrierRecord_codec.decode_canonical CommitGroupRecord_codec.decode_canonical

lemma decode_entry_payload:
  "wf_entry e \<Longrightarrow> length (entry_payload e) \<le> max_total default_decode_limits \<Longrightarrow>
   decode_entry (entry_kind e) (entry_payload e) = Some e"
  by (cases e) (simp_all add: record_decode_write)

lemma decode_entry_canonical:
  "decode_entry k b = Some e \<Longrightarrow> k = entry_kind e \<and> b = entry_payload e"
  by (cases k) (auto dest: record_decode_canonical)

text \<open>The journal's entries as a state transformer: \<open>None\<close> when an entry is refused.\<close>

fun replay_entries :: "Entry list \<Rightarrow> DurableState \<Rightarrow> DurableState option" where
  "replay_entries [] s = Some s"
| "replay_entries (e # es) s =
     (case apply_entry e s of None \<Rightarrow> None | Some s' \<Rightarrow> replay_entries es s')"

lemma replay_entries_append:
  "replay_entries (es @ es') s =
     (case replay_entries es s of None \<Rightarrow> None | Some s' \<Rightarrow> replay_entries es' s')"
  by (induction es arbitrary: s) (auto split: option.splits)

section \<open>Well-formed states\<close>

definition state_ok :: "DurableState \<Rightarrow> bool" where
  "state_ok s \<longleftrightarrow>
     tbl_ok pol_id (ds_policies s) \<and> tbl_ok exec_id (ds_executions s) \<and>
     tbl_ok action_key (ds_actions s) \<and> tbl_ok prog_id (ds_progress s) \<and>
     tbl_ok ckpt_id (ds_checkpoints s) \<and> tbl_ok cont_id (ds_continuations s) \<and>
     tbl_ok lease_id (ds_leases s) \<and> tbl_ok rep_id (ds_replays s) \<and>
     tbl_ok amb_id (ds_ambiguities s) \<and> tbl_ok com_id (ds_commits s) \<and>
     tbl_ok rec_id (ds_recoveries s)"

lemma state_ok_empty: "state_ok empty_state"
  by (simp add: state_ok_def empty_state_def)

lemma state_ok_put [simp]:
  assumes "state_ok s"
  shows "state_ok (put_policy p s)" "state_ok (put_execution e s)" "state_ok (put_action a s)"
    "state_ok (put_progress q s)" "state_ok (put_checkpoint c s)"
    "state_ok (put_continuation t s)" "state_ok (put_lease l s)" "state_ok (put_replay r s)"
    "state_ok (put_ambiguity m s)" "state_ok (put_commit k s)" "state_ok (put_recovery v s)"
  using assms by (simp_all add: state_ok_def ds_put_defs)

lemma apply_entry_ok: "state_ok s \<Longrightarrow> apply_entry e s = Some s' \<Longrightarrow> state_ok s'"
  by (cases e) (auto split: if_splits simp: state_ok_def ds_put_defs)

lemma replay_entries_ok: "state_ok s \<Longrightarrow> replay_entries es s = Some s' \<Longrightarrow> state_ok s'"
  by (induction es arbitrary: s) (auto split: option.splits dest: apply_entry_ok)

section \<open>Snapshots\<close>

text \<open>The state with every table in canonical order: what a snapshot preserves.\<close>

definition canonical_state :: "DurableState \<Rightarrow> DurableState" where
  "canonical_state s = s\<lparr>ds_policies := sort_key pol_id (ds_policies s),
     ds_executions := sort_key exec_id (ds_executions s),
     ds_actions := sort_key action_key (ds_actions s),
     ds_progress := sort_key prog_id (ds_progress s),
     ds_checkpoints := sort_key ckpt_id (ds_checkpoints s),
     ds_continuations := sort_key cont_id (ds_continuations s),
     ds_leases := sort_key lease_id (ds_leases s),
     ds_replays := sort_key rep_id (ds_replays s),
     ds_ambiguities := sort_key amb_id (ds_ambiguities s),
     ds_commits := sort_key com_id (ds_commits s),
     ds_recoveries := sort_key rec_id (ds_recoveries s)\<rparr>"

lemma tbl_ok_sort [simp]: "tbl_ok get (sort_key k rs) = tbl_ok get rs"
  by (simp add: tbl_ok_def distinct_map)

lemma tbl_find_sort:
  assumes "tbl_ok get rs"
  shows "tbl_find get k (sort_key f rs) = tbl_find get k rs"
proof (cases "tbl_find get k rs")
  case None
  then show ?thesis using tbl_find_None [of get k rs] tbl_find_None [of get k "sort_key f rs"] by simp
next
  case (Some r)
  then have "r \<in> set (sort_key f rs)" "get r = k" by (auto dest: tbl_find_Some)
  then show ?thesis using tbl_find_mem [of get "sort_key f rs" r] assms Some by auto
qed

lemma fold_upsert_distinct:
  "tbl_ok get (acc @ rs) \<Longrightarrow> fold (tbl_upsert get) rs acc = acc @ rs"
proof (induction rs arbitrary: acc)
  case (Cons r rs)
  then have "get r \<notin> get ` set acc" by (auto simp: tbl_ok_def)
  then have "tbl_upsert get r acc = acc @ [r]"
    using tbl_find_None [of get "get r" acc] by (simp add: tbl_upsert_fresh)
  with Cons show ?case by simp
qed simp

text \<open>A table within the reader's bounds, with elements the element codec accepts.\<close>

lemma reads_table:
  assumes "field_codec enc dec ok" "wf_vector ok lim rs" "tbl_ok get rs"
  shows "reads lim (read_table get dec) (write_table get enc rs) (sort_key get rs)"
proof -
  have vec: "field_codec (write_vector enc) (read_vector dec) (wf_vector ok)"
    by (rule field_codec.vector_codec [OF assms(1)])
  have "wf_vector ok lim (sort_key get rs)"
    using assms(2) by (simp add: wf_vector_def list_all_iff)
  then have "reads lim (read_vector dec) (write_vector enc (sort_key get rs)) (sort_key get rs)"
    by (rule field_codec.reads_write [OF vec])
  moreover have "fold (tbl_upsert get) (sort_key get rs) [] = sort_key get rs"
    using fold_upsert_distinct [of get "[]" "sort_key get rs"] assms(3) by simp
  ultimately show ?thesis
    using reads_last [of lim "read_vector dec" _ "sort_key get rs" "\<lambda>rs. fold (tbl_upsert get) rs []"]
    by (simp add: read_table_def write_table_def)
qed

definition wf_state :: "DecodeLimits \<Rightarrow> DurableState \<Rightarrow> bool" where
  "wf_state lim s \<longleftrightarrow> ds_schema s = kPersistenceSchemaVersion \<and>
     wf_vector any_value lim (ds_policies s) \<and>
     wf_vector wf_ExecutionRecord lim (ds_executions s) \<and>
     wf_vector wf_ActionRecord lim (ds_actions s) \<and>
     wf_vector any_value lim (ds_progress s) \<and>
     wf_vector wf_CheckpointRecord lim (ds_checkpoints s) \<and>
     wf_vector wf_ContinuationRecord lim (ds_continuations s) \<and>
     wf_vector wf_LeaseRecord lim (ds_leases s) \<and>
     wf_vector wf_ReplayRecord lim (ds_replays s) \<and>
     wf_vector wf_AmbiguityRecord lim (ds_ambiguities s) \<and>
     wf_vector any_value lim (ds_commits s) \<and>
     wf_vector wf_RecoveryRecord lim (ds_recoveries s)"

lemmas table_reads =
  reads_table [OF ExecutionPolicy_codec.field_codec_axioms]
  reads_table [OF ExecutionRecord_codec.field_codec_axioms]
  reads_table [OF ActionRecord_codec.field_codec_axioms]
  reads_table [OF ProgressRecord_codec.field_codec_axioms]
  reads_table [OF CheckpointRecord_codec.field_codec_axioms]
  reads_table [OF ContinuationRecord_codec.field_codec_axioms]
  reads_table [OF LeaseRecord_codec.field_codec_axioms]
  reads_table [OF ReplayRecord_codec.field_codec_axioms]
  reads_table [OF AmbiguityRecord_codec.field_codec_axioms]
  reads_table [OF CommitRecord_codec.field_codec_axioms]
  reads_table [OF RecoveryRecord_codec.field_codec_axioms]

lemma reads_state:
  assumes "wf_state lim s" and "state_ok s"
  shows "reads lim decode_DurableState (encode_DurableState s) (canonical_state s)"
  using assms
  apply (cases s)
  apply (simp add: encode_DurableState_def decode_DurableState_def canonical_state_def
      state_ok_def)
  apply ((rule reads_and_then, rule primitive_reads, simp)+)
  apply (simp add: wf_state_def)
  apply ((rule reads_and_then, (rule table_reads; simp))+)
  apply (rule reads_last, (rule table_reads; simp))
  done

text \<open>
  A snapshot payload decodes to the same lookups: every table comes back in canonical
  order and every other field unchanged.
\<close>

lemma decode_encode_state:
  assumes "wf_state default_decode_limits s" "state_ok s"
    and "length (encode_DurableState s) \<le> max_total default_decode_limits"
  shows "decode_from_bytes decode_DurableState (encode_DurableState s) = Some (canonical_state s)"
  using reads_state [OF assms(1,2)] assms(3)
  by (auto simp: reads_def decode_from_bytes_def reader_on_mid
      dest!: spec [where x = "[]"] spec [where x = "[] :: bytes"])

lemma find_canonical:
  assumes "state_ok s"
  shows "find_policy i (canonical_state s) = find_policy i s"
    "find_execution i (canonical_state s) = find_execution i s"
    "find_action i g (canonical_state s) = find_action i g s"
    "find_progress i (canonical_state s) = find_progress i s"
    "find_checkpoint i (canonical_state s) = find_checkpoint i s"
    "find_continuation i (canonical_state s) = find_continuation i s"
    "find_lease i (canonical_state s) = find_lease i s"
    "find_replay i (canonical_state s) = find_replay i s"
    "find_ambiguity i (canonical_state s) = find_ambiguity i s"
    "find_commit i (canonical_state s) = find_commit i s"
    "find_recovery i (canonical_state s) = find_recovery i s"
  using assms by (simp_all add: ds_find_defs canonical_state_def tbl_find_sort state_ok_def)

end
