(* ===== verification/File_Store.thy ===== *)
theory File_Store
  imports Durable_State
begin

unbundle bit_operations_syntax

text \<open>
  \<open>FileDurableStore\<close> (\<open>include/pef/persistence.hpp\<close>, \<open>src/persistence.cpp\<close>): the journal
  and snapshot images, the record probe, and the operations on a store directory.

  The files of the directory are byte lists. The operating system decides whether each call
  succeeds: \<open>fs_io\<close> is the list of outcomes still to come, one per call (an empty list means
  success), and a failing write says how many bytes reached the file. The theorems hold for
  every such script. \<open>fs_synced\<close> is the length of the journal prefix that has been flushed.
  The two platform layers of the source differ in one visible respect, kept in the model:
  the POSIX append handle writes at the end of the file whatever its position, the Windows
  handle at its position.
\<close>

section \<open>Fixed-width fields\<close>

text \<open>The loop of \<open>read_le64\<close> runs from the highest byte down.\<close>

definition read_le64 :: "bytes \<Rightarrow> u64" where
  "read_le64 p = foldr (\<lambda>b v. push_bit 8 v OR ucast b) (take 8 p) 0"

definition read_le32 :: "bytes \<Rightarrow> u32" where
  "read_le32 p = ucast (p ! 0) OR push_bit 8 (ucast (p ! 1)) OR push_bit 16 (ucast (p ! 2)) OR
     push_bit 24 (ucast (p ! 3))"

definition read_le16 :: "bytes \<Rightarrow> u16" where
  "read_le16 p = ucast (p ! 0) OR push_bit 8 (ucast (p ! 1))"

definition write_le64 :: "u64 \<Rightarrow> bytes" where
  "write_le64 v = le_bytes 8 v"

definition write_le32 :: "u32 \<Rightarrow> bytes" where
  "write_le32 v = le_bytes 4 v"

definition write_le16 :: "u16 \<Rightarrow> bytes" where
  "write_le16 v = le_bytes 2 v"

section \<open>Images\<close>

definition kJournalMagic :: bytes where
  "kJournalMagic = map byte_of_char ''PEFJRN01''"

definition kSnapshotMagic :: bytes where
  "kSnapshotMagic = map byte_of_char ''PEFSNAP1''"

definition kRecordMagic :: u32 where
  "kRecordMagic = 0x50454652"

definition kJournalHeaderSize :: nat where
  "kJournalHeaderSize = 40"

definition kSnapshotHeaderSize :: nat where
  "kSnapshotHeaderSize = 56"

definition kRecordHeaderSize :: nat where
  "kRecordHeaderSize = 40"

definition kRecordTrailerSize :: nat where
  "kRecordTrailerSize = 8"

text \<open>A block followed by its checksum, the shape of every header and trailer.\<close>

definition with_crc :: "bytes \<Rightarrow> bytes" where
  "with_crc b = b @ write_le64 (crc64_ecma b)"

definition build_journal_header :: "u64 \<Rightarrow> u64 \<Rightarrow> bytes" where
  "build_journal_header store first =
     with_crc (kJournalMagic @ write_le32 kPersistenceSchemaVersion @ write_le16 0 @
       write_le16 0 @ write_le64 store @ write_le64 first)"

definition record_header :: "RecordKind \<Rightarrow> u64 \<Rightarrow> bytes \<Rightarrow> bytes" where
  "record_header kind sequence payload =
     write_le32 kRecordMagic @ write_le16 (word_of_nat (record_kind_ordinal kind)) @
     write_le16 0 @ write_le64 sequence @ write_le64 (word_of_nat (length payload)) @
     write_le64 (crc64_ecma payload)"

definition build_record_image :: "RecordKind \<Rightarrow> u64 \<Rightarrow> bytes \<Rightarrow> bytes" where
  "build_record_image kind sequence payload =
     with_crc (with_crc (record_header kind sequence payload) @ payload)"

definition build_snapshot_image :: "DurableState \<Rightarrow> bytes" where
  "build_snapshot_image state =
     (let body = encode_DurableState state in
      with_crc (with_crc (kSnapshotMagic @ write_le32 kPersistenceSchemaVersion @ write_le16 0 @
        write_le16 0 @ write_le64 (ds_store state) @ write_le64 (ds_sequence state) @
        write_le64 (word_of_nat (length body)) @ write_le64 (crc64_ecma body)) @ body))"

section \<open>The record probe\<close>

record StoreLimits =
  lim_max_journal_payload :: nat
  lim_max_snapshot_payload :: nat
  lim_max_journal_load_bytes :: nat

definition default_store_limits :: StoreLimits where
  "default_store_limits =
     \<lparr>lim_max_journal_payload = 8 * 1024 * 1024, lim_max_snapshot_payload = 512 * 1024 * 1024,
      lim_max_journal_load_bytes = 1024 * 1024 * 1024\<rparr>"

record RecordBoundary =
  rb_kind :: RecordKind
  rb_sequence :: u64
  rb_payload_offset :: nat
  rb_payload_size :: nat
  rb_total_size :: nat

text \<open>\<open>None\<close> is a boundary that is not \<open>valid\<close>.\<close>

definition probe_record :: "bytes \<Rightarrow> nat \<Rightarrow> StoreLimits \<Rightarrow> RecordBoundary option" where
  "probe_record data offset limits =
     (if offset + kRecordHeaderSize + kRecordTrailerSize > length data then None
      else let p = drop offset data in
      if read_le32 p \<noteq> kRecordMagic then None
      else if read_le64 (drop 32 p) \<noteq> crc64_ecma (take 32 p) then None
      else let raw_kind = read_le16 (drop 4 p) in
      if raw_kind = 0 \<or> unat raw_kind > kMaxRecordKind then None
      else let declared = read_le64 (drop 16 p) in
      if unat declared > lim_max_journal_payload limits then None
      else let payload_size = unat declared;
               total = kRecordHeaderSize + payload_size + kRecordTrailerSize in
      if offset + total > length data then None
      else let payload = drop kRecordHeaderSize p in
      if read_le64 (drop 24 p) \<noteq> crc64_ecma (take payload_size payload) then None
      else if read_le64 (drop payload_size payload) \<noteq>
              crc64_ecma (take (kRecordHeaderSize + payload_size) p) then None
      else Some \<lparr>rb_kind = record_kinds ! (unat raw_kind - 1), rb_sequence = read_le64 (drop 8 p),
             rb_payload_offset = offset + kRecordHeaderSize, rb_payload_size = payload_size,
             rb_total_size = total\<rparr>)"

lemma probe_record_total:
  "probe_record data offset limits = Some b \<Longrightarrow>
   0 < rb_total_size b \<and> offset + rb_total_size b \<le> length data"
  by (auto simp: probe_record_def Let_def kRecordHeaderSize_def split: if_splits)

lemma probe_record_size: "probe_record data offset limits = Some b \<Longrightarrow> 48 \<le> rb_total_size b"
  by (auto simp: probe_record_def Let_def kRecordHeaderSize_def kRecordTrailerSize_def split: if_splits)

section \<open>The store\<close>

datatype Platform = Windows | Posix

datatype IoOutcome = IoOk | IoFail nat

datatype DirState = Absent | NotADirectory | Directory

record FileStore =
  fs_platform :: Platform
  fs_dir :: DirState
  fs_journal :: "bytes option"
  fs_synced :: nat
  fs_snapshot :: "bytes option"
  fs_temp :: "bytes option"
  fs_io :: "IoOutcome list"
  fs_handle :: "nat option"
  fs_limits :: StoreLimits
  fs_last_sequence :: u64
  fs_journal_first_sequence :: u64
  fs_store_id :: u64
  fs_open :: bool

type_synonym 'a store_op = "(FileStore, 'a) status_op"

text \<open>The outcome of the next call of the operating system.\<close>

definition io_call :: "IoOutcome store_op" where
  "io_call s =
     (case fs_io s of
        [] \<Rightarrow> (Inr IoOk, s)
      | r # rs \<Rightarrow> (Inr r, s\<lparr>fs_io := rs\<rparr>))"

text \<open>A call with an all-or-nothing effect.\<close>

definition io_simple :: "(FileStore \<Rightarrow> FileStore) \<Rightarrow> unit store_op" where
  "io_simple f =
     pef_try io_call (\<lambda>r. case r of
       IoOk \<Rightarrow> op_modify f
     | IoFail n \<Rightarrow> op_fail PersistenceFailure)"

definition write_at :: "nat \<Rightarrow> bytes \<Rightarrow> bytes \<Rightarrow> bytes" where
  "write_at pos data file =
     take pos file @ replicate (pos - length file) 0 @ data @ drop (pos + length data) file"

text \<open>
  \<open>NativeFile::write\<close> on the journal handle. Every byte that reached the file before a
  failure stays there.
\<close>

definition journal_put :: "bytes \<Rightarrow> FileStore \<Rightarrow> FileStore" where
  "journal_put data s =
     (case (fs_journal s, fs_handle s) of
        (Some file, Some pos) \<Rightarrow>
          (let start = (case fs_platform s of Posix \<Rightarrow> length file | Windows \<Rightarrow> pos)
           in s\<lparr>fs_journal := Some (write_at start data file),
                fs_handle := Some (start + length data)\<rparr>)
      | _ \<Rightarrow> s)"

definition journal_write :: "bytes \<Rightarrow> unit store_op" where
  "journal_write data =
     op_read (\<lambda>s. if fs_handle s = None then op_fail PersistenceFailure
       else pef_try io_call (\<lambda>r. case r of
         IoOk \<Rightarrow> op_modify (journal_put data)
       | IoFail n \<Rightarrow> pef_try (op_modify (journal_put (take n data)))
                     (\<lambda>_. op_fail PersistenceFailure)))"

definition mark_synced :: "FileStore \<Rightarrow> FileStore" where
  "mark_synced s = s\<lparr>fs_synced := (case fs_journal s of None \<Rightarrow> 0 | Some file \<Rightarrow> length file)\<rparr>"

definition journal_flush :: "unit store_op" where
  "journal_flush =
     op_read (\<lambda>s. if fs_handle s = None then op_fail PersistenceFailure else io_simple mark_synced)"

text \<open>\<open>open_append\<close>: the position starts at the end of the file, created when missing.\<close>

definition journal_open_append :: "unit store_op" where
  "journal_open_append =
     pef_try (op_modify (\<lambda>s. s\<lparr>fs_handle := None\<rparr>)) (\<lambda>_.
       io_simple (\<lambda>s. case fs_journal s of
         None \<Rightarrow> s\<lparr>fs_journal := Some [], fs_handle := Some 0\<rparr>
       | Some file \<Rightarrow> s\<lparr>fs_handle := Some (length file)\<rparr>))"

definition journal_seek :: "nat \<Rightarrow> unit store_op" where
  "journal_seek offset = io_simple (\<lambda>s. s\<lparr>fs_handle := Some offset\<rparr>)"

text \<open>
  A journal file created afresh: \<open>open_truncate\<close>, write of the header, flush, close. The
  local handle is not the store's append handle.
\<close>

definition create_journal :: "bytes \<Rightarrow> unit store_op" where
  "create_journal header =
     pef_try (io_simple (\<lambda>s. s\<lparr>fs_journal := Some [], fs_synced := 0\<rparr>)) (\<lambda>_.
     pef_try io_call (\<lambda>r. case r of
         IoFail n \<Rightarrow> pef_try (op_modify (\<lambda>s. s\<lparr>fs_journal := Some (take n header)\<rparr>))
                      (\<lambda>_. op_fail PersistenceFailure)
       | IoOk \<Rightarrow> pef_try (op_modify (\<lambda>s. s\<lparr>fs_journal := Some header\<rparr>)) (\<lambda>_.
           io_simple mark_synced)))"

text \<open>
  \<open>platform_sync_directory\<close> does nothing on Windows; on POSIX a directory that cannot be
  opened is not an error, a failing \<open>fsync\<close> is.
\<close>

definition sync_directory :: "unit store_op" where
  "sync_directory =
     op_read (\<lambda>s. case fs_platform s of
       Windows \<Rightarrow> op_return ()
     | Posix \<Rightarrow> pef_try io_call (\<lambda>r. case r of
         IoFail n \<Rightarrow> op_return ()
       | IoOk \<Rightarrow> io_simple id))"

definition read_file :: "(FileStore \<Rightarrow> bytes option) \<Rightarrow> nat \<Rightarrow> bytes option store_op" where
  "read_file sel max_bytes =
     op_read (\<lambda>s. pef_try io_call (\<lambda>r. case r of
       IoFail n \<Rightarrow> op_fail PersistenceFailure
     | IoOk \<Rightarrow> (case sel s of
         None \<Rightarrow> op_return None
       | Some file \<Rightarrow> if length file > max_bytes then op_fail LimitExceeded
                      else op_return (Some file))))"

definition op_guard :: "bool \<Rightarrow> Code \<Rightarrow> ('s, unit) status_op" where
  "op_guard b e = (if b then op_return () else op_fail e)"

section \<open>Opening\<close>

text \<open>The loop that finds the append position; the result is (offset, last sequence).\<close>

function scan_journal :: "StoreLimits \<Rightarrow> bytes \<Rightarrow> nat \<Rightarrow> u64 \<Rightarrow> nat \<times> u64" where
  "scan_journal limits data offset last_seq =
     (if offset < length data then
        (case probe_record data offset limits of
           None \<Rightarrow> (offset, last_seq)
         | Some b \<Rightarrow> scan_journal limits data (offset + rb_total_size b) (rb_sequence b))
      else (offset, last_seq))"
  by pat_completeness auto
termination
  by (relation "measure (\<lambda>(limits, data, offset, last_seq). length data - offset)")
    (auto dest!: probe_record_total)

declare scan_journal.simps [simp del]

definition header_check :: "bytes \<Rightarrow> Code option" where
  "header_check h =
     (if take 8 h \<noteq> kJournalMagic then Some CorruptState
      else if read_le64 (drop 32 h) \<noteq> crc64_ecma (take 32 h) then Some CorruptState
      else if read_le32 (drop 8 h) \<noteq> kPersistenceSchemaVersion then Some UnsupportedCode
      else None)"

definition open_directory :: "bool \<Rightarrow> unit store_op" where
  "open_directory create_if_missing =
     op_read (\<lambda>s. case fs_dir s of
       Absent \<Rightarrow> if \<not> create_if_missing then op_fail NotFound
                 else io_simple (\<lambda>s. s\<lparr>fs_dir := Directory\<rparr>)
     | NotADirectory \<Rightarrow> op_fail InvalidArgument
     | Directory \<Rightarrow> op_return ())"

definition ensure_journal :: "bool \<Rightarrow> u64 \<Rightarrow> unit store_op" where
  "ensure_journal create_if_missing entropy =
     op_read (\<lambda>s. if fs_journal s \<noteq> None then op_return ()
       else if \<not> create_if_missing then op_fail NotFound
       else pef_try (create_journal (build_journal_header entropy 1)) (\<lambda>_. sync_directory))"

definition adopt_journal :: "bytes \<Rightarrow> unit store_op" where
  "adopt_journal journal =
     op_read (\<lambda>s.
       case header_check journal of
         Some e \<Rightarrow> op_fail e
       | None \<Rightarrow>
         (let store = read_le64 (drop 16 journal); first = read_le64 (drop 24 journal) in
          pef_try (op_modify (\<lambda>s. s\<lparr>fs_store_id := store\<rparr>)) (\<lambda>_.
          pef_try (op_guard (id_valid store) CorruptState) (\<lambda>_.
          case scan_journal (fs_limits s) journal kJournalHeaderSize (first - 1) of
            (offset, last_seq) \<Rightarrow>
              pef_try (op_modify (\<lambda>s. s\<lparr>fs_journal_first_sequence := first,
                fs_last_sequence := last_seq\<rparr>)) (\<lambda>_.
              pef_try (if offset \<noteq> length journal then journal_seek offset else op_return ()) (\<lambda>_.
              op_modify (\<lambda>s. s\<lparr>fs_open := True\<rparr>)))))))"

definition store_open :: "bool \<Rightarrow> StoreLimits \<Rightarrow> u64 \<Rightarrow> unit store_op" where
  "store_open create_if_missing limits entropy =
     op_read (\<lambda>s. if fs_open s then op_fail InvalidArgument
     else pef_try (op_modify (\<lambda>s. s\<lparr>fs_limits := limits\<rparr>)) (\<lambda>_.
       pef_try (open_directory create_if_missing) (\<lambda>_.
       pef_try (ensure_journal create_if_missing entropy) (\<lambda>_.
       pef_try journal_open_append (\<lambda>_.
       pef_try (read_file fs_journal (lim_max_journal_load_bytes limits)) (\<lambda>journal.
       case journal of
         None \<Rightarrow> op_fail TruncatedState
       | Some file \<Rightarrow>
           if length file < kJournalHeaderSize then op_fail TruncatedState
           else adopt_journal file))))))"

section \<open>Appending\<close>

definition store_append :: "RecordKind \<Rightarrow> bytes \<Rightarrow> bool \<Rightarrow> u64 store_op" where
  "store_append kind payload flush_now =
     op_read (\<lambda>s.
       if \<not> fs_open s then op_fail PersistenceFailure
       else if length payload > lim_max_journal_payload (fs_limits s) then op_fail LimitExceeded
       else (let sequence = fs_last_sequence s + 1 in
         pef_try (journal_write (build_record_image kind sequence payload)) (\<lambda>_.
         pef_try (if flush_now then journal_flush else op_return ()) (\<lambda>_.
         pef_try (op_modify (\<lambda>s. s\<lparr>fs_last_sequence := sequence\<rparr>)) (\<lambda>_.
         op_return sequence)))))"

definition store_flush :: "unit store_op" where
  "store_flush = op_read (\<lambda>s. if \<not> fs_open s then op_fail PersistenceFailure else journal_flush)"

section \<open>Snapshots\<close>

definition write_temp :: "bytes \<Rightarrow> unit store_op" where
  "write_temp img =
     pef_try (io_simple (\<lambda>s. s\<lparr>fs_temp := Some []\<rparr>)) (\<lambda>_.
     pef_try io_call (\<lambda>r. case r of
         IoFail n \<Rightarrow> pef_try (op_modify (\<lambda>s. s\<lparr>fs_temp := Some (take n img)\<rparr>))
                      (\<lambda>_. op_fail PersistenceFailure)
       | IoOk \<Rightarrow> pef_try (op_modify (\<lambda>s. s\<lparr>fs_temp := Some img\<rparr>)) (\<lambda>_. io_simple id)))"

definition atomic_replace :: "unit store_op" where
  "atomic_replace = io_simple (\<lambda>s. s\<lparr>fs_snapshot := fs_temp s, fs_temp := None\<rparr>)"

text \<open>The journal is removed, created again with a fresh header, and reopened.\<close>

definition restart_journal :: "DurableState \<Rightarrow> unit store_op" where
  "restart_journal state =
     pef_try journal_flush (\<lambda>_.
     pef_try (op_modify (\<lambda>s. s\<lparr>fs_handle := None\<rparr>)) (\<lambda>_.
     pef_try (io_simple (\<lambda>s. s\<lparr>fs_journal := None, fs_synced := 0\<rparr>)) (\<lambda>_.
     pef_try (create_journal (build_journal_header (ds_store state) (ds_sequence state + 1))) (\<lambda>_.
     pef_try sync_directory (\<lambda>_.
     pef_try journal_open_append (\<lambda>_.
     op_modify (\<lambda>s. s\<lparr>fs_journal_first_sequence := ds_sequence state + 1,
       fs_last_sequence := ds_sequence state\<rparr>)))))))"

definition store_write_snapshot :: "DurableState \<Rightarrow> bool \<Rightarrow> unit store_op" where
  "store_write_snapshot state truncate_journal =
     op_read (\<lambda>s.
       if \<not> fs_open s then op_fail PersistenceFailure
       else (let img = build_snapshot_image state in
         if length img > lim_max_snapshot_payload (fs_limits s) then op_fail LimitExceeded
         else
           pef_try (write_temp img) (\<lambda>_.
           pef_try atomic_replace (\<lambda>_.
           pef_try sync_directory (\<lambda>_.
           if truncate_journal then restart_journal state else op_return ())))))"

definition store_close :: "unit store_op" where
  "store_close =
     op_read (\<lambda>s. if \<not> fs_open s then op_return ()
       else op_modify (\<lambda>s. s\<lparr>fs_handle := None, fs_open := False\<rparr>))"

section \<open>Loading\<close>

record LoadReport =
  lr_snapshot_present :: bool
  lr_journal_present :: bool
  lr_truncated_tail :: bool
  lr_corrupted :: bool
  lr_snapshot_sequence :: u64
  lr_records_loaded :: nat
  lr_records_skipped :: nat
  lr_bytes_ignored :: nat
  lr_corrupt_offset :: nat
  lr_detail :: string

definition empty_report :: LoadReport where
  "empty_report = \<lparr>lr_snapshot_present = False, lr_journal_present = False,
     lr_truncated_tail = False, lr_corrupted = False, lr_snapshot_sequence = 0,
     lr_records_loaded = 0, lr_records_skipped = 0, lr_bytes_ignored = 0,
     lr_corrupt_offset = 0, lr_detail = []\<rparr>"

definition report_clean :: "LoadReport \<Rightarrow> bool" where
  "report_clean r \<longleftrightarrow> \<not> lr_truncated_tail r \<and> \<not> lr_corrupted r"

text \<open>The checks of a snapshot image: the detail of the first failing one, or the state.\<close>

definition verify_snapshot :: "StoreLimits \<Rightarrow> bytes \<Rightarrow> string + DurableState" where
  "verify_snapshot limits snapshot =
     (if length snapshot < kSnapshotHeaderSize + kRecordTrailerSize
      then Inl ''snapshot is shorter than its header''
      else
        let p = snapshot;
            magic_ok = (take 8 p = kSnapshotMagic);
            header_ok = (read_le64 (drop 48 p) = crc64_ecma (take 48 p));
            declared = read_le64 (drop 32 p);
            size_ok = (unat declared \<le> lim_max_snapshot_payload limits \<and>
              length snapshot = kSnapshotHeaderSize + unat declared + kRecordTrailerSize);
            payload_ok = (size_ok \<and> read_le64 (drop 40 p) =
              crc64_ecma (take (unat declared) (drop kSnapshotHeaderSize p)));
            trailer_ok = (size_ok \<and> read_le64 (drop (kSnapshotHeaderSize + unat declared) p) =
              crc64_ecma (take (kSnapshotHeaderSize + unat declared) p));
            schema_ok = (read_le32 (drop 8 p) = kPersistenceSchemaVersion)
        in if magic_ok \<and> header_ok \<and> size_ok \<and> payload_ok \<and> trailer_ok \<and> schema_ok then
             (case decode_from_bytes decode_DurableState
                (take (unat declared) (drop kSnapshotHeaderSize p)) of
                Some state \<Rightarrow> Inr (state\<lparr>ds_sequence := read_le64 (drop 24 p)\<rparr>)
              | None \<Rightarrow> Inl ''snapshot payload does not decode'')
           else if \<not> magic_ok then Inl ''snapshot magic mismatch''
           else if \<not> header_ok then Inl ''snapshot header checksum mismatch''
           else if \<not> schema_ok then
             Inl ''snapshot schema version is not supported by this build''
           else if \<not> size_ok then
             Inl ''snapshot size does not match its declared payload length''
           else Inl ''snapshot payload checksum mismatch'')"

text \<open>
  The replay loop. It stops at the first boundary that is not valid (the returned offset),
  or fails when a readable record does not decode.
\<close>

function replay_journal ::
  "StoreLimits \<Rightarrow> bytes \<Rightarrow> u64 \<Rightarrow> nat \<Rightarrow> DurableState \<Rightarrow> LoadReport \<Rightarrow>
   (Code + nat) \<times> DurableState \<times> LoadReport" where
  "replay_journal limits data snapshot_sequence offset out report =
     (if offset < length data then
        (case probe_record data offset limits of
           None \<Rightarrow> (Inr offset, out, report\<lparr>lr_corrupt_offset := offset\<rparr>)
         | Some b \<Rightarrow>
             if rb_sequence b > snapshot_sequence then
               (case apply_record (rb_kind b)
                  (take (rb_payload_size b) (drop (rb_payload_offset b) data)) out of
                  None \<Rightarrow> (Inl CorruptState, out, report\<lparr>lr_corrupted := True,
                    lr_corrupt_offset := offset,
                    lr_detail := ''journal record payload does not decode''\<rparr>)
                | Some out' \<Rightarrow>
                    replay_journal limits data snapshot_sequence (offset + rb_total_size b)
                      (out'\<lparr>ds_sequence := rb_sequence b\<rparr>)
                      (report\<lparr>lr_records_loaded := lr_records_loaded report + 1\<rparr>))
             else
               replay_journal limits data snapshot_sequence (offset + rb_total_size b) out
                 (report\<lparr>lr_records_skipped := lr_records_skipped report + 1\<rparr>))
      else (Inr offset, out, report))"
  by pat_completeness auto
termination
  by (relation "measure (\<lambda>(limits, data, q, offset, out, report). length data - offset)")
    (auto dest!: probe_record_total)

declare replay_journal.simps [simp del]

text \<open>The search for a readable record after the first unreadable boundary.\<close>

definition later_valid_record :: "StoreLimits \<Rightarrow> bytes \<Rightarrow> nat \<Rightarrow> bool" where
  "later_valid_record limits data offset \<longleftrightarrow>
     list_ex (\<lambda>scan. scan + kRecordHeaderSize + kRecordTrailerSize \<le> length data \<and>
       probe_record data scan limits \<noteq> None) [offset + 1..<length data]"

definition load_journal ::
  "StoreLimits \<Rightarrow> bool \<Rightarrow> u64 \<Rightarrow> bytes \<Rightarrow> DurableState \<Rightarrow> LoadReport \<Rightarrow>
   (Code + unit) \<times> DurableState \<times> LoadReport" where
  "load_journal limits snapshot_usable snapshot_sequence journal out report =
     (if length journal < kJournalHeaderSize then (Inl TruncatedState, out, report)
      else case header_check journal of
        Some e \<Rightarrow> (Inl e, out, report)
      | None \<Rightarrow>
        (let journal_store = read_le64 (drop 16 journal) in
         if snapshot_usable \<and> journal_store \<noteq> 0 \<and> id_valid (ds_store out) \<and>
            journal_store \<noteq> ds_store out
         then (Inl CorruptState, out, report)
         else
           (let out1 = (if ds_store out = 0 \<and> journal_store \<noteq> 0
                        then out\<lparr>ds_store := journal_store\<rparr> else out) in
            case replay_journal limits journal snapshot_sequence kJournalHeaderSize out1 report of
              (Inl e, out2, report2) \<Rightarrow> (Inl e, out2, report2)
            | (Inr offset, out2, report2) \<Rightarrow>
                if offset < length journal then
                  (let report3 = report2\<lparr>lr_bytes_ignored := length journal - offset\<rparr> in
                   if later_valid_record limits journal offset then
                     (Inl CorruptState, out2, report3\<lparr>lr_corrupted := True, lr_detail :=
                        ''journal contains an unreadable record followed by readable records''\<rparr>)
                   else
                     (Inr (), out2, report3\<lparr>lr_truncated_tail := True,
                        lr_detail := (if lr_detail report3 = []
                          then ''journal tail is torn or incomplete''
                          else lr_detail report3)\<rparr>))
                else (Inr (), out2, report2))))"

text \<open>
  \<open>load\<close> fills its two output arguments also when it fails; the third component is the
  status.
\<close>

definition store_load :: "DurableState \<Rightarrow> (DurableState \<times> LoadReport \<times> (Code + unit)) store_op" where
  "store_load out0 s =
     (let out = ds_clear out0; report = empty_report; limits = fs_limits s in
      case read_file fs_snapshot (lim_max_snapshot_payload limits) s of
        (Inl e, s1) \<Rightarrow> (Inr (out, report, Inl e), s1)
      | (Inr snapshot, s1) \<Rightarrow>
          (let report1 = report\<lparr>lr_snapshot_present := (snapshot \<noteq> None)\<rparr>;
               verified = (case snapshot of None \<Rightarrow> None
                 | Some img \<Rightarrow> Some (verify_snapshot limits img))
           in case verified of
                Some (Inl detail) \<Rightarrow>
                  (Inr (out, report1\<lparr>lr_detail := detail, lr_corrupted := True\<rparr>,
                        Inl CorruptState), s1)
              | _ \<Rightarrow>
                  (let usable = (verified \<noteq> None);
                       out1 = (case verified of Some (Inr state) \<Rightarrow> state | _ \<Rightarrow> out);
                       snapshot_sequence = (if usable then ds_sequence out1 else 0);
                       report2 = report1\<lparr>lr_snapshot_sequence := snapshot_sequence\<rparr>
                   in case read_file fs_journal (lim_max_journal_load_bytes limits) s1 of
                        (Inl e, s2) \<Rightarrow> (Inr (out1, report2, Inl e), s2)
                      | (Inr journal, s2) \<Rightarrow>
                          (let report3 = report2\<lparr>lr_journal_present := (journal \<noteq> None)\<rparr> in
                           case journal of
                             None \<Rightarrow> (Inr (out1, report3,
                               if usable then Inr () else Inl NotFound), s2)
                           | Some file \<Rightarrow>
                               (case load_journal limits usable snapshot_sequence file out1 report3 of
                                  (res, out2, report4) \<Rightarrow> (Inr (out2, report4, res), s2))))))"

end
