(* ===== verification/Journal.thy ===== *)
theory Journal
  imports File_Store
begin

unbundle bit_operations_syntax

text \<open>
  Correctness of the journal of \<open>FileDurableStore\<close>: a record image probes back to its
  record, a proper prefix of an image never does, scanning and replaying a journal yields
  exactly the records that were appended, and a torn tail loses at most the record that was
  being written.
\<close>

section \<open>Fixed-width fields read back\<close>

lemma bit_foldr_bytes:
  fixes bs :: bytes
  shows "bit (foldr (\<lambda>b v. push_bit 8 v OR ucast b) bs (0 :: u64)) k \<longleftrightarrow>
     k < 64 \<and> k < 8 * length bs \<and> bit (bs ! (k div 8)) (k mod 8)"
proof (induction bs arbitrary: k)
  case Nil
  then show ?case by simp
next
  case (Cons b bs)
  show ?case
  proof (cases "k < 8")
    case True
    then show ?thesis by (simp add: bit_or_iff bit_push_bit_iff bit_ucast_iff)
  next
    case False
    then obtain j where j: "k = 8 + j" using le_Suc_ex by (metis not_less)
    have "\<not> bit b k" using bit_imp_le_length [of b k] False by auto
    moreover have "(8 + j) div 8 = Suc (j div 8)" by simp
    ultimately show ?thesis
      by (auto simp: bit_or_iff bit_push_bit_iff bit_ucast_iff Cons.IH j)
  qed
qed

lemma read_le64_write [simp]: "read_le64 (write_le64 v @ rest) = v"
proof (rule bit_word_eqI)
  fix k
  assume "k < LENGTH(64)"
  then show "bit (read_le64 (write_le64 v @ rest)) k = bit v k"
    by (simp add: read_le64_def write_le64_def bit_foldr_bytes le_bytes_def and_0xFF
        bit_ucast_iff bit_take_bit_iff bit_drop_bit_eq less_mult_imp_div_less)
qed

lemma read_le32_write [simp]: "read_le32 (write_le32 v @ rest) = v"
proof -
  have "le_value 0 0 (le_bytes 4 v) = v" using le_value_le_bytes [of 4 v] by (simp add: take_bit_word_eq_self)
  then show ?thesis
    by (simp add: read_le32_def write_le32_def le_bytes_def eval_nat_numeral nth_append or.assoc)
qed

lemma read_le16_write [simp]: "read_le16 (write_le16 v @ rest) = v"
proof -
  have "le_value 0 0 (le_bytes 2 v) = v" using le_value_le_bytes [of 2 v] by (simp add: take_bit_word_eq_self)
  then show ?thesis
    by (simp add: read_le16_def write_le16_def le_bytes_def eval_nat_numeral nth_append)
qed

lemma read_le64_exact [simp]: "read_le64 (write_le64 v) = v"
  using read_le64_write [of v "[]"] by simp

lemma length_write_le [simp]:
  "length (write_le64 v) = 8" "length (write_le32 w) = 4" "length (write_le16 x) = 2"
  by (simp_all add: write_le64_def write_le32_def write_le16_def)

lemma length_with_crc [simp]: "length (with_crc b) = length b + 8"
  by (simp add: with_crc_def)

lemma length_record_header [simp]: "length (record_header k q p) = 32"
  by (simp add: record_header_def)

lemma length_record_image: "length (build_record_image k q p) = 48 + length p"
  by (simp add: build_record_image_def)

lemmas record_sizes = kRecordHeaderSize_def kRecordTrailerSize_def kMaxRecordKind_def

section \<open>Probing a record\<close>

text \<open>
  A record header reads back field by field from any buffer that starts with it.
\<close>

lemma header_fields:
  fixes k q payload rest
  assumes "length payload < 2 ^ 64"
  defines "p \<equiv> with_crc (record_header k q payload) @ rest"
  shows "read_le32 p = kRecordMagic" "read_le64 (drop 32 p) = crc64_ecma (take 32 p)"
    "unat (read_le16 (drop 4 p)) = record_kind_ordinal k" "read_le64 (drop 8 p) = q"
    "unat (read_le64 (drop 16 p)) = length payload"
    "read_le64 (drop 24 p) = crc64_ecma payload"
proof -
  have "record_kind_ordinal k < 2 ^ 16"
    using record_kind_ordinal_bounds(2) [of k] by (simp add: kMaxRecordKind_def)
  then have "unat (word_of_nat (record_kind_ordinal k) :: u16) = record_kind_ordinal k"
    by (simp add: unat_of_nat take_bit_nat_eq_self)
  moreover have "unat (word_of_nat (length payload) :: u64) = length payload"
    using assms(1) by (rule unat_word64_of_length)
  ultimately show "read_le32 p = kRecordMagic" "read_le64 (drop 32 p) = crc64_ecma (take 32 p)"
    "unat (read_le16 (drop 4 p)) = record_kind_ordinal k" "read_le64 (drop 8 p) = q"
    "unat (read_le64 (drop 16 p)) = length payload"
    "read_le64 (drop 24 p) = crc64_ecma payload"
    by (simp_all add: p_def with_crc_def record_header_def)
qed

lemma raw_kind_nonzero: "unat (x :: u16) = record_kind_ordinal k \<Longrightarrow> x \<noteq> 0"
  using record_kind_ordinal_bounds(1) [of k] by auto

lemma probe_record_image:
  assumes "length payload \<le> lim_max_journal_payload limits" "length payload < 2 ^ 64"
  shows "probe_record (pre @ build_record_image k q payload @ rest) (length pre) limits =
    Some \<lparr>rb_kind = k, rb_sequence = q, rb_payload_offset = length pre + 40,
      rb_payload_size = length payload, rb_total_size = 48 + length payload\<rparr>"
proof -
  let ?h = "with_crc (record_header k q payload)"
  let ?tail = "payload @ write_le64 (crc64_ecma (?h @ payload)) @ rest"
  have img: "build_record_image k q payload @ rest = ?h @ ?tail"
    by (simp add: build_record_image_def with_crc_def)
  have kind: "unat (read_le16 (drop 4 (?h @ ?tail))) = record_kind_ordinal k"
    by (rule header_fields(3) [OF assms(2)])
  have len: "length (?h @ ?tail) = 48 + length payload + length rest" by simp
  show ?thesis
    unfolding probe_record_def Let_def
    using assms(1) header_fields [OF assms(2), of k q ?tail] raw_kind_nonzero [OF kind]
      record_kind_ordinal_bounds [of k]
    by (simp add: img record_sizes record_kinds_nth [unfolded One_nat_def])
qed

text \<open>A proper prefix of an image is never taken for a record.\<close>

lemma probe_record_torn:
  assumes "n < length (build_record_image k q payload)" "length payload < 2 ^ 64"
  shows "probe_record (pre @ take n (build_record_image k q payload)) (length pre) limits = None"
proof (cases "n < 48")
  case True
  then show ?thesis by (simp add: probe_record_def record_sizes min_def)
next
  case False
  let ?h = "with_crc (record_header k q payload)"
  obtain tail where tail: "take n (build_record_image k q payload) = ?h @ tail"
    "length tail = n - 40"
    using False assms(1)
    by (auto simp: build_record_image_def with_crc_def [of "?h @ payload"] take_append)
  have "unat (read_le64 (drop 16 (?h @ tail))) = length payload"
    by (rule header_fields(5) [OF assms(2)])
  moreover have "length pre + (48 + length payload) > length (pre @ ?h @ tail)"
    using assms(1) False tail(2) by (simp add: length_record_image)
  ultimately show ?thesis
    unfolding probe_record_def Let_def tail(1) by (simp add: record_sizes)
qed

section \<open>Journals as sequences of entries\<close>

type_synonym log = "(u64 \<times> Entry) list"

definition record_bytes :: "u64 \<times> Entry \<Rightarrow> bytes" where
  "record_bytes j = build_record_image (entry_kind (snd j)) (fst j) (entry_payload (snd j))"

definition log_bytes :: "log \<Rightarrow> bytes" where
  "log_bytes js = concat (map record_bytes js)"

definition fits :: "StoreLimits \<Rightarrow> Entry \<Rightarrow> bool" where
  "fits limits e \<longleftrightarrow> wf_entry e \<and> length (entry_payload e) \<le> lim_max_journal_payload limits \<and>
     length (entry_payload e) \<le> max_total default_decode_limits"

fun replay_log :: "log \<Rightarrow> DurableState \<Rightarrow> DurableState option" where
  "replay_log [] s = Some s"
| "replay_log (j # js) s =
     (case apply_entry (snd j) s of
        None \<Rightarrow> None
      | Some s' \<Rightarrow> replay_log js (s'\<lparr>ds_sequence := fst j\<rparr>))"

lemma replay_log_append:
  "replay_log (js @ js') s =
     (case replay_log js s of None \<Rightarrow> None | Some s' \<Rightarrow> replay_log js' s')"
  by (induction js arbitrary: s) (auto split: option.splits)

lemma log_bytes_simps [simp]:
  "log_bytes [] = []" "log_bytes (j # js) = record_bytes j @ log_bytes js"
  "log_bytes (js @ js') = log_bytes js @ log_bytes js'"
  by (simp_all add: log_bytes_def)

lemma length_record_bytes: "length (record_bytes j) = 48 + length (entry_payload (snd j))"
  by (simp add: record_bytes_def length_record_image)

lemma fits_small: "fits limits e \<Longrightarrow> length (entry_payload e) < 2 ^ 64"
  by (simp add: fits_def default_decode_limits_def)

lemma probe_log:
  assumes "fits limits (snd j)"
  shows "probe_record (pre @ record_bytes j @ rest) (length pre) limits =
    Some \<lparr>rb_kind = entry_kind (snd j), rb_sequence = fst j,
      rb_payload_offset = length pre + 40, rb_payload_size = length (entry_payload (snd j)),
      rb_total_size = length (record_bytes j)\<rparr>"
  using probe_record_image fits_small [OF assms] assms
  by (simp add: record_bytes_def fits_def length_record_image)

lemma payload_of_image:
  "take (length p) (drop (length pre + 40) (pre @ build_record_image k q p @ rest)) = p"
  by (simp add: build_record_image_def with_crc_def)

text \<open>
  A dead tail: nothing is left, or no record can be read at its start. The bytes a crash
  leaves of a record that was being written are such a tail.
\<close>

definition dead_tail :: "StoreLimits \<Rightarrow> bytes \<Rightarrow> bytes \<Rightarrow> bool" where
  "dead_tail limits pre tail \<longleftrightarrow>
     tail = [] \<or> probe_record (pre @ tail) (length pre) limits = None"

lemma torn_record_dead:
  assumes "fits limits (snd j)" "n < length (record_bytes j)"
  shows "dead_tail limits pre (take n (record_bytes j))"
  using probe_record_torn [OF _ fits_small [OF assms(1)]] assms(2)
  by (simp add: dead_tail_def record_bytes_def)

definition last_seq :: "u64 \<Rightarrow> log \<Rightarrow> u64" where
  "last_seq q js = (if js = [] then q else fst (last js))"

lemma scan_journal_log:
  assumes "list_all (\<lambda>j. fits limits (snd j)) js" "dead_tail limits (pre @ log_bytes js) tail"
  shows "scan_journal limits (pre @ log_bytes js @ tail) (length pre) q =
    (length pre + length (log_bytes js), last_seq q js)"
  using assms
proof (induction js arbitrary: pre q)
  case Nil
  then show ?case by (subst scan_journal.simps) (auto simp: dead_tail_def last_seq_def)
next
  case (Cons j js)
  have "scan_journal limits ((pre @ record_bytes j) @ log_bytes js @ tail)
      (length (pre @ record_bytes j)) (fst j) =
    (length (pre @ record_bytes j) + length (log_bytes js), last_seq (fst j) js)"
    by (rule Cons.IH) (use Cons.prems in simp_all)
  moreover have "length pre < length (pre @ record_bytes j @ log_bytes js @ tail)"
    by (simp add: length_record_bytes)
  ultimately show ?case
    using Cons.prems probe_log [of limits j pre "log_bytes js @ tail"]
    by (subst scan_journal.simps) (simp add: last_seq_def)
qed

text \<open>
  Replaying a journal: the state of the entries in order, the offset of the tail, and the
  count of records.
\<close>

lemma replay_journal_log:
  assumes "list_all (\<lambda>j. fits limits (snd j) \<and> snap < fst j) js"
    "dead_tail limits (pre @ log_bytes js) tail" "replay_log js s = Some s'"
  shows "\<exists>c. replay_journal limits (pre @ log_bytes js @ tail) snap (length pre) s report =
    (Inr (length pre + length (log_bytes js)), s',
     report\<lparr>lr_records_loaded := lr_records_loaded report + length js, lr_corrupt_offset := c\<rparr>)"
  using assms
proof (induction js arbitrary: pre s report)
  case Nil
  then show ?case
    by (subst replay_journal.simps)
      (auto simp: dead_tail_def intro: exI [of _ "lr_corrupt_offset report"])
next
  case (Cons j js)
  obtain s1 where s1: "apply_entry (snd j) s = Some s1"
    "replay_log js (s1\<lparr>ds_sequence := fst j\<rparr>) = Some s'"
    using Cons.prems(3) by (auto split: option.splits)
  have "apply_record (entry_kind (snd j)) (entry_payload (snd j)) s = Some s1"
    using Cons.prems(1) s1(1) by (simp add: apply_record_def decode_entry_payload fits_def)
  moreover have "take (length (entry_payload (snd j)))
      (drop (length pre + 40) (pre @ record_bytes j @ log_bytes js @ tail)) =
      entry_payload (snd j)"
    unfolding record_bytes_def by (rule payload_of_image)
  moreover have "length pre < length (pre @ record_bytes j @ log_bytes js @ tail)"
    by (simp add: length_record_bytes)
  ultimately have step: "replay_journal limits (pre @ record_bytes j @ log_bytes js @ tail) snap
      (length pre) s report =
    replay_journal limits ((pre @ record_bytes j) @ log_bytes js @ tail) snap
      (length (pre @ record_bytes j)) (s1\<lparr>ds_sequence := fst j\<rparr>)
      (report\<lparr>lr_records_loaded := lr_records_loaded report + 1\<rparr>)"
    using Cons.prems(1) probe_log [of limits j pre "log_bytes js @ tail"]
    by (subst replay_journal.simps) simp
  have "\<exists>c. replay_journal limits ((pre @ record_bytes j) @ log_bytes js @ tail) snap
      (length (pre @ record_bytes j)) (s1\<lparr>ds_sequence := fst j\<rparr>)
      (report\<lparr>lr_records_loaded := lr_records_loaded report + 1\<rparr>) =
    (Inr (length (pre @ record_bytes j) + length (log_bytes js)), s',
     report\<lparr>lr_records_loaded := lr_records_loaded report + 1 + length js,
       lr_corrupt_offset := c\<rparr>)"
    using Cons.IH [of "pre @ record_bytes j" "s1\<lparr>ds_sequence := fst j\<rparr>"
        "report\<lparr>lr_records_loaded := lr_records_loaded report + 1\<rparr>"] Cons.prems s1(2)
    by simp
  then show ?case using step by (simp add: add.assoc)
qed

section \<open>The header\<close>

lemma length_magic [simp]: "length kJournalMagic = 8" "length kSnapshotMagic = 8"
  by (simp_all add: kJournalMagic_def kSnapshotMagic_def)

lemma length_journal_header [simp]: "length (build_journal_header store first) = 40"
  by (simp add: build_journal_header_def)

lemma journal_header_fields:
  "header_check (build_journal_header store first @ rest) = None"
  "read_le64 (drop 16 (build_journal_header store first @ rest)) = store"
  "read_le64 (drop 24 (build_journal_header store first @ rest)) = first"
  by (simp_all add: header_check_def build_journal_header_def with_crc_def)

section \<open>Operations on an intact store\<close>

lemmas store_op_defs =
  op_read_def op_return_def op_fail_def op_modify_def pef_try_def io_call_def io_simple_def
  op_guard_def

lemma write_at_end [simp]: "write_at (length file) data file = file @ data"
  by (simp add: write_at_def)

text \<open>
  An intact store: open, its journal is a header and a sequence of records, and the handle
  stands at the end.
\<close>

definition holds :: "FileStore \<Rightarrow> log \<Rightarrow> bool" where
  "holds s js \<longleftrightarrow>
     (let file = build_journal_header (fs_store_id s) (fs_journal_first_sequence s) @ log_bytes js
      in fs_open s \<and> id_valid (fs_store_id s) \<and> fs_journal s = Some file \<and>
         fs_handle s = Some (length file) \<and>
         fs_last_sequence s = last_seq (fs_journal_first_sequence s - 1) js)"

lemma io_call_cases:
  "io_call s = (Inr (case fs_io s of [] \<Rightarrow> IoOk | r # _ \<Rightarrow> r), s\<lparr>fs_io := tl (fs_io s)\<rparr>)"
  by (simp add: io_call_def split: list.split)

lemma journal_put_at_end:
  assumes "fs_journal s = Some file" "fs_handle s = Some (length file)"
  shows "journal_put data s =
    s\<lparr>fs_journal := Some (file @ data), fs_handle := Some (length file + length data)\<rparr>"
  using assms by (simp add: journal_put_def split: Platform.split)

text \<open>A write at the end of the journal: everything or some prefix of the data is appended.\<close>

lemma journal_write_at_end:
  assumes "fs_journal s = Some file" "fs_handle s = Some (length file)"
    and "journal_write data s = (r, s')"
  shows "\<exists>n. s' = s\<lparr>fs_io := tl (fs_io s), fs_journal := Some (file @ take n data),
      fs_handle := Some (length file + length (take n data))\<rparr> \<and>
    (r = Inr () \<and> length data \<le> n \<or> r = Inl PersistenceFailure)"
  using assms
  by (auto simp: journal_write_def io_call_cases op_read_def op_modify_def op_fail_def
      pef_try_def journal_put_at_end intro: exI [of _ "length data"]
      split: IoOutcome.splits list.splits)

lemma journal_flush_open:
  assumes "fs_handle s \<noteq> None" "journal_flush s = (r, s')"
  shows "r = Inr () \<and> s' = mark_synced (s\<lparr>fs_io := tl (fs_io s)\<rparr>) \<or>
    r = Inl PersistenceFailure \<and> s' = s\<lparr>fs_io := tl (fs_io s)\<rparr>"
  using assms
  by (auto simp: journal_flush_def io_simple_def io_call_cases op_read_def op_modify_def
      op_fail_def pef_try_def split: IoOutcome.splits list.splits)

text \<open>
  The three outcomes of an append on an intact store: refused before the file is touched,
  failed with a prefix of the image in the file, or appended.
\<close>

lemma store_append_outcomes:
  assumes h: "holds s js"
    and run: "store_append (entry_kind e) (entry_payload e) flush_now s = (r, s')"
  defines "q \<equiv> fs_last_sequence s + 1"
    and "file \<equiv> build_journal_header (fs_store_id s) (fs_journal_first_sequence s) @ log_bytes js"
  shows "(r = Inl LimitExceeded \<and> s' = s \<and>
      lim_max_journal_payload (fs_limits s) < length (entry_payload e)) \<or>
    length (entry_payload e) \<le> lim_max_journal_payload (fs_limits s) \<and>
    (\<exists>n io synced. s' = s\<lparr>fs_io := io, fs_journal := Some (file @ take n (record_bytes (q, e))),
        fs_handle := Some (length file + length (take n (record_bytes (q, e)))),
        fs_synced := synced,
        fs_last_sequence := (if r = Inr q then q else fs_last_sequence s)\<rparr> \<and>
      (r = Inr q \<and> length (record_bytes (q, e)) \<le> n \<and>
         (flush_now \<longrightarrow> synced = length file + length (record_bytes (q, e))) \<or>
       r = Inl PersistenceFailure))"
proof (cases "length (entry_payload e) \<le> lim_max_journal_payload (fs_limits s)")
  case False
  then show ?thesis
    using h run by (auto simp: store_append_def op_read_def op_fail_def holds_def Let_def)
next
  case True
  let ?P = "\<lambda>n io synced. s' = s\<lparr>fs_io := io,
        fs_journal := Some (file @ take n (record_bytes (q, e))),
        fs_handle := Some (length file + length (take n (record_bytes (q, e)))),
        fs_synced := synced,
        fs_last_sequence := (if r = Inr q then q else fs_last_sequence s)\<rparr> \<and>
      (r = Inr q \<and> length (record_bytes (q, e)) \<le> n \<and>
         (flush_now \<longrightarrow> synced = length file + length (record_bytes (q, e))) \<or>
       r = Inl PersistenceFailure)"
  have jf: "fs_journal s = Some file" "fs_handle s = Some (length file)" "fs_open s"
    using h by (auto simp: holds_def Let_def file_def)
  obtain rw s1 where w: "journal_write (record_bytes (q, e)) s = (rw, s1)" by fastforce
  then obtain n where n: "s1 = s\<lparr>fs_io := tl (fs_io s), fs_journal := Some (file @ take n (record_bytes (q, e))),
      fs_handle := Some (length file + length (take n (record_bytes (q, e))))\<rparr>"
    "rw = Inr () \<and> length (record_bytes (q, e)) \<le> n \<or> rw = Inl PersistenceFailure"
    using journal_write_at_end [OF jf(1,2)] by blast
  have run': "pef_try (\<lambda>_. (rw, s1)) (\<lambda>_. pef_try (if flush_now then journal_flush else op_return ())
      (\<lambda>_. pef_try (op_modify (\<lambda>s. s\<lparr>fs_last_sequence := q\<rparr>)) (\<lambda>_. op_return q))) s = (r, s')"
    using run True jf(3) w
    by (simp add: store_append_def op_read_def Let_def q_def record_bytes_def pef_try_def)
  show ?thesis
  proof (cases "rw = Inr ()")
    case False
    with run' n have "r = Inl PersistenceFailure" "s' = s1" by (auto simp: pef_try_def)
    with n have "?P n (tl (fs_io s)) (fs_synced s)" by simp
    with True show ?thesis by blast
  next
    case rw: True
    obtain rf s2 where f: "(if flush_now then journal_flush else op_return ()) s1 = (rf, s2)"
      by fastforce
    have flushed: "(rf = Inr () \<or> rf = Inl PersistenceFailure) \<and>
      (\<exists>io synced. s2 = s1\<lparr>fs_io := io, fs_synced := synced\<rparr> \<and>
        (flush_now \<longrightarrow> rf = Inr () \<longrightarrow>
          synced = length (file @ take n (record_bytes (q, e)))))"
    proof (cases flush_now)
      case True
      then have "journal_flush s1 = (rf, s2)" using f by simp
      then have "rf = Inr () \<and> s2 = mark_synced (s1\<lparr>fs_io := tl (fs_io s1)\<rparr>) \<or>
          rf = Inl PersistenceFailure \<and> s2 = s1\<lparr>fs_io := tl (fs_io s1)\<rparr>"
        by (rule journal_flush_open [rotated]) (simp add: n(1))
      moreover have "mark_synced (s1\<lparr>fs_io := tl (fs_io s1)\<rparr>) = s1\<lparr>fs_io := tl (fs_io s1),
          fs_synced := length (file @ take n (record_bytes (q, e)))\<rparr>"
        by (simp add: mark_synced_def n(1))
      moreover have "s1\<lparr>fs_io := tl (fs_io s1)\<rparr> =
          s1\<lparr>fs_io := tl (fs_io s1), fs_synced := fs_synced s1\<rparr>" by simp
      ultimately show ?thesis by (metis Inr_not_Inl)
    next
      case False
      with f have "rf = Inr ()" "s2 = s1" by (simp_all add: op_return_def)
      with False show ?thesis
        by (intro conjI disjI1 exI [of _ "fs_io s1"] exI [of _ "fs_synced s1"]) simp_all
    qed
    then obtain io synced where s2: "s2 = s1\<lparr>fs_io := io, fs_synced := synced\<rparr>"
      "flush_now \<longrightarrow> rf = Inr () \<longrightarrow> synced = length (file @ take n (record_bytes (q, e)))"
      by blast
    have fin: "(case rf of Inl c \<Rightarrow> (Inl c, s2) | Inr _ \<Rightarrow> (Inr q, s2\<lparr>fs_last_sequence := q\<rparr>)) = (r, s')"
      using run' rw f by (cases rf) (simp_all add: pef_try_def op_modify_def op_return_def)
    have "rf = Inr () \<or> rf = Inl PersistenceFailure" using flushed by blast
    then show ?thesis
    proof
      assume rf: "rf = Inr ()"
      then have "r = Inr q" "s' = s2\<lparr>fs_last_sequence := q\<rparr>" using fin by simp_all
      with rf s2 n rw have "?P n io synced" by simp
      with True show ?thesis by blast
    next
      assume "rf = Inl PersistenceFailure"
      then have "r = Inl PersistenceFailure" "s' = s2" using fin by simp_all
      with s2 n have "?P n io synced" by simp
      with True show ?thesis by blast
    qed
  qed
qed

text \<open>
  Whatever the operating system does: when \<open>append\<close> reports success the record is the next
  one of the journal, and with \<open>flush_now\<close> the whole journal is on stable storage.
\<close>

lemma store_append_success:
  assumes "holds s js"
    and "store_append (entry_kind e) (entry_payload e) flush_now s = (Inr q, s')"
  shows "q = fs_last_sequence s + 1" "holds s' (js @ [(q, e)])"
    "fs_limits s' = fs_limits s" "fs_snapshot s' = fs_snapshot s"
    "fs_store_id s' = fs_store_id s"
    "fs_journal_first_sequence s' = fs_journal_first_sequence s"
    "flush_now \<Longrightarrow> fs_journal s' = Some file \<Longrightarrow> fs_synced s' = length file"
    "length (entry_payload e) \<le> lim_max_journal_payload (fs_limits s)"
  using store_append_outcomes [OF assms] assms(1)
  by (auto simp: holds_def Let_def last_seq_def)

text \<open>
  A failed append leaves the earlier records in place, followed by a prefix of the new
  record's image, and does not advance the sequence.
\<close>

lemma store_append_failure:
  assumes "holds s js"
    and "store_append (entry_kind e) (entry_payload e) flush_now s = (Inl c, s')"
  shows "\<exists>n. fs_journal s' = Some (build_journal_header (fs_store_id s)
      (fs_journal_first_sequence s) @ log_bytes js @
      take n (record_bytes (fs_last_sequence s + 1, e)))"
    and "fs_last_sequence s' = fs_last_sequence s"
  using store_append_outcomes [OF assms] assms(1)
  by (auto simp: holds_def Let_def intro: exI [of _ 0])

text \<open>Without an I/O failure an append of a record within the limit succeeds.\<close>

lemma store_append_no_fault:
  assumes "holds s js" "fs_io s = []"
    and "length (entry_payload e) \<le> lim_max_journal_payload (fs_limits s)"
  shows "\<exists>s'. store_append (entry_kind e) (entry_payload e) flush_now s =
      (Inr (fs_last_sequence s + 1), s') \<and> fs_io s' = []"
  using assms
  by (auto simp: store_append_def journal_write_def journal_flush_def journal_put_at_end
      mark_synced_def store_op_defs holds_def Let_def)

section \<open>Loading\<close>

text \<open>A crash keeps some prefix of the journal; cutting a log gives records and a torn one.\<close>

lemma take_log_bytes:
  "\<exists>m k. take n (log_bytes js) =
      log_bytes (take m js) @ (if m < length js then take k (record_bytes (js ! m)) else []) \<and>
    m \<le> length js \<and> (m < length js \<longrightarrow> k < length (record_bytes (js ! m)))"
proof (induction js arbitrary: n)
  case Nil
  then show ?case by simp
next
  case (Cons j js)
  show ?case
  proof (cases "n < length (record_bytes j)")
    case True
    then show ?thesis by (intro exI [of _ 0] exI [of _ n]) simp
  next
    case False
    obtain m k where "take (n - length (record_bytes j)) (log_bytes js) =
        log_bytes (take m js) @ (if m < length js then take k (record_bytes (js ! m)) else [])"
      "m \<le> length js" "m < length js \<longrightarrow> k < length (record_bytes (js ! m))"
      using Cons.IH by blast
    with False show ?thesis
      by (intro exI [of _ "Suc m"] exI [of _ k]) auto
  qed
qed

definition log_ok :: "StoreLimits \<Rightarrow> u64 \<Rightarrow> log \<Rightarrow> bool" where
  "log_ok limits snap js \<longleftrightarrow> list_all (\<lambda>j. fits limits (snd j) \<and> snap < fst j) js"

lemma log_ok_take: "log_ok limits snap js \<Longrightarrow> log_ok limits snap (take m js)"
  by (auto simp: log_ok_def list_all_iff dest: in_set_takeD)

text \<open>
  Loading a journal with a dead tail: the state of its records, or a refusal when a readable
  record is found inside the tail. Never another state.
\<close>

lemma load_journal_log:
  assumes ok: "log_ok limits snap js"
    and tail: "dead_tail limits (build_journal_header store first @ log_bytes js) tail"
    and replay: "replay_log js (if ds_store out = 0 \<and> store \<noteq> 0 then out\<lparr>ds_store := store\<rparr> else out) =
      Some s'"
    and same: "usable \<Longrightarrow> ds_store out = 0 \<or> ds_store out = store"
  defines "file \<equiv> build_journal_header store first @ log_bytes js @ tail"
    and "start \<equiv> 40 + length (log_bytes js)"
  shows "\<exists>report'. load_journal limits usable snap file out report =
      (if tail \<noteq> [] \<and> later_valid_record limits file start
       then Inl CorruptState else Inr (), s', report') \<and>
      (tail = [] \<longrightarrow> lr_truncated_tail report' = lr_truncated_tail report)"
proof -
  let ?out = "if ds_store out = 0 \<and> store \<noteq> 0 then out\<lparr>ds_store := store\<rparr> else out"
  have all: "list_all (\<lambda>j. fits limits (snd j) \<and> snap < fst j) js"
    using ok by (simp add: log_ok_def)
  obtain c where run: "replay_journal limits file snap (length (build_journal_header store first))
      ?out report =
    (Inr (length (build_journal_header store first) + length (log_bytes js)), s',
     report\<lparr>lr_records_loaded := lr_records_loaded report + length js, lr_corrupt_offset := c\<rparr>)"
    using replay_journal_log [OF all tail replay] unfolding file_def by blast
  have "length file = 40 + length (log_bytes js) + length tail"
    by (simp add: file_def)
  with run show ?thesis
    using same journal_header_fields [of store first "log_bytes js @ tail"]
    by (auto simp: load_journal_def kJournalHeaderSize_def Let_def file_def start_def)
qed

section \<open>Restart\<close>

text \<open>
  A crash keeps the first \<open>n\<close> bytes of the journal (at least the flushed ones); the next
  process starts with a closed handle and a working operating system.
\<close>

definition crash :: "nat \<Rightarrow> FileStore \<Rightarrow> FileStore" where
  "crash n s = s\<lparr>fs_journal := map_option (take n) (fs_journal s), fs_open := False,
     fs_handle := None, fs_io := []\<rparr>"

definition fresh_state :: "u64 \<Rightarrow> DurableState" where
  "fresh_state store = empty_state\<lparr>ds_store := store\<rparr>"

lemma ds_clear_empty [simp]: "ds_clear empty_state = empty_state"
  by (simp add: ds_clear_def empty_state_def)

lemma store_load_journal_only:
  assumes "fs_io s = []" "fs_snapshot s = None" "fs_journal s = Some file"
    and "length file \<le> lim_max_journal_load_bytes (fs_limits s)"
  shows "store_load empty_state s =
    (case load_journal (fs_limits s) False 0 file empty_state
        (empty_report\<lparr>lr_journal_present := True\<rparr>) of
      (res, out, report) \<Rightarrow> (Inr (out, report, res), s))"
proof -
  have "empty_report\<lparr>lr_snapshot_present := False, lr_snapshot_sequence := 0,
      lr_journal_present := True\<rparr> = empty_report\<lparr>lr_journal_present := True\<rparr>"
    by (simp add: empty_report_def)
  with assms show ?thesis
    by (simp add: store_load_def read_file_def store_op_defs Let_def split: prod.split)
qed

lemma load_after_crash:
  assumes h: "holds s js" and ok: "log_ok (fs_limits s) 0 js" and none: "fs_snapshot s = None"
    and n: "40 \<le> n" "n \<le> lim_max_journal_load_bytes (fs_limits s)"
    and replay: "replay_log js (fresh_state (fs_store_id s)) \<noteq> None"
  shows "\<exists>m res out report. m \<le> length js \<and>
    store_load empty_state (crash n s) = (Inr (out, report, res), crash n s) \<and>
    replay_log (take m js) (fresh_state (fs_store_id s)) = Some out \<and>
    (40 + length (log_bytes js) \<le> n \<longrightarrow> m = length js \<and> res = Inr ()) \<and>
    (res = Inr () \<or> res = Inl CorruptState)"
proof -
  let ?h = "build_journal_header (fs_store_id s) (fs_journal_first_sequence s)"
  obtain m k where cut: "take (n - 40) (log_bytes js) =
      log_bytes (take m js) @ (if m < length js then take k (record_bytes (js ! m)) else [])"
    and m: "m \<le> length js" "m < length js \<longrightarrow> k < length (record_bytes (js ! m))"
    using take_log_bytes by blast
  define tail where "tail = (if m < length js then take k (record_bytes (js ! m)) else [])"
  have jf: "fs_journal (crash n s) = Some (?h @ log_bytes (take m js) @ tail)"
    using h n(1) cut by (simp add: crash_def holds_def Let_def tail_def take_append)
  have whole: "m = length js" if "40 + length (log_bytes js) \<le> n"
  proof (rule ccontr)
    assume "m \<noteq> length js"
    with m have "m < length js" "length tail < length (record_bytes (js ! m))"
      by (auto simp: tail_def)
    moreover have "length (log_bytes (take m js)) + length (record_bytes (js ! m)) +
        length (log_bytes (drop (Suc m) js)) = length (log_bytes js)" if "m < length js"
      using arg_cong [OF id_take_nth_drop [OF that], of "\<lambda>x. length (log_bytes x)"] by simp
    ultimately show False
      using cut that arg_cong [OF cut, of length] by (auto simp: tail_def)
  qed
  have tail_dead: "dead_tail (fs_limits s) (?h @ log_bytes (take m js)) tail"
  proof (cases "m < length js")
    case True
    then show ?thesis
      using m(2) ok by (simp add: tail_def torn_record_dead log_ok_def list_all_length)
  qed (simp add: tail_def dead_tail_def)
  obtain out where out: "replay_log (take m js) (fresh_state (fs_store_id s)) = Some out"
    using replay replay_log_append [of "take m js" "drop m js"] by (auto split: option.splits)
  have start: "(if ds_store empty_state = 0 \<and> fs_store_id s \<noteq> 0
      then empty_state\<lparr>ds_store := fs_store_id s\<rparr> else empty_state) = fresh_state (fs_store_id s)"
    using h by (simp add: fresh_state_def empty_state_def holds_def Let_def)
  obtain report where "load_journal (fs_limits s) False 0 (?h @ log_bytes (take m js) @ tail)
      empty_state (empty_report\<lparr>lr_journal_present := True\<rparr>) =
    (if tail \<noteq> [] \<and> later_valid_record (fs_limits s) (?h @ log_bytes (take m js) @ tail)
        (40 + length (log_bytes (take m js))) then Inl CorruptState else Inr (), out, report)"
    using load_journal_log [OF log_ok_take [OF ok] tail_dead, of empty_state out False] out start
    by auto
  moreover have "length (?h @ log_bytes (take m js) @ tail) \<le>
      lim_max_journal_load_bytes (fs_limits s)"
    using arg_cong [OF cut, of length] n by (simp add: tail_def)
  moreover define res where "res = (if tail \<noteq> [] \<and> later_valid_record (fs_limits s)
      (?h @ log_bytes (take m js) @ tail) (40 + length (log_bytes (take m js)))
      then Inl CorruptState else Inr () :: Code + unit)"
  ultimately have load: "store_load empty_state (crash n s) = (Inr (out, report, res), crash n s)"
    using store_load_journal_only [OF _ _ jf] none by (simp add: crash_def)
  have "m = length js \<Longrightarrow> res = Inr ()" "res = Inr () \<or> res = Inl CorruptState"
    by (simp_all add: res_def tail_def)
  with load m(1) out whole show ?thesis by blast
qed

end
