(* ===== verification/Recovery_Plan.thy ===== *)
theory Recovery_Plan
  imports Durable_State
begin

text \<open>
  \<open>include/pef/recovery.hpp\<close> and \<open>src/recovery.cpp\<close>: the deterministic classification of
  an interrupted execution. Null pointers of \<open>RecoveryInput\<close> are \<open>None\<close>; the explanation
  strings become part of durable recovery records and are modelled exactly. Constructors
  whose names are taken by refusal codes or other enumerations carry the suffix \<open>_D\<close>.
\<close>

datatype RecoveryDecision =
    ResumeFromCurrent | ResumeFromCheckpoint | ReplaySafeAction | RevalidateBindings | Recompute
  | Compensate | AmbiguousCompletion_D | ManualResolutionRequired_D | Unsupported_D | Terminal

definition recovery_decisions :: "RecoveryDecision list" where
  "recovery_decisions = [ResumeFromCurrent, ResumeFromCheckpoint, ReplaySafeAction,
     RevalidateBindings, Recompute, Compensate, AmbiguousCompletion_D,
     ManualResolutionRequired_D, Unsupported_D, Terminal]"

fun recovery_decision_name :: "RecoveryDecision \<Rightarrow> string" where
  "recovery_decision_name ResumeFromCurrent = ''RESUME_FROM_CURRENT''"
| "recovery_decision_name ResumeFromCheckpoint = ''RESUME_FROM_CHECKPOINT''"
| "recovery_decision_name ReplaySafeAction = ''REPLAY_SAFE_ACTION''"
| "recovery_decision_name RevalidateBindings = ''REVALIDATE_BINDINGS''"
| "recovery_decision_name Recompute = ''RECOMPUTE''"
| "recovery_decision_name Compensate = ''COMPENSATE''"
| "recovery_decision_name AmbiguousCompletion_D = ''AMBIGUOUS_COMPLETION''"
| "recovery_decision_name ManualResolutionRequired_D = ''MANUAL_RESOLUTION_REQUIRED''"
| "recovery_decision_name Unsupported_D = ''UNSUPPORTED''"
| "recovery_decision_name Terminal = ''TERMINAL''"

definition parse_recovery_decision :: "string \<Rightarrow> RecoveryDecision option" where
  "parse_recovery_decision text = find (\<lambda>c. recovery_decision_name c = text) recovery_decisions"

fun recovery_allows_automatic_continue :: "RecoveryDecision \<Rightarrow> bool" where
  "recovery_allows_automatic_continue d =
     (d \<in> {ResumeFromCurrent, ResumeFromCheckpoint, ReplaySafeAction, Recompute})"

fun recovery_requires_operator :: "RecoveryDecision \<Rightarrow> bool" where
  "recovery_requires_operator d =
     (d \<in> {AmbiguousCompletion_D, ManualResolutionRequired_D, Unsupported_D,
       RevalidateBindings, Compensate})"

text \<open>\<open>std::to_string\<close>: decimal digits without leading zeros.\<close>

fun decimal :: "nat \<Rightarrow> string" where
  "decimal n = (if n < 10 then [char_of (48 + n)]
     else decimal (n div 10) @ [char_of (48 + n mod 10)])"

declare decimal.simps [simp del]

definition ordinal_text :: "u64 \<Rightarrow> string" where
  "ordinal_text v = decimal (unat v)"

record RecoveryInput =
  ri_execution :: "ExecutionRecord option"
  ri_policy :: "ExecutionPolicy option"
  ri_epoch :: u64
  ri_in_flight :: "ActionRecord option"
  ri_current_checkpoint :: "CheckpointRecord option"
  ri_candidates :: "CheckpointRecord list"
  ri_ambiguity :: "AmbiguityRecord option"
  ri_binding_mismatch :: bool
  ri_checkpoint_unusable :: bool

record RecoveryPlan =
  plan_decision :: RecoveryDecision
  plan_execution :: u64
  plan_execution_generation :: u64
  plan_epoch :: u64
  plan_action :: u64
  plan_action_generation :: u64
  plan_checkpoint :: u64
  plan_checkpoint_generation :: u64
  plan_continuation :: u64
  plan_continuation_generation :: u64
  plan_ambiguity :: u64
  plan_ambiguity_generation :: u64
  plan_commit_from_receipt :: bool
  plan_explanation :: string

definition empty_plan :: RecoveryPlan where
  "empty_plan = \<lparr>plan_decision = Unsupported_D, plan_execution = 0,
     plan_execution_generation = 0, plan_epoch = 0, plan_action = 0,
     plan_action_generation = 0, plan_checkpoint = 0, plan_checkpoint_generation = 0,
     plan_continuation = 0, plan_continuation_generation = 0, plan_ambiguity = 0,
     plan_ambiguity_generation = 0, plan_commit_from_receipt = False, plan_explanation = []\<rparr>"

definition decide :: "RecoveryDecision \<Rightarrow> string \<Rightarrow> RecoveryPlan \<Rightarrow> RecoveryPlan" where
  "decide d why plan = plan\<lparr>plan_decision := d, plan_explanation := why\<rparr>"

definition open_ambiguity :: "AmbiguityRecord option \<Rightarrow> bool" where
  "open_ambiguity amb \<longleftrightarrow> (case amb of None \<Rightarrow> False | Some a \<Rightarrow> ambiguity_is_open (amb_state a))"

definition policy_test :: "(ExecutionPolicy \<Rightarrow> bool) \<Rightarrow> ExecutionPolicy option \<Rightarrow> bool" where
  "policy_test test policy \<longleftrightarrow> (case policy of None \<Rightarrow> False | Some p \<Rightarrow> test p)"

abbreviation forbids_replay :: "ExecutionPolicy option \<Rightarrow> bool" where
  "forbids_replay \<equiv> policy_test (\<lambda>p. pol_replay_allowance p = ForbidReplay)"

abbreviation requires_compensation_policy :: "ExecutionPolicy option \<Rightarrow> bool" where
  "requires_compensation_policy \<equiv> policy_test (\<lambda>p. pol_ambiguity_handling p = RequireCompensation)"

text \<open>The decision of an open ambiguity and the plan's action.\<close>

definition ambiguity_decision :: "AmbiguityRecord \<Rightarrow> RecoveryDecision" where
  "ambiguity_decision a =
     (if amb_state a = ManualResolutionRequired_AS then ManualResolutionRequired_D
      else AmbiguousCompletion_D)"

definition plan_of_ambiguity :: "AmbiguityRecord \<Rightarrow> string \<Rightarrow> RecoveryPlan \<Rightarrow> RecoveryPlan" where
  "plan_of_ambiguity a why plan =
     decide (ambiguity_decision a) why
       (plan\<lparr>plan_action := amb_action a, plan_action_generation := amb_action_generation a\<rparr>)"

definition resolved_not_applied :: "AmbiguityRecord option \<Rightarrow> ActionRecord \<Rightarrow> bool" where
  "resolved_not_applied amb action \<longleftrightarrow>
     (case amb of
        None \<Rightarrow> False
      | Some a \<Rightarrow> amb_state a = ResolvedNotApplied \<and> amb_action a = act_id action \<and>
          amb_action_generation a = act_generation action)"

text \<open>Section 6 of \<open>classify_recovery\<close>: an action that never reached a sealed state.\<close>

definition classify_in_flight ::
  "ExecutionPolicy option \<Rightarrow> AmbiguityRecord option \<Rightarrow> ActionRecord \<Rightarrow> RecoveryPlan \<Rightarrow>
   RecoveryPlan" where
  "classify_in_flight policy amb action plan0 =
     (let plan = plan0\<lparr>plan_action := act_id action,
            plan_action_generation := act_generation action\<rparr>;
          cls = act_effect_class action;
          status = act_status action
      in
      if status = EffectApplied \<or> status = CompletedUnacknowledged then
        (if cls = Compensatable \<and> requires_compensation_policy policy then
           decide Compensate
             ''effect applied but policy requires compensation for COMPENSATABLE actions'' plan
         else decide ResumeFromCurrent
           (''a durable side-effect receipt states the action applied; '' @
            ''the logical commit may proceed without replay'')
           (plan\<lparr>plan_commit_from_receipt := True\<rparr>))
      else if status = EffectNotApplied then
        (if forbids_replay policy then
           decide Unsupported_D ''effect did not apply but policy forbids replay'' plan
         else decide ReplaySafeAction
           (''a durable side-effect receipt states the action did not apply; '' @
            ''the action may be re-driven'') plan)
      else if status = Committed then
        decide ResumeFromCurrent
          ''the interrupted action already holds a durable logical commit'' plan
      else if status = Compensated then
        decide ResumeFromCurrent
          ''the interrupted action was compensated; execution may continue'' plan
      else if status = Abandoned then
        decide ResumeFromCurrent
          ''the interrupted action was explicitly abandoned; execution may continue'' plan
      else if resolved_not_applied amb action then
        (if forbids_replay policy then
           decide Unsupported_D
             ''the effect was resolved as not applied but policy forbids replay'' plan
         else decide ReplaySafeAction
           (''an explicit resolution established that the effect did not apply; the same '' @
            ''logical action may be re-driven under a new generation'') plan)
      else if forbids_replay policy then
        decide Unsupported_D ''action was interrupted in flight and policy forbids replay'' plan
      else if auto_replayable cls then
        decide ReplaySafeAction
          (''action was interrupted in flight; class '' @ side_effect_class_name cls @
           '' permits re-driving the same logical action'') plan
      else if cls = Compensatable \<and> requires_compensation_policy policy then
        decide Compensate
          ''action was interrupted in flight and policy requires compensation'' plan
      else
        decide (if policy_test (\<lambda>p. pol_ambiguity_handling p = ManualResolutionRequired) policy
                then ManualResolutionRequired_D else AmbiguousCompletion_D)
          (''action was interrupted in flight with class '' @ side_effect_class_name cls @
           '' and no durable receipt; the physical outcome is unknown'') plan)"

text \<open>Section 7: no interrupted action.\<close>

definition choose_candidate :: "ExecutionPolicy option \<Rightarrow> u64 \<Rightarrow> CheckpointRecord list \<Rightarrow> CheckpointRecord" where
  "choose_candidate policy frontier candidates =
     (if policy_test (\<lambda>p. pol_recovery_preference p = PreferCheckpointBeforeInterruption) policy
      then (case find (\<lambda>c. ckpt_effect_boundary_ordinal c \<le> frontier) candidates of
              Some c \<Rightarrow> c
            | None \<Rightarrow> hd candidates)
      else hd candidates)"

definition classify_idle :: "RecoveryInput \<Rightarrow> ExecutionRecord \<Rightarrow> RecoveryPlan \<Rightarrow> RecoveryPlan" where
  "classify_idle input execution plan =
     (let policy = ri_policy input;
          prefer_checkpoint =
            policy_test (\<lambda>p. pol_recovery_preference p \<noteq> RequireManualSelection) policy;
          rest =
            (if prefer_checkpoint \<and> ri_candidates input \<noteq> [] then
               (let chosen = choose_candidate policy (exec_action_frontier execution)
                      (ri_candidates input)
                in decide ResumeFromCheckpoint
                     (''no action is in flight; resuming from checkpoint generation '' @
                      ordinal_text (ckpt_generation chosen))
                     (plan\<lparr>plan_checkpoint := ckpt_id chosen,
                        plan_checkpoint_generation := ckpt_generation chosen\<rparr>))
             else if policy_test (\<lambda>p. pol_recovery_preference p = RequireManualSelection) policy
             then decide ManualResolutionRequired_D
                    ''policy requires an explicit continuation selection'' plan
             else decide ResumeFromCurrent
               (''no action is in flight; the durable progress frontier is a legal '' @
                ''continuation point'') plan)
      in case ri_current_checkpoint input of
           Some c \<Rightarrow>
             if prefer_checkpoint \<and> checkpoint_can_seed_continuation (ckpt_state c) then
               decide ResumeFromCurrent
                 ''the current checkpoint is verified and binds the current generations''
                 (plan\<lparr>plan_checkpoint := ckpt_id c,
                    plan_checkpoint_generation := ckpt_generation c\<rparr>)
             else rest
         | None \<Rightarrow> rest)"

definition plan_header :: "ExecutionRecord \<Rightarrow> u64 \<Rightarrow> RecoveryPlan" where
  "plan_header execution epoch = empty_plan\<lparr>plan_execution := exec_id execution,
     plan_execution_generation := exec_generation execution, plan_epoch := epoch,
     plan_continuation := exec_continuation execution,
     plan_continuation_generation := exec_continuation_generation execution,
     plan_checkpoint := exec_checkpoint execution,
     plan_checkpoint_generation := exec_checkpoint_generation execution,
     plan_ambiguity := exec_ambiguity execution,
     plan_ambiguity_generation := exec_ambiguity_generation execution\<rparr>"

definition classify_recovery :: "RecoveryInput \<Rightarrow> RecoveryPlan" where
  "classify_recovery input =
     (case ri_execution input of
        None \<Rightarrow> decide Unsupported_D ''no durable execution record'' empty_plan
      | Some execution \<Rightarrow>
        (let plan = plan_header execution (ri_epoch input);
             policy = ri_policy input;
             lifecycle = exec_lifecycle execution;
             amb = ri_ambiguity input
         in
         if is_terminal_state lifecycle then
           decide Terminal (''lifecycle is '' @ lifecycle_name lifecycle) plan
         else if lifecycle = Failed_L \<and> \<not> policy_test pol_allow_recovery_from_failed policy then
           decide Terminal
             ''execution failed and policy does not allow recovery from FAILED'' plan
         else if exec_blocked execution \<and> open_ambiguity amb then
           plan_of_ambiguity (the amb)
             (''progress above ordinal '' @ ordinal_text (exec_blocked_above_ordinal execution) @
              '' is blocked by an unresolved ambiguity'') plan
         else if ri_binding_mismatch input then
           (if policy_test (\<lambda>p. pol_stale_binding_behavior p = Refuse) policy then
              decide Unsupported_D
                ''a required binding generation changed and policy refuses revalidation'' plan
            else decide RevalidateBindings
              ''a required binding generation changed; the continuation requires revalidation''
              plan)
         else if open_ambiguity amb then
           plan_of_ambiguity (the amb)
             (''ambiguity is '' @ ambiguity_state_name (amb_state (the amb)) @
              '' for action ordinal '' @ ordinal_text (amb_action_ordinal (the amb))) plan
         else if ri_checkpoint_unusable input then
           decide Unsupported_D
             ''a referenced checkpoint is missing, corrupt, or unsupported'' plan
         else (case ri_in_flight input of
                 Some action \<Rightarrow> classify_in_flight policy amb action plan
               | None \<Rightarrow> classify_idle input execution plan)))"

section \<open>Facts\<close>

lemma decide_sel [simp]:
  "plan_decision (decide d w p) = d" "plan_explanation (decide d w p) = w"
  "plan_commit_from_receipt (decide d w p) = plan_commit_from_receipt p"
  "plan_action (decide d w p) = plan_action p"
  "plan_action_generation (decide d w p) = plan_action_generation p"
  "plan_execution (decide d w p) = plan_execution p"
  by (simp_all add: decide_def)

lemma ambiguity_decision_operator:
  "recovery_requires_operator (ambiguity_decision a)"
  "\<not> recovery_allows_automatic_continue (ambiguity_decision a)"
  "ambiguity_decision a \<noteq> ReplaySafeAction" "ambiguity_decision a \<noteq> Recompute"
  by (simp_all add: ambiguity_decision_def)

lemma plan_of_ambiguity_sel [simp]:
  "plan_decision (plan_of_ambiguity a w p) = ambiguity_decision a"
  "plan_commit_from_receipt (plan_of_ambiguity a w p) = plan_commit_from_receipt p"
  by (simp_all add: plan_of_ambiguity_def)

lemma plan_header_sel [simp]: "\<not> plan_commit_from_receipt (plan_header e ep)"
  by (simp add: plan_header_def empty_plan_def)

lemma classify_idle_safe:
  "plan_decision (classify_idle input e p) \<noteq> ReplaySafeAction"
  "plan_decision (classify_idle input e p) \<noteq> Recompute"
  "plan_commit_from_receipt (classify_idle input e p) = plan_commit_from_receipt p"
  by (simp_all add: classify_idle_def Let_def split: option.split)

lemma in_flight_replay:
  assumes "plan_decision (classify_in_flight policy amb a p) = ReplaySafeAction"
  shows "\<not> forbids_replay policy"
    "act_status a = EffectNotApplied \<or> resolved_not_applied amb a \<or>
      auto_replayable (act_effect_class a)"
    "\<not> action_is_physically_sealed (act_status a) \<or> act_status a = Ambiguous"
  using assms by (auto simp: classify_in_flight_def Let_def split: if_splits)

lemma in_flight_receipt:
  assumes "plan_commit_from_receipt (classify_in_flight policy amb a p)"
    "\<not> plan_commit_from_receipt p"
  shows "act_status a = EffectApplied \<or> act_status a = CompletedUnacknowledged"
    "plan_decision (classify_in_flight policy amb a p) = ResumeFromCurrent"
  using assms by (auto simp: classify_in_flight_def Let_def split: if_splits)

lemma in_flight_automatic:
  assumes "recovery_allows_automatic_continue (plan_decision (classify_in_flight policy amb a p))"
  shows "act_status a \<in> {EffectApplied, CompletedUnacknowledged, EffectNotApplied, Committed,
      Compensated, Abandoned} \<or> resolved_not_applied amb a \<or> auto_replayable (act_effect_class a)"
  using assms by (auto simp: classify_in_flight_def Let_def split: if_splits)

lemma in_flight_not_recompute:
  "plan_decision (classify_in_flight policy amb a p) \<noteq> Recompute"
  by (simp add: classify_in_flight_def Let_def)

lemmas classify_cases = classify_recovery_def Let_def

end
