(* ===== verification/Request_Cache.thy ===== *)
theory Request_Cache
  imports Prelude
begin

text \<open>
  The bounded cache by request identity that the runtime and the server both keep: a map and
  the order in which its keys were inserted. The eviction loop is the same code in
  \<open>src/runtime.cpp\<close> and \<open>src/server.cpp\<close>; the locale states what an owner of such a cache
  does when it remembers a request, and what follows for every owner.
\<close>

text \<open>The eviction loop: drop from the front until the order is shorter than the bound.\<close>

fun evict :: "nat \<Rightarrow> u64 list \<Rightarrow> (u64 \<Rightarrow> 'v option) \<Rightarrow> u64 list \<times> (u64 \<Rightarrow> 'v option)" where
  "evict bound [] cache = ([], cache)"
| "evict bound (oldest # order) cache =
     (if length (oldest # order) \<ge> bound then evict bound order (cache(oldest := None))
      else (oldest # order, cache))"

text \<open>The cache and its insertion order agree, and the bound is kept.\<close>

definition cache_wf :: "nat \<Rightarrow> u64 list \<Rightarrow> (u64 \<Rightarrow> 'v option) \<Rightarrow> bool" where
  "cache_wf bound order cache \<longleftrightarrow>
     distinct order \<and> set order = dom cache \<and> length order \<le> bound"

lemma evict_length: "evict bound order cache = (order', cache') \<Longrightarrow> 0 < bound \<Longrightarrow> length order' < bound"
  by (induction bound order cache rule: evict.induct) (auto split: if_splits)

lemma evict_domain:
  "evict bound order cache = (order', cache') \<Longrightarrow> distinct order \<Longrightarrow> set order = dom cache \<Longrightarrow>
   distinct order' \<and> set order' = dom cache' \<and> dom cache' \<subseteq> dom cache"
proof (induction bound order cache arbitrary: order' cache' rule: evict.induct)
  case (2 bound oldest order cache)
  show ?case
  proof (cases "bound \<le> length (oldest # order)")
    case True
    have dom': "set order = dom (cache(oldest := None))" using 2(3,4) by auto
    have run: "evict bound order (cache(oldest := None)) = (order', cache')"
      using 2(2) True by simp
    have "distinct order' \<and> set order' = dom cache' \<and> dom cache' \<subseteq> dom (cache(oldest := None))"
      by (rule 2(1) [OF True run _ dom']) (use 2(3) in simp)
    moreover have "dom (cache(oldest := None)) \<subseteq> dom cache" by auto
    ultimately show ?thesis by blast
  next
    case False
    then show ?thesis using 2(2,3,4) by auto
  qed
qed simp

lemma evict_subset: "evict n order cache = (order', cache') \<Longrightarrow> cache' \<subseteq>\<^sub>m cache"
proof (induction n order cache rule: evict.induct)
  case (2 n oldest order cache)
  have "cache(oldest := None) \<subseteq>\<^sub>m cache" by (simp add: map_le_def)
  then show ?case
    using 2 by (cases "n \<le> length (oldest # order)") (auto intro: map_le_trans simp del: fun_upd_apply)
qed simp

text \<open>A key is recent when few keys were inserted after it; the loop drops only from the front.\<close>

definition recent :: "nat \<Rightarrow> u64 \<Rightarrow> u64 list \<Rightarrow> bool" where
  "recent n i order \<longleftrightarrow> (\<exists>older newer. order = older @ i # newer \<and> length newer \<le> n)"

lemma recent_mono: "recent n i order \<Longrightarrow> n \<le> m \<Longrightarrow> recent m i order"
  unfolding recent_def using le_trans by blast

lemma recent_last: "recent 0 i (order @ [i])"
  by (auto simp: recent_def)

lemma recent_push: "recent n i order \<Longrightarrow> recent (Suc n) i (order @ [j])"
  unfolding recent_def by (metis append_Cons append_assoc length_append_singleton not_less_eq_eq)

lemma evict_recent:
  "evict bound order cache = (order', cache') \<Longrightarrow> distinct order \<Longrightarrow> recent n i order \<Longrightarrow>
   Suc n < bound \<Longrightarrow> recent n i order' \<and> cache' i = cache i"
proof (induction bound order cache arbitrary: order' cache' rule: evict.induct)
  case (2 bound oldest order cache)
  show ?case
  proof (cases "bound \<le> length (oldest # order)")
    case True
    obtain older newer where split: "oldest # order = older @ i # newer" "length newer \<le> n"
      using 2(4) by (auto simp: recent_def)
    then have "recent n i order" "oldest \<noteq> i"
      using True 2(3,5) by (cases older; auto simp: recent_def)+
    moreover have "evict bound order (cache(oldest := None)) = (order', cache')" "distinct order"
      using 2(2,3) True by simp_all
    ultimately show ?thesis using 2(1) [OF True] 2(5) by (metis fun_upd_other)
  next
    case False
    then show ?thesis using 2 by auto
  qed
qed (simp add: recent_def)

locale request_cache =
  fixes bound :: "'s \<Rightarrow> nat"
    and order :: "'s \<Rightarrow> u64 list"
    and cache :: "'s \<Rightarrow> u64 \<Rightarrow> 'v option"
    and remember :: "u64 \<Rightarrow> 'v \<Rightarrow> 's \<Rightarrow> 's"
  assumes bound_remember: "bound (remember i v s) = bound s"
    and remember_off: "i = 0 \<or> bound s = 0 \<Longrightarrow> remember i v s = s"
    and remember_known: "cache s i = Some w \<Longrightarrow>
      order (remember i v s) = order s \<and> (\<exists>u. cache (remember i v s) = (cache s)(i \<mapsto> u))"
    and remember_new: "i \<noteq> 0 \<Longrightarrow> bound s \<noteq> 0 \<Longrightarrow> cache s i = None \<Longrightarrow>
      evict (bound s) (order s) (cache s) = (order', cache') \<Longrightarrow>
      order (remember i v s) = order' @ [i] \<and> cache (remember i v s) = cache'(i \<mapsto> v)"
begin

lemma remember_wf:
  assumes "cache_wf (bound s) (order s) (cache s)"
  shows "cache_wf (bound (remember i v s)) (order (remember i v s)) (cache (remember i v s))"
proof (cases "i = 0 \<or> bound s = 0")
  case True
  then show ?thesis using assms by (simp add: remember_off)
next
  case False
  show ?thesis
  proof (cases "cache s i")
    case None
    obtain order' cache' where ev: "evict (bound s) (order s) (cache s) = (order', cache')"
      by fastforce
    have "distinct order' \<and> set order' = dom cache' \<and> dom cache' \<subseteq> dom (cache s)"
      using evict_domain [OF ev] assms by (simp add: cache_wf_def)
    moreover have "length order' < bound s" using evict_length [OF ev] False by simp
    ultimately show ?thesis
      using None remember_new [OF _ _ None ev, of v] False
      by (auto simp: cache_wf_def bound_remember)
  next
    case (Some w)
    then show ?thesis
      using assms remember_known [OF Some, of v]
      by (auto simp: cache_wf_def bound_remember split: if_splits)
  qed
qed

lemma remember_found:
  "i \<noteq> 0 \<Longrightarrow> bound s \<noteq> 0 \<Longrightarrow> cache s i = None \<Longrightarrow> cache (remember i v s) i = Some v"
  using remember_new [of i s] by (metis fun_upd_same surj_pair)

lemma remember_recent_new:
  "i \<noteq> 0 \<Longrightarrow> bound s \<noteq> 0 \<Longrightarrow> cache s i = None \<Longrightarrow> recent 0 i (order (remember i v s))"
  using remember_new [of i s] by (metis recent_last surj_pair)

text \<open>A recent entry outlives the insertion of another key.\<close>

lemma remember_keeps_recent:
  assumes ok: "cache_wf (bound s) (order s) (cache s)"
    and here: "recent n i (order s)" "Suc n < bound s" and other: "j \<noteq> i"
  shows "recent (Suc n) i (order (remember j v s)) \<and> cache (remember j v s) i = cache s i"
proof (cases "j = 0 \<or> bound s = 0")
  case True
  then show ?thesis using here by (auto simp: remember_off intro: recent_mono)
next
  case False
  show ?thesis
  proof (cases "cache s j")
    case None
    obtain order' cache' where ev: "evict (bound s) (order s) (cache s) = (order', cache')"
      by fastforce
    have "recent n i order' \<and> cache' i = cache s i"
      using evict_recent [OF ev _ here] ok by (simp add: cache_wf_def)
    then show ?thesis
      using remember_new [OF _ _ None ev, of v] False other by (simp add: recent_push)
  next
    case (Some w)
    then show ?thesis
      using remember_known [OF Some, of v] here other by (auto intro: recent_mono)
  qed
qed

end

end
