(* ===== verification/Runtime_Core.thy ===== *)
theory Runtime_Core
  imports Journal Recovery_Plan Request_Cache
begin

text \<open>
  \<open>Runtime::Impl\<close> of \<open>src/runtime.cpp\<close>: the coordinator's state, its derived indexes, the
  persistence helpers, the request cache, the authority checks, the staging of logical
  commits and the other private helpers. Every public operation holds the runtime mutex from
  its first to its last statement, so an operation is one atomic function on the state.

  A C++ reference or pointer into a table that is read again after an upsert is modelled by
  the record it pointed to at the time of the lookup; where the source re-reads the table,
  the model does too.
\<close>

section \<open>State\<close>

record LeaseToken =
  tok_execution :: u64
  tok_execution_generation :: u64
  tok_incarnation :: u64
  tok_incarnation_generation :: u64
  tok_lease :: u64
  tok_lease_generation :: u64
  tok_epoch :: u64
  tok_worker :: u64
  tok_boot :: u64
  tok_policy_generation :: u64

record CallerContext =
  caller_session :: u64
  caller_epoch :: u64

record RuntimeConfig =
  cfg_create_if_missing :: bool
  cfg_store_limits :: StoreLimits
  cfg_max_executions :: nat
  cfg_request_cache_size :: nat
  cfg_max_view_actions :: nat

record CachedOutcome =
  co_code :: Code
  co_a :: u64
  co_b :: u64

record SessionInfo =
  ses_worker :: u64
  ses_boot :: u64

record Runtime =
  rt_store :: FileStore
  rt_state :: DurableState
  rt_config :: RuntimeConfig
  rt_open :: bool
  rt_shutting_down :: bool
  rt_next_session :: u64
  rt_sessions :: "u64 \<Rightarrow> SessionInfo option"
  rt_request_cache :: "u64 \<Rightarrow> CachedOutcome option"
  rt_request_order :: "u64 list"
  rt_action_index :: "u64 \<Rightarrow> ActionKey list"
  rt_checkpoint_index :: "u64 \<Rightarrow> u64 list"
  rt_commit_index :: "u64 \<Rightarrow> u64 list"
  rt_replay_index :: "u64 \<Rightarrow> u64 list"

type_synonym 'a rt_op = "(Runtime, 'a) status_op"

abbreviation upd_state :: "(DurableState \<Rightarrow> DurableState) \<Rightarrow> Runtime \<Rightarrow> Runtime" where
  "upd_state f r \<equiv> r\<lparr>rt_state := f (rt_state r)\<rparr>"

definition flush_for :: "ExecutionPolicy option \<Rightarrow> bool" where
  "flush_for policy =
     (case policy of None \<Rightarrow> True | Some p \<Rightarrow> pol_durability p = DurableOnCommit)"

definition require_transition :: "Lifecycle \<Rightarrow> Lifecycle \<Rightarrow> unit rt_op" where
  "require_transition from to = op_guard (is_legal_transition from to) LifecycleRefused"

section \<open>Derived indexes\<close>

definition keys_by :: "('r \<Rightarrow> u64) \<Rightarrow> ('r \<Rightarrow> 'k) \<Rightarrow> 'r list \<Rightarrow> u64 \<Rightarrow> 'k list" where
  "keys_by execution key rs e = map key (filter (\<lambda>r. execution r = e) rs)"

text \<open>\<open>rebuild_indexes\<close>: only the action index is sorted, by action key.\<close>

definition rebuild_indexes :: "Runtime \<Rightarrow> Runtime" where
  "rebuild_indexes r =
     (let s = rt_state r in
      r\<lparr>rt_action_index := (\<lambda>e. sort (keys_by act_execution action_key (ds_actions s) e)),
        rt_checkpoint_index := keys_by ckpt_execution ckpt_id (ds_checkpoints s),
        rt_commit_index := keys_by com_execution com_id (ds_commits s),
        rt_replay_index := keys_by rep_execution rep_id (ds_replays s)\<rparr>)"

text \<open>
  \<open>index_action\<close>: append a larger key, otherwise insert before the first key that is not
  smaller (\<open>std::lower_bound\<close>) unless it is already there.
\<close>

fun insert_key :: "ActionKey \<Rightarrow> ActionKey list \<Rightarrow> ActionKey list" where
  "insert_key k [] = [k]"
| "insert_key k (x # xs) =
     (if x < k then x # insert_key k xs else if x = k then x # xs else k # x # xs)"

definition index_keys :: "ActionKey \<Rightarrow> ActionKey list \<Rightarrow> ActionKey list" where
  "index_keys k keys =
     (if keys \<noteq> [] \<and> \<not> last keys < k then insert_key k keys
      else if keys \<noteq> [] \<and> last keys = k then keys
      else keys @ [k])"

definition index_action :: "ActionRecord \<Rightarrow> Runtime \<Rightarrow> Runtime" where
  "index_action a r =
     r\<lparr>rt_action_index := (rt_action_index r)
         (act_execution a := index_keys (action_key a) (rt_action_index r (act_execution a)))\<rparr>"

definition latest_action :: "u64 \<Rightarrow> Runtime \<Rightarrow> ActionRecord option" where
  "latest_action e r =
     (if rt_action_index r e = [] then None
      else tbl_find action_key (last (rt_action_index r e)) (ds_actions (rt_state r)))"

definition push_index :: "u64 \<Rightarrow> u64 \<Rightarrow> (u64 \<Rightarrow> u64 list) \<Rightarrow> u64 \<Rightarrow> u64 list" where
  "push_index e i idx = idx(e := idx e @ [i])"

section \<open>Persistence\<close>

definition rt_append :: "Entry \<Rightarrow> bool \<Rightarrow> unit rt_op" where
  "rt_append e flush r =
     (case store_append (entry_kind e) (entry_payload e) flush (rt_store r) of
        (Inl c, st) \<Rightarrow> (Inl c, r\<lparr>rt_store := st\<rparr>)
      | (Inr q, st) \<Rightarrow> (Inr (), r\<lparr>rt_store := st, rt_state := (rt_state r)\<lparr>ds_sequence := q\<rparr>\<rparr>))"

definition store_meta :: "DurableState \<Rightarrow> StoreMetaRecord" where
  "store_meta s = \<lparr>meta_store = ds_store s, meta_epoch = ds_epoch s,
     meta_next_execution_sequence = ds_next_execution_sequence s,
     meta_sequence = ds_sequence s, meta_schema = kPersistenceSchemaVersion\<rparr>"

definition rt_put_store_meta :: "bool \<Rightarrow> unit rt_op" where
  "rt_put_store_meta flush = op_read (\<lambda>r. rt_append (MetaEntry (store_meta (rt_state r))) flush)"

definition rt_put_policy :: "ExecutionPolicy \<Rightarrow> bool \<Rightarrow> unit rt_op" where
  "rt_put_policy p flush =
     pef_try (rt_append (PolicyEntry p) flush) (\<lambda>_. op_modify (upd_state (put_policy p)))"

definition rt_put_execution :: "ExecutionRecord \<Rightarrow> bool \<Rightarrow> unit rt_op" where
  "rt_put_execution e flush =
     pef_try (rt_append (ExecutionEntry e) flush) (\<lambda>_. op_modify (upd_state (put_execution e)))"

definition rt_put_action :: "ActionRecord \<Rightarrow> bool \<Rightarrow> unit rt_op" where
  "rt_put_action a flush =
     pef_try (rt_append (ActionEntry a) flush) (\<lambda>_.
       op_modify (\<lambda>r. index_action a (upd_state (put_action a) r)))"

definition rt_put_progress :: "ProgressRecord \<Rightarrow> bool \<Rightarrow> unit rt_op" where
  "rt_put_progress p flush =
     pef_try (rt_append (ProgressEntry p) flush) (\<lambda>_. op_modify (upd_state (put_progress p)))"

definition rt_put_checkpoint :: "CheckpointRecord \<Rightarrow> bool \<Rightarrow> unit rt_op" where
  "rt_put_checkpoint c flush =
     pef_try (rt_append (CheckpointEntry c) flush) (\<lambda>_. op_modify (\<lambda>r.
       let is_new = (find_checkpoint (ckpt_id c) (rt_state r) = None);
           r1 = upd_state (put_checkpoint c) r
       in if is_new
          then r1\<lparr>rt_checkpoint_index :=
                 push_index (ckpt_execution c) (ckpt_id c) (rt_checkpoint_index r1)\<rparr>
          else r1))"

definition rt_put_continuation :: "ContinuationRecord \<Rightarrow> bool \<Rightarrow> unit rt_op" where
  "rt_put_continuation c flush =
     pef_try (rt_append (ContinuationEntry c) flush) (\<lambda>_.
       op_modify (upd_state (put_continuation c)))"

definition rt_put_lease :: "LeaseRecord \<Rightarrow> bool \<Rightarrow> unit rt_op" where
  "rt_put_lease l flush =
     pef_try (rt_append (LeaseEntry l) flush) (\<lambda>_. op_modify (upd_state (put_lease l)))"

definition rt_put_replay :: "ReplayRecord \<Rightarrow> bool \<Rightarrow> unit rt_op" where
  "rt_put_replay p flush =
     pef_try (rt_append (ReplayEntry p) flush) (\<lambda>_. op_modify (\<lambda>r.
       let is_new = (find_replay (rep_id p) (rt_state r) = None);
           r1 = upd_state (put_replay p) r
       in if is_new
          then r1\<lparr>rt_replay_index := push_index (rep_execution p) (rep_id p) (rt_replay_index r1)\<rparr>
          else r1))"

definition rt_put_ambiguity :: "AmbiguityRecord \<Rightarrow> bool \<Rightarrow> unit rt_op" where
  "rt_put_ambiguity a flush =
     pef_try (rt_append (AmbiguityEntry a) flush) (\<lambda>_. op_modify (upd_state (put_ambiguity a)))"

definition rt_put_recovery :: "RecoveryRecord \<Rightarrow> bool \<Rightarrow> unit rt_op" where
  "rt_put_recovery v flush =
     pef_try (rt_append (RecoveryEntry v) flush) (\<lambda>_. op_modify (upd_state (put_recovery v)))"

section \<open>Request identity\<close>

definition lookup_request :: "u64 \<Rightarrow> Runtime \<Rightarrow> CachedOutcome option" where
  "lookup_request i r = rt_request_cache r i"

definition remember_request :: "u64 \<Rightarrow> CachedOutcome \<Rightarrow> Runtime \<Rightarrow> Runtime" where
  "remember_request i outcome r =
     (if \<not> id_valid i then r
      else if cfg_request_cache_size (rt_config r) = 0 then r
      else if rt_request_cache r i \<noteq> None
      then r\<lparr>rt_request_cache := (rt_request_cache r)(i \<mapsto> outcome)\<rparr>
      else (case evict (cfg_request_cache_size (rt_config r)) (rt_request_order r)
              (rt_request_cache r) of
              (order, cache) \<Rightarrow>
                r\<lparr>rt_request_cache := cache(i \<mapsto> outcome), rt_request_order := order @ [i]\<rparr>))"

definition remember :: "u64 \<Rightarrow> Code \<Rightarrow> u64 \<Rightarrow> u64 \<Rightarrow> unit rt_op" where
  "remember i c a b = op_modify (remember_request i \<lparr>co_code = c, co_a = a, co_b = b\<rparr>)"

section \<open>Authority checks\<close>

definition check_epoch :: "u64 \<Rightarrow> unit rt_op" where
  "check_epoch epoch = op_read (\<lambda>r. op_guard (epoch = ds_epoch (rt_state r)) StaleEpoch)"

definition check_open :: "unit rt_op" where
  "check_open =
     op_read (\<lambda>r. if \<not> rt_open r then op_fail ShuttingDown
       else if rt_shutting_down r then op_fail ShuttingDown
       else op_return ())"

definition check_caller :: "CallerContext \<Rightarrow> unit rt_op" where
  "check_caller caller = pef_try check_open (\<lambda>_. check_epoch (caller_epoch caller))"

text \<open>The refusal of a token, in the order of the checks; \<open>None\<close> when it is accepted.\<close>

definition token_refusal :: "LeaseToken \<Rightarrow> DurableState \<Rightarrow> Code option" where
  "token_refusal token s =
     (if tok_epoch token \<noteq> ds_epoch s then Some StaleEpoch
      else case find_execution (tok_execution token) s of
        None \<Rightarrow> Some NotFound
      | Some execution \<Rightarrow>
        if exec_generation execution \<noteq> tok_execution_generation token
        then Some StaleExecutionGeneration
        else if exec_incarnation_generation execution \<noteq> tok_incarnation_generation token
        then Some StaleIncarnation
        else if exec_incarnation execution \<noteq> tok_incarnation token then Some StaleIncarnation
        else if exec_lease execution \<noteq> tok_lease token \<or>
                exec_lease_generation execution \<noteq> tok_lease_generation token
        then Some StaleLease
        else (case find_lease (tok_lease token) s of
          None \<Rightarrow> Some StaleLease
        | Some lease \<Rightarrow>
          if lease_generation lease \<noteq> tok_lease_generation token then Some StaleLease
          else if lease_state lease \<noteq> Active then Some AuthorityRevoked
          else if lease_epoch lease \<noteq> ds_epoch s then Some StaleEpoch
          else if lease_worker lease \<noteq> tok_worker token \<or> lease_boot lease \<noteq> tok_boot token
          then Some StaleWorkerBoot
          else if exec_worker execution \<noteq> tok_worker token \<or> exec_boot execution \<noteq> tok_boot token
          then Some StaleWorkerBoot
          else if exec_policy_generation execution \<noteq> tok_policy_generation token
          then Some StalePolicyGeneration
          else None))"

text \<open>\<open>validate_token\<close> returns the execution and the lease it looked up.\<close>

definition validate_token :: "LeaseToken \<Rightarrow> (ExecutionRecord \<times> LeaseRecord) rt_op" where
  "validate_token token =
     op_read (\<lambda>r. case token_refusal token (rt_state r) of
       Some c \<Rightarrow> op_fail c
     | None \<Rightarrow> op_return (the (find_execution (tok_execution token) (rt_state r)),
                         the (find_lease (tok_lease token) (rt_state r))))"

definition policy_of :: "ExecutionRecord \<Rightarrow> Runtime \<Rightarrow> ExecutionPolicy option" where
  "policy_of execution r = find_policy (exec_policy execution) (rt_state r)"

definition find_checked :: "CallerContext \<Rightarrow> u64 \<Rightarrow> ExecutionRecord rt_op" where
  "find_checked caller i =
     pef_try (check_caller caller) (\<lambda>_.
     op_read (\<lambda>r. case find_execution i (rt_state r) of
       None \<Rightarrow> op_fail NotFound
     | Some execution \<Rightarrow> op_return execution))"

section \<open>Logical commits\<close>

definition staged_progress :: "DurableState \<Rightarrow> ExecutionRecord \<Rightarrow> ActionRecord \<Rightarrow> u64 \<Rightarrow> ProgressRecord" where
  "staged_progress s execution action commit =
     (let g = gen_next (exec_progress_generation execution) in
      \<lparr>prog_id = derive_progress_id (exec_id execution) g, prog_generation = g,
       prog_execution = exec_id execution,
       prog_execution_generation = exec_generation execution, prog_action = act_id action,
       prog_action_generation = act_generation action, prog_commit = commit,
       prog_epoch = ds_epoch s, prog_ordinal = act_sequence action, prog_committed = True,
       prog_durable_sequence = ds_sequence s\<rparr>)"

definition staged_commit :: "DurableState \<Rightarrow> ExecutionRecord \<Rightarrow> ActionRecord \<Rightarrow> u64 \<Rightarrow> CommitRecord" where
  "staged_commit s execution action request =
     (let g = gen_next (exec_progress_generation execution) in
      \<lparr>com_id = derive_commit_id (exec_id execution) (act_id action) (act_generation action) g,
       com_execution = exec_id execution,
       com_execution_generation = exec_generation execution, com_action = act_id action,
       com_action_generation = act_generation action,
       com_progress = derive_progress_id (exec_id execution) g,
       com_progress_generation = g, com_epoch = ds_epoch s, com_request = request\<rparr>)"

definition staged_group ::
  "DurableState \<Rightarrow> ExecutionRecord \<Rightarrow> ActionRecord \<Rightarrow> u64 \<Rightarrow> Evidence \<Rightarrow> CommitGroupRecord" where
  "staged_group s execution action request evidence =
     (let commit = staged_commit s execution action request;
          progress = staged_progress s execution action (com_id commit)
      in \<lparr>grp_commit = commit, grp_progress = progress,
          grp_action = action\<lparr>act_status := Committed, act_commit := com_id commit,
            act_receipt := evidence\<rparr>,
          grp_execution = execution\<lparr>
            exec_progress_generation := gen_next (exec_progress_generation execution),
            exec_progress := prog_id progress, exec_last_commit := com_id commit,
            exec_committed_actions := exec_committed_actions execution + 1,
            exec_epoch := ds_epoch s\<rparr>\<rparr>)"

text \<open>The in-memory half: the four upserts and the index maintenance.\<close>

definition install_group :: "CommitGroupRecord \<Rightarrow> Runtime \<Rightarrow> Runtime" where
  "install_group g r =
     (let is_new = (find_commit (com_id (grp_commit g)) (rt_state r) = None);
          r1 = upd_state (put_commit (grp_commit g)) r;
          r2 = (if is_new
                then r1\<lparr>rt_commit_index := push_index (com_execution (grp_commit g))
                       (com_id (grp_commit g)) (rt_commit_index r1)\<rparr>
                else r1);
          r3 = upd_state (\<lambda>s. put_action (grp_action g) (put_progress (grp_progress g) s)) r2
      in upd_state (put_execution (grp_execution g)) (index_action (grp_action g) r3))"

definition stage_commit ::
  "ExecutionRecord \<Rightarrow> ActionRecord \<Rightarrow> u64 \<Rightarrow> Evidence \<Rightarrow> bool \<Rightarrow> CommitGroupRecord rt_op" where
  "stage_commit execution action request evidence flush =
     op_read (\<lambda>r.
       let g = staged_group (rt_state r) execution action request evidence in
       if find_commit (com_id (grp_commit g)) (rt_state r) \<noteq> None then op_fail DuplicateCommit
       else pef_try (rt_append (GroupEntry g) flush) (\<lambda>_.
            pef_try (op_modify (install_group g)) (\<lambda>_. op_return g)))"

section \<open>Continuations and transitions\<close>

definition retirable :: "u64 \<Rightarrow> u64 \<Rightarrow> ContinuationRecord list \<Rightarrow> ContinuationRecord list" where
  "retirable execution keep conts =
     map (\<lambda>c. c\<lparr>cont_state := Stale\<rparr>)
       (filter (\<lambda>c. cont_execution c = execution \<and> cont_id c \<noteq> keep \<and> cont_state c = Valid) conts)"

definition retire_other_continuations :: "u64 \<Rightarrow> u64 \<Rightarrow> bool \<Rightarrow> unit rt_op" where
  "retire_other_continuations execution keep flush =
     op_read (\<lambda>r. op_for (\<lambda>c. rt_put_continuation c flush)
       (retirable execution keep (ds_continuations (rt_state r))))"

definition drop_binding :: "ExecutionRecord \<Rightarrow> ExecutionRecord" where
  "drop_binding e = e\<lparr>exec_lease := 0, exec_worker := 0, exec_boot := 0\<rparr>"

text \<open>The revocation of a lease that is still active.\<close>

definition revoke_active :: "u64 \<Rightarrow> bool \<Rightarrow> unit rt_op" where
  "revoke_active lease flush =
     op_read (\<lambda>r. case find_lease lease (rt_state r) of
       None \<Rightarrow> op_return ()
     | Some l \<Rightarrow> if lease_state l = Active then rt_put_lease (l\<lparr>lease_state := Revoked\<rparr>) flush
                else op_return ())"

definition drops_authority :: "Lifecycle \<Rightarrow> bool" where
  "drops_authority target \<longleftrightarrow> target = Fenced \<or> target = Suspended \<or> is_terminal_state target"

definition persist_transition :: "ExecutionRecord \<Rightarrow> Lifecycle \<Rightarrow> bool \<Rightarrow> unit rt_op" where
  "persist_transition next0 target flush =
     pef_try (require_transition (exec_lifecycle next0) target) (\<lambda>_.
     let next1 = next0\<lparr>exec_lifecycle := target\<rparr>;
         dropped = drops_authority target \<and> has_lease next1;
         next2 = (if dropped then drop_binding next1 else next1)
     in pef_try (if dropped then revoke_active (exec_lease next1) flush else op_return ()) (\<lambda>_.
        op_read (\<lambda>r. rt_put_execution (next2\<lparr>exec_epoch := ds_epoch (rt_state r)\<rparr>) flush)))"

definition mint_continuation ::
  "ExecutionRecord \<Rightarrow> ExecutionRecord \<Rightarrow> ContinuationState \<Rightarrow> u64 \<Rightarrow> DurableState \<Rightarrow> ContinuationRecord" where
  "mint_continuation execution next' initial_state resume_ordinal s =
     (let g = gen_next (exec_continuation_generation execution) in
      \<lparr>cont_id = derive_continuation_id (exec_id execution) (exec_incarnation_generation next')
         (exec_progress_generation next') g,
       cont_generation = g, cont_execution = exec_id execution,
       cont_execution_generation = exec_generation next',
       cont_incarnation = exec_incarnation next',
       cont_incarnation_generation = exec_incarnation_generation next',
       cont_checkpoint = exec_checkpoint next',
       cont_checkpoint_generation = exec_checkpoint_generation next',
       cont_progress_generation = exec_progress_generation next',
       cont_action_generation = exec_action_generation next', cont_policy = exec_policy next',
       cont_policy_generation = exec_policy_generation next',
       cont_bindings = exec_bindings next', cont_epoch = ds_epoch s,
       cont_recovery = exec_recovery next',
       cont_recovery_generation = exec_recovery_generation next',
       cont_state = initial_state, cont_resume_ordinal = resume_ordinal\<rparr>)"

end
