(* ===== verification/Runtime_Lifecycle.thy ===== *)
theory Runtime_Lifecycle
  imports Runtime_Core
begin

text \<open>
  Sessions, execution creation, policy updates, worker binding, start and the lifecycle
  operations of \<open>Runtime\<close> (\<open>src/runtime.cpp\<close>). Each public member function is one
  definition; its output arguments are the returned value.
\<close>

section \<open>Sessions\<close>

definition begin_session :: "u64 \<Rightarrow> u64 \<Rightarrow> CallerContext rt_op" where
  "begin_session worker boot =
     op_read (\<lambda>r.
       if \<not> rt_open r then op_fail NotFound
       else if rt_shutting_down r then op_fail ShuttingDown
       else if \<not> id_valid worker \<or> \<not> id_valid boot then op_fail InvalidArgument
       else (let session = rt_next_session r in
         pef_try (op_modify (\<lambda>r. r\<lparr>rt_next_session := session + 1,
           rt_sessions := (case rt_sessions r session of
             Some info \<Rightarrow> rt_sessions r
           | None \<Rightarrow> (rt_sessions r)(session \<mapsto> \<lparr>ses_worker = worker, ses_boot = boot\<rparr>))\<rparr>))
         (\<lambda>_. op_return \<lparr>caller_session = session, caller_epoch = ds_epoch (rt_state r)\<rparr>)))"

text \<open>The body of the fencing loop of \<open>end_session\<close> for one bound execution.\<close>

definition revoke_any :: "u64 \<Rightarrow> bool \<Rightarrow> unit rt_op" where
  "revoke_any lease flush =
     op_read (\<lambda>r. case find_lease lease (rt_state r) of
       None \<Rightarrow> op_return ()
     | Some l \<Rightarrow> rt_put_lease (l\<lparr>lease_state := Revoked\<rparr>) flush)"

definition fence_bound :: "ExecutionRecord \<Rightarrow> unit rt_op" where
  "fence_bound execution =
     (let legal = is_legal_transition (exec_lifecycle execution) Fenced in
      if \<not> legal \<and> \<not> has_lease execution then op_return ()
      else (let next1 = (if legal then execution\<lparr>exec_lifecycle := Fenced\<rparr> else execution);
                next2 = (if has_lease next1 then drop_binding next1 else next1)
        in pef_try (if has_lease next1 then revoke_any (exec_lease next1) True else op_return ())
             (\<lambda>_. rt_put_execution next2 True)))"

definition end_session :: "u64 \<Rightarrow> unit rt_op" where
  "end_session session =
     op_read (\<lambda>r. case rt_sessions r session of
       None \<Rightarrow> op_fail NotFound
     | Some info \<Rightarrow>
         pef_try (op_modify (\<lambda>r. r\<lparr>rt_sessions := (rt_sessions r)(session := None)\<rparr>)) (\<lambda>_.
         op_for fence_bound
           (filter (\<lambda>e. exec_worker e = ses_worker info \<and> exec_boot e = ses_boot info \<and>
                \<not> is_terminal_state (exec_lifecycle e)) (ds_executions (rt_state r)))))"

section \<open>Creation and policy\<close>

record CreateExecutionResult =
  cer_execution :: u64
  cer_generation :: u64
  cer_policy :: u64
  cer_policy_generation :: u64
  cer_existing :: bool

definition fresh_execution :: "u64 \<Rightarrow> ExecutionPolicy \<Rightarrow> u64 \<Rightarrow> u64 \<Rightarrow> ExecutionRecord" where
  "fresh_execution i policy epoch sequence =
     \<lparr>exec_id = i, exec_generation = 1, exec_incarnation = 0, exec_incarnation_generation = 0,
      exec_lifecycle = Created_L, exec_continuation = 0, exec_continuation_generation = 0,
      exec_progress = 0, exec_progress_generation = 0, exec_action_generation = 0,
      exec_action_frontier = 0, exec_blocked_above_ordinal = 0, exec_blocked = False,
      exec_checkpoint = 0, exec_checkpoint_generation = 0, exec_policy = pol_id policy,
      exec_policy_generation = pol_generation policy, exec_epoch = epoch, exec_worker = 0,
      exec_boot = 0, exec_lease = 0, exec_lease_generation = 0, exec_last_commit = 0,
      exec_recovery = 0, exec_recovery_generation = 0, exec_ambiguity = 0,
      exec_ambiguity_generation = 0, exec_bindings = empty_bindings,
      exec_committed_actions = 0, exec_replay_count = 0, exec_created_sequence = sequence\<rparr>"

definition create_execution ::
  "CallerContext \<Rightarrow> u64 \<Rightarrow> ExecutionPolicy \<Rightarrow> CreateExecutionResult rt_op" where
  "create_execution caller request req_policy =
     pef_try (check_caller caller) (\<lambda>_.
     op_read (\<lambda>r.
       case lookup_request request r of
         Some cached \<Rightarrow>
           op_return (case find_execution (co_a cached) (rt_state r) of
             Some e \<Rightarrow> \<lparr>cer_execution = co_a cached, cer_generation = co_b cached,
               cer_policy = exec_policy e, cer_policy_generation = exec_policy_generation e,
               cer_existing = True\<rparr>
           | None \<Rightarrow> \<lparr>cer_execution = co_a cached, cer_generation = co_b cached,
               cer_policy = 0, cer_policy_generation = 0, cer_existing = True\<rparr>)
       | None \<Rightarrow>
         if length (ds_executions (rt_state r)) \<ge> cfg_max_executions (rt_config r)
         then op_fail LimitExceeded
         else
           (let sequence = ds_next_execution_sequence (rt_state r);
                execution_id = derive_execution_id (ds_store (rt_state r)) sequence;
                policy = req_policy\<lparr>pol_id := derive_policy_id execution_id 1,
                  pol_generation := 1\<rparr>
            in if validate_policy policy \<noteq> None then op_fail InvalidArgument
               else
                 pef_try (op_modify (upd_state
                   (\<lambda>s. s\<lparr>ds_next_execution_sequence := sequence + 1\<rparr>))) (\<lambda>_.
                 pef_try (rt_put_store_meta True) (\<lambda>_.
                 op_read (\<lambda>r1.
                   let execution = fresh_execution execution_id policy
                         (ds_epoch (rt_state r1)) sequence
                   in pef_try (rt_put_policy policy True) (\<lambda>_.
                      pef_try (rt_put_execution execution True) (\<lambda>_.
                      pef_try (remember request Ok execution_id (exec_generation execution)) (\<lambda>_.
                      op_return \<lparr>cer_execution = execution_id,
                        cer_generation = exec_generation execution, cer_policy = pol_id policy,
                        cer_policy_generation = pol_generation policy,
                        cer_existing = False\<rparr>)))))))))"

text \<open>The continuations the loop of \<open>update_policy\<close> rewrites.\<close>

definition policy_moved :: "u64 \<Rightarrow> ExecutionPolicy \<Rightarrow> ContinuationRecord list \<Rightarrow> ContinuationRecord list" where
  "policy_moved execution policy conts =
     map (\<lambda>c. c\<lparr>cont_state := (if pol_policy_change_invalidates_continuations policy then Stale
              else RevalidationRequired_CT)\<rparr>)
       (filter (\<lambda>c. cont_execution c = execution \<and> cont_state c = Valid) conts)"

definition update_policy :: "CallerContext \<Rightarrow> u64 \<Rightarrow> u64 \<Rightarrow> ExecutionPolicy \<Rightarrow> bool \<Rightarrow> unit rt_op" where
  "update_policy caller request execution_id policy0 apply_it =
     pef_try (check_caller caller) (\<lambda>_.
     op_read (\<lambda>r.
       if lookup_request request r \<noteq> None then op_fail DuplicateRequest
       else case find_execution execution_id (rt_state r) of
         None \<Rightarrow> op_fail NotFound
       | Some execution \<Rightarrow>
         (let policy = policy0\<lparr>pol_id := exec_policy execution,
                pol_generation := gen_next (exec_policy_generation execution)\<rparr>
          in if validate_policy policy \<noteq> None then op_fail InvalidArgument
             else if \<not> apply_it then op_return ()
             else
               (let next0 = execution\<lparr>exec_policy_generation := pol_generation policy\<rparr>;
                    bound = has_lease next0;
                    active = is_active_state (exec_lifecycle next0);
                    next1 = (if bound then drop_binding next0 else next0);
                    next2 = (if bound \<and> active
                             then next1\<lparr>exec_lifecycle := RecoveryRequired\<rparr> else next1)
                in pef_try (rt_put_policy policy True) (\<lambda>_.
                   pef_try (if bound then revoke_any (exec_lease next0) True else op_return ()) (\<lambda>_.
                   pef_try (if bound \<and> active
                            then require_transition (exec_lifecycle next0) RecoveryRequired
                            else op_return ()) (\<lambda>_.
                   pef_try (op_read (\<lambda>r1. op_for (\<lambda>c. rt_put_continuation c True)
                     (policy_moved execution_id policy (ds_continuations (rt_state r1))))) (\<lambda>_.
                   pef_try (rt_put_execution next2 True) (\<lambda>_.
                   remember request Ok 0 0)))))))))"

section \<open>Worker binding\<close>

record BindWorkerResult =
  bwr_incarnation :: u64
  bwr_incarnation_generation :: u64
  bwr_lease :: u64
  bwr_lease_generation :: u64
  bwr_lifecycle :: Lifecycle
  bwr_incarnation_advanced :: bool

definition bindable :: "Lifecycle \<Rightarrow> bool" where
  "bindable l \<longleftrightarrow> l \<in> {Created_L, Ready, Fenced, RecoveryRequired, Recovering, Resuming, Suspended}"

text \<open>The execution after its incarnation has been advanced for a new boot.\<close>

definition reincarnate :: "ExecutionRecord \<Rightarrow> u64 \<Rightarrow> ExecutionRecord" where
  "reincarnate execution boot =
     (if id_valid (exec_boot execution) \<and> exec_boot execution = boot then execution
      else (let generation = (if exec_incarnation_generation execution \<noteq> 0
                              then gen_next (exec_incarnation_generation execution) else 1)
        in execution\<lparr>exec_incarnation_generation := generation,
             exec_incarnation := derive_incarnation_id (exec_id execution) generation\<rparr>))"

definition new_lease ::
  "ExecutionRecord \<Rightarrow> ExecutionRecord \<Rightarrow> u64 \<Rightarrow> u64 \<Rightarrow> BindingSet \<Rightarrow> u64 \<Rightarrow> LeaseRecord" where
  "new_lease execution next' worker boot bindings epoch =
     (let g = gen_next (exec_lease_generation execution) in
      \<lparr>lease_id = derive_lease_id (exec_id execution) worker boot g, lease_generation = g,
       lease_execution = exec_id execution,
       lease_execution_generation = exec_generation execution,
       lease_incarnation = exec_incarnation next',
       lease_incarnation_generation = exec_incarnation_generation next',
       lease_worker = worker, lease_boot = boot, lease_epoch = epoch,
       lease_policy_generation = exec_policy_generation next', lease_bindings = bindings,
       lease_state = Active\<rparr>)"

definition bound_execution ::
  "ExecutionRecord \<Rightarrow> LeaseRecord \<Rightarrow> BindingSet \<Rightarrow> u64 \<Rightarrow> ExecutionRecord" where
  "bound_execution next' lease bindings epoch =
     next'\<lparr>exec_worker := lease_worker lease, exec_boot := lease_boot lease,
       exec_lease := lease_id lease, exec_lease_generation := lease_generation lease,
       exec_bindings := bindings, exec_epoch := epoch,
       exec_lifecycle := (if exec_lifecycle next' = Created_L then Ready
         else if exec_lifecycle next' = Fenced then RecoveryRequired
         else exec_lifecycle next')\<rparr>"

text \<open>A lease that is still active is superseded before its successor is written.\<close>

definition supersede :: "u64 \<Rightarrow> unit rt_op" where
  "supersede lease =
     op_read (\<lambda>r. case find_lease lease (rt_state r) of
       None \<Rightarrow> op_return ()
     | Some l \<Rightarrow> if lease_state l = Active then rt_put_lease (l\<lparr>lease_state := Superseded\<rparr>) True
                else op_return ())"

definition lease_is_active :: "u64 \<Rightarrow> DurableState \<Rightarrow> bool" where
  "lease_is_active i s \<longleftrightarrow>
     (case find_lease i s of None \<Rightarrow> False | Some l \<Rightarrow> lease_state l = Active)"

definition bind_worker ::
  "CallerContext \<Rightarrow> u64 \<Rightarrow> u64 \<Rightarrow> u64 \<Rightarrow> u64 \<Rightarrow> BindingSet \<Rightarrow> BindWorkerResult rt_op" where
  "bind_worker caller request execution_id worker boot bindings =
     pef_try (check_caller caller) (\<lambda>_.
     op_read (\<lambda>r.
       case lookup_request request r of
         Some cached \<Rightarrow>
           op_return (case find_execution execution_id (rt_state r) of
             Some e \<Rightarrow> \<lparr>bwr_incarnation = co_a cached,
               bwr_incarnation_generation = exec_incarnation_generation e,
               bwr_lease = co_b cached, bwr_lease_generation = exec_lease_generation e,
               bwr_lifecycle = exec_lifecycle e, bwr_incarnation_advanced = False\<rparr>
           | None \<Rightarrow> \<lparr>bwr_incarnation = co_a cached, bwr_incarnation_generation = 0,
               bwr_lease = co_b cached, bwr_lease_generation = 0, bwr_lifecycle = Created_L,
               bwr_incarnation_advanced = False\<rparr>)
       | None \<Rightarrow>
         if \<not> id_valid worker \<or> \<not> id_valid boot then op_fail InvalidArgument
         else case find_execution execution_id (rt_state r) of
           None \<Rightarrow> op_fail NotFound
         | Some execution \<Rightarrow>
           if binding_set_defect bindings \<noteq> None then op_fail InvalidArgument
           else if \<not> bindable (exec_lifecycle execution) then op_fail LifecycleRefused
           else if has_lease execution \<and> exec_boot execution \<noteq> boot \<and>
                   lease_is_active (exec_lease execution) (rt_state r)
           then op_fail FencedCode
           else
             (let flush = flush_for (policy_of execution r);
                  same_boot = (id_valid (exec_boot execution) \<and> exec_boot execution = boot);
                  next1 = reincarnate execution boot;
                  epoch = ds_epoch (rt_state r);
                  lease = new_lease execution next1 worker boot bindings epoch;
                  next2 = bound_execution next1 lease bindings epoch
              in pef_try (if has_lease execution then supersede (exec_lease execution)
                          else op_return ()) (\<lambda>_.
                 pef_try (if exec_lifecycle next1 = Fenced
                          then require_transition Fenced RecoveryRequired
                          else op_return ()) (\<lambda>_.
                 pef_try (rt_put_lease lease flush) (\<lambda>_.
                 pef_try (rt_put_execution next2 flush) (\<lambda>_.
                 pef_try (remember request Ok (exec_incarnation next2) (lease_id lease)) (\<lambda>_.
                 op_return \<lparr>bwr_incarnation = exec_incarnation next2,
                   bwr_incarnation_generation = exec_incarnation_generation next2,
                   bwr_lease = lease_id lease, bwr_lease_generation = lease_generation lease,
                   bwr_lifecycle = exec_lifecycle next2,
                   bwr_incarnation_advanced = (\<not> same_boot)\<rparr>))))))))"

definition start :: "u64 \<Rightarrow> LeaseToken \<Rightarrow> unit rt_op" where
  "start request token =
     pef_try check_open (\<lambda>_.
     pef_try (validate_token token) (\<lambda>(execution, lease).
     op_read (\<lambda>r.
       if lookup_request request r \<noteq> None then op_return ()
       else if exec_lifecycle execution \<noteq> Ready then op_fail LifecycleRefused
       else
         pef_try (require_transition (exec_lifecycle execution) Running) (\<lambda>_.
         let next0 = execution\<lparr>exec_lifecycle := Running, exec_epoch := ds_epoch (rt_state r)\<rparr>;
             continuation = mint_continuation next0 next0 Valid (exec_action_frontier next0)
               (rt_state r);
             next1 = next0\<lparr>exec_continuation := cont_id continuation,
               exec_continuation_generation := cont_generation continuation\<rparr>;
             flush = flush_for (policy_of next1 r)
         in pef_try (retire_other_continuations (exec_id next1) (cont_id continuation) flush) (\<lambda>_.
            pef_try (rt_put_continuation continuation flush) (\<lambda>_.
            pef_try (rt_put_execution next1 flush) (\<lambda>_.
            remember request Ok 0 0)))))))"

section \<open>Lifecycle operations\<close>

text \<open>
  \<open>fence\<close>, \<open>retire\<close>, \<open>cancel\<close>, \<open>drain\<close>, \<open>complete_execution\<close>, \<open>suspend_begin\<close> and
  \<open>suspend_commit\<close> share their shape: find the execution, answer a repeated request, check
  a guard, persist the transition, remember the request.
\<close>

definition transition_op ::
  "CallerContext \<Rightarrow> u64 \<Rightarrow> u64 \<Rightarrow> (ExecutionRecord \<Rightarrow> DurableState \<Rightarrow> bool) \<Rightarrow> Lifecycle \<Rightarrow> unit rt_op" where
  "transition_op caller request execution_id refused target =
     pef_try (find_checked caller execution_id) (\<lambda>execution.
     op_read (\<lambda>r.
       if lookup_request request r \<noteq> None then op_return ()
       else if refused execution (rt_state r) then op_fail UnresolvedAmbiguity
       else pef_try (persist_transition execution target True) (\<lambda>_.
            remember request Ok 0 0)))"

definition has_open_ambiguity :: "ExecutionRecord \<Rightarrow> DurableState \<Rightarrow> bool" where
  "has_open_ambiguity execution s \<longleftrightarrow>
     ambiguity_open execution \<and> open_ambiguity (find_ambiguity (exec_ambiguity execution) s)"

definition fence :: "CallerContext \<Rightarrow> u64 \<Rightarrow> u64 \<Rightarrow> unit rt_op" where
  "fence caller request i = transition_op caller request i (\<lambda>_ _. False) Fenced"

definition retire :: "CallerContext \<Rightarrow> u64 \<Rightarrow> u64 \<Rightarrow> unit rt_op" where
  "retire caller request i = transition_op caller request i has_open_ambiguity Retired"

definition cancel :: "CallerContext \<Rightarrow> u64 \<Rightarrow> u64 \<Rightarrow> unit rt_op" where
  "cancel caller request i = transition_op caller request i (\<lambda>_ _. False) Cancelled"

definition drain :: "CallerContext \<Rightarrow> u64 \<Rightarrow> u64 \<Rightarrow> unit rt_op" where
  "drain caller request i = transition_op caller request i (\<lambda>_ _. False) Draining"

definition complete_execution :: "CallerContext \<Rightarrow> u64 \<Rightarrow> u64 \<Rightarrow> unit rt_op" where
  "complete_execution caller request i =
     transition_op caller request i has_open_ambiguity Completed_L"

definition suspend_begin :: "CallerContext \<Rightarrow> u64 \<Rightarrow> u64 \<Rightarrow> unit rt_op" where
  "suspend_begin caller request i = transition_op caller request i (\<lambda>_ _. False) Suspending"

definition suspend_commit :: "CallerContext \<Rightarrow> u64 \<Rightarrow> u64 \<Rightarrow> unit rt_op" where
  "suspend_commit caller request i = transition_op caller request i (\<lambda>_ _. False) Suspended"

definition outdated :: "u64 \<Rightarrow> ContinuationRecord list \<Rightarrow> ContinuationRecord list" where
  "outdated execution conts =
     map (\<lambda>c. c\<lparr>cont_state := Stale\<rparr>)
       (filter (\<lambda>c. cont_execution c = execution \<and> cont_state c \<noteq> Stale) conts)"

definition advance_execution_generation :: "CallerContext \<Rightarrow> u64 \<Rightarrow> u64 \<Rightarrow> unit rt_op" where
  "advance_execution_generation caller request execution_id =
     pef_try (find_checked caller execution_id) (\<lambda>execution.
     op_read (\<lambda>r.
       if lookup_request request r \<noteq> None then op_return ()
       else if is_terminal_state (exec_lifecycle execution) then op_fail LifecycleRefused
       else
         (let was_active = is_active_state (exec_lifecycle execution);
              next1 = (if has_lease execution then drop_binding execution else execution);
              next2 = next1\<lparr>exec_generation := gen_next (exec_generation execution),
                exec_continuation := 0, exec_continuation_generation := 0,
                exec_epoch := ds_epoch (rt_state r),
                exec_lifecycle := (if was_active then RecoveryRequired
                  else exec_lifecycle execution)\<rparr>
          in pef_try (op_for (\<lambda>c. rt_put_continuation c True)
               (outdated execution_id (ds_continuations (rt_state r)))) (\<lambda>_.
             pef_try (if has_lease execution then revoke_active (exec_lease execution) True
                      else op_return ()) (\<lambda>_.
             pef_try (if was_active then require_transition (exec_lifecycle execution) RecoveryRequired
                      else op_return ()) (\<lambda>_.
             pef_try (rt_put_execution next2 True) (\<lambda>_.
             remember request Ok (exec_generation next2) 0)))))))"

end
