(* ===== verification/Transitions.thy ===== *)
theory Transitions
  imports Runtime_Lifecycle
begin

text \<open>
  The abstract transition system of the durable state. \<open>evolution\<close> lists every kind of
  write the runtime performs on its tables, each with the guard the runtime guarantees at
  that point; the invariants of the fabric are proved here once, by rule induction, and the
  operations of the runtime are shown to refine sequences of these steps in
  \<open>Runtime_Refinement\<close>.
\<close>

section \<open>Updates of an execution record\<close>

text \<open>
  A fenced or terminal execution holds no lease.
\<close>

definition unleased :: "ExecutionRecord \<Rightarrow> bool" where
  "unleased e \<longleftrightarrow>
     (exec_lifecycle e = Fenced \<or> is_terminal_state (exec_lifecycle e) \<longrightarrow> \<not> has_lease e)"

text \<open>
  What an update outside a commit may change: the lifecycle only along the transition
  table, the action frontier by at most one, the execution generation by at most one, and
  nothing of the logical progress.
\<close>

definition exec_step :: "ExecutionRecord \<Rightarrow> ExecutionRecord \<Rightarrow> bool" where
  "exec_step e e' \<longleftrightarrow>
     exec_id e' = exec_id e \<and> evolves (exec_lifecycle e) (exec_lifecycle e') \<and>
     exec_progress_generation e' = exec_progress_generation e \<and>
     exec_progress e' = exec_progress e \<and> exec_last_commit e' = exec_last_commit e \<and>
     exec_committed_actions e' = exec_committed_actions e \<and>
     exec_policy e' = exec_policy e \<and> exec_created_sequence e' = exec_created_sequence e \<and>
     exec_action_frontier e' \<in> {exec_action_frontier e, exec_action_frontier e + 1} \<and>
     exec_generation e' \<in> {exec_generation e, gen_next (exec_generation e)} \<and>
     (unleased e \<longrightarrow> unleased e')"

section \<open>The step relation\<close>

definition sole_valid :: "u64 \<Rightarrow> u64 \<Rightarrow> ContinuationRecord list \<Rightarrow> bool" where
  "sole_valid execution keep conts \<longleftrightarrow>
     (\<forall>c \<in> set conts. cont_execution c = execution \<and> cont_id c \<noteq> keep \<longrightarrow> cont_state c \<noteq> Valid)"

definition apply_group :: "CommitGroupRecord \<Rightarrow> DurableState \<Rightarrow> DurableState" where
  "apply_group g s = put_execution (grp_execution g) (put_action (grp_action g)
     (put_progress (grp_progress g) (put_commit (grp_commit g) s)))"

inductive evolution :: "DurableState \<Rightarrow> DurableState \<Rightarrow> bool" where
  sequence: "evolution s (s\<lparr>ds_sequence := q\<rparr>)"
| next_execution: "evolution s (s\<lparr>ds_next_execution_sequence := n\<rparr>)"
| policy: "evolution s (put_policy p s)"
| create: "find_execution i s = None \<Longrightarrow>
    evolution s (put_execution (fresh_execution i p ep n) s)"
| execution: "find_execution (exec_id e') s = Some e \<Longrightarrow> exec_step e e' \<Longrightarrow>
    evolution s (put_execution e' s)"
| lease_end: "find_lease (lease_id l) s = Some l \<Longrightarrow> st \<noteq> Active \<Longrightarrow>
    evolution s (put_lease (l\<lparr>lease_state := st\<rparr>) s)"
| lease_new: "lease_epoch l = ds_epoch s \<Longrightarrow> id_valid (lease_worker l) \<Longrightarrow>
    id_valid (lease_boot l) \<Longrightarrow> evolution s (put_lease l s)"
| action: "evolution s (put_action a s)"
| checkpoint: "evolution s (put_checkpoint k s)"
| continuation_end: "find_continuation (cont_id c) s = Some c \<Longrightarrow> st \<noteq> Valid \<Longrightarrow>
    evolution s (put_continuation (c\<lparr>cont_state := st\<rparr>) s)"
| continuation_new: "sole_valid (cont_execution c) (cont_id c) (ds_continuations s) \<Longrightarrow>
    cont_epoch c = ds_epoch s \<Longrightarrow> evolution s (put_continuation c s)"
| replay: "evolution s (put_replay p s)"
| ambiguity: "evolution s (put_ambiguity m s)"
| recovery: "evolution s (put_recovery v s)"
| commit: "find_execution (exec_id e) s = Some e \<Longrightarrow> g = staged_group (s\<lparr>ds_sequence := q\<rparr>) e a request evidence \<Longrightarrow>
    find_commit (com_id (grp_commit g)) s = None \<Longrightarrow> evolution s (apply_group g s)"

abbreviation evolutions :: "DurableState \<Rightarrow> DurableState \<Rightarrow> bool" where
  "evolutions \<equiv> rtranclp evolution"

inductive_cases evolutionE: "evolution s s'"

section \<open>Lookups after a write\<close>

text \<open>
  The selectors of the tables a write does not touch, and lookups in those it does.
\<close>

lemma put_sel [simp]:
  "ds_epoch (put_policy p s) = ds_epoch s" "ds_epoch (put_execution e s) = ds_epoch s"
  "ds_epoch (put_action a s) = ds_epoch s" "ds_epoch (put_progress q s) = ds_epoch s"
  "ds_epoch (put_checkpoint k s) = ds_epoch s" "ds_epoch (put_continuation c s) = ds_epoch s"
  "ds_epoch (put_lease l s) = ds_epoch s" "ds_epoch (put_replay r s) = ds_epoch s"
  "ds_epoch (put_ambiguity m s) = ds_epoch s" "ds_epoch (put_commit t s) = ds_epoch s"
  "ds_epoch (put_recovery v s) = ds_epoch s"
  "ds_store (put_policy p s) = ds_store s" "ds_store (put_execution e s) = ds_store s"
  "ds_store (put_action a s) = ds_store s" "ds_store (put_progress q s) = ds_store s"
  "ds_store (put_checkpoint k s) = ds_store s" "ds_store (put_continuation c s) = ds_store s"
  "ds_store (put_lease l s) = ds_store s" "ds_store (put_replay r s) = ds_store s"
  "ds_store (put_ambiguity m s) = ds_store s" "ds_store (put_commit t s) = ds_store s"
  "ds_store (put_recovery v s) = ds_store s"
  by (simp_all add: ds_put_defs)

lemma put_executions [simp]:
  "ds_executions (put_policy p s) = ds_executions s"
  "ds_executions (put_execution e s) = tbl_upsert exec_id e (ds_executions s)"
  "ds_executions (put_action a s) = ds_executions s"
  "ds_executions (put_progress q s) = ds_executions s"
  "ds_executions (put_checkpoint k s) = ds_executions s"
  "ds_executions (put_continuation c s) = ds_executions s"
  "ds_executions (put_lease l s) = ds_executions s"
  "ds_executions (put_replay r s) = ds_executions s"
  "ds_executions (put_ambiguity m s) = ds_executions s"
  "ds_executions (put_commit t s) = ds_executions s"
  "ds_executions (put_recovery v s) = ds_executions s"
  by (simp_all add: ds_put_defs)

lemma put_commits [simp]:
  "ds_commits (put_policy p s) = ds_commits s"
  "ds_commits (put_execution e s) = ds_commits s"
  "ds_commits (put_action a s) = ds_commits s"
  "ds_commits (put_progress q s) = ds_commits s"
  "ds_commits (put_checkpoint k s) = ds_commits s"
  "ds_commits (put_continuation c s) = ds_commits s"
  "ds_commits (put_lease l s) = ds_commits s"
  "ds_commits (put_replay r s) = ds_commits s"
  "ds_commits (put_ambiguity m s) = ds_commits s"
  "ds_commits (put_commit t s) = tbl_upsert com_id t (ds_commits s)"
  "ds_commits (put_recovery v s) = ds_commits s"
  by (simp_all add: ds_put_defs)

lemma put_continuations [simp]:
  "ds_continuations (put_policy p s) = ds_continuations s"
  "ds_continuations (put_execution e s) = ds_continuations s"
  "ds_continuations (put_action a s) = ds_continuations s"
  "ds_continuations (put_progress q s) = ds_continuations s"
  "ds_continuations (put_checkpoint k s) = ds_continuations s"
  "ds_continuations (put_continuation c s) = tbl_upsert cont_id c (ds_continuations s)"
  "ds_continuations (put_lease l s) = ds_continuations s"
  "ds_continuations (put_replay r s) = ds_continuations s"
  "ds_continuations (put_ambiguity m s) = ds_continuations s"
  "ds_continuations (put_commit t s) = ds_continuations s"
  "ds_continuations (put_recovery v s) = ds_continuations s"
  by (simp_all add: ds_put_defs)

lemma put_leases [simp]:
  "ds_leases (put_policy p s) = ds_leases s"
  "ds_leases (put_execution e s) = ds_leases s"
  "ds_leases (put_action a s) = ds_leases s"
  "ds_leases (put_progress q s) = ds_leases s"
  "ds_leases (put_checkpoint k s) = ds_leases s"
  "ds_leases (put_continuation c s) = ds_leases s"
  "ds_leases (put_lease l s) = tbl_upsert lease_id l (ds_leases s)"
  "ds_leases (put_replay r s) = ds_leases s"
  "ds_leases (put_ambiguity m s) = ds_leases s"
  "ds_leases (put_commit t s) = ds_leases s"
  "ds_leases (put_recovery v s) = ds_leases s"
  by (simp_all add: ds_put_defs)

lemma put_actions [simp]:
  "ds_actions (put_policy p s) = ds_actions s"
  "ds_actions (put_execution e s) = ds_actions s"
  "ds_actions (put_action a s) = tbl_upsert action_key a (ds_actions s)"
  "ds_actions (put_progress q s) = ds_actions s"
  "ds_actions (put_checkpoint k s) = ds_actions s"
  "ds_actions (put_continuation c s) = ds_actions s"
  "ds_actions (put_lease l s) = ds_actions s"
  "ds_actions (put_replay r s) = ds_actions s"
  "ds_actions (put_ambiguity m s) = ds_actions s"
  "ds_actions (put_commit t s) = ds_actions s"
  "ds_actions (put_recovery v s) = ds_actions s"
  by (simp_all add: ds_put_defs)

lemma put_progresses [simp]:
  "ds_progress (put_policy p s) = ds_progress s"
  "ds_progress (put_execution e s) = ds_progress s"
  "ds_progress (put_action a s) = ds_progress s"
  "ds_progress (put_progress q s) = tbl_upsert prog_id q (ds_progress s)"
  "ds_progress (put_checkpoint k s) = ds_progress s"
  "ds_progress (put_continuation c s) = ds_progress s"
  "ds_progress (put_lease l s) = ds_progress s"
  "ds_progress (put_replay r s) = ds_progress s"
  "ds_progress (put_ambiguity m s) = ds_progress s"
  "ds_progress (put_commit t s) = ds_progress s"
  "ds_progress (put_recovery v s) = ds_progress s"
  by (simp_all add: ds_put_defs)

lemma staged_sel [simp]:
  "exec_id (grp_execution (staged_group s e a rq ev)) = exec_id e"
  "exec_lifecycle (grp_execution (staged_group s e a rq ev)) = exec_lifecycle e"
  "exec_lease (grp_execution (staged_group s e a rq ev)) = exec_lease e"
  "exec_progress_generation (grp_execution (staged_group s e a rq ev)) =
     exec_progress_generation e + 1"
  "exec_committed_actions (grp_execution (staged_group s e a rq ev)) =
     exec_committed_actions e + 1"
  "com_execution (grp_commit (staged_group s e a rq ev)) = exec_id e"
  "com_action (grp_commit (staged_group s e a rq ev)) = act_id a"
  "com_action_generation (grp_commit (staged_group s e a rq ev)) = act_generation a"
  "com_progress (grp_commit (staged_group s e a rq ev)) =
     prog_id (grp_progress (staged_group s e a rq ev))"
  "action_key (grp_action (staged_group s e a rq ev)) = action_key a"
  by (simp_all add: staged_group_def staged_commit_def staged_progress_def Let_def gen_next_def
      action_key_def)

lemma fresh_sel [simp]:
  "exec_id (fresh_execution i p ep n) = i" "exec_lifecycle (fresh_execution i p ep n) = Created_L"
  "exec_committed_actions (fresh_execution i p ep n) = 0"
  "exec_progress_generation (fresh_execution i p ep n) = 0"
  "unleased (fresh_execution i p ep n)"
  by (simp_all add: fresh_execution_def unleased_def)

lemmas apply_group_simps = apply_group_def find_execution_def find_commit_def
  find_continuation_def find_lease_def find_action_def find_progress_def

section \<open>Well-formed tables\<close>

lemma evolution_ok: "evolution s s' \<Longrightarrow> state_ok s \<Longrightarrow> state_ok s'"
  by (induction rule: evolution.induct) (simp_all add: apply_group_def, simp_all add: state_ok_def)

lemma evolutions_ok: "evolutions s s' \<Longrightarrow> state_ok s \<Longrightarrow> state_ok s'"
  by (induction rule: rtranclp_induct) (auto dest: evolution_ok)

section \<open>Epoch and store\<close>

lemma evolution_epoch: "evolution s s' \<Longrightarrow> ds_epoch s' = ds_epoch s \<and> ds_store s' = ds_store s"
  by (induction rule: evolution.induct) (simp_all add: apply_group_def)

lemma evolutions_epoch:
  "evolutions s s' \<Longrightarrow> ds_epoch s' = ds_epoch s \<and> ds_store s' = ds_store s"
  by (induction rule: rtranclp_induct) (auto dest: evolution_epoch)

section \<open>Lifecycles\<close>

text \<open>Every execution stays in the table and its lifecycle moves along the table only.\<close>

definition lifecycles_evolve :: "DurableState \<Rightarrow> DurableState \<Rightarrow> bool" where
  "lifecycles_evolve s s' \<longleftrightarrow>
     (\<forall>i e. find_execution i s = Some e \<longrightarrow>
        (\<exists>e'. find_execution i s' = Some e' \<and> evolves (exec_lifecycle e) (exec_lifecycle e')))"

lemma lifecycles_evolve_refl: "lifecycles_evolve s s"
  by (simp add: lifecycles_evolve_def)

lemma lifecycles_evolve_trans:
  "lifecycles_evolve s t \<Longrightarrow> lifecycles_evolve t u \<Longrightarrow> lifecycles_evolve s u"
  unfolding lifecycles_evolve_def by (meson evolves_trans)

lemma evolution_lifecycles: "evolution s s' \<Longrightarrow> lifecycles_evolve s s'"
  by (induction rule: evolution.induct)
    (auto simp: lifecycles_evolve_def apply_group_simps exec_step_def)

lemma evolutions_lifecycles: "evolutions s s' \<Longrightarrow> lifecycles_evolve s s'"
  by (induction rule: rtranclp_induct)
    (auto intro: lifecycles_evolve_refl lifecycles_evolve_trans dest: evolution_lifecycles)

section \<open>Commit history\<close>

text \<open>A commit record, once in the table, stays there unchanged.\<close>

definition commits_grow :: "DurableState \<Rightarrow> DurableState \<Rightarrow> bool" where
  "commits_grow s s' \<longleftrightarrow> (\<exists>new. ds_commits s' = ds_commits s @ new)"

lemma commits_grow_refl: "commits_grow s s"
  by (simp add: commits_grow_def)

lemma commits_grow_trans: "commits_grow s t \<Longrightarrow> commits_grow t u \<Longrightarrow> commits_grow s u"
  by (auto simp: commits_grow_def)

lemma evolution_commits: "evolution s s' \<Longrightarrow> commits_grow s s'"
  by (induction rule: evolution.induct)
    (auto simp: commits_grow_def apply_group_simps tbl_upsert_fresh)

lemma evolutions_commits: "evolutions s s' \<Longrightarrow> commits_grow s s'"
  by (induction rule: rtranclp_induct)
    (auto intro: commits_grow_refl commits_grow_trans dest: evolution_commits)

lemma commits_grow_find:
  "commits_grow s s' \<Longrightarrow> find_commit i s = Some c \<Longrightarrow> find_commit i s' = Some c"
  by (auto simp: commits_grow_def find_commit_def tbl_find_def find_append)

text \<open>
  The progress accounting: an execution's counter of committed actions and its progress
  generation both equal the number of its commit records.
\<close>

definition commits_of :: "u64 \<Rightarrow> DurableState \<Rightarrow> CommitRecord list" where
  "commits_of i s = filter (\<lambda>c. com_execution c = i) (ds_commits s)"

definition accounted :: "DurableState \<Rightarrow> bool" where
  "accounted s \<longleftrightarrow>
     (\<forall>i e. find_execution i s = Some e \<longrightarrow>
        exec_committed_actions e = word_of_nat (length (commits_of i s)) \<and>
        exec_progress_generation e = exec_committed_actions e) \<and>
     (\<forall>c \<in> set (ds_commits s). find_execution (com_execution c) s \<noteq> None)"

lemma commits_of_upsert_fresh:
  "find_commit (com_id c) s = None \<Longrightarrow>
   filter (\<lambda>c. com_execution c = i) (tbl_upsert com_id c (ds_commits s)) =
   commits_of i s @ (if com_execution c = i then [c] else [])"
  by (simp add: find_commit_def tbl_upsert_fresh commits_of_def)

lemma accounted_frame:
  "accounted s \<Longrightarrow> ds_commits s' = ds_commits s \<Longrightarrow> ds_executions s' = ds_executions s \<Longrightarrow>
   accounted s'"
  by (simp add: accounted_def commits_of_def find_execution_def)

lemma accounted_create:
  assumes "accounted s" "find_execution (exec_id e) s = None"
    and "exec_committed_actions e = 0" "exec_progress_generation e = 0"
  shows "accounted (put_execution e s)"
proof -
  have "commits_of (exec_id e) s = []"
    using assms by (fastforce simp: accounted_def commits_of_def filter_empty_conv)
  with assms show ?thesis
    by (auto simp: accounted_def commits_of_def find_execution_def)
qed

lemma accounted_update:
  assumes "accounted s" "find_execution (exec_id e') s = Some e" "exec_step e e'"
  shows "accounted (put_execution e' s)"
  using assms by (auto simp: accounted_def commits_of_def find_execution_def exec_step_def)

lemma accounted_commit:
  assumes acc: "accounted s" and e: "find_execution (exec_id e) s = Some e"
    and g: "g = staged_group t e a rq ev" and new: "find_commit (com_id (grp_commit g)) s = None"
  shows "accounted (apply_group g s)"
proof -
  have commits: "commits_of i (apply_group g s) =
      commits_of i s @ (if exec_id e = i then [grp_commit g] else [])" for i
    using commits_of_upsert_fresh [OF new, of i] g by (simp add: commits_of_def apply_group_def)
  have table: "set (ds_commits (apply_group g s)) = insert (grp_commit g) (set (ds_commits s))"
    using new by (simp add: apply_group_def find_commit_def tbl_upsert_fresh)
  have execs: "find_execution i (apply_group g s) =
      (if i = exec_id e then Some (grp_execution g) else find_execution i s)" for i
    by (simp add: apply_group_def find_execution_def g)
  show ?thesis
    unfolding accounted_def commits table execs using acc e
    by (auto simp: accounted_def g)
qed

lemma evolution_accounted: "evolution s s' \<Longrightarrow> accounted s \<Longrightarrow> accounted s'"
  by (induction rule: evolution.induct)
    (auto intro: accounted_create accounted_update accounted_commit elim: accounted_frame)

lemma evolutions_accounted: "evolutions s s' \<Longrightarrow> accounted s \<Longrightarrow> accounted s'"
  by (induction rule: rtranclp_induct) (auto dest: evolution_accounted)

section \<open>Continuations\<close>

text \<open>At most one continuation of an execution is valid.\<close>

definition one_valid :: "DurableState \<Rightarrow> bool" where
  "one_valid s \<longleftrightarrow>
     (\<forall>c \<in> set (ds_continuations s). \<forall>d \<in> set (ds_continuations s).
        cont_state c = Valid \<and> cont_state d = Valid \<and> cont_execution c = cont_execution d \<longrightarrow> c = d)"

lemma one_valid_frame: "one_valid s \<Longrightarrow> ds_continuations s' = ds_continuations s \<Longrightarrow> one_valid s'"
  by (simp add: one_valid_def)

lemma one_valid_end:
  "one_valid s \<Longrightarrow> state_ok s \<Longrightarrow> cont_state c \<noteq> Valid \<Longrightarrow> one_valid (put_continuation c s)"
  by (auto simp: one_valid_def state_ok_def set_tbl_upsert)

lemma one_valid_new:
  "one_valid s \<Longrightarrow> state_ok s \<Longrightarrow>
   sole_valid (cont_execution c) (cont_id c) (ds_continuations s) \<Longrightarrow>
   one_valid (put_continuation c s)"
  by (auto simp: one_valid_def state_ok_def set_tbl_upsert sole_valid_def)

lemma evolution_one_valid:
  "evolution s s' \<Longrightarrow> state_ok s \<Longrightarrow> one_valid s \<Longrightarrow> one_valid s'"
  by (induction rule: evolution.induct)
    (auto intro: one_valid_end one_valid_new elim: one_valid_frame simp: apply_group_def)

lemma evolutions_one_valid:
  "evolutions s s' \<Longrightarrow> state_ok s \<Longrightarrow> one_valid s \<Longrightarrow> one_valid s'"
  by (induction rule: rtranclp_induct) (auto dest: evolution_one_valid evolutions_ok)

section \<open>Authority\<close>

text \<open>
  Fenced and terminal executions hold no lease, and every lease names a worker and a boot.
\<close>

definition authority_ok :: "DurableState \<Rightarrow> bool" where
  "authority_ok s \<longleftrightarrow>
     (\<forall>e \<in> set (ds_executions s). unleased e) \<and>
     (\<forall>l \<in> set (ds_leases s). id_valid (lease_worker l) \<and> id_valid (lease_boot l))"

lemma authority_ok_execution:
  "authority_ok s \<Longrightarrow> unleased e \<Longrightarrow> authority_ok (put_execution e s)"
  using set_tbl_upsert_subset [of exec_id e "ds_executions s"] by (auto simp: authority_ok_def)

lemma authority_ok_lease:
  "authority_ok s \<Longrightarrow> id_valid (lease_worker l) \<Longrightarrow> id_valid (lease_boot l) \<Longrightarrow>
   authority_ok (put_lease l s)"
  using set_tbl_upsert_subset [of lease_id l "ds_leases s"] by (auto simp: authority_ok_def)

lemma authority_ok_frame:
  "authority_ok s \<Longrightarrow> ds_executions s' = ds_executions s \<Longrightarrow> ds_leases s' = ds_leases s \<Longrightarrow>
   authority_ok s'"
  by (simp add: authority_ok_def)

lemma find_execution_mem: "find_execution i s = Some e \<Longrightarrow> e \<in> set (ds_executions s) \<and> exec_id e = i"
  by (auto simp: find_execution_def dest: tbl_find_Some)

lemma find_lease_mem: "find_lease i s = Some l \<Longrightarrow> l \<in> set (ds_leases s) \<and> lease_id l = i"
  by (auto simp: find_lease_def dest: tbl_find_Some)

lemma authority_ok_found:
  "authority_ok s \<Longrightarrow> find_execution i s = Some e \<Longrightarrow> unleased e"
  "authority_ok s \<Longrightarrow> find_lease i s = Some l \<Longrightarrow> id_valid (lease_worker l) \<and> id_valid (lease_boot l)"
  by (auto simp: authority_ok_def dest: find_execution_mem find_lease_mem)

lemma staged_unleased: "unleased e \<Longrightarrow> unleased (grp_execution (staged_group s e a rq ev))"
  by (simp add: unleased_def)

lemma authority_ok_group:
  assumes "authority_ok s" "unleased (grp_execution g)"
  shows "authority_ok (apply_group g s)"
  unfolding apply_group_def
  by (rule authority_ok_execution [OF _ assms(2)]) (rule authority_ok_frame [OF assms(1)]; simp)

lemma evolution_authority: "evolution s s' \<Longrightarrow> authority_ok s \<Longrightarrow> authority_ok s'"
proof (induction rule: evolution.induct)
  case (execution e' s e)
  then show ?case
    by (auto intro!: authority_ok_execution simp: exec_step_def dest: authority_ok_found)
next
  case (lease_end l s st)
  then show ?case by (auto intro!: authority_ok_lease dest: authority_ok_found)
next
  case (commit e s g q a request evidence)
  then show ?case by (auto intro!: authority_ok_group staged_unleased dest: authority_ok_found)
qed (auto intro: authority_ok_execution authority_ok_lease elim: authority_ok_frame)

lemma evolutions_authority: "evolutions s s' \<Longrightarrow> authority_ok s \<Longrightarrow> authority_ok s'"
  by (induction rule: rtranclp_induct) (auto dest: evolution_authority)

section \<open>Referential integrity of commits\<close>

text \<open>Every commit has its progress record and its action in the tables.\<close>

definition commits_complete :: "DurableState \<Rightarrow> bool" where
  "commits_complete s \<longleftrightarrow>
     (\<forall>c \<in> set (ds_commits s).
        find_progress (com_progress c) s \<noteq> None \<and>
        find_action (com_action c) (com_action_generation c) s \<noteq> None)"

lemma commits_complete_frame:
  "commits_complete s \<Longrightarrow> ds_commits s' = ds_commits s \<Longrightarrow> ds_progress s' = ds_progress s \<Longrightarrow>
   ds_actions s' = ds_actions s \<Longrightarrow> commits_complete s'"
  by (simp add: commits_complete_def find_progress_def find_action_def)

lemma commits_complete_action: "commits_complete s \<Longrightarrow> commits_complete (put_action a s)"
  by (simp add: commits_complete_def find_progress_def find_action_def)

lemma commits_complete_group:
  assumes "commits_complete s" "g = staged_group t e a rq ev"
  shows "commits_complete (apply_group g s)"
  using assms set_tbl_upsert_subset [of com_id "grp_commit g" "ds_commits s"]
  by (auto simp: commits_complete_def apply_group_simps action_key_def [of a])

lemma evolution_commits_complete:
  "evolution s s' \<Longrightarrow> commits_complete s \<Longrightarrow> commits_complete s'"
  by (induction rule: evolution.induct)
    (auto intro: commits_complete_action commits_complete_group elim: commits_complete_frame)

lemma evolutions_commits_complete:
  "evolutions s s' \<Longrightarrow> commits_complete s \<Longrightarrow> commits_complete s'"
  by (induction rule: rtranclp_induct) (auto dest: evolution_commits_complete)

end
