(* ===== verification/Runtime_Actions.thy ===== *)
theory Runtime_Actions
  imports Runtime_Core
begin

text \<open>
  The worker operations of \<open>Runtime\<close> (\<open>src/runtime.cpp\<close>): actions, side-effect receipts,
  checkpoints, continuation validation and resume.
\<close>

section \<open>Beginning an action\<close>

record BeginActionRequest =
  bar_request :: u64
  bar_token :: LeaseToken
  bar_effect_class :: SideEffectClass
  bar_request_key :: string
  bar_evidence :: Evidence

record BeginActionResult =
  bres_action :: u64
  bres_action_generation :: u64
  bres_ordinal :: u64
  bres_attempt :: u64
  bres_attempt_generation :: u64
  bres_effect_id :: u64
  bres_effect_generation :: u64

text \<open>The answer to a repeated request, from the latest record of the remembered action.\<close>

definition begin_action_cached :: "CachedOutcome \<Rightarrow> DurableState \<Rightarrow> BeginActionResult" where
  "begin_action_cached cached s =
     (case find_latest_action (co_a cached) s of
        None \<Rightarrow> \<lparr>bres_action = co_a cached, bres_action_generation = 0,
          bres_ordinal = co_b cached, bres_attempt = 0, bres_attempt_generation = 0,
          bres_effect_id = 0, bres_effect_generation = 0\<rparr>
      | Some a \<Rightarrow> \<lparr>bres_action = co_a cached, bres_action_generation = act_generation a,
          bres_ordinal = co_b cached, bres_attempt = act_attempt a,
          bres_attempt_generation = act_attempt_generation a, bres_effect_id = act_effect_id a,
          bres_effect_generation = act_effect_generation a\<rparr>)"

text \<open>
  The frontier action that is re-driven: the latest action of the index, when it stands at
  the frontier and holds a durable failure.
\<close>

definition retryable_frontier :: "ExecutionRecord \<Rightarrow> Runtime \<Rightarrow> ActionRecord option" where
  "retryable_frontier execution r =
     (case latest_action (exec_id execution) r of
        None \<Rightarrow> None
      | Some a \<Rightarrow>
          if act_sequence a = exec_action_frontier execution \<and>
             (act_status a = Failed \<or> act_status a = EffectNotApplied)
          then Some a else None)"

definition begin_ordinal :: "ExecutionRecord \<Rightarrow> ActionRecord option \<Rightarrow> u64" where
  "begin_ordinal execution latest =
     (case latest of None \<Rightarrow> exec_action_frontier execution + 1
      | Some a \<Rightarrow> exec_action_frontier execution)"

definition begin_generation :: "ActionRecord option \<Rightarrow> u64" where
  "begin_generation latest = (case latest of None \<Rightarrow> 1 | Some a \<Rightarrow> gen_next (act_generation a))"

definition new_action ::
  "ExecutionRecord \<Rightarrow> ActionRecord option \<Rightarrow> BeginActionRequest \<Rightarrow> ActionRecord" where
  "new_action execution latest request =
     (let ordinal = begin_ordinal execution latest;
          generation = begin_generation latest;
          i = derive_action_id (exec_id execution) ordinal
      in \<lparr>act_id = i, act_generation = generation, act_execution = exec_id execution,
          act_execution_generation = exec_generation execution,
          act_incarnation_generation = exec_incarnation_generation execution,
          act_sequence = ordinal, act_attempt = derive_attempt_id i 1,
          act_attempt_generation = 1, act_effect_class = bar_effect_class request,
          act_request_key = bar_request_key request, act_status = InFlight,
          act_effect_id = derive_side_effect_id (exec_id execution) i generation,
          act_effect_generation = 1, act_receipt = bar_evidence request,
          act_replay_generation = (case latest of None \<Rightarrow> 0
            | Some a \<Rightarrow> gen_next (act_replay_generation a)),
          act_replayed_from = (case latest of None \<Rightarrow> 0 | Some a \<Rightarrow> act_id a),
          act_replayed_from_generation = (case latest of None \<Rightarrow> 0
            | Some a \<Rightarrow> act_generation a),
          act_commit = 0, act_dispatch_count = 1\<rparr>)"

definition new_replay ::
  "ExecutionRecord \<Rightarrow> ActionRecord \<Rightarrow> ActionRecord \<Rightarrow> BeginActionRequest \<Rightarrow> u64 \<Rightarrow> ReplayRecord" where
  "new_replay execution latest action request epoch =
     \<lparr>rep_id = derive_replay_id (act_id action) (act_replay_generation action),
      rep_generation = act_replay_generation action, rep_execution = exec_id execution,
      rep_execution_generation = exec_generation execution, rep_action = act_id latest,
      rep_action_generation = act_generation latest, rep_new_action = act_id action,
      rep_new_action_generation = act_generation action,
      rep_effect_class = act_effect_class action, rep_request_key = act_request_key action,
      rep_progress_generation = exec_progress_generation execution,
      rep_checkpoint_generation = exec_checkpoint_generation execution,
      rep_policy_generation = exec_policy_generation execution, rep_epoch = epoch,
      rep_status = Admitted, rep_evidence = bar_evidence request\<rparr>"

definition begun_execution :: "ExecutionRecord \<Rightarrow> ActionRecord option \<Rightarrow> ActionRecord \<Rightarrow> ExecutionRecord" where
  "begun_execution execution latest action =
     execution\<lparr>exec_action_frontier := act_sequence action,
       exec_action_generation := act_generation action, exec_blocked := False,
       exec_blocked_above_ordinal := 0,
       exec_replay_count := (case latest of None \<Rightarrow> exec_replay_count execution
         | Some a \<Rightarrow> exec_replay_count execution + 1)\<rparr>"

definition policy_exceeds :: "ExecutionPolicy option \<Rightarrow> (ExecutionPolicy \<Rightarrow> bool) \<Rightarrow> bool" where
  "policy_exceeds policy test = (case policy of None \<Rightarrow> False | Some p \<Rightarrow> test p)"

text \<open>The refusals of \<open>begin_action\<close> after the token and the request cache, in order.\<close>

definition begin_refusal ::
  "ExecutionRecord \<Rightarrow> ExecutionPolicy option \<Rightarrow> ActionRecord option \<Rightarrow> BeginActionRequest \<Rightarrow>
   Code option" where
  "begin_refusal execution policy latest request =
     (if exec_lifecycle execution \<noteq> Running then Some LifecycleRefused
      else if requires_request_key (bar_effect_class request) \<and> bar_request_key request = []
      then Some InvalidArgument
      else if length (bar_request_key request) > 512 then Some LimitExceeded
      else if policy_exceeds policy
                (\<lambda>p. exec_action_frontier execution \<ge> ucast (pol_max_action_history p))
      then Some LimitExceeded
      else if latest \<noteq> None \<and> policy_exceeds policy
                (\<lambda>p. begin_generation latest > ucast (pol_max_replay_depth p))
      then Some PolicyRefused
      else if policy_exceeds policy
                (\<lambda>p. exec_replay_count execution \<ge> ucast (pol_max_replay_records p))
      then Some LimitExceeded
      else if exec_blocked execution \<and>
              begin_ordinal execution latest > exec_blocked_above_ordinal execution
      then Some UnresolvedAmbiguity
      else None)"

definition begin_action :: "BeginActionRequest \<Rightarrow> BeginActionResult rt_op" where
  "begin_action request =
     pef_try check_open (\<lambda>_.
     pef_try (validate_token (bar_token request)) (\<lambda>(execution, lease).
     op_read (\<lambda>r.
       case lookup_request (bar_request request) r of
         Some cached \<Rightarrow> op_return (begin_action_cached cached (rt_state r))
       | None \<Rightarrow>
         (let policy = policy_of execution r;
              latest = retryable_frontier execution r;
              flush = flush_for policy
          in case begin_refusal execution policy latest request of
               Some c \<Rightarrow> op_fail c
             | None \<Rightarrow>
               (let action = new_action execution latest request;
                    next' = begun_execution execution latest action
                in pef_try (case latest of
                       None \<Rightarrow> op_return ()
                     | Some a \<Rightarrow> rt_put_replay (new_replay execution a action request
                         (ds_epoch (rt_state r))) flush) (\<lambda>_.
                   pef_try (rt_put_action action flush) (\<lambda>_.
                   pef_try (rt_put_execution next' flush) (\<lambda>_.
                   pef_try (remember (bar_request request) Ok (act_id action)
                     (act_sequence action)) (\<lambda>_.
                   op_return \<lparr>bres_action = act_id action,
                     bres_action_generation = act_generation action,
                     bres_ordinal = act_sequence action, bres_attempt = act_attempt action,
                     bres_attempt_generation = act_attempt_generation action,
                     bres_effect_id = act_effect_id action,
                     bres_effect_generation = act_effect_generation action\<rparr>)))))))))"

section \<open>Completing an action\<close>

record CompleteActionRequest =
  car_request :: u64
  car_token :: LeaseToken
  car_action :: u64
  car_action_generation :: u64
  car_effect_applied :: bool
  car_evidence :: Evidence

record CompleteActionResult =
  cres_commit :: u64
  cres_progress :: u64
  cres_progress_generation :: u64
  cres_ordinal :: u64
  cres_duplicate :: bool
  cres_checkpoint_due :: bool

definition complete_refusal ::
  "ExecutionRecord \<Rightarrow> ActionRecord option \<Rightarrow> CompleteActionRequest \<Rightarrow> Code option" where
  "complete_refusal execution existing request =
     (if exec_lifecycle execution \<noteq> Running then Some LifecycleRefused
      else case existing of
        None \<Rightarrow> Some NotFound
      | Some a \<Rightarrow>
        if act_execution a \<noteq> exec_id execution then Some InvalidArgument
        else if act_generation a \<noteq> car_action_generation request then Some StaleContinuation
        else if act_status a = Ambiguous \<or> act_status a = Abandoned \<or> act_status a = Compensated
        then Some UnresolvedAmbiguity
        else if act_status a = EffectNotApplied then Some AmbiguousCompletion
        else if act_status a = Failed then Some AmbiguousCompletion
        else if \<not> car_effect_applied request then Some InvalidArgument
        else if exec_blocked execution \<and> act_sequence a > exec_blocked_above_ordinal execution
        then Some UnresolvedAmbiguity
        else None)"

text \<open>The commit a completed action already holds, when the action is committed.\<close>

definition committed_already :: "ActionRecord option \<Rightarrow> DurableState \<Rightarrow> CommitRecord option" where
  "committed_already existing s =
     (case existing of
        None \<Rightarrow> None
      | Some a \<Rightarrow> if act_status a = Committed then find_commit (act_commit a) s else None)"

definition checkpoint_due :: "ExecutionPolicy option \<Rightarrow> u64 \<Rightarrow> bool" where
  "checkpoint_due policy committed =
     (case policy of
        None \<Rightarrow> False
      | Some p \<Rightarrow> pol_checkpoint_interval_actions p > 0 \<and>
          committed mod ucast (pol_checkpoint_interval_actions p) = 0)"

definition complete_fresh ::
  "CompleteActionRequest \<Rightarrow> ActionRecord option \<Rightarrow> ExecutionRecord \<Rightarrow> CompleteActionResult rt_op" where
  "complete_fresh request existing execution =
     op_read (\<lambda>r.
       case lookup_request (car_request request) r of
         Some cached \<Rightarrow>
           op_return \<lparr>cres_commit = co_a cached,
             cres_progress = (case existing of
               None \<Rightarrow> 0
             | Some a \<Rightarrow> (case find_progress (derive_progress_id (exec_id execution) (co_b cached))
                   (rt_state r) of None \<Rightarrow> 0 | Some p \<Rightarrow> prog_id p)),
             cres_progress_generation = co_b cached,
             cres_ordinal = (case existing of None \<Rightarrow> 0 | Some a \<Rightarrow> act_sequence a),
             cres_duplicate = True, cres_checkpoint_due = False\<rparr>
       | None \<Rightarrow>
         (case complete_refusal execution existing request of
            Some c \<Rightarrow> op_fail c
          | None \<Rightarrow>
            (let policy = policy_of execution r in
             pef_try (stage_commit execution (the existing) (car_request request)
               (car_evidence request) (flush_for policy)) (\<lambda>g.
             pef_try (remember (car_request request) Ok (com_id (grp_commit g))
               (com_progress_generation (grp_commit g))) (\<lambda>_.
             op_return \<lparr>cres_commit = com_id (grp_commit g),
               cres_progress = prog_id (grp_progress g),
               cres_progress_generation = com_progress_generation (grp_commit g),
               cres_ordinal = act_sequence (grp_action g), cres_duplicate = False,
               cres_checkpoint_due = checkpoint_due policy
                 (exec_committed_actions (grp_execution g))\<rparr>)))))"

definition complete_action :: "CompleteActionRequest \<Rightarrow> CompleteActionResult rt_op" where
  "complete_action request =
     pef_try check_open (\<lambda>_.
     op_read (\<lambda>r.
       let existing = find_action (car_action request) (car_action_generation request) (rt_state r);
           go = pef_try (validate_token (car_token request)) (\<lambda>(execution, lease).
                  complete_fresh request existing execution)
       in case existing of
            Some a \<Rightarrow>
              if act_status a = Committed then
                pef_try (check_epoch (tok_epoch (car_token request))) (\<lambda>_.
                case committed_already existing (rt_state r) of
                  Some commit \<Rightarrow>
                    op_return \<lparr>cres_commit = com_id commit, cres_progress = com_progress commit,
                      cres_progress_generation = com_progress_generation commit,
                      cres_ordinal = act_sequence a, cres_duplicate = True,
                      cres_checkpoint_due = False\<rparr>
                | None \<Rightarrow> go)
              else go
          | None \<Rightarrow> go))"

section \<open>Failures and receipts\<close>

definition fail_action :: "u64 \<Rightarrow> LeaseToken \<Rightarrow> u64 \<Rightarrow> u64 \<Rightarrow> Evidence \<Rightarrow> unit rt_op" where
  "fail_action request token action generation evidence =
     pef_try check_open (\<lambda>_.
     pef_try (validate_token token) (\<lambda>(execution, lease).
     op_read (\<lambda>r.
       if lookup_request request r \<noteq> None then op_return ()
       else case find_action action generation (rt_state r) of
         None \<Rightarrow> op_fail NotFound
       | Some existing \<Rightarrow>
         if act_execution existing \<noteq> exec_id execution then op_fail InvalidArgument
         else if act_status existing = Committed then op_fail DuplicateCommit
         else if act_status existing = Ambiguous then op_fail UnresolvedAmbiguity
         else pef_try (rt_put_action (existing\<lparr>act_status := Failed, act_receipt := evidence\<rparr>)
                (flush_for (policy_of execution r))) (\<lambda>_.
              remember request Ok 0 0))))"

definition report_side_effect ::
  "u64 \<Rightarrow> LeaseToken \<Rightarrow> u64 \<Rightarrow> u64 \<Rightarrow> bool \<Rightarrow> Evidence \<Rightarrow> unit rt_op" where
  "report_side_effect request token action generation applied evidence =
     pef_try check_open (\<lambda>_.
     pef_try (validate_token token) (\<lambda>(execution, lease).
     op_read (\<lambda>r.
       if lookup_request request r \<noteq> None then op_return ()
       else case find_action action generation (rt_state r) of
         None \<Rightarrow> op_fail NotFound
       | Some existing \<Rightarrow>
         if act_status existing = Committed then op_fail DuplicateCommit
         else if act_status existing = Ambiguous \<or> act_status existing = Abandoned
         then op_fail UnresolvedAmbiguity
         else pef_try (rt_put_action (existing\<lparr>
                act_status := (if applied then EffectApplied else EffectNotApplied),
                act_receipt := evidence\<rparr>) (flush_for (policy_of execution r))) (\<lambda>_.
              remember request Ok 0 0))))"

section \<open>Checkpoints\<close>

record RegisterCheckpointRequest =
  rcr_request :: u64
  rcr_token :: LeaseToken
  rcr_expected_checkpoint :: u64
  rcr_expected_checkpoint_generation :: u64
  rcr_content_size :: u64
  rcr_content_hash :: u64
  rcr_effect_boundary_ordinal :: u64

record RegisterCheckpointResult =
  rres_checkpoint :: u64
  rres_checkpoint_generation :: u64
  rres_state :: CheckpointState
  rres_continuation :: u64
  rres_continuation_generation :: u64
  rres_lineage_depth :: u32

definition new_checkpoint ::
  "ExecutionRecord \<Rightarrow> u32 \<Rightarrow> RegisterCheckpointRequest \<Rightarrow> u64 \<Rightarrow> CheckpointRecord" where
  "new_checkpoint execution depth request epoch =
     (let g = gen_next (exec_checkpoint_generation execution) in
      \<lparr>ckpt_id = derive_checkpoint_id (exec_id execution) g, ckpt_generation = g,
       ckpt_execution = exec_id execution,
       ckpt_execution_generation = exec_generation execution,
       ckpt_incarnation_generation = exec_incarnation_generation execution,
       ckpt_progress_generation = exec_progress_generation execution,
       ckpt_action_generation = exec_action_generation execution,
       ckpt_policy = exec_policy execution,
       ckpt_policy_generation = exec_policy_generation execution,
       ckpt_bindings = exec_bindings execution, ckpt_epoch = epoch,
       ckpt_worker = exec_worker execution, ckpt_boot = exec_boot execution,
       ckpt_parent = exec_checkpoint execution,
       ckpt_parent_generation = exec_checkpoint_generation execution,
       ckpt_lineage_depth = depth,
       ckpt_effect_boundary_ordinal =
         (if rcr_effect_boundary_ordinal request > exec_action_frontier execution
          then exec_action_frontier execution else rcr_effect_boundary_ordinal request),
       ckpt_boundary_action = 0, ckpt_content_size = rcr_content_size request,
       ckpt_content_hash = rcr_content_hash request, ckpt_state = Verified\<rparr>)"

text \<open>The lineage depth from the parent checkpoint, or the reason it cannot be followed.\<close>

definition lineage :: "ExecutionRecord \<Rightarrow> DurableState \<Rightarrow> Code + u32" where
  "lineage execution s =
     (if \<not> id_valid (exec_checkpoint execution) then Inr 0
      else case find_checkpoint (exec_checkpoint execution) s of
        None \<Rightarrow> Inl CorruptState
      | Some parent \<Rightarrow>
          if ckpt_execution parent \<noteq> exec_id execution then Inl CorruptState
          else Inr (ckpt_lineage_depth parent + 1))"

definition demote_previous :: "ExecutionRecord \<Rightarrow> ExecutionPolicy option \<Rightarrow> bool \<Rightarrow> unit rt_op" where
  "demote_previous execution policy flush =
     op_read (\<lambda>r.
       if \<not> id_valid (exec_checkpoint execution) then op_return ()
       else case find_checkpoint (exec_checkpoint execution) (rt_state r) of
         None \<Rightarrow> op_return ()
       | Some previous \<Rightarrow>
           if ckpt_state previous = Superseded_CS then op_return ()
           else rt_put_checkpoint (previous\<lparr>ckpt_state :=
                  (if policy_exceeds policy pol_allow_older_checkpoints then Verified
                   else Superseded_CS)\<rparr>) flush)"

definition checkpoint_refusal :: "ExecutionRecord \<Rightarrow> RegisterCheckpointRequest \<Rightarrow> Code option" where
  "checkpoint_refusal execution request =
     (if exec_lifecycle execution \<noteq> Running \<and> exec_lifecycle execution \<noteq> Checkpointing
      then Some LifecycleRefused
      else if rcr_content_hash request = 0 then Some InvalidArgument
      else if rcr_expected_checkpoint request \<noteq> exec_checkpoint execution \<or>
              rcr_expected_checkpoint_generation request \<noteq> exec_checkpoint_generation execution
      then Some StaleCheckpointGeneration
      else None)"

text \<open>What follows the lineage check: the checkpoint, the demotion and the continuation.\<close>

definition install_checkpoint ::
  "ExecutionRecord \<Rightarrow> ExecutionRecord \<Rightarrow> CheckpointRecord \<Rightarrow> ExecutionPolicy option \<Rightarrow> bool \<Rightarrow>
   RegisterCheckpointResult rt_op" where
  "install_checkpoint execution working checkpoint policy flush =
     pef_try (rt_put_checkpoint checkpoint flush) (\<lambda>_.
     pef_try (demote_previous execution policy flush) (\<lambda>_.
     op_read (\<lambda>r.
       let next0 = working\<lparr>exec_checkpoint := ckpt_id checkpoint,
             exec_checkpoint_generation := ckpt_generation checkpoint,
             exec_lifecycle := (if is_legal_transition (exec_lifecycle working) Running
               then Running else exec_lifecycle working)\<rparr>;
           continuation = mint_continuation execution next0 Valid
             (exec_action_frontier next0) (rt_state r);
           next1 = next0\<lparr>exec_continuation := cont_id continuation,
             exec_continuation_generation := cont_generation continuation\<rparr>
       in pef_try (retire_other_continuations (exec_id execution) (cont_id continuation) flush) (\<lambda>_.
          pef_try (rt_put_continuation continuation flush) (\<lambda>_.
          pef_try (rt_put_execution next1 flush) (\<lambda>_.
          op_return \<lparr>rres_checkpoint = ckpt_id checkpoint,
            rres_checkpoint_generation = ckpt_generation checkpoint,
            rres_state = ckpt_state checkpoint, rres_continuation = cont_id continuation,
            rres_continuation_generation = cont_generation continuation,
            rres_lineage_depth = ckpt_lineage_depth checkpoint\<rparr>))))))"

definition register_checkpoint :: "RegisterCheckpointRequest \<Rightarrow> RegisterCheckpointResult rt_op" where
  "register_checkpoint request =
     pef_try check_open (\<lambda>_.
     pef_try (validate_token (rcr_token request)) (\<lambda>(execution, lease).
     op_read (\<lambda>r.
       case lookup_request (rcr_request request) r of
         Some cached \<Rightarrow>
           op_return (case find_checkpoint (co_a cached) (rt_state r) of
             None \<Rightarrow> \<lparr>rres_checkpoint = co_a cached, rres_checkpoint_generation = 0,
               rres_state = Created_CS, rres_continuation = 0,
               rres_continuation_generation = 0, rres_lineage_depth = 0\<rparr>
           | Some c \<Rightarrow> \<lparr>rres_checkpoint = co_a cached,
               rres_checkpoint_generation = ckpt_generation c, rres_state = ckpt_state c,
               rres_continuation = 0, rres_continuation_generation = 0,
               rres_lineage_depth = ckpt_lineage_depth c\<rparr>)
       | None \<Rightarrow>
         (case checkpoint_refusal execution request of
            Some c \<Rightarrow> op_fail c
          | None \<Rightarrow>
            (let policy = policy_of execution r;
                 flush = flush_for policy;
                 entering = (exec_lifecycle execution = Running);
                 working = (if entering then execution\<lparr>exec_lifecycle := Checkpointing\<rparr>
                            else execution)
             in pef_try (if entering then
                    pef_try (require_transition (exec_lifecycle execution) Checkpointing)
                      (\<lambda>_. rt_put_execution working flush)
                  else op_return ()) (\<lambda>_.
                op_read (\<lambda>r1.
                  case lineage execution (rt_state r1) of
                    Inl c \<Rightarrow> op_fail c
                  | Inr depth \<Rightarrow>
                    (let checkpoint = new_checkpoint execution depth request
                           (ds_epoch (rt_state r1))
                     in pef_try (install_checkpoint execution working checkpoint policy flush) (\<lambda>res.
                        pef_try (remember (rcr_request request) Ok (ckpt_id checkpoint) 0) (\<lambda>_.
                        op_return res))))))))))"

section \<open>Continuation validation\<close>

text \<open>
  \<open>validate_continuation_state\<close> always returns an ok status; its verdict and reason are the
  pair returned here.
\<close>

definition ambiguous_point :: "ExecutionRecord \<Rightarrow> ContinuationRecord \<Rightarrow> DurableState \<Rightarrow> bool" where
  "ambiguous_point execution continuation s \<longleftrightarrow>
     exec_blocked execution \<and> ambiguity_open execution \<and>
     (case find_ambiguity (exec_ambiguity execution) s of
        None \<Rightarrow> False
      | Some a \<Rightarrow> ambiguity_is_open (amb_state a) \<and>
          cont_resume_ordinal continuation \<ge> amb_action_ordinal a)"

definition continuation_claim :: "ContinuationRecord \<Rightarrow> ExecutionRecord \<Rightarrow> string option" where
  "continuation_claim c e =
     (if cont_execution_generation c > exec_generation e
      then Some ''continuation claims an execution generation that does not exist''
      else if cont_progress_generation c > exec_progress_generation e
      then Some ''continuation claims progress beyond the authoritative frontier''
      else if cont_action_generation c > exec_action_generation e
      then Some ''continuation claims an action generation that does not exist''
      else if cont_resume_ordinal c > exec_action_frontier e
      then Some ''continuation claims a resume ordinal beyond the action frontier''
      else None)"

text \<open>The verdicts after the durable references have been found supportable.\<close>

definition continuation_verdict ::
  "DurableState \<Rightarrow> ContinuationRecord \<Rightarrow> ExecutionRecord \<Rightarrow> ContinuationState \<times> string" where
  "continuation_verdict s c e =
     (let policy = find_policy (exec_policy e) s in
      if cont_checkpoint_generation c > exec_checkpoint_generation e
      then (Invalid, ''continuation claims a checkpoint generation that does not exist'')
      else if ambiguous_point e c s
      then (Ambiguous_CT,
            ''an unresolved ambiguous action sits at or below this continuation point'')
      else if cont_epoch c \<noteq> ds_epoch s
      then (Stale, ''continuation was issued under a previous coordinator epoch'')
      else if cont_incarnation_generation c \<noteq> exec_incarnation_generation e
      then (Stale, ''continuation was issued for a previous execution incarnation'')
      else if cont_execution_generation c \<noteq> exec_generation e
      then (Stale, ''continuation was issued for a previous execution generation'')
      else if cont_policy_generation c \<noteq> exec_policy_generation e then
        (if policy_test pol_policy_change_invalidates_continuations policy
         then (Invalid, ''continuation was issued under a policy generation that has been replaced'')
         else (RevalidationRequired_CT,
               ''continuation was issued under a previous policy generation''))
      else if length (bset_refs (cont_bindings c)) \<noteq> length (bset_refs (exec_bindings e)) \<or>
              \<not> equals_generations (cont_bindings c) (exec_bindings e) then
        (if policy_test (\<lambda>p. pol_stale_binding_behavior p = Refuse) policy
         then (Invalid, ''a required binding generation changed and policy refuses revalidation'')
         else (RevalidationRequired_CT, ''a required binding generation changed''))
      else
        (let valid = (Valid,
               ''all bound generations are current and the durable point is not ambiguous'')
         in if \<not> id_valid (cont_checkpoint c) then valid
            else case find_checkpoint (cont_checkpoint c) s of
              None \<Rightarrow> valid
            | Some k \<Rightarrow>
                if \<not> checkpoint_can_seed_continuation (ckpt_state k)
                then (RevalidationRequired_CT,
                      ''referenced checkpoint state is '' @ checkpoint_state_name (ckpt_state k))
                else valid))"

definition validate_continuation_state ::
  "DurableState \<Rightarrow> ContinuationRecord \<Rightarrow> ContinuationState \<times> string" where
  "validate_continuation_state s c =
     (case find_execution (cont_execution c) s of
        None \<Rightarrow> (Invalid, ''continuation references an execution that does not exist'')
      | Some e \<Rightarrow>
        (case continuation_claim c e of
           Some reason \<Rightarrow> (Invalid, reason)
         | None \<Rightarrow>
           if \<not> id_valid (cont_checkpoint c) then continuation_verdict s c e
           else case find_checkpoint (cont_checkpoint c) s of
             None \<Rightarrow> (Invalid, ''continuation references a checkpoint that does not exist'')
           | Some k \<Rightarrow>
             if ckpt_state k = Corrupt \<or> ckpt_state k = Unsupported_CS
             then (Unsupported_CT,
                   ''referenced checkpoint state is '' @ checkpoint_state_name (ckpt_state k))
             else continuation_verdict s c e))"

definition validate_continuation :: "CallerContext \<Rightarrow> u64 \<Rightarrow> (ContinuationState \<times> string) rt_op" where
  "validate_continuation caller execution_id =
     pef_try (check_caller caller) (\<lambda>_.
     op_read (\<lambda>r. case find_execution execution_id (rt_state r) of
       None \<Rightarrow> op_fail NotFound
     | Some e \<Rightarrow>
         if \<not> id_valid (exec_continuation e)
         then op_return (Invalid, ''the execution has no current continuation'')
         else case find_continuation (exec_continuation e) (rt_state r) of
           None \<Rightarrow> op_return (Invalid,
             ''the execution's current continuation is missing from the durable store'')
         | Some c \<Rightarrow> op_return (validate_continuation_state (rt_state r) c)))"

section \<open>Resume\<close>

record ResumeResult =
  rsr_continuation_state :: ContinuationState
  rsr_lifecycle :: Lifecycle
  rsr_decision :: RecoveryDecision

definition resumable :: "Lifecycle \<Rightarrow> bool" where
  "resumable l \<longleftrightarrow> l \<in> {Suspended, RecoveryRequired, Recovering, Resuming}"

text \<open>The stored decision byte; a value outside the enumeration permits nothing.\<close>

definition decision_allows_continue :: "u8 \<Rightarrow> bool" where
  "decision_allows_continue b \<longleftrightarrow>
     unat b < length recovery_decisions \<and>
     recovery_allows_automatic_continue (recovery_decisions ! unat b)"

definition resume_refusal ::
  "ExecutionRecord \<Rightarrow> DurableState \<Rightarrow> BindingSet \<Rightarrow> bool \<Rightarrow> Code option" where
  "resume_refusal execution s observed revalidate =
     (let stale = (\<not> equals_generations (exec_bindings execution) observed \<and> \<not> revalidate);
          bindings = (if stale then Some StaleBindingGeneration else None)
      in if \<not> resumable (exec_lifecycle execution) then Some LifecycleRefused
         else if exec_lifecycle execution = RecoveryRequired then
           (if \<not> id_valid (exec_recovery execution) then Some LifecycleRefused
            else case find_recovery (exec_recovery execution) s of
              None \<Rightarrow> Some CorruptState
            | Some rec \<Rightarrow> if \<not> decision_allows_continue (rec_decision rec)
                          then Some PolicyRefused else bindings)
         else bindings)"

text \<open>Every resumable state moves to \<open>Resuming\<close>, \<open>RecoveryRequired\<close> through \<open>Recovering\<close>.\<close>

definition to_resuming :: "Lifecycle \<Rightarrow> unit rt_op" where
  "to_resuming l =
     pef_try (if l = RecoveryRequired then require_transition RecoveryRequired Recovering
              else op_return ()) (\<lambda>_.
     pef_try (if l = RecoveryRequired \<or> l = Recovering
              then require_transition Recovering Resuming else op_return ()) (\<lambda>_.
     if l = Suspended then require_transition Suspended Resuming else op_return ()))"

definition resume :: "u64 \<Rightarrow> LeaseToken \<Rightarrow> BindingSet \<Rightarrow> bool \<Rightarrow> ResumeResult rt_op" where
  "resume request token observed revalidate =
     pef_try check_open (\<lambda>_.
     pef_try (validate_token token) (\<lambda>(execution, lease).
     op_read (\<lambda>r.
       if lookup_request request r \<noteq> None
       then op_return \<lparr>rsr_continuation_state = Invalid,
              rsr_lifecycle = exec_lifecycle execution, rsr_decision = Unsupported_D\<rparr>
       else case resume_refusal execution (rt_state r) observed revalidate of
         Some c \<Rightarrow> op_fail c
       | None \<Rightarrow>
         (let flush = flush_for (policy_of execution r);
              next0 = execution\<lparr>exec_bindings := observed, exec_epoch := ds_epoch (rt_state r),
                exec_lifecycle := Resuming\<rparr>
          in pef_try (to_resuming (exec_lifecycle execution)) (\<lambda>_.
             pef_try (rt_put_execution next0 flush) (\<lambda>_.
             op_read (\<lambda>r1.
               let continuation = mint_continuation next0 next0 Valid
                     (exec_action_frontier next0) (rt_state r1);
                   next1 = next0\<lparr>exec_continuation := cont_id continuation,
                     exec_continuation_generation := cont_generation continuation,
                     exec_lifecycle := Running\<rparr>;
                   state = fst (validate_continuation_state (rt_state r1) continuation)
               in if state \<noteq> Valid then op_fail StaleContinuation
                  else
                    pef_try (require_transition Resuming Running) (\<lambda>_.
                    pef_try (retire_other_continuations (exec_id next1) (cont_id continuation)
                      flush) (\<lambda>_.
                    pef_try (rt_put_continuation continuation flush) (\<lambda>_.
                    pef_try (rt_put_execution next1 flush) (\<lambda>_.
                    pef_try (remember request Ok 0 0) (\<lambda>_.
                    op_return \<lparr>rsr_continuation_state = state, rsr_lifecycle = Running,
                      rsr_decision = Unsupported_D\<rparr>))))))))))))"

end
