(* ===== verification/Runtime_Recovery.thy ===== *)
theory Runtime_Recovery
  imports Runtime_Lifecycle Runtime_Actions
begin

text \<open>
  Classification, recovery, ambiguity resolution, coordinator restart, inspection and
  maintenance of \<open>Runtime\<close> (\<open>src/runtime.cpp\<close>).
\<close>

section \<open>Classification\<close>

text \<open>The input of the classifier, built alike by \<open>classify\<close> and \<open>recover\<close>.\<close>

definition unsettled :: "ActionRecord option \<Rightarrow> ActionRecord option" where
  "unsettled latest =
     (case latest of
        None \<Rightarrow> None
      | Some a \<Rightarrow> if act_status a = Committed \<or> act_status a = Compensated \<or>
                     act_status a = Abandoned then None else Some a)"

text \<open>
  \<open>std::stable_sort\<close> by descending generation: sorting by the bitwise complement, which
  reverses the order of 64-bit values, is stable and descending.
\<close>

definition newest_first :: "CheckpointRecord list \<Rightarrow> CheckpointRecord list" where
  "newest_first cs = sort_key (\<lambda>c. - 1 - ckpt_generation c) cs"

definition seed_candidates :: "u64 \<Rightarrow> DurableState \<Rightarrow> CheckpointRecord list" where
  "seed_candidates execution_id s =
     newest_first (filter (\<lambda>c. ckpt_execution c = execution_id \<and>
         checkpoint_can_seed_continuation (ckpt_state c))
       (sort_key ckpt_id (ds_checkpoints s)))"

definition recovery_input :: "ExecutionRecord \<Rightarrow> Runtime \<Rightarrow> RecoveryInput" where
  "recovery_input execution r =
     (let s = rt_state r;
          checkpoint = find_checkpoint (exec_checkpoint execution) s;
          referenced = id_valid (exec_checkpoint execution);
          unusable = (case checkpoint of
            None \<Rightarrow> True
          | Some c \<Rightarrow> ckpt_state c = Corrupt \<or> ckpt_state c = Unsupported_CS)
      in \<lparr>ri_execution = Some execution, ri_policy = policy_of execution r,
          ri_epoch = ds_epoch s, ri_in_flight = unsettled (latest_action (exec_id execution) r),
          ri_current_checkpoint =
            (if referenced \<and> \<not> unusable \<and>
                checkpoint_can_seed_continuation (ckpt_state (the checkpoint))
             then checkpoint else None),
          ri_candidates = seed_candidates (exec_id execution) s,
          ri_ambiguity = (if ambiguity_open execution
            then find_ambiguity (exec_ambiguity execution) s else None),
          ri_binding_mismatch = False,
          ri_checkpoint_unusable = (referenced \<and> unusable)\<rparr>)"

definition classify :: "CallerContext \<Rightarrow> u64 \<Rightarrow> RecoveryPlan rt_op" where
  "classify caller execution_id =
     pef_try (check_caller caller) (\<lambda>_.
     op_read (\<lambda>r. case find_execution execution_id (rt_state r) of
       None \<Rightarrow> op_fail NotFound
     | Some execution \<Rightarrow> op_return (classify_recovery (recovery_input execution r))))"

section \<open>Recovery\<close>

record RecoveryOutcome =
  ro_plan :: RecoveryPlan
  ro_applied :: bool
  ro_committed :: bool
  ro_commit :: u64
  ro_recovery :: u64
  ro_recovery_generation :: u64
  ro_ambiguity :: u64
  ro_ambiguity_generation :: u64
  ro_continuation :: u64
  ro_continuation_generation :: u64

definition opens_ambiguity :: "RecoveryDecision \<Rightarrow> bool" where
  "opens_ambiguity d \<longleftrightarrow>
     d = AmbiguousCompletion_D \<or> d = ManualResolutionRequired_D \<or> d = Compensate"

text \<open>The ambiguity record: an open one is kept, otherwise the next generation is opened.\<close>

definition ambiguity_record ::
  "ExecutionRecord \<Rightarrow> ActionRecord \<Rightarrow> RecoveryPlan \<Rightarrow> DurableState \<Rightarrow> AmbiguityRecord" where
  "ambiguity_record execution action plan s =
     (let existing = (if ambiguity_open execution
            then find_ambiguity (exec_ambiguity execution) s else None);
          generation = (case existing of None \<Rightarrow> 1 | Some a \<Rightarrow> gen_next (amb_generation a))
      in if open_ambiguity existing then the existing
         else \<lparr>amb_id = derive_ambiguity_id (exec_id execution) (act_id action) generation,
            amb_generation = generation, amb_execution = exec_id execution,
            amb_execution_generation = exec_generation execution, amb_action = act_id action,
            amb_action_generation = act_generation action,
            amb_effect_class = act_effect_class action, amb_action_ordinal = act_sequence action,
            amb_state = (if plan_decision plan = AmbiguousCompletion_D then Open
              else ManualResolutionRequired_AS),
            amb_reason = plan_explanation plan, amb_resolution_evidence = no_evidence,
            amb_resolution_note = []\<rparr>)"

text \<open>The execution after the ambiguity has been recorded, and the two records written.\<close>

definition blocked_execution ::
  "ExecutionRecord \<Rightarrow> AmbiguityRecord \<Rightarrow> ActionRecord \<Rightarrow> ExecutionPolicy option \<Rightarrow> ExecutionRecord" where
  "blocked_execution execution ambiguity action policy =
     (let next' = execution\<lparr>exec_ambiguity := amb_id ambiguity,
            exec_ambiguity_generation := amb_generation ambiguity\<rparr>
      in if (case policy of None \<Rightarrow> True | Some p \<Rightarrow> pol_ambiguity_blocks_later_progress p)
         then next'\<lparr>exec_blocked := True,
                exec_blocked_above_ordinal := act_sequence action - 1\<rparr>
         else next')"

definition record_ambiguity ::
  "ExecutionRecord \<Rightarrow> ActionRecord option \<Rightarrow> RecoveryPlan \<Rightarrow> ExecutionPolicy option \<Rightarrow> bool \<Rightarrow>
   ExecutionRecord rt_op" where
  "record_ambiguity execution in_flight plan policy flush =
     op_read (\<lambda>r. case in_flight of
       None \<Rightarrow> op_return execution
     | Some action \<Rightarrow>
         if \<not> opens_ambiguity (plan_decision plan) then op_return execution
         else (let ambiguity = ambiguity_record execution action plan (rt_state r) in
           pef_try (rt_put_ambiguity ambiguity flush) (\<lambda>_.
           pef_try (rt_put_action (action\<lparr>act_status := Ambiguous\<rparr>) flush) (\<lambda>_.
           op_return (blocked_execution execution ambiguity action policy)))))"

text \<open>
  The commit from a durable receipt. The result is the aggregate to continue from and the
  commit, if one was made.
\<close>

definition commit_receipt ::
  "ExecutionRecord \<Rightarrow> ExecutionRecord \<Rightarrow> ActionRecord option \<Rightarrow> RecoveryPlan \<Rightarrow> u64 \<Rightarrow> bool \<Rightarrow>
   (ExecutionRecord \<times> u64 option) rt_op" where
  "commit_receipt execution next' in_flight plan request flush =
     (case in_flight of
        None \<Rightarrow> op_return (next', None)
      | Some action \<Rightarrow>
          if \<not> plan_commit_from_receipt plan then op_return (next', None)
          else pef_try (stage_commit execution action request (act_receipt action) flush) (\<lambda>g.
               op_read (\<lambda>r. op_return
                 (the (find_execution (exec_id execution) (rt_state r)),
                  Some (com_id (grp_commit g))))))"

definition recovery_record ::
  "ExecutionRecord \<Rightarrow> ExecutionRecord \<Rightarrow> ActionRecord option \<Rightarrow> RecoveryPlan \<Rightarrow> u64 \<Rightarrow> RecoveryRecord" where
  "recovery_record execution next' in_flight plan epoch =
     (let generation = (if exec_recovery_generation execution \<noteq> 0
            then gen_next (exec_recovery_generation execution) else 1)
      in \<lparr>rec_id = derive_recovery_id (exec_id execution) generation,
          rec_generation = generation, rec_execution = exec_id execution,
          rec_execution_generation = exec_generation execution,
          rec_decision = word_of_nat (enum_ordinal recovery_decisions (plan_decision plan)),
          rec_continuation = exec_continuation next',
          rec_continuation_generation = exec_continuation_generation next',
          rec_checkpoint = exec_checkpoint next',
          rec_checkpoint_generation = exec_checkpoint_generation next', rec_epoch = epoch,
          rec_evidence = (case in_flight of None \<Rightarrow> no_evidence | Some a \<Rightarrow> act_receipt a),
          rec_explanation = plan_explanation plan\<rparr>)"

definition recover_found :: "u64 \<Rightarrow> ExecutionRecord \<Rightarrow> RecoveryOutcome rt_op" where
  "recover_found request execution =
     op_read (\<lambda>r.
       let plan = classify_recovery (recovery_input execution r);
           policy = policy_of execution r;
           flush = flush_for policy;
           in_flight = (if id_valid (plan_action plan)
             then find_action (plan_action plan) (plan_action_generation plan) (rt_state r)
             else None)
       in pef_try (record_ambiguity execution in_flight plan policy flush) (\<lambda>next0.
          pef_try (commit_receipt execution next0 in_flight plan request flush) (\<lambda>(next1, commit).
          op_read (\<lambda>r1.
            let next2 = (if plan_decision plan = ResumeFromCheckpoint \<and> id_valid (plan_checkpoint plan)
                  then next1\<lparr>exec_checkpoint := plan_checkpoint plan,
                         exec_checkpoint_generation := plan_checkpoint_generation plan\<rparr>
                  else next1);
                recovery = recovery_record execution next2 in_flight plan (ds_epoch (rt_state r1));
                moves = (exec_lifecycle execution = RecoveryRequired \<and>
                  recovery_allows_automatic_continue (plan_decision plan));
                next3 = next2\<lparr>exec_recovery := rec_id recovery,
                  exec_recovery_generation := rec_generation recovery,
                  exec_epoch := ds_epoch (rt_state r1),
                  exec_lifecycle := (if moves then Recovering else exec_lifecycle next2)\<rparr>
            in pef_try (if moves then require_transition (exec_lifecycle next2) Recovering
                        else op_return ()) (\<lambda>_.
               pef_try (rt_put_recovery recovery flush) (\<lambda>_.
               pef_try (rt_put_execution next3 flush) (\<lambda>_.
               pef_try (remember request Ok (rec_id recovery)
                 (word_of_nat (enum_ordinal recovery_decisions (plan_decision plan)))) (\<lambda>_.
               op_return \<lparr>ro_plan = plan, ro_applied = True, ro_committed = (commit \<noteq> None),
                 ro_commit = (case commit of None \<Rightarrow> 0 | Some c \<Rightarrow> c),
                 ro_recovery = rec_id recovery, ro_recovery_generation = rec_generation recovery,
                 ro_ambiguity = exec_ambiguity next3,
                 ro_ambiguity_generation = exec_ambiguity_generation next3,
                 ro_continuation = exec_continuation next3,
                 ro_continuation_generation = exec_continuation_generation next3\<rparr>))))))))"

definition recover :: "CallerContext \<Rightarrow> u64 \<Rightarrow> u64 \<Rightarrow> RecoveryOutcome rt_op" where
  "recover caller request execution_id =
     pef_try (check_caller caller) (\<lambda>_.
     op_read (\<lambda>r. case find_execution execution_id (rt_state r) of
       None \<Rightarrow> op_fail NotFound
     | Some execution \<Rightarrow>
         if is_terminal_state (exec_lifecycle execution) then op_fail LifecycleRefused
         else recover_found request execution))"

section \<open>Ambiguity resolution\<close>

record ResolveAmbiguityRequest =
  rar_request :: u64
  rar_caller :: CallerContext
  rar_execution :: u64
  rar_ambiguity :: u64
  rar_ambiguity_generation :: u64
  rar_resolution :: AmbiguityState
  rar_evidence :: Evidence
  rar_note :: string

record ResolveAmbiguityResult =
  rars_state :: AmbiguityState
  rars_committed :: bool
  rars_commit :: u64
  rars_progress_generation :: u64
  rars_replay_admitted :: bool
  rars_replay :: u64
  rars_ambiguity :: u64
  rars_ambiguity_generation :: u64
  rars_action :: u64
  rars_action_generation :: u64

definition unblock :: "ExecutionRecord \<Rightarrow> ExecutionRecord" where
  "unblock e = e\<lparr>exec_blocked := False, exec_blocked_above_ordinal := 0\<rparr>"

text \<open>
  The effect of a resolution on the action: the aggregate to persist, the commit and the
  progress generation.
\<close>

definition apply_resolution ::
  "ResolveAmbiguityRequest \<Rightarrow> ExecutionRecord \<Rightarrow> ActionRecord \<Rightarrow> bool \<Rightarrow>
   (ExecutionRecord \<times> u64 option \<times> u64) rt_op" where
  "apply_resolution request execution action flush =
     (if rar_resolution request = ResolvedApplied \<or> rar_resolution request = Accepted then
        pef_try (stage_commit execution action (rar_request request) (rar_evidence request) flush) (\<lambda>g.
        op_read (\<lambda>r. op_return
          (unblock (the (find_execution (rar_execution request) (rt_state r))),
           Some (com_id (grp_commit g)), com_progress_generation (grp_commit g))))
      else if rar_resolution request = ResolvedNotApplied then
        pef_try (rt_put_action (action\<lparr>act_status := Failed, act_receipt := rar_evidence request\<rparr>)
          flush) (\<lambda>_.
        op_return (unblock execution, None, exec_progress_generation execution))
      else if rar_resolution request = Abandoned_AS then
        pef_try (rt_put_action (action\<lparr>act_status := Abandoned,
          act_receipt := rar_evidence request\<rparr>) flush) (\<lambda>_.
        op_return (unblock execution, None, exec_progress_generation execution))
      else op_return (execution\<lparr>exec_blocked := True\<rparr>, None, exec_progress_generation execution))"

definition resolve_ambiguity :: "ResolveAmbiguityRequest \<Rightarrow> ResolveAmbiguityResult rt_op" where
  "resolve_ambiguity request =
     pef_try (check_caller (rar_caller request)) (\<lambda>_.
     op_read (\<lambda>r.
       case find_execution (rar_execution request) (rt_state r) of
         None \<Rightarrow> op_fail NotFound
       | Some execution \<Rightarrow>
         (case find_ambiguity (rar_ambiguity request) (rt_state r) of
            None \<Rightarrow> op_fail NotFound
          | Some ambiguity \<Rightarrow>
            if amb_execution ambiguity \<noteq> rar_execution request then op_fail InvalidArgument
            else if amb_generation ambiguity \<noteq> rar_ambiguity_generation request
            then op_fail StaleContinuation
            else if \<not> ambiguity_is_open (amb_state ambiguity) then op_fail DuplicateRequest
            else (case find_action (amb_action ambiguity) (amb_action_generation ambiguity)
                (rt_state r) of
              None \<Rightarrow> op_fail CorruptState
            | Some action \<Rightarrow>
              if rar_resolution request = Open then op_fail InvalidArgument
              else
                (let flush = flush_for (policy_of execution r);
                     resolved = ambiguity\<lparr>amb_state := rar_resolution request,
                       amb_resolution_evidence := rar_evidence request,
                       amb_resolution_note := rar_note request\<rparr>
                 in pef_try (apply_resolution request execution action flush)
                    (\<lambda>(next', commit, progress_generation).
                    pef_try (rt_put_ambiguity resolved flush) (\<lambda>_.
                    pef_try (rt_put_execution next' flush) (\<lambda>_.
                    pef_try (remember (rar_request request) Ok (amb_id resolved)
                      (word_of_nat (enum_ordinal ambiguity_states (amb_state resolved)))) (\<lambda>_.
                    op_return \<lparr>rars_state = amb_state resolved,
                      rars_committed = (commit \<noteq> None),
                      rars_commit = (case commit of None \<Rightarrow> 0 | Some c \<Rightarrow> c),
                      rars_progress_generation = progress_generation,
                      rars_replay_admitted = (rar_resolution request = ResolvedNotApplied),
                      rars_replay = 0, rars_ambiguity = amb_id resolved,
                      rars_ambiguity_generation = amb_generation resolved,
                      rars_action = act_id action,
                      rars_action_generation = act_generation action\<rparr>)))))))))"

section \<open>Open and shutdown\<close>

record OpenOutcome =
  oo_previous_epoch :: u64
  oo_epoch :: u64
  oo_created :: bool
  oo_load :: LoadReport
  oo_reclassified :: "u64 list"
  oo_leases_revoked :: nat
  oo_reconciled_commits :: nat

text \<open>A store operation on the runtime's store.\<close>

definition on_store :: "'a store_op \<Rightarrow> 'a rt_op" where
  "on_store m r = (case m (rt_store r) of (res, st) \<Rightarrow> (res, r\<lparr>rt_store := st\<rparr>))"

definition rt_load :: "LoadReport rt_op" where
  "rt_load r =
     (case store_load (rt_state r) (rt_store r) of
        (Inr (out, report, Inr _), st) \<Rightarrow>
          (Inr report, r\<lparr>rt_store := st, rt_state := out\<rparr>)
      | (Inr (out, report, Inl c), st) \<Rightarrow> (Inl c, r\<lparr>rt_store := st, rt_state := out\<rparr>)
      | (Inl c, st) \<Rightarrow> (Inl c, r\<lparr>rt_store := st\<rparr>))"

text \<open>The checks of the recovered store identity and schema.\<close>

definition adopt_state :: "unit rt_op" where
  "adopt_state =
     pef_try (op_read (\<lambda>r.
       if \<not> id_valid (ds_store (rt_state r))
       then op_modify (upd_state (\<lambda>s. s\<lparr>ds_store := fs_store_id (rt_store r)\<rparr>))
       else op_guard (ds_store (rt_state r) = fs_store_id (rt_store r)) CorruptState)) (\<lambda>_.
     pef_try (op_read (\<lambda>r. op_guard (ds_schema (rt_state r) = 0 \<or>
       ds_schema (rt_state r) = kPersistenceSchemaVersion) UnsupportedCode)) (\<lambda>_.
     op_modify (\<lambda>r. rebuild_indexes
       (upd_state (\<lambda>s. s\<lparr>ds_schema := kPersistenceSchemaVersion\<rparr>) r))))"

text \<open>Reconciliation; the repairs are journaled as commit groups.\<close>

definition reconcile_on_open :: "nat rt_op" where
  "reconcile_on_open =
     op_read (\<lambda>r.
       case reconcile_state (rt_state r) of
         (s, repairs, changed) \<Rightarrow>
           pef_try (op_modify (\<lambda>r. r\<lparr>rt_state := s\<rparr>)) (\<lambda>_.
           if changed then
             pef_try (op_modify rebuild_indexes) (\<lambda>_.
             pef_try (op_for (\<lambda>g. rt_append (GroupEntry g) True) repairs) (\<lambda>_.
             op_return (length repairs)))
           else op_return 0))"

definition advance_epoch :: "u64 rt_op" where
  "advance_epoch =
     pef_try (op_modify (upd_state (\<lambda>s. s\<lparr>ds_epoch := gen_next (ds_epoch s)\<rparr>))) (\<lambda>_.
     pef_try (rt_put_store_meta True) (\<lambda>_.
     op_read (\<lambda>r. op_return (ds_epoch (rt_state r)))))"

definition foreign_leases :: "u64 \<Rightarrow> LeaseRecord list \<Rightarrow> LeaseRecord list" where
  "foreign_leases epoch leases =
     map (\<lambda>l. l\<lparr>lease_state := Revoked\<rparr>)
       (filter (\<lambda>l. lease_state l = Active \<and> lease_epoch l \<noteq> epoch) leases)"

text \<open>The reclassification of one execution on restart, and whether it changed.\<close>

definition lease_current :: "u64 \<Rightarrow> u64 \<Rightarrow> DurableState \<Rightarrow> bool" where
  "lease_current i epoch s \<longleftrightarrow>
     (case find_lease i s of
        None \<Rightarrow> False
      | Some l \<Rightarrow> lease_state l = Active \<and> lease_epoch l = epoch)"

definition reclassify :: "u64 \<Rightarrow> DurableState \<Rightarrow> ExecutionRecord \<Rightarrow> ExecutionRecord option" where
  "reclassify epoch s execution =
     (let unbound = (has_lease execution \<and> \<not> lease_current (exec_lease execution) epoch s);
          next1 = (if unbound then drop_binding execution else execution);
          interrupted = (is_active_state (exec_lifecycle next1) \<or> exec_lifecycle next1 = Fenced);
          next2 = (if interrupted then next1\<lparr>exec_lifecycle := RecoveryRequired\<rparr> else next1)
      in if unbound \<or> interrupted then Some next2 else None)"

definition foreign_continuations :: "u64 \<Rightarrow> ContinuationRecord list \<Rightarrow> ContinuationRecord list" where
  "foreign_continuations epoch conts =
     map (\<lambda>c. c\<lparr>cont_state := Stale\<rparr>)
       (filter (\<lambda>c. cont_epoch c \<noteq> epoch \<and> cont_state c = Valid) conts)"

text \<open>Leases, executions and continuations of the previous epoch lose their authority.\<close>

definition revoke_previous_epoch :: "u64 \<Rightarrow> (nat \<times> u64 list) rt_op" where
  "revoke_previous_epoch epoch =
     op_read (\<lambda>r.
       let leases = foreign_leases epoch (ds_leases (rt_state r)) in
       pef_try (op_for (\<lambda>l. rt_put_lease l True) leases) (\<lambda>_.
       op_read (\<lambda>r1.
         let updates = List.map_filter (reclassify epoch (rt_state r1)) (ds_executions (rt_state r1)) in
         pef_try (op_for (\<lambda>e. rt_put_execution e True) updates) (\<lambda>_.
         op_read (\<lambda>r2.
           pef_try (op_for (\<lambda>c. rt_put_continuation c True)
             (foreign_continuations epoch (ds_continuations (rt_state r2)))) (\<lambda>_.
           op_return (length leases, map exec_id updates)))))))"

text \<open>The recovery of one pending execution; its failure is only reported.\<close>

definition recover_pending :: "u64 \<Rightarrow> u64 \<Rightarrow> unit rt_op" where
  "recover_pending epoch i r =
     (Inr (), snd (recover \<lparr>caller_session = 0, caller_epoch = epoch\<rparr> 0 i r))"

definition pending_recoveries :: "DurableState \<Rightarrow> u64 list" where
  "pending_recoveries s =
     map exec_id (filter (\<lambda>e. exec_lifecycle e = RecoveryRequired) (ds_executions s))"

definition open_runtime :: "RuntimeConfig \<Rightarrow> u64 \<Rightarrow> OpenOutcome rt_op" where
  "open_runtime config entropy =
     op_read (\<lambda>r0. if rt_open r0 then op_fail AlreadyExists
     else
       pef_try (op_modify (\<lambda>r. r\<lparr>rt_config := config, rt_shutting_down := False\<rparr>)) (\<lambda>_.
       pef_try (on_store (store_open (cfg_create_if_missing config) (cfg_store_limits config)
         entropy)) (\<lambda>_.
       pef_try rt_load (\<lambda>report.
       op_read (\<lambda>r1.
       let previous = ds_epoch (rt_state r1);
           created = (\<not> lr_snapshot_present report \<and> lr_records_loaded report = 0)
       in
       pef_try adopt_state (\<lambda>_.
       pef_try reconcile_on_open (\<lambda>reconciled.
       pef_try advance_epoch (\<lambda>epoch.
       pef_try (revoke_previous_epoch epoch) (\<lambda>(revoked, reclassified).
       pef_try (op_modify (\<lambda>r. r\<lparr>rt_open := True\<rparr>)) (\<lambda>_.
       op_read (\<lambda>r2.
       pef_try (op_for (recover_pending epoch) (pending_recoveries (rt_state r2))) (\<lambda>_.
       op_return \<lparr>oo_previous_epoch = previous, oo_epoch = epoch, oo_created = created,
         oo_load = report, oo_reclassified = reclassified, oo_leases_revoked = revoked,
         oo_reconciled_commits = reconciled\<rparr>))))))))))))"

definition shutdown :: "unit rt_op" where
  "shutdown =
     op_read (\<lambda>r. if \<not> rt_open r then op_return ()
     else
       pef_try (op_modify (\<lambda>r. r\<lparr>rt_shutting_down := True, rt_sessions := Map.empty,
         rt_request_cache := Map.empty, rt_request_order := []\<rparr>)) (\<lambda>_.
       pef_try (on_store store_flush) (\<lambda>_.
       pef_try (on_store store_close) (\<lambda>_.
       op_modify (\<lambda>r. r\<lparr>rt_open := False\<rparr>)))))"

section \<open>Inspection and maintenance\<close>

definition list_executions :: "Runtime \<Rightarrow> ExecutionRecord list" where
  "list_executions r = sort_key exec_id (ds_executions (rt_state r))"

record ExecutionView =
  vw_execution :: ExecutionRecord
  vw_policy :: "ExecutionPolicy option"
  vw_lease :: "LeaseRecord option"
  vw_continuation :: "ContinuationRecord option"
  vw_checkpoint :: "CheckpointRecord option"
  vw_recovery :: "RecoveryRecord option"
  vw_ambiguity :: "AmbiguityRecord option"
  vw_actions :: "ActionRecord list"
  vw_checkpoints :: "CheckpointRecord list"
  vw_replays :: "ReplayRecord list"
  vw_action_count :: nat
  vw_commit_count :: nat

text \<open>The bounded loops: at most \<open>max_view_actions\<close> records that are found.\<close>

definition view_records :: "nat \<Rightarrow> ('k \<Rightarrow> 'r option) \<Rightarrow> 'k list \<Rightarrow> 'r list" where
  "view_records bound look keys = take bound (List.map_filter look keys)"

definition query :: "u64 \<Rightarrow> ExecutionView rt_op" where
  "query execution_id =
     op_read (\<lambda>r.
       let s = rt_state r; bound = cfg_max_view_actions (rt_config r) in
       case find_execution execution_id s of
         None \<Rightarrow> op_fail NotFound
       | Some e \<Rightarrow>
         op_return
           \<lparr>vw_execution = e, vw_policy = policy_of e r,
            vw_lease = (if has_lease e then find_lease (exec_lease e) s else None),
            vw_continuation = (if id_valid (exec_continuation e)
              then find_continuation (exec_continuation e) s else None),
            vw_checkpoint = (if id_valid (exec_checkpoint e)
              then find_checkpoint (exec_checkpoint e) s else None),
            vw_recovery = (if id_valid (exec_recovery e)
              then find_recovery (exec_recovery e) s else None),
            vw_ambiguity = (if ambiguity_open e
              then find_ambiguity (exec_ambiguity e) s else None),
            vw_actions = view_records bound (\<lambda>k. tbl_find action_key k (ds_actions s))
              (rev (rt_action_index r execution_id)),
            vw_checkpoints = newest_first (view_records bound (\<lambda>i. find_checkpoint i s)
              (rt_checkpoint_index r execution_id)),
            vw_replays = view_records bound (\<lambda>i. find_replay i s)
              (rt_replay_index r execution_id),
            vw_action_count = length (rt_action_index r execution_id),
            vw_commit_count = length (rt_commit_index r execution_id)\<rparr>)"

definition take_snapshot :: "bool \<Rightarrow> unit rt_op" where
  "take_snapshot truncate_journal =
     op_read (\<lambda>r. if \<not> rt_open r then op_fail NotFound
       else pef_try (on_store store_flush) (\<lambda>_.
            op_read (\<lambda>r1. on_store (store_write_snapshot (rt_state r1) truncate_journal))))"

definition rt_flush :: "unit rt_op" where
  "rt_flush = op_read (\<lambda>r. if \<not> rt_open r then op_fail NotFound else on_store store_flush)"

section \<open>Worker identity\<close>

definition derive_worker_id :: "string \<Rightarrow> u64" where
  "derive_worker_id name = hb_text (hb_u64 hb_new 0x2001) name"

text \<open>The per-process counter and the process start marker are arguments.\<close>

definition mint_worker_boot_id :: "u64 \<Rightarrow> u64 \<Rightarrow> u64 \<Rightarrow> u64" where
  "mint_worker_boot_id worker counter marker = derive 0x2002 [worker, counter, marker]"

end
