(* ===== verification/Refinement_Rules.thy ===== *)
theory Refinement_Rules
  imports Transitions Runtime_Recovery
begin

text \<open>
  Every operation of the runtime refines a sequence of \<open>evolution\<close> steps of the durable
  state, whether it succeeds, is refused, or stops halfway at a failing append. The proofs
  are in a calculus of postconditions: \<open>rely R m Q s\<close> says that \<open>m\<close>, started in \<open>s\<close>, moves
  the state along \<open>R\<close> in any case and establishes \<open>Q\<close> when it succeeds.
\<close>

section \<open>The calculus\<close>

definition rely ::
  "('s \<Rightarrow> 's \<Rightarrow> bool) \<Rightarrow> ('e, 's, 'a) oper \<Rightarrow> ('a \<Rightarrow> 's \<Rightarrow> bool) \<Rightarrow> 's \<Rightarrow> bool" where
  "rely R m Q s \<longleftrightarrow> R s (snd (m s)) \<and> (\<forall>a s'. m s = (Inr a, s') \<longrightarrow> Q a s')"

lemma rely_rel: "rely R m Q s \<Longrightarrow> R s (snd (m s))"
  by (simp add: rely_def)

lemma rely_post: "rely R m Q s \<Longrightarrow> m s = (Inr a, s') \<Longrightarrow> Q a s'"
  by (simp add: rely_def)

lemma rely_weaken: "rely R m P s \<Longrightarrow> (\<And>a s'. P a s' \<Longrightarrow> Q a s') \<Longrightarrow> rely R m Q s"
  by (simp add: rely_def)

context state_preorder
begin

lemma rely_return: "Q a s \<Longrightarrow> rely R (op_return a) Q s"
  by (simp add: rely_def op_return_def R_refl)

lemma rely_fail: "rely R (op_fail e) Q s"
  by (simp add: rely_def op_fail_def R_refl)

lemma rely_read: "rely R (f s) Q s \<Longrightarrow> rely R (op_read f) Q s"
  by (simp add: rely_def op_read_def)

lemma rely_modify: "R s (f s) \<Longrightarrow> Q () (f s) \<Longrightarrow> rely R (op_modify f) Q s"
  by (simp add: rely_def op_modify_def)

lemma rely_guard: "(b \<Longrightarrow> Q () s) \<Longrightarrow> rely R (op_guard b e) Q s"
  by (simp add: op_guard_def rely_return rely_fail)

lemma rely_try:
  assumes "rely R m (\<lambda>a s'. rely R (f a) Q s') s"
  shows "rely R (pef_try m f) Q s"
proof (cases "m s")
  case (Pair res s')
  then show ?thesis
    using assms by (cases res) (auto simp: rely_def pef_try_def intro: R_trans)
qed

lemma rely_for:
  assumes "I xs s"
    and "\<And>x xs s. I (x # xs) s \<Longrightarrow> rely R (f x) (\<lambda>_ s'. I xs s') s"
    and "\<And>s'. I [] s' \<Longrightarrow> Q () s'"
  shows "rely R (op_for f xs) Q s"
  using assms(1)
proof (induction xs arbitrary: s)
  case Nil
  then show ?case by (simp add: rely_return assms(3))
next
  case (Cons x xs)
  show ?case
    unfolding op_for.simps
    by (rule rely_try, rule rely_weaken [OF assms(2) [OF Cons.prems]]) (rule Cons.IH)
qed

lemma rely_if:
  "(b \<Longrightarrow> rely R m Q s) \<Longrightarrow> (\<not> b \<Longrightarrow> rely R m' Q s) \<Longrightarrow> rely R (if b then m else m') Q s"
  by simp

lemma rely_option:
  "(x = None \<Longrightarrow> rely R m Q s) \<Longrightarrow> (\<And>y. x = Some y \<Longrightarrow> rely R (f y) Q s) \<Longrightarrow>
   rely R (case x of None \<Rightarrow> m | Some y \<Rightarrow> f y) Q s"
  by (simp split: option.split)

lemma rely_sum:
  "(\<And>e. x = Inl e \<Longrightarrow> rely R (f e) Q s) \<Longrightarrow> (\<And>y. x = Inr y \<Longrightarrow> rely R (g y) Q s) \<Longrightarrow>
   rely R (case x of Inl e \<Rightarrow> f e | Inr y \<Rightarrow> g y) Q s"
  by (simp split: sum.split)

lemma rely_prod:
  "(\<And>a b. x = (a, b) \<Longrightarrow> rely R (f a b) Q s) \<Longrightarrow> rely R (case x of (a, b) \<Rightarrow> f a b) Q s"
  by (simp split: prod.split)

lemma rely_let: "(\<And>y. y = x \<Longrightarrow> rely R (f y) Q s) \<Longrightarrow> rely R (Let x f) Q s"
  by (simp add: Let_def)

lemmas rely_rules = rely_return rely_fail rely_read rely_guard rely_try
lemmas rely_flow = rely_rules rely_if rely_option rely_sum rely_prod rely_let

end

section \<open>The runtime's relation\<close>

definition refines :: "Runtime \<Rightarrow> Runtime \<Rightarrow> bool" where
  "refines r r' \<longleftrightarrow> evolutions (rt_state r) (rt_state r')"

interpretation rt: state_preorder refines
  by unfold_locales (auto simp: refines_def)

text \<open>A change that does not reach the durable state.\<close>

lemma rely_volatile:
  "rt_state (f r) = rt_state r \<Longrightarrow> Q () (f r) \<Longrightarrow> rely refines (op_modify f) Q r"
  by (rule rt.rely_modify) (simp_all add: refines_def)

lemma rely_append:
  assumes "\<And>r' q. rt_state r' = (rt_state r)\<lparr>ds_sequence := q\<rparr> \<Longrightarrow> Q () r'"
  shows "rely refines (rt_append e flush) Q r"
proof -
  have "evolutions (rt_state r) ((rt_state r)\<lparr>ds_sequence := q\<rparr>)" for q
    by (rule r_into_rtranclp) (rule evolution.sequence)
  then show ?thesis
    using assms by (auto simp: rely_def rt_append_def refines_def split: prod.splits sum.splits)
qed

text \<open>Appending an entry and then installing it.\<close>

lemma rely_put:
  assumes "\<And>r'. rt_state (f r') = g (rt_state r')"
    and "\<And>q. evolution ((rt_state r)\<lparr>ds_sequence := q\<rparr>) (g ((rt_state r)\<lparr>ds_sequence := q\<rparr>))"
    and "\<And>r' q. rt_state r' = g ((rt_state r)\<lparr>ds_sequence := q\<rparr>) \<Longrightarrow> Q () r'"
  shows "rely refines (pef_try (rt_append e flush) (\<lambda>_. op_modify f)) Q r"
  by (rule rt.rely_try, rule rely_append, rule rt.rely_modify)
    (auto simp: refines_def assms(1) intro!: r_into_rtranclp assms(2) assms(3))

lemma index_action_state [simp]: "rt_state (index_action a r) = rt_state r"
  by (simp add: index_action_def)

lemma put_checkpoint_state:
  "rt_state (let is_new = (find_checkpoint (ckpt_id c) (rt_state r) = None);
       r1 = upd_state (put_checkpoint c) r
     in if is_new
        then r1\<lparr>rt_checkpoint_index := push_index (ckpt_execution c) (ckpt_id c)
               (rt_checkpoint_index r1)\<rparr>
        else r1) = put_checkpoint c (rt_state r)"
  by (simp add: Let_def)

lemma put_replay_state:
  "rt_state (let is_new = (find_replay (rep_id p) (rt_state r) = None);
       r1 = upd_state (put_replay p) r
     in if is_new
        then r1\<lparr>rt_replay_index := push_index (rep_execution p) (rep_id p) (rt_replay_index r1)\<rparr>
        else r1) = put_replay p (rt_state r)"
  by (simp add: Let_def)

lemma find_sequence [simp]:
  "find_policy i (s\<lparr>ds_sequence := q\<rparr>) = find_policy i s"
  "find_execution i (s\<lparr>ds_sequence := q\<rparr>) = find_execution i s"
  "find_action i g (s\<lparr>ds_sequence := q\<rparr>) = find_action i g s"
  "find_progress i (s\<lparr>ds_sequence := q\<rparr>) = find_progress i s"
  "find_checkpoint i (s\<lparr>ds_sequence := q\<rparr>) = find_checkpoint i s"
  "find_continuation i (s\<lparr>ds_sequence := q\<rparr>) = find_continuation i s"
  "find_lease i (s\<lparr>ds_sequence := q\<rparr>) = find_lease i s"
  "find_replay i (s\<lparr>ds_sequence := q\<rparr>) = find_replay i s"
  "find_ambiguity i (s\<lparr>ds_sequence := q\<rparr>) = find_ambiguity i s"
  "find_commit i (s\<lparr>ds_sequence := q\<rparr>) = find_commit i s"
  "find_recovery i (s\<lparr>ds_sequence := q\<rparr>) = find_recovery i s"
  by (simp_all add: ds_find_defs)

lemma state_ok_sequence [simp]: "state_ok (s\<lparr>ds_sequence := q\<rparr>) = state_ok s"
  by (simp add: state_ok_def)

lemma find_execution_put [simp]:
  "find_execution i (put_policy p s) = find_execution i s"
  "find_execution i (put_execution e s) = (if i = exec_id e then Some e else find_execution i s)"
  "find_execution i (put_action a s) = find_execution i s"
  "find_execution i (put_progress q s) = find_execution i s"
  "find_execution i (put_checkpoint k s) = find_execution i s"
  "find_execution i (put_continuation c s) = find_execution i s"
  "find_execution i (put_lease l s) = find_execution i s"
  "find_execution i (put_replay p' s) = find_execution i s"
  "find_execution i (put_ambiguity m s) = find_execution i s"
  "find_execution i (put_commit t s) = find_execution i s"
  "find_execution i (put_recovery v s) = find_execution i s"
  by (simp_all add: find_execution_def)

subsection \<open>The persistence helpers\<close>

abbreviation moved :: "Runtime \<Rightarrow> (DurableState \<Rightarrow> DurableState) \<Rightarrow> u64 \<Rightarrow> DurableState" where
  "moved r g q \<equiv> g ((rt_state r)\<lparr>ds_sequence := q\<rparr>)"

text \<open>An execution record that is an update of the one in the table.\<close>

definition updates :: "DurableState \<Rightarrow> ExecutionRecord \<Rightarrow> bool" where
  "updates s e' \<longleftrightarrow> (\<exists>e. find_execution (exec_id e') s = Some e \<and> exec_step e e')"

lemma updates_frame [simp]:
  "updates (s\<lparr>ds_sequence := q\<rparr>) e = updates s e"
  "updates (s\<lparr>ds_sequence := q, ds_continuations := cs\<rparr>) e = updates s e"
  "updates (s\<lparr>ds_sequence := q, ds_leases := ls\<rparr>) e = updates s e"
  "updates (s\<lparr>ds_continuations := cs\<rparr>) e = updates s e"
  "updates (s\<lparr>ds_leases := ls\<rparr>) e = updates s e"
  "updates (put_policy p s) e = updates s e" "updates (put_action a s) e = updates s e"
  "updates (put_progress g s) e = updates s e" "updates (put_checkpoint k s) e = updates s e"
  "updates (put_continuation c s) e = updates s e" "updates (put_lease l s) e = updates s e"
  "updates (put_replay p' s) e = updates s e" "updates (put_ambiguity m s) e = updates s e"
  "updates (put_commit t s) e = updates s e" "updates (put_recovery v s) e = updates s e"
  by (simp_all add: updates_def) (simp_all add: find_execution_def)

lemma updates_found:
  "find_execution i s = Some e \<Longrightarrow> exec_step e e' \<Longrightarrow> updates s e'"
  by (auto simp: updates_def exec_step_def dest: find_execution_mem)

lemma updates_put:
  "exec_step e e' \<Longrightarrow> updates (put_execution e s) e'"
  by (auto simp: updates_def exec_step_def)

lemma rely_put_execution:
  assumes "updates (rt_state r) e"
    and "\<And>r' q. rt_state r' = moved r (put_execution e) q \<Longrightarrow> Q () r'"
  shows "rely refines (rt_put_execution e flush) Q r"
  unfolding rt_put_execution_def
  by (rule rely_put) (use assms(1) in \<open>auto intro!: evolution.execution assms(2) simp: updates_def\<close>)

lemma rely_create:
  assumes "find_execution i (rt_state r) = None"
    and "\<And>r' q. rt_state r' = moved r (put_execution (fresh_execution i p ep n)) q \<Longrightarrow> Q () r'"
  shows "rely refines (rt_put_execution (fresh_execution i p ep n) flush) Q r"
  unfolding rt_put_execution_def
  by (rule rely_put) (auto intro!: evolution.create assms(2) simp: assms(1))

lemma rely_put_policy:
  assumes "\<And>r' q. rt_state r' = moved r (put_policy p) q \<Longrightarrow> Q () r'"
  shows "rely refines (rt_put_policy p flush) Q r"
  unfolding rt_put_policy_def by (rule rely_put) (auto intro!: evolution.policy assms)

lemma rely_put_action:
  assumes "\<And>r' q. rt_state r' = moved r (put_action a) q \<Longrightarrow> Q () r'"
  shows "rely refines (rt_put_action a flush) Q r"
  unfolding rt_put_action_def by (rule rely_put) (auto intro!: evolution.action assms)

lemma rely_put_checkpoint:
  assumes "\<And>r' q. rt_state r' = moved r (put_checkpoint c) q \<Longrightarrow> Q () r'"
  shows "rely refines (rt_put_checkpoint c flush) Q r"
  unfolding rt_put_checkpoint_def
  by (rule rely_put, rule put_checkpoint_state) (auto intro!: evolution.checkpoint assms)

lemma rely_put_replay:
  assumes "\<And>r' q. rt_state r' = moved r (put_replay p) q \<Longrightarrow> Q () r'"
  shows "rely refines (rt_put_replay p flush) Q r"
  unfolding rt_put_replay_def
  by (rule rely_put, rule put_replay_state) (auto intro!: evolution.replay assms)

lemma rely_put_ambiguity:
  assumes "\<And>r' q. rt_state r' = moved r (put_ambiguity m) q \<Longrightarrow> Q () r'"
  shows "rely refines (rt_put_ambiguity m flush) Q r"
  unfolding rt_put_ambiguity_def by (rule rely_put) (auto intro!: evolution.ambiguity assms)

lemma rely_put_recovery:
  assumes "\<And>r' q. rt_state r' = moved r (put_recovery v) q \<Longrightarrow> Q () r'"
  shows "rely refines (rt_put_recovery v flush) Q r"
  unfolding rt_put_recovery_def by (rule rely_put) (auto intro!: evolution.recovery assms)

lemma rely_end_lease:
  assumes "find_lease (lease_id l) (rt_state r) = Some l" "st \<noteq> Active"
    and "\<And>r' q. rt_state r' = moved r (put_lease (l\<lparr>lease_state := st\<rparr>)) q \<Longrightarrow> Q () r'"
  shows "rely refines (rt_put_lease (l\<lparr>lease_state := st\<rparr>) flush) Q r"
  unfolding rt_put_lease_def
  by (rule rely_put) (auto intro!: evolution.lease_end assms(3) simp: assms(1,2))

lemma rely_new_lease:
  assumes "lease_epoch l = ds_epoch (rt_state r)" "id_valid (lease_worker l)"
    "id_valid (lease_boot l)"
    and "\<And>r' q. rt_state r' = moved r (put_lease l) q \<Longrightarrow> Q () r'"
  shows "rely refines (rt_put_lease l flush) Q r"
  unfolding rt_put_lease_def
  by (rule rely_put) (auto intro!: evolution.lease_new assms(4) simp: assms(1-3))

lemma rely_end_continuation:
  assumes "find_continuation (cont_id c) (rt_state r) = Some c" "st \<noteq> Valid"
    and "\<And>r' q. rt_state r' = moved r (put_continuation (c\<lparr>cont_state := st\<rparr>)) q \<Longrightarrow> Q () r'"
  shows "rely refines (rt_put_continuation (c\<lparr>cont_state := st\<rparr>) flush) Q r"
  unfolding rt_put_continuation_def
  by (rule rely_put) (auto intro!: evolution.continuation_end assms(3) simp: assms(1,2))

lemma rely_new_continuation:
  assumes "sole_valid (cont_execution c) (cont_id c) (ds_continuations (rt_state r))"
    and "cont_epoch c = ds_epoch (rt_state r)"
    and "\<And>r' q. rt_state r' = moved r (put_continuation c) q \<Longrightarrow> Q () r'"
  shows "rely refines (rt_put_continuation c flush) Q r"
  unfolding rt_put_continuation_def
  by (rule rely_put) (auto intro!: evolution.continuation_new assms(3) simp: assms(1,2))

lemma rely_put_store_meta:
  assumes "\<And>r' q. rt_state r' = (rt_state r)\<lparr>ds_sequence := q\<rparr> \<Longrightarrow> Q () r'"
  shows "rely refines (rt_put_store_meta flush) Q r"
  unfolding rt_put_store_meta_def by (rule rt.rely_read, rule rely_append) (rule assms)

lemma install_group_state [simp]: "rt_state (install_group g r) = apply_group g (rt_state r)"
  by (simp add: install_group_def apply_group_def Let_def)

lemma rely_stage_commit:
  assumes e: "find_execution (exec_id execution) (rt_state r) = Some execution"
    and Q: "\<And>r' q. let g = staged_group (rt_state r) execution action request evidence
      in rt_state r' = moved r (apply_group g) q \<longrightarrow>
         find_commit (com_id (grp_commit g)) (rt_state r) = None \<longrightarrow> Q g r'"
  shows "rely refines (stage_commit execution action request evidence flush) Q r"
proof -
  let ?g = "staged_group (rt_state r) execution action request evidence"
  have step: "evolution ((rt_state r)\<lparr>ds_sequence := q\<rparr>) (moved r (apply_group ?g) q)"
    if "find_commit (com_id (grp_commit ?g)) (rt_state r) = None" for q
    by (rule evolution.commit [where q = "ds_sequence (rt_state r)" and a = action and e = execution
        and request = request and evidence = evidence]) (use e that in simp_all)
  show ?thesis
    unfolding stage_commit_def
    apply (rule rt.rely_read)
    apply (simp only: Let_def)
    apply (split if_split, intro conjI impI)
     apply (rule rt.rely_fail)
    apply (rule rt.rely_try, rule rely_append, rule rt.rely_try, rule rt.rely_modify)
     apply (use step in \<open>auto simp: refines_def intro!: r_into_rtranclp\<close>)[1]
    apply (rule rt.rely_return)
    apply (use Q in \<open>simp add: Let_def\<close>)
    done
qed

subsection \<open>Authority checks\<close>

lemma find_execution_self: "find_execution i s = Some e \<Longrightarrow> find_execution (exec_id e) s = Some e"
  by (auto dest: find_execution_mem)

lemma find_lease_self: "find_lease i s = Some l \<Longrightarrow> find_lease (lease_id l) s = Some l"
  by (auto dest: find_lease_mem)

lemma rely_check_open: "Q () r \<Longrightarrow> rely refines check_open Q r"
  unfolding check_open_def by (auto intro!: rt.rely_rules)

lemma rely_check_caller:
  "(caller_epoch caller = ds_epoch (rt_state r) \<Longrightarrow> Q () r) \<Longrightarrow> rely refines (check_caller caller) Q r"
  unfolding check_caller_def check_epoch_def
  by (auto intro!: rt.rely_rules rely_check_open)

text \<open>The one token an execution and its lease grant, and when they grant it.\<close>

definition authority_token :: "DurableState \<Rightarrow> ExecutionRecord \<Rightarrow> LeaseToken" where
  "authority_token s e = \<lparr>tok_execution = exec_id e, tok_execution_generation = exec_generation e,
     tok_incarnation = exec_incarnation e,
     tok_incarnation_generation = exec_incarnation_generation e, tok_lease = exec_lease e,
     tok_lease_generation = exec_lease_generation e, tok_epoch = ds_epoch s,
     tok_worker = exec_worker e, tok_boot = exec_boot e,
     tok_policy_generation = exec_policy_generation e\<rparr>"

definition grants :: "DurableState \<Rightarrow> ExecutionRecord \<Rightarrow> LeaseRecord \<Rightarrow> bool" where
  "grants s e l \<longleftrightarrow> lease_state l = Active \<and> lease_epoch l = ds_epoch s \<and>
     lease_generation l = exec_lease_generation e \<and> lease_worker l = exec_worker e \<and>
     lease_boot l = exec_boot e"

lemma token_acceptedD:
  assumes "token_refusal token s = None"
  shows "\<exists>e l. find_execution (tok_execution token) s = Some e \<and>
    find_lease (exec_lease e) s = Some l \<and> token = authority_token s e \<and> grants s e l"
proof -
  obtain e where e: "find_execution (tok_execution token) s = Some e"
    using assms by (auto simp: token_refusal_def split: if_splits option.splits)
  obtain l where l: "find_lease (tok_lease token) s = Some l"
    using assms e by (auto simp: token_refusal_def split: if_splits option.splits)
  have "exec_id e = tok_execution token" using find_execution_mem [OF e] by simp
  then have "token = authority_token s e" "grants s e l"
    using assms e l
    by (auto simp: token_refusal_def authority_token_def grants_def split: if_splits)
  then show ?thesis using e l by (auto simp: authority_token_def)
qed

lemma token_acceptedI:
  "find_execution (exec_id e) s = Some e \<Longrightarrow> find_lease (exec_lease e) s = Some l \<Longrightarrow>
   grants s e l \<Longrightarrow> token_refusal (authority_token s e) s = None"
  by (simp add: token_refusal_def authority_token_def grants_def)

lemma rely_validate_token:
  assumes "\<And>e l. token = authority_token (rt_state r) e \<Longrightarrow> grants (rt_state r) e l \<Longrightarrow>
      find_execution (exec_id e) (rt_state r) = Some e \<Longrightarrow> exec_id e = tok_execution token \<Longrightarrow>
      find_lease (exec_lease e) (rt_state r) = Some l \<Longrightarrow> Q (e, l) r"
  shows "rely refines (validate_token token) Q r"
proof (cases "token_refusal token (rt_state r)")
  case None
  from token_acceptedD [OF None] obtain e l where
    e: "find_execution (tok_execution token) (rt_state r) = Some e"
    and l: "find_lease (exec_lease e) (rt_state r) = Some l"
    and t: "token = authority_token (rt_state r) e" "grants (rt_state r) e l" by blast
  from t have "tok_lease token = exec_lease e" by (simp add: authority_token_def)
  then show ?thesis
    using assms [OF t _ _ l] e l None find_execution_mem [OF e]
    by (auto simp: validate_token_def intro!: rt.rely_rules)
qed (simp add: validate_token_def rt.rely_read rt.rely_fail)

lemma rely_find_checked:
  assumes "\<And>e. find_execution (exec_id e) (rt_state r) = Some e \<Longrightarrow> exec_id e = i \<Longrightarrow> Q e r"
  shows "rely refines (find_checked caller i) Q r"
  unfolding find_checked_def
  by (auto intro!: rt.rely_rules rely_check_caller assms split: option.split
      dest: find_execution_mem find_execution_self)

lemma rely_require_transition:
  "(is_legal_transition from to \<Longrightarrow> Q () r) \<Longrightarrow> rely refines (require_transition from to) Q r"
  unfolding require_transition_def by (rule rt.rely_guard)

lemma remember_state [simp]: "rt_state (remember_request i c r) = rt_state r"
  by (simp add: remember_request_def split: prod.split)

lemma rely_remember:
  "(\<And>r'. rt_state r' = rt_state r \<Longrightarrow> Q () r') \<Longrightarrow> rely refines (remember i c a b) Q r"
  unfolding remember_def by (rule rely_volatile) simp_all

subsection \<open>Loops\<close>

lemma tbl_find_fold:
  "k \<notin> get ` set zs \<Longrightarrow> tbl_find get k (fold (tbl_upsert get) zs rs) = tbl_find get k rs"
  by (induction zs arbitrary: rs) auto

lemma tbl_ok_fold [simp]: "tbl_ok get rs \<Longrightarrow> tbl_ok get (fold (tbl_upsert get) zs rs)"
  by (induction zs arbitrary: rs) auto

text \<open>The members of a folded table: the new records, and the old ones under other keys.\<close>

lemma set_fold_upsert:
  "tbl_ok get rs \<Longrightarrow> x \<in> set (fold (tbl_upsert get) zs rs) \<Longrightarrow>
   x \<in> set zs \<or> x \<in> set rs \<and> get x \<notin> get ` set zs"
proof (induction zs arbitrary: rs)
  case (Cons z zs)
  then have "x \<in> set zs \<or> x \<in> set (tbl_upsert get z rs) \<and> get x \<notin> get ` set zs"
    using Cons.IH [of "tbl_upsert get z rs"] by simp
  then show ?case using Cons.prems(1) by (auto simp: set_tbl_upsert)
qed simp

definition ended :: "ContinuationRecord list \<Rightarrow> ContinuationRecord \<Rightarrow> bool" where
  "ended conts x \<longleftrightarrow> cont_state x \<noteq> Valid \<and>
     (\<exists>c. tbl_find cont_id (cont_id x) conts = Some c \<and> x = c\<lparr>cont_state := cont_state x\<rparr>)"

lemma rely_end_continuations:
  assumes dist: "distinct (map cont_id xs)"
    and ended: "\<And>x. x \<in> set xs \<Longrightarrow> ended (ds_continuations (rt_state r)) x"
    and Q: "\<And>r' q. rt_state r' = (rt_state r)\<lparr>ds_sequence := q,
        ds_continuations := fold (tbl_upsert cont_id) xs (ds_continuations (rt_state r))\<rparr> \<Longrightarrow> Q () r'"
  shows "rely refines (op_for (\<lambda>c. rt_put_continuation c flush) xs) Q r"
proof (rule rt.rely_for [where I = "\<lambda>ys r'. \<exists>zs q. xs = zs @ ys \<and> rt_state r' =
    (rt_state r)\<lparr>ds_sequence := q,
      ds_continuations := fold (tbl_upsert cont_id) zs (ds_continuations (rt_state r))\<rparr>"])
  show "\<exists>zs q. xs = zs @ xs \<and> rt_state r = (rt_state r)\<lparr>ds_sequence := q,
      ds_continuations := fold (tbl_upsert cont_id) zs (ds_continuations (rt_state r))\<rparr>"
    by (intro exI [of _ "[]"] exI [of _ "ds_sequence (rt_state r)"]) simp
next
  fix y ys and r' :: Runtime
  assume "\<exists>zs q. xs = zs @ y # ys \<and> rt_state r' = (rt_state r)\<lparr>ds_sequence := q,
      ds_continuations := fold (tbl_upsert cont_id) zs (ds_continuations (rt_state r))\<rparr>"
  then obtain zs q where xs: "xs = zs @ y # ys" and r': "rt_state r' = (rt_state r)\<lparr>ds_sequence := q,
      ds_continuations := fold (tbl_upsert cont_id) zs (ds_continuations (rt_state r))\<rparr>" by blast
  obtain c where c: "tbl_find cont_id (cont_id y) (ds_continuations (rt_state r)) = Some c"
    and y: "y = c\<lparr>cont_state := cont_state y\<rparr>" and nv: "cont_state y \<noteq> Valid"
    using ended [of y] xs by (auto simp: ended_def)
  from y have idc: "cont_id c = cont_id y" by (metis ContinuationRecord.select_convs(1)
      ContinuationRecord.surjective ContinuationRecord.update_convs(17))
  have find: "find_continuation (cont_id c) (rt_state r') = Some c"
    using c dist idc xs by (auto simp: r' find_continuation_def tbl_find_fold)
  have "rely refines (rt_put_continuation (c\<lparr>cont_state := cont_state y\<rparr>) flush)
      (\<lambda>_ s'. \<exists>zs q. xs = zs @ ys \<and> rt_state s' = (rt_state r)\<lparr>ds_sequence := q,
        ds_continuations := fold (tbl_upsert cont_id) zs (ds_continuations (rt_state r))\<rparr>) r'"
    by (rule rely_end_continuation [OF find nv], rule exI [of _ "zs @ [y]"])
      (auto simp: xs r' put_continuation_def y [symmetric])
  then show "rely refines (rt_put_continuation y flush)
      (\<lambda>_ s'. \<exists>zs q. xs = zs @ ys \<and> rt_state s' = (rt_state r)\<lparr>ds_sequence := q,
        ds_continuations := fold (tbl_upsert cont_id) zs (ds_continuations (rt_state r))\<rparr>) r'"
    by (simp add: y [symmetric])
qed (use Q in auto)

text \<open>The demotions the runtime performs are of this shape.\<close>

lemma ended_map:
  assumes "tbl_ok cont_id conts" "\<And>c. P c \<Longrightarrow> st c \<noteq> Valid"
  defines "xs \<equiv> map (\<lambda>c. c\<lparr>cont_state := st c\<rparr>) (filter P conts)"
  shows "distinct (map cont_id xs)" "x \<in> set xs \<Longrightarrow> ended conts x"
proof -
  have "map cont_id xs = map cont_id (filter P conts)" by (simp add: xs_def)
  then show "distinct (map cont_id xs)"
    using assms(1) by (simp add: tbl_ok_def distinct_map_filter)
  show "x \<in> set xs \<Longrightarrow> ended conts x"
    using assms(1,2) by (auto simp: xs_def ended_def tbl_find_mem)
qed

lemma retired_sole_valid:
  assumes "tbl_ok cont_id conts"
  shows "sole_valid e keep (fold (tbl_upsert cont_id) (retirable e keep conts) conts)"
proof -
  have "cont_state c \<noteq> Valid"
    if c: "c \<in> set (fold (tbl_upsert cont_id) (retirable e keep conts) conts)"
      "cont_execution c = e" "cont_id c \<noteq> keep" for c
  proof
    assume v: "cont_state c = Valid"
    then have "c \<notin> set (retirable e keep conts)" by (auto simp: retirable_def)
    then have "c \<in> set conts" and out: "cont_id c \<notin> cont_id ` set (retirable e keep conts)"
      using set_fold_upsert [OF assms c(1)] by auto
    then have "c\<lparr>cont_state := Stale\<rparr> \<in> set (retirable e keep conts)"
      using c(2,3) v by (auto simp: retirable_def)
    then have "cont_id (c\<lparr>cont_state := Stale\<rparr>) \<in> cont_id ` set (retirable e keep conts)" by blast
    with out show False by simp
  qed
  then show ?thesis by (simp add: sole_valid_def)
qed

lemma state_ok_continuations: "state_ok s \<Longrightarrow> tbl_ok cont_id (ds_continuations s)"
  by (simp add: state_ok_def)

lemma rely_retire_others:
  assumes ok: "state_ok (rt_state r)"
    and Q: "\<And>r' q cs. rt_state r' = (rt_state r)\<lparr>ds_sequence := q, ds_continuations := cs\<rparr> \<Longrightarrow>
      sole_valid e keep cs \<Longrightarrow> state_ok (rt_state r') \<Longrightarrow> Q () r'"
  shows "rely refines (retire_other_continuations e keep flush) Q r"
  unfolding retire_other_continuations_def
proof (rule rt.rely_read, rule rely_end_continuations)
  note tab = state_ok_continuations [OF ok]
  show "distinct (map cont_id (retirable e keep (ds_continuations (rt_state r))))"
    unfolding retirable_def by (rule ended_map) (simp_all add: tab)
  show "ended (ds_continuations (rt_state r)) x"
    if "x \<in> set (retirable e keep (ds_continuations (rt_state r)))" for x
    using that unfolding retirable_def by (rule ended_map(2) [rotated 2]) (simp_all add: tab)
  show "Q () r'" if "rt_state r' = (rt_state r)\<lparr>ds_sequence := q, ds_continuations :=
      fold (tbl_upsert cont_id) (retirable e keep (ds_continuations (rt_state r)))
        (ds_continuations (rt_state r))\<rparr>" for r' q
    by (rule Q [OF that retired_sole_valid [OF tab]]) (use ok that in \<open>simp add: state_ok_def\<close>)
qed

lemma find_continuations_frame [simp]:
  "find_execution i (s\<lparr>ds_sequence := q, ds_continuations := cs\<rparr>) = find_execution i s"
  "find_lease i (s\<lparr>ds_sequence := q, ds_continuations := cs\<rparr>) = find_lease i s"
  by (simp_all add: find_execution_def find_lease_def)

end
