(* ===== verification/Runtime_Refinement.thy ===== *)
theory Runtime_Refinement
  imports Refinement_Rules
begin

text \<open>
  The refinement of each public operation of the runtime: \<open>X_refines\<close> says that operation
  \<open>X\<close> moves the durable state along \<open>evolution\<close> steps only, from every state whose tables
  are well formed.
\<close>

abbreviation moves :: "(Code, Runtime, 'a) oper \<Rightarrow> Runtime \<Rightarrow> bool" where
  "moves m r \<equiv> rely refines m (\<lambda>_ _. True) r"

lemmas rely_checks =
  rely_check_open rely_check_caller rely_validate_token rely_find_checked
  rely_require_transition rely_remember

lemmas rely_puts =
  rely_put_policy rely_put_action rely_put_checkpoint rely_put_replay rely_put_ambiguity
  rely_put_recovery rely_put_store_meta rely_retire_others

section \<open>Sessions and leases\<close>

lemma begin_session_refines: "moves (begin_session worker boot) r"
  unfolding begin_session_def by (auto simp: Let_def intro!: rt.rely_rules rely_volatile)

text \<open>The three ways a lease ends: only the lease table changes.\<close>

lemma lease_frame:
  "rt_state r' = moved r (put_lease l) q \<Longrightarrow>
   \<exists>q ls. rt_state r' = (rt_state r)\<lparr>ds_sequence := q, ds_leases := ls\<rparr>"
  "rt_state r = (rt_state r)\<lparr>ds_sequence := ds_sequence (rt_state r), ds_leases := ds_leases (rt_state r)\<rparr>"
  by (auto simp: put_lease_def)

lemma rely_lease_ops:
  assumes "\<And>r' q ls. rt_state r' = (rt_state r)\<lparr>ds_sequence := q, ds_leases := ls\<rparr> \<Longrightarrow>
      (state_ok (rt_state r) \<Longrightarrow> state_ok (rt_state r')) \<Longrightarrow> Q () r'"
  shows "rely refines (revoke_any lease flush) Q r"
    "rely refines (revoke_active lease flush) Q r"
    "rely refines (supersede lease) Q r"
proof -
  have same: "Q () r" by (rule assms [OF lease_frame(2)])
  have put: "rely refines (rt_put_lease (l\<lparr>lease_state := st\<rparr>) flush) Q r"
    if "find_lease lease (rt_state r) = Some l" "st \<noteq> Active" for l st flush
  proof (rule rely_end_lease [OF find_lease_self [OF that(1)] that(2)])
    fix r' :: Runtime and q
    assume r': "rt_state r' = moved r (put_lease (l\<lparr>lease_state := st\<rparr>)) q"
    from lease_frame(1) [OF this] show "Q () r'"
      using assms r' by (metis state_ok_put(7) state_ok_sequence)
  qed
  show "rely refines (revoke_any lease flush) Q r"
    "rely refines (revoke_active lease flush) Q r" "rely refines (supersede lease) Q r"
    unfolding revoke_any_def revoke_active_def supersede_def
    by (auto intro!: rt.rely_rules same put split: option.split)
qed

lemma find_leases_frame [simp]:
  "find_execution i (s\<lparr>ds_sequence := q, ds_leases := ls\<rparr>) = find_execution i s"
  by (simp add: find_execution_def)

lemma exec_step_refl [simp]: "exec_step e e"
  by (simp add: exec_step_def)

lemma drop_binding_sel [simp]:
  "exec_id (drop_binding e) = exec_id e" "exec_lifecycle (drop_binding e) = exec_lifecycle e"
  "\<not> has_lease (drop_binding e)"
  by (simp_all add: drop_binding_def)

lemma exec_step_move:
  "evolves (exec_lifecycle e) l \<Longrightarrow> \<not> has_lease e \<or> l \<noteq> Fenced \<and> \<not> is_terminal_state l \<Longrightarrow>
   exec_step e (e\<lparr>exec_lifecycle := l\<rparr>)"
  by (simp add: exec_step_def unleased_def) blast

lemma exec_step_drop:
  "evolves (exec_lifecycle e) l \<Longrightarrow> exec_step e (drop_binding (e\<lparr>exec_lifecycle := l\<rparr>))"
  by (simp add: exec_step_def unleased_def drop_binding_def)

text \<open>
  Fencing one execution leaves every other execution alone, takes its lease away, and moves it
  to \<open>FENCED\<close> where the transition table allows.
\<close>

definition cut_off :: "ExecutionRecord \<Rightarrow> Runtime \<Rightarrow> bool" where
  "cut_off e r \<longleftrightarrow> (\<exists>e'. find_execution (exec_id e) (rt_state r) = Some e' \<and> \<not> has_lease e' \<and>
     (is_legal_transition (exec_lifecycle e) Fenced \<longrightarrow> exec_lifecycle e' = Fenced))"

lemma rely_fence_bound:
  assumes e: "find_execution (exec_id e) (rt_state r) = Some e"
    and Q: "\<And>r'. (\<And>i. i \<noteq> exec_id e \<Longrightarrow>
        find_execution i (rt_state r') = find_execution i (rt_state r)) \<Longrightarrow> cut_off e r' \<Longrightarrow> Q () r'"
  shows "rely refines (fence_bound e) Q r"
proof -
  let ?legal = "is_legal_transition (exec_lifecycle e) Fenced"
  let ?next1 = "if ?legal then e\<lparr>exec_lifecycle := Fenced\<rparr> else e"
  let ?next2 = "if has_lease ?next1 then drop_binding ?next1 else ?next1"
  have step: "exec_step e ?next2"
  proof (cases ?legal)
    case True
    then show ?thesis
      using exec_step_drop [OF evolves_step [OF True]] exec_step_move [OF evolves_step [OF True]]
      by simp
  next
    case False
    then show ?thesis using exec_step_drop [of e "exec_lifecycle e"] by simp
  qed
  have put: "rely refines (rt_put_execution ?next2 True) Q r'"
    if r': "\<And>i. find_execution i (rt_state r') = find_execution i (rt_state r)" for r'
  proof (rule rely_put_execution)
    fix r'' :: Runtime and q
    assume r'': "rt_state r'' = moved r' (put_execution ?next2) q"
    then have "find_execution (exec_id e) (rt_state r'') = Some ?next2" by (auto simp: r')
    then have "cut_off e r''"
      unfolding cut_off_def by (intro exI [of _ ?next2]) (simp add: drop_binding_def)
    then show "Q () r''" using r'' by (intro Q) (simp_all add: r')
  qed (use step in \<open>auto simp: r' e updates_def\<close>)
  show ?thesis
    unfolding fence_bound_def Let_def
    apply (split if_split, intro conjI impI)
     apply (rule rt.rely_return, rule Q, rule refl, simp add: cut_off_def e)
    apply (rule rt.rely_try, split if_split, intro conjI impI)
     apply (rule rely_lease_ops, rule put, simp)
    apply (rule rt.rely_return, rule put, simp)
    done
qed

lemma state_ok_executions: "state_ok s \<Longrightarrow> tbl_ok exec_id (ds_executions s)"
  by (simp add: state_ok_def)

lemma rely_fence_all:
  assumes "distinct (map exec_id es)"
    and "\<And>e. e \<in> set es \<Longrightarrow> find_execution (exec_id e) (rt_state r) = Some e"
  shows "rely refines (op_for fence_bound es) (\<lambda>_ r'. \<forall>e \<in> set es. cut_off e r') r"
proof -
  let ?I = "\<lambda>ys r'. set ys \<subseteq> set es \<and> distinct (map exec_id ys) \<and>
    (\<forall>y \<in> set ys. find_execution (exec_id y) (rt_state r') = Some y) \<and>
    (\<forall>e \<in> set es. exec_id e \<notin> exec_id ` set ys \<longrightarrow> cut_off e r')"
  show ?thesis
  proof (rule rt.rely_for [where I = ?I])
    show "?I es r" using assms by auto
    show "rely refines (fence_bound x) (\<lambda>_ s'. ?I xs s') s" if I: "?I (x # xs) s" for x xs s
    proof (rule rely_fence_bound)
      fix s'
      assume others: "\<And>i. i \<noteq> exec_id x \<Longrightarrow>
          find_execution i (rt_state s') = find_execution i (rt_state s)" and x: "cut_off x s'"
      have "cut_off e s'" if "e \<in> set es" "exec_id e \<notin> exec_id ` set xs" for e
      proof (cases "exec_id e = exec_id x")
        case True
        then have "e = x" using that(1) I assms(1) by (auto simp: distinct_map dest: inj_onD)
        then show ?thesis using x by simp
      next
        case False
        then show ?thesis using I that others by (auto simp: cut_off_def)
      qed
      then show "?I xs s'" using I others by (auto simp: image_iff)
    qed (use I in auto)
  qed simp
qed

text \<open>The executions that \<open>end_session\<close> fences.\<close>

definition bound_to :: "SessionInfo \<Rightarrow> ExecutionRecord \<Rightarrow> bool" where
  "bound_to info e \<longleftrightarrow> exec_worker e = ses_worker info \<and> exec_boot e = ses_boot info \<and>
     \<not> is_terminal_state (exec_lifecycle e)"

lemma rely_end_session:
  assumes ok: "state_ok (rt_state r)"
  shows "rely refines (end_session session)
    (\<lambda>_ r'. \<exists>info. rt_sessions r session = Some info \<and>
      (\<forall>i e. find_execution i (rt_state r) = Some e \<longrightarrow> bound_to info e \<longrightarrow> cut_off e r')) r"
    (is "rely refines _ ?Q r")
proof (cases "rt_sessions r session")
  case None
  then show ?thesis by (simp add: end_session_def op_read_def rely_def op_fail_def refines_def)
next
  case (Some info)
  note tab = state_ok_executions [OF ok]
  let ?es = "filter (bound_to info) (ds_executions (rt_state r))"
  have found: "e \<in> set (ds_executions (rt_state r)) \<and> exec_id e = i"
    if "find_execution i (rt_state r) = Some e" for i e
    using that by (auto simp: find_execution_def dest: tbl_find_Some)
  have loop: "rely refines (op_for fence_bound ?es) ?Q r'" if "rt_state r' = rt_state r" for r'
    by (rule rely_weaken [OF rely_fence_all])
      (use tab Some that found tbl_find_mem [OF tab] in
        \<open>auto simp: tbl_ok_def distinct_map_filter find_execution_def\<close>)
  show ?thesis
    unfolding end_session_def bound_to_def [symmetric]
    by (auto simp: Some intro!: rt.rely_rules rely_volatile loop [unfolded Some, simplified])
qed

lemma end_session_refines: "state_ok (rt_state r) \<Longrightarrow> moves (end_session session) r"
  by (rule rely_weaken [OF rely_end_session]) simp_all

section \<open>Creation, policy and binding\<close>

lemma evolution_next: "evolutions s (s\<lparr>ds_next_execution_sequence := n\<rparr>)"
  by (rule r_into_rtranclp) (rule evolution.next_execution)

text \<open>
  The identity of a new execution is derived from the store and a counter; creation refines
  the abstract step when that identity is not already in use.
\<close>

definition fresh_execution_id :: "DurableState \<Rightarrow> bool" where
  "fresh_execution_id s \<longleftrightarrow>
     find_execution (derive_execution_id (ds_store s) (ds_next_execution_sequence s)) s = None"

lemma create_execution_refines:
  assumes "fresh_execution_id (rt_state r)"
  shows "moves (create_execution caller request policy) r"
  unfolding create_execution_def
  apply (rule rt.rely_try, rule rely_check_caller, rule rt.rely_read)
  apply (simp only: Let_def split: option.split, intro conjI impI allI)
   apply (split if_split, intro conjI impI, rule rt.rely_fail)
   apply (split if_split, intro conjI impI, rule rt.rely_fail)
   apply (rule rt.rely_try, rule rt.rely_modify, simp add: refines_def evolution_next)
   apply (rule rt.rely_try, rule rely_put_store_meta, rule rt.rely_read, rule rt.rely_try,
      rule rely_put_policy, rule rt.rely_try, rule rely_create)
    apply (use assms in \<open>simp add: fresh_execution_id_def find_execution_def\<close>)
   apply (auto intro!: rt.rely_rules rely_remember)
  done

text \<open>Demotions of continuations: only the continuation table changes.\<close>

lemma rely_demote:
  assumes ok: "state_ok (rt_state r)" and st: "\<And>c. P c \<Longrightarrow> st c \<noteq> Valid"
    and Q: "\<And>r' q cs. rt_state r' = (rt_state r)\<lparr>ds_sequence := q, ds_continuations := cs\<rparr> \<Longrightarrow>
      state_ok (rt_state r') \<Longrightarrow> Q () r'"
  shows "rely refines (op_for (\<lambda>c. rt_put_continuation c flush)
    (map (\<lambda>c. c\<lparr>cont_state := st c\<rparr>) (filter P (ds_continuations (rt_state r))))) Q r"
  (is "rely refines (op_for _ ?xs) Q r")
proof (rule rely_end_continuations)
  note tab = state_ok_continuations [OF ok]
  show "distinct (map cont_id ?xs)"
    by (rule ended_map(1) [OF tab st])
  show "\<And>x. x \<in> set ?xs \<Longrightarrow> ended (ds_continuations (rt_state r)) x"
    by (rule ended_map(2) [OF tab st])
  show "Q () r'" if r': "rt_state r' = (rt_state r)\<lparr>ds_sequence := q, ds_continuations :=
      fold (tbl_upsert cont_id) ?xs (ds_continuations (rt_state r))\<rparr>" for r' q
    by (rule Q [OF r']) (use ok r' in \<open>simp add: state_ok_def\<close>)
qed

lemma rely_policy_moved:
  assumes "state_ok (rt_state r)"
    and "\<And>r' q cs. rt_state r' = (rt_state r)\<lparr>ds_sequence := q, ds_continuations := cs\<rparr> \<Longrightarrow>
      state_ok (rt_state r') \<Longrightarrow> Q () r'"
  shows "rely refines (op_for (\<lambda>c. rt_put_continuation c flush)
    (policy_moved e policy (ds_continuations (rt_state r)))) Q r"
  unfolding policy_moved_def by (rule rely_demote [OF assms(1)]) (simp, rule assms(2))

lemma rely_outdated:
  assumes "state_ok (rt_state r)"
    and "\<And>r' q cs. rt_state r' = (rt_state r)\<lparr>ds_sequence := q, ds_continuations := cs\<rparr> \<Longrightarrow>
      state_ok (rt_state r') \<Longrightarrow> Q () r'"
  shows "rely refines (op_for (\<lambda>c. rt_put_continuation c flush)
    (outdated e (ds_continuations (rt_state r)))) Q r"
  unfolding outdated_def by (rule rely_demote [OF assms(1)]) (simp, rule assms(2))

lemma active_states_evolve:
  "is_active_state l \<Longrightarrow> evolves l RecoveryRequired"
  by (rule evolves_step) (simp add: active_to_recovery)

lemma rely_unless:
  "Q () r \<Longrightarrow> rely refines m Q r \<Longrightarrow> rely refines (if b then m else op_return ()) Q r"
  "Q () r \<Longrightarrow> (b \<Longrightarrow> is_legal_transition x y \<Longrightarrow> Q () r) \<Longrightarrow>
   rely refines (if b then require_transition x y else op_return ()) Q r"
  by (auto intro!: rt.rely_return rely_require_transition)

lemma update_policy_refines:
  assumes ok: "state_ok (rt_state r)"
  shows "moves (update_policy caller request i policy apply_it) r"
  unfolding update_policy_def
  apply (intro rt.rely_flow rely_checks rely_put_policy rely_lease_ops rely_policy_moved
      rely_put_execution)
  apply (simp_all add: ok)
  apply ((erule updates_found, simp add: exec_step_def unleased_def drop_binding_def
      active_states_evolve)+)
  done

section \<open>Binding and start\<close>

lemma bind_step:
  assumes "bindable (exec_lifecycle e)" "lease_worker l = w" 
  shows "exec_step e (bound_execution (reincarnate e boot) l bindings epoch)"
proof -
  have "evolves Created_L Ready" "evolves Fenced RecoveryRequired"
    by (auto intro!: evolves_step simp: is_legal_transition_def)
  then show ?thesis
    using assms
    by (auto simp: exec_step_def unleased_def bound_execution_def reincarnate_def bindable_def Let_def)
qed

lemma bind_worker_refines:
  assumes ok: "state_ok (rt_state r)"
  shows "moves (bind_worker caller request i worker boot bindings) r"
  unfolding bind_worker_def
  apply (intro rt.rely_flow rely_checks rely_lease_ops rely_new_lease rely_put_execution)
  apply (simp_all add: ok new_lease_def Let_def)
  apply ((erule updates_found, rule bind_step; simp)+)
  done

lemma mint_sel [simp]:
  "cont_execution (mint_continuation e n st o' s) = exec_id e"
  "cont_epoch (mint_continuation e n st o' s) = ds_epoch s"
  "cont_state (mint_continuation e n st o' s) = st"
  by (simp_all add: mint_continuation_def Let_def)

lemma start_refines:
  assumes ok: "state_ok (rt_state r)"
  shows "moves (start request token) r"
  unfolding start_def
  apply (intro rt.rely_flow rely_checks rely_retire_others rely_new_continuation
      rely_put_execution)
  apply (simp_all add: ok)
  apply (erule updates_found, simp add: exec_step_def unleased_def evolves_step)
  done

section \<open>Lifecycle operations\<close>

lemma persist_step:
  assumes "is_legal_transition (exec_lifecycle e) target"
  defines "next1 \<equiv> e\<lparr>exec_lifecycle := target\<rparr>"
  shows "exec_step e ((if drops_authority target \<and> has_lease next1 then drop_binding next1 else next1)
    \<lparr>exec_epoch := epoch\<rparr>)"
  using evolves_step [OF assms(1)]
  by (auto simp: next1_def exec_step_def unleased_def drops_authority_def drop_binding_def)

lemma persist_transition_refines:
  assumes ok: "state_ok (rt_state r)" and e: "find_execution (exec_id e) (rt_state r) = Some e"
    and Q: "\<And>r'. Q () r'"
  shows "rely refines (persist_transition e target flush) Q r"
proof -
  have put: "rely refines (op_read (\<lambda>r'. rt_put_execution
      ((if drops_authority target \<and> has_lease (e\<lparr>exec_lifecycle := target\<rparr>)
        then drop_binding (e\<lparr>exec_lifecycle := target\<rparr>) else e\<lparr>exec_lifecycle := target\<rparr>)
       \<lparr>exec_epoch := ds_epoch (rt_state r')\<rparr>) flush)) Q r'"
    if "is_legal_transition (exec_lifecycle e) target"
      "\<And>i. find_execution i (rt_state r') = find_execution i (rt_state r)" for r'
    by (rule rt.rely_read, rule rely_put_execution, rule updates_found [OF _ persist_step])
      (use that e Q in simp_all)
  show ?thesis
    unfolding persist_transition_def Let_def
    apply (rule rt.rely_try, rule rely_require_transition, rule rt.rely_try, rule rt.rely_if)
     apply (rule rely_lease_ops, rule put, assumption, simp)
    apply (rule rt.rely_return, rule put, assumption, simp)
    done
qed

lemma transition_op_refines:
  assumes ok: "state_ok (rt_state r)"
  shows "moves (transition_op caller request i refused target) r"
  unfolding transition_op_def
  by (intro rt.rely_flow rely_checks persist_transition_refines) (simp_all add: ok)

lemma advance_execution_generation_refines:
  assumes ok: "state_ok (rt_state r)"
  shows "moves (advance_execution_generation caller request i) r"
  unfolding advance_execution_generation_def
  apply (intro rt.rely_flow rely_checks rely_outdated rely_lease_ops rely_put_execution)
  apply (simp_all add: ok)
  apply ((erule updates_found, simp add: exec_step_def unleased_def drop_binding_def evolves_step)+)
  done

section \<open>Actions\<close>

lemma begun_step: "exec_step e (begun_execution e latest (new_action e latest request))"
  by (simp add: exec_step_def begun_execution_def new_action_def begin_ordinal_def Let_def
      unleased_def split: option.split)

lemma begin_action_refines: "moves (begin_action request) r"
  unfolding begin_action_def
  apply (intro rt.rely_flow rely_checks rely_put_replay rely_put_action rely_put_execution)
  apply (simp_all)
  apply ((erule updates_found, rule begun_step)+)
  done

lemma complete_fresh_refines:
  "find_execution (exec_id e) (rt_state r) = Some e \<Longrightarrow> moves (complete_fresh request existing e) r"
  unfolding complete_fresh_def
  by (intro rt.rely_flow rely_checks rely_stage_commit)
    (simp_all add: Let_def rt.rely_flow rely_checks)

lemma complete_action_refines: "moves (complete_action request) r"
  unfolding complete_action_def check_epoch_def Let_def
  by (intro rt.rely_flow rely_checks complete_fresh_refines) simp_all

lemma fail_action_refines: "moves (fail_action request token a g evidence) r"
  unfolding fail_action_def by (intro rt.rely_flow rely_checks rely_put_action) simp_all

lemma report_side_effect_refines: "moves (report_side_effect request token a g applied evidence) r"
  unfolding report_side_effect_def by (intro rt.rely_flow rely_checks rely_put_action) simp_all

section \<open>Checkpoints and resume\<close>

lemma rely_demote_previous:
  assumes "\<And>r' q k. rt_state r' = moved r (put_checkpoint k) q \<Longrightarrow> Q () r'" and "Q () r"
  shows "rely refines (demote_previous e policy flush) Q r"
  unfolding demote_previous_def
  by (intro rt.rely_flow rely_put_checkpoint) (use assms in simp_all)

lemma install_checkpoint_refines:
  assumes ok: "state_ok (rt_state r)" and w: "find_execution (exec_id e) (rt_state r) = Some w"
    and same: "exec_id w = exec_id e" and Q: "\<And>a r'. Q a r'"
    and lc: "exec_lifecycle w = Checkpointing"
  shows "rely refines (install_checkpoint e w checkpoint policy flush) Q r"
proof -
  have legal: "is_legal_transition Checkpointing Running" by (simp add: is_legal_transition_def)
  have step: "exec_step w (w\<lparr>exec_checkpoint := c, exec_checkpoint_generation := g,
      exec_lifecycle := Running, exec_continuation := i, exec_continuation_generation := j\<rparr>)"
    for c g i j
    using evolves_step [OF legal] by (simp add: exec_step_def unleased_def lc)
  show ?thesis
    unfolding install_checkpoint_def
    apply (intro rt.rely_flow rely_put_checkpoint rely_demote_previous rely_retire_others
        rely_new_continuation rely_put_execution)
    apply (simp_all add: ok Q legal lc)
    apply ((rule updates_found [OF w step])+)
    done
qed

lemma register_checkpoint_refines:
  assumes ok: "state_ok (rt_state r)"
  shows "moves (register_checkpoint request) r"
  unfolding register_checkpoint_def
  apply (intro rt.rely_flow rely_checks rely_put_execution install_checkpoint_refines)
  apply (simp_all add: ok checkpoint_refusal_def split: if_splits)
  apply (erule updates_found, simp add: exec_step_def unleased_def evolves_step)
  done

lemma resumable_evolves: "resumable l \<Longrightarrow> evolves l Resuming"
proof -
  have "is_legal_transition Suspended Resuming" "is_legal_transition RecoveryRequired Recovering"
    "is_legal_transition Recovering Resuming"
    by (simp_all add: is_legal_transition_def)
  then show "resumable l \<Longrightarrow> evolves l Resuming"
    by (auto simp: resumable_def intro: evolves_step evolves_trans [OF evolves_step])
qed

lemma rely_to_resuming: "Q () r \<Longrightarrow> rely refines (to_resuming l) Q r"
  unfolding to_resuming_def by (intro rt.rely_flow rely_require_transition) assumption+

lemma resume_refusal_resumable:
  "resume_refusal e s observed revalidate = None \<Longrightarrow> resumable (exec_lifecycle e)"
  by (simp add: resume_refusal_def Let_def split: if_splits)

lemma running_legal: "is_legal_transition Resuming Running"
  by (simp add: is_legal_transition_def)

lemma resume_refines:
  assumes ok: "state_ok (rt_state r)"
  shows "moves (resume request token observed revalidate) r"
  unfolding resume_def
  apply (intro rt.rely_flow rely_checks rely_to_resuming rely_put_execution rely_retire_others
      rely_new_continuation)
  apply (simp_all add: ok)
   apply (erule updates_found, simp add: exec_step_def unleased_def)
   apply (metis resumable_evolves resume_refusal_resumable)
  apply (rule updates_put, simp add: exec_step_def unleased_def evolves_step running_legal)
  done

section \<open>Recovery and resolution\<close>

lemma rely_record_ambiguity:
  assumes "\<And>next' r'. exec_step e next' \<Longrightarrow> (\<And>i. find_execution i (rt_state r') =
      find_execution i (rt_state r)) \<Longrightarrow> Q next' r'"
  shows "rely refines (record_ambiguity e in_flight plan policy flush) Q r"
proof -
  have "exec_step e (blocked_execution e amb a policy)" for amb a
    by (simp add: blocked_execution_def exec_step_def unleased_def Let_def split: option.split)
  then show ?thesis
    unfolding record_ambiguity_def
    by (intro rt.rely_flow rely_put_ambiguity rely_put_action assms) simp_all
qed

lemma find_execution_group [simp]:
  "find_execution i (apply_group g s) =
     (if i = exec_id (grp_execution g) then Some (grp_execution g) else find_execution i s)"
  by (simp add: apply_group_def)

lemma rely_commit_receipt:
  assumes e: "find_execution (exec_id e) (rt_state r) = Some e" and step: "exec_step e next'"
    and Q: "\<And>n c r' e0. find_execution (exec_id n) (rt_state r') = Some e0 \<Longrightarrow> exec_step e0 n \<Longrightarrow>
      exec_lifecycle n = exec_lifecycle e \<or> n = next' \<Longrightarrow> exec_id n = exec_id e \<Longrightarrow> Q (n, c) r'"
  shows "rely refines (commit_receipt e next' in_flight plan request flush) Q r"
proof -
  have none: "Q (next', None) r"
    by (rule Q [OF _ step]) (use step e in \<open>simp_all add: exec_step_def\<close>)
  have some: "Q (grp_execution g, c) r'"
    if "rt_state r' = moved r (apply_group g) q" "g = staged_group s e a rq ev" for r' q g c s a rq ev
    by (rule Q [of _ _ "grp_execution g"]) (simp_all add: that)
  show ?thesis
    unfolding commit_receipt_def
    by (intro rt.rely_flow none rely_stage_commit e)
      (auto simp: Let_def intro!: rt.rely_flow some)
qed

lemma updates_recovered:
  assumes "find_execution (exec_id n) s = Some e" "exec_step e n"
    and "m \<Longrightarrow> is_legal_transition (exec_lifecycle (if b
      then n\<lparr>exec_checkpoint := k, exec_checkpoint_generation := g\<rparr> else n)) Recovering"
  shows "updates s ((if b then n\<lparr>exec_checkpoint := k, exec_checkpoint_generation := g\<rparr> else n)
    \<lparr>exec_recovery := x, exec_recovery_generation := y, exec_epoch := z,
     exec_lifecycle := (if m then Recovering else exec_lifecycle (if b
       then n\<lparr>exec_checkpoint := k, exec_checkpoint_generation := g\<rparr> else n))\<rparr>)"
proof (rule updates_found [OF assms(1)])
  have "evolves (exec_lifecycle e) (if m then Recovering else exec_lifecycle n)"
    using assms(2,3) by (auto simp: exec_step_def intro: evolves_legal_trans split: if_splits)
  then show "exec_step e ((if b then n\<lparr>exec_checkpoint := k, exec_checkpoint_generation := g\<rparr> else n)
    \<lparr>exec_recovery := x, exec_recovery_generation := y, exec_epoch := z,
     exec_lifecycle := (if m then Recovering else exec_lifecycle (if b
       then n\<lparr>exec_checkpoint := k, exec_checkpoint_generation := g\<rparr> else n))\<rparr>)"
    using assms(2) by (cases m) (simp_all add: exec_step_def unleased_def)
qed

lemma recover_found_refines:
  assumes e: "find_execution (exec_id e) (rt_state r) = Some e"
  shows "moves (recover_found request e) r"
  unfolding recover_found_def
  apply (intro rt.rely_flow rely_record_ambiguity rely_commit_receipt rely_checks
      rely_put_recovery rely_put_execution)
  apply (simp_all only: updates_frame e)
   apply ((rule updates_recovered; (assumption | simp))+)
  done

lemma recover_refines: "moves (recover caller request i) r"
  unfolding recover_def
  by (intro rt.rely_flow rely_checks recover_found_refines)
    (auto dest: find_execution_self)

lemma unblock_step: "exec_step e (unblock e)"
  by (simp add: exec_step_def unblock_def unleased_def)

lemma rely_apply_resolution:
  assumes e: "find_execution (exec_id e) (rt_state r) = Some e" "exec_id e = rar_execution request"
    and Q: "\<And>n c r' e0. find_execution (exec_id n) (rt_state r') = Some e0 \<Longrightarrow> exec_step e0 n \<Longrightarrow>
      Q (n, c) r'"
  shows "rely refines (apply_resolution request e action flush) Q r"
proof -
  have ex: "exec_id (unblock x) = exec_id x" for x by (simp add: unblock_def)
  have commit: "Q (unblock (grp_execution g), c) r'"
    if "rt_state r' = moved r (apply_group g) q" "g = staged_group s e a rq ev" for r' q g c s a rq ev
    by (rule Q [OF _ unblock_step]) (simp add: that ex)
  have plain: "Q (unblock e, c) r'" if "rt_state r' = moved r (put_action a) q" for r' q a c
    by (rule Q [OF _ unblock_step]) (simp add: that ex e(1))
  have blocked: "Q (e\<lparr>exec_blocked := True\<rparr>, c) r" for c
    by (rule Q [of _ _ e]) (simp_all add: e(1) exec_step_def unleased_def)
  show ?thesis
    unfolding apply_resolution_def
    by (intro rt.rely_flow rely_stage_commit rely_put_action e(1) blocked)
      (auto simp: Let_def e(2) [symmetric] intro!: rt.rely_flow commit plain)
qed

lemma resolve_ambiguity_refines: "moves (resolve_ambiguity request) r"
  unfolding resolve_ambiguity_def
  apply (intro rt.rely_flow rely_checks rely_apply_resolution rely_put_ambiguity
      rely_put_execution)
  apply (auto dest: find_execution_mem find_execution_self intro: updates_found)
  done

section \<open>Restart\<close>

lemma rely_end_leases:
  assumes dist: "distinct (map lease_id ls)"
    and found: "\<And>l. l \<in> set ls \<Longrightarrow> find_lease (lease_id l) (rt_state r) = Some l"
    and Q: "\<And>r' q. rt_state r' = (rt_state r)\<lparr>ds_sequence := q, ds_leases :=
        fold (tbl_upsert lease_id) (map (\<lambda>l. l\<lparr>lease_state := Revoked\<rparr>) ls)
          (ds_leases (rt_state r))\<rparr> \<Longrightarrow> Q () r'"
  shows "rely refines (op_for (\<lambda>l. rt_put_lease l flush) (map (\<lambda>l. l\<lparr>lease_state := Revoked\<rparr>) ls)) Q r"
  using dist found Q
proof (induction ls arbitrary: r)
  case Nil
  then show ?case by (auto intro!: rt.rely_return Nil(3) [of r "ds_sequence (rt_state r)"])
next
  case (Cons l ls)
  show ?case
    unfolding list.map op_for.simps
  proof (rule rt.rely_try, rule rely_end_lease)
    fix r' :: Runtime and q
    assume r': "rt_state r' = moved r (put_lease (l\<lparr>lease_state := Revoked\<rparr>)) q"
    show "rely refines (op_for (\<lambda>l. rt_put_lease l flush)
        (map (\<lambda>l. l\<lparr>lease_state := Revoked\<rparr>) ls)) Q r'"
    proof (rule Cons.IH)
      show "distinct (map lease_id ls)" using Cons.prems(1) by simp
      show "find_lease (lease_id x) (rt_state r') = Some x" if "x \<in> set ls" for x
        using Cons.prems(1) Cons.prems(2) [of x] that
        by (auto simp: r' find_lease_def image_iff)
      show "Q () r''" if "rt_state r'' = (rt_state r')\<lparr>ds_sequence := q', ds_leases :=
          fold (tbl_upsert lease_id) (map (\<lambda>l. l\<lparr>lease_state := Revoked\<rparr>) ls)
            (ds_leases (rt_state r'))\<rparr>" for r'' q'
        by (rule Cons.prems(3) [of _ q']) (simp add: that r' put_lease_def)
    qed
  qed (use Cons.prems(2) [of l] in simp_all)
qed

lemma rely_put_executions:
  assumes dist: "distinct (map exec_id us)"
    and upd: "\<And>u. u \<in> set us \<Longrightarrow> updates (rt_state r) u"
    and Q: "\<And>r' q. rt_state r' = (rt_state r)\<lparr>ds_sequence := q, ds_executions :=
        fold (tbl_upsert exec_id) us (ds_executions (rt_state r))\<rparr> \<Longrightarrow> Q () r'"
  shows "rely refines (op_for (\<lambda>e. rt_put_execution e flush) us) Q r"
  using dist upd Q
proof (induction us arbitrary: r)
  case Nil
  then show ?case by (auto intro!: rt.rely_return Nil(3) [of r "ds_sequence (rt_state r)"])
next
  case (Cons u us)
  show ?case
    unfolding op_for.simps
  proof (rule rt.rely_try, rule rely_put_execution)
    fix r' :: Runtime and q
    assume r': "rt_state r' = moved r (put_execution u) q"
    show "rely refines (op_for (\<lambda>e. rt_put_execution e flush) us) Q r'"
    proof (rule Cons.IH)
      show "distinct (map exec_id us)" using Cons.prems(1) by simp
      show "updates (rt_state r') x" if "x \<in> set us" for x
        using Cons.prems(1) Cons.prems(2) [of x] that
        by (auto simp: r' updates_def image_iff)
      show "Q () r''" if "rt_state r'' = (rt_state r')\<lparr>ds_sequence := q', ds_executions :=
          fold (tbl_upsert exec_id) us (ds_executions (rt_state r'))\<rparr>" for r'' q'
        by (rule Cons.prems(3) [of _ q']) (simp add: that r' put_execution_def)
    qed
  qed (use Cons.prems(2) [of u] in simp)
qed

text \<open>What a restart leaves: no authority and no activity of an earlier epoch.\<close>

definition execution_settled :: "u64 \<Rightarrow> DurableState \<Rightarrow> ExecutionRecord \<Rightarrow> bool" where
  "execution_settled epoch s e \<longleftrightarrow>
     \<not> is_active_state (exec_lifecycle e) \<and> exec_lifecycle e \<noteq> Fenced \<and>
     (has_lease e \<longrightarrow> lease_current (exec_lease e) epoch s)"

definition restarted :: "u64 \<Rightarrow> DurableState \<Rightarrow> bool" where
  "restarted epoch s \<longleftrightarrow>
     (\<forall>l \<in> set (ds_leases s). lease_state l = Active \<longrightarrow> lease_epoch l = epoch) \<and>
     (\<forall>e \<in> set (ds_executions s). execution_settled epoch s e) \<and>
     (\<forall>c \<in> set (ds_continuations s). cont_state c = Valid \<longrightarrow> cont_epoch c = epoch)"

lemma reclassify_step:
  assumes u: "reclassify epoch s e = Some u"
  shows "exec_id u = exec_id e" "exec_step e u" "execution_settled epoch s u"
proof -
  let ?unbound = "has_lease e \<and> \<not> lease_current (exec_lease e) epoch s"
  let ?interrupted = "is_active_state (exec_lifecycle e) \<or> exec_lifecycle e = Fenced"
  have u_def: "u = (let n = if ?unbound then drop_binding e else e
      in if ?interrupted then n\<lparr>exec_lifecycle := RecoveryRequired\<rparr> else n)"
    using u by (auto simp: reclassify_def Let_def simp del: is_active_state.simps split: if_splits)
  have rec: "?interrupted \<Longrightarrow> evolves (exec_lifecycle e) RecoveryRequired"
    by (rule evolves_step) (rule active_to_recovery)
  have base: "exec_step e (if ?unbound then drop_binding e else e)"
    by (simp add: exec_step_def unleased_def drop_binding_def)
  show "exec_id u = exec_id e" by (simp add: u_def Let_def)
  show "exec_step e u"
  proof (cases ?interrupted)
    case True
    then have "exec_step e ((if ?unbound then drop_binding e else e)\<lparr>exec_lifecycle := RecoveryRequired\<rparr>)"
      using base rec [OF True] by (simp add: exec_step_def unleased_def drop_binding_def)
    with True show ?thesis unfolding u_def Let_def by (simp only: if_True)
  next
    case False
    with base show ?thesis unfolding u_def Let_def by (simp only: if_False)
  qed
  show "execution_settled epoch s u"
    by (simp add: u_def Let_def execution_settled_def)
qed

lemma reclassify_none: "reclassify epoch s e = None \<Longrightarrow> execution_settled epoch s e"
  by (auto simp: reclassify_def Let_def execution_settled_def simp del: is_active_state.simps
      split: if_splits)

lemma map_filter_ids:
  "distinct (map exec_id es) \<Longrightarrow> (\<And>e u. f e = Some u \<Longrightarrow> exec_id u = exec_id e) \<Longrightarrow>
   distinct (map exec_id (List.map_filter f es)) \<and>
   exec_id ` set (List.map_filter f es) \<subseteq> exec_id ` set es"
  by (induction es) (auto simp: List.map_filter_simps split: option.split)

lemma mem_map_filter: "u \<in> set (List.map_filter f es) \<longleftrightarrow> (\<exists>e \<in> set es. f e = Some u)"
  by (induction es) (auto simp: List.map_filter_simps split: option.split)

lemma reclassified_settled:
  assumes "tbl_ok exec_id es" "x \<in> set (fold (tbl_upsert exec_id) (List.map_filter (reclassify epoch s) es) es)"
  shows "execution_settled epoch s x"
proof (cases "x \<in> set (List.map_filter (reclassify epoch s) es)")
  case True
  then show ?thesis by (auto simp: mem_map_filter dest: reclassify_step)
next
  case False
  then have x: "x \<in> set es" "exec_id x \<notin> exec_id ` set (List.map_filter (reclassify epoch s) es)"
    using set_fold_upsert [OF assms] by auto
  have "reclassify epoch s x = None"
  proof (rule ccontr)
    assume "reclassify epoch s x \<noteq> None"
    then obtain u where u: "reclassify epoch s x = Some u" by blast
    then have "u \<in> set (List.map_filter (reclassify epoch s) es)" using x(1) by (auto simp: mem_map_filter)
    then have "exec_id u \<in> exec_id ` set (List.map_filter (reclassify epoch s) es)" by blast
    with x(2) reclassify_step(1) [OF u] show False by simp
  qed
  then show ?thesis by (rule reclassify_none)
qed

text \<open>Every active lease of another epoch is among those revoked, and likewise for the others.\<close>

lemma foreign_leases_revoked:
  assumes "tbl_ok lease_id ls" "l \<in> set (fold (tbl_upsert lease_id) (foreign_leases epoch ls) ls)"
    "lease_state l = Active"
  shows "lease_epoch l = epoch"
proof (rule ccontr)
  assume foreign: "lease_epoch l \<noteq> epoch"
  have "l \<notin> set (foreign_leases epoch ls)" using assms(3) by (auto simp: foreign_leases_def)
  then have "l \<in> set ls" and out: "lease_id l \<notin> lease_id ` set (foreign_leases epoch ls)"
    using set_fold_upsert [OF assms(1,2)] by auto
  then have "l\<lparr>lease_state := Revoked\<rparr> \<in> set (foreign_leases epoch ls)"
    using assms(3) foreign by (auto simp: foreign_leases_def)
  then have "lease_id (l\<lparr>lease_state := Revoked\<rparr>) \<in> lease_id ` set (foreign_leases epoch ls)" by blast
  with out show False by simp
qed

lemma foreign_continuations_stale:
  assumes "tbl_ok cont_id cs" "c \<in> set (fold (tbl_upsert cont_id) (foreign_continuations epoch cs) cs)"
    "cont_state c = Valid"
  shows "cont_epoch c = epoch"
proof (rule ccontr)
  assume foreign: "cont_epoch c \<noteq> epoch"
  have "c \<notin> set (foreign_continuations epoch cs)" using assms(3) by (auto simp: foreign_continuations_def)
  then have "c \<in> set cs" and out: "cont_id c \<notin> cont_id ` set (foreign_continuations epoch cs)"
    using set_fold_upsert [OF assms(1,2)] by auto
  then have "c\<lparr>cont_state := Stale\<rparr> \<in> set (foreign_continuations epoch cs)"
    using assms(3) foreign by (auto simp: foreign_continuations_def)
  then have "cont_id (c\<lparr>cont_state := Stale\<rparr>) \<in> cont_id ` set (foreign_continuations epoch cs)" by blast
  with out show False by simp
qed

lemma rely_foreign_leases:
  assumes ok: "state_ok (rt_state r)"
    and Q: "\<And>r' q. rt_state r' = (rt_state r)\<lparr>ds_sequence := q, ds_leases :=
        fold (tbl_upsert lease_id) (foreign_leases epoch (ds_leases (rt_state r)))
          (ds_leases (rt_state r))\<rparr> \<Longrightarrow> Q () r'"
  shows "rely refines (op_for (\<lambda>l. rt_put_lease l flush)
    (foreign_leases epoch (ds_leases (rt_state r)))) Q r"
proof -
  have tab: "tbl_ok lease_id (ds_leases (rt_state r))" using ok by (simp add: state_ok_def)
  show ?thesis
    unfolding foreign_leases_def
    by (rule rely_end_leases)
      (use tab in \<open>auto simp: tbl_ok_def distinct_map_filter find_lease_def tbl_find_mem [OF tab]
        foreign_leases_def [symmetric] intro!: Q\<close>)
qed

lemma rely_foreign_continuations:
  assumes ok: "state_ok (rt_state r)"
    and Q: "\<And>r' q. rt_state r' = (rt_state r)\<lparr>ds_sequence := q, ds_continuations :=
        fold (tbl_upsert cont_id) (foreign_continuations epoch (ds_continuations (rt_state r)))
          (ds_continuations (rt_state r))\<rparr> \<Longrightarrow> Q () r'"
  shows "rely refines (op_for (\<lambda>c. rt_put_continuation c flush)
    (foreign_continuations epoch (ds_continuations (rt_state r)))) Q r"
proof (rule rely_end_continuations)
  note tab = state_ok_continuations [OF ok]
  show "distinct (map cont_id (foreign_continuations epoch (ds_continuations (rt_state r))))"
    unfolding foreign_continuations_def by (rule ended_map) (simp_all add: tab)
  show "\<And>x. x \<in> set (foreign_continuations epoch (ds_continuations (rt_state r))) \<Longrightarrow>
      ended (ds_continuations (rt_state r)) x"
    unfolding foreign_continuations_def by (erule ended_map(2) [rotated 2]) (simp_all add: tab)
qed (rule Q)

lemma settled_frame [simp]:
  "execution_settled epoch (s\<lparr>ds_executions := es\<rparr>) e = execution_settled epoch s e"
  "execution_settled epoch (s\<lparr>ds_sequence := q, ds_executions := es\<rparr>) e = execution_settled epoch s e"
  "execution_settled epoch (s\<lparr>ds_sequence := q, ds_continuations := cs\<rparr>) e = execution_settled epoch s e"
  by (simp_all add: execution_settled_def lease_current_def find_lease_def)

lemma rely_revoke_previous_epoch:
  assumes ok: "state_ok (rt_state r)"
    and Q: "\<And>a r'. restarted epoch (rt_state r') \<Longrightarrow> state_ok (rt_state r') \<Longrightarrow>
      ds_epoch (rt_state r') = ds_epoch (rt_state r) \<Longrightarrow> Q a r'"
  shows "rely refines (revoke_previous_epoch epoch) Q r"
  unfolding revoke_previous_epoch_def Let_def
proof (rule rt.rely_read, rule rt.rely_try, rule rely_foreign_leases [OF ok], rule rt.rely_read,
    rule rt.rely_try, rule rely_put_executions)
  let ?ls = "fold (tbl_upsert lease_id) (foreign_leases epoch (ds_leases (rt_state r)))
      (ds_leases (rt_state r))"
  fix r1 :: Runtime and q1
  assume r1: "rt_state r1 = (rt_state r)\<lparr>ds_sequence := q1, ds_leases := ?ls\<rparr>"
  let ?us = "List.map_filter (reclassify epoch (rt_state r1)) (ds_executions (rt_state r1))"
  have ok1: "state_ok (rt_state r1)" using ok by (simp add: r1 state_ok_def)
  note tab = state_ok_executions [OF ok1]
  show "distinct (map exec_id ?us)"
    using map_filter_ids [of "ds_executions (rt_state r1)" "reclassify epoch (rt_state r1)"] tab
      reclassify_step(1)
    by (simp add: tbl_ok_def)
  show "updates (rt_state r1) u" if u: "u \<in> set ?us" for u
  proof -
    obtain e where e: "e \<in> set (ds_executions (rt_state r1))" "reclassify epoch (rt_state r1) e = Some u"
      using u by (auto simp: mem_map_filter)
    then have "find_execution (exec_id e) (rt_state r1) = Some e"
      by (simp add: find_execution_def tbl_find_mem [OF tab])
    then show ?thesis by (rule updates_found) (rule reclassify_step(2) [OF e(2)])
  qed
  fix r2 :: Runtime and q2
  assume r2: "rt_state r2 = (rt_state r1)\<lparr>ds_sequence := q2, ds_executions :=
      fold (tbl_upsert exec_id) ?us (ds_executions (rt_state r1))\<rparr>"
  have ok2: "state_ok (rt_state r2)" using ok1 by (simp add: r2 state_ok_def)
  show "rely refines (op_read (\<lambda>r2. pef_try (op_for (\<lambda>c. rt_put_continuation c True)
      (foreign_continuations epoch (ds_continuations (rt_state r2))))
      (\<lambda>_. op_return (length (foreign_leases epoch (ds_leases (rt_state r))), map exec_id ?us)))) Q r2"
  proof (rule rt.rely_read, rule rt.rely_try, rule rely_foreign_continuations [OF ok2],
      rule rt.rely_return, rule Q)
    fix r3 :: Runtime and q3
    assume r3: "rt_state r3 = (rt_state r2)\<lparr>ds_sequence := q3, ds_continuations :=
        fold (tbl_upsert cont_id) (foreign_continuations epoch (ds_continuations (rt_state r2)))
          (ds_continuations (rt_state r2))\<rparr>"
    have "execution_settled epoch (rt_state r3) e" if "e \<in> set (ds_executions (rt_state r3))" for e
      using reclassified_settled [OF tab, of e epoch "rt_state r1"] that by (simp add: r3 r2)
    moreover have "lease_epoch l = epoch"
      if "l \<in> set (ds_leases (rt_state r3))" "lease_state l = Active" for l
      using foreign_leases_revoked [of "ds_leases (rt_state r)" l epoch] ok that
      by (simp add: r3 r2 r1 state_ok_def)
    moreover have "cont_epoch c = epoch"
      if "c \<in> set (ds_continuations (rt_state r3))" "cont_state c = Valid" for c
      using foreign_continuations_stale [OF state_ok_continuations [OF ok2], of c epoch] that
      by (simp add: r3)
    ultimately show "restarted epoch (rt_state r3)" by (simp add: restarted_def)
    show "state_ok (rt_state r3)" using ok2 by (simp add: r3 state_ok_def)
    show "ds_epoch (rt_state r3) = ds_epoch (rt_state r)" by (simp add: r3 r2 r1)
  qed
qed

end
