(* ===== verification/Fabric.thy ===== *)
theory Fabric
  imports Runtime_Refinement
begin

text \<open>
  The coordinator as a state machine. A command is a call of one public member function of
  \<open>Runtime\<close> with its arguments; since every call holds the runtime mutex, an execution of the
  fabric by any number of concurrent clients is a sequence of commands. The invariants of
  the abstract transition system hold along every such sequence, whatever fails on the way.
\<close>

datatype Command =
    BeginSession u64 u64
  | EndSession u64
  | CreateExecution CallerContext u64 ExecutionPolicy
  | UpdatePolicy CallerContext u64 u64 ExecutionPolicy bool
  | BindWorker CallerContext u64 u64 u64 u64 BindingSet
  | Start u64 LeaseToken
  | BeginAction BeginActionRequest
  | CompleteAction CompleteActionRequest
  | FailAction u64 LeaseToken u64 u64 Evidence
  | ReportSideEffect u64 LeaseToken u64 u64 bool Evidence
  | RegisterCheckpoint RegisterCheckpointRequest
  | ValidateContinuation CallerContext u64
  | Resume u64 LeaseToken BindingSet bool
  | Classify CallerContext u64
  | Recover CallerContext u64 u64
  | ResolveAmbiguity ResolveAmbiguityRequest
  | Fence CallerContext u64 u64
  | Retire CallerContext u64 u64
  | Cancel CallerContext u64 u64
  | Drain CallerContext u64 u64
  | CompleteExecution CallerContext u64 u64
  | SuspendBegin CallerContext u64 u64
  | SuspendCommit CallerContext u64 u64
  | AdvanceExecutionGeneration CallerContext u64 u64
  | Query u64
  | TakeSnapshot bool
  | Flush
  | Shutdown

fun run_command :: "Command \<Rightarrow> Runtime \<Rightarrow> Runtime" where
  "run_command (BeginSession w b) r = snd (begin_session w b r)"
| "run_command (EndSession s) r = snd (end_session s r)"
| "run_command (CreateExecution c q p) r = snd (create_execution c q p r)"
| "run_command (UpdatePolicy c q i p a) r = snd (update_policy c q i p a r)"
| "run_command (BindWorker c q i w b bs) r = snd (bind_worker c q i w b bs r)"
| "run_command (Start q t) r = snd (start q t r)"
| "run_command (BeginAction q) r = snd (begin_action q r)"
| "run_command (CompleteAction q) r = snd (complete_action q r)"
| "run_command (FailAction q t a g e) r = snd (fail_action q t a g e r)"
| "run_command (ReportSideEffect q t a g b e) r = snd (report_side_effect q t a g b e r)"
| "run_command (RegisterCheckpoint q) r = snd (register_checkpoint q r)"
| "run_command (ValidateContinuation c i) r = snd (validate_continuation c i r)"
| "run_command (Resume q t bs v) r = snd (resume q t bs v r)"
| "run_command (Classify c i) r = snd (classify c i r)"
| "run_command (Recover c q i) r = snd (recover c q i r)"
| "run_command (ResolveAmbiguity q) r = snd (resolve_ambiguity q r)"
| "run_command (Fence c q i) r = snd (fence c q i r)"
| "run_command (Retire c q i) r = snd (retire c q i r)"
| "run_command (Cancel c q i) r = snd (cancel c q i r)"
| "run_command (Drain c q i) r = snd (drain c q i r)"
| "run_command (CompleteExecution c q i) r = snd (complete_execution c q i r)"
| "run_command (SuspendBegin c q i) r = snd (suspend_begin c q i r)"
| "run_command (SuspendCommit c q i) r = snd (suspend_commit c q i r)"
| "run_command (AdvanceExecutionGeneration c q i) r = snd (advance_execution_generation c q i r)"
| "run_command (Query i) r = snd (query i r)"
| "run_command (TakeSnapshot t) r = snd (take_snapshot t r)"
| "run_command Flush r = snd (rt_flush r)"
| "run_command Shutdown r = snd (shutdown r)"

text \<open>
  The identity of a new execution is a hash of the store identity and a counter; the machine
  is defined where that hash does not collide with an execution already stored.
\<close>

fun id_fresh :: "Command \<Rightarrow> DurableState \<Rightarrow> bool" where
  "id_fresh (CreateExecution c q p) s = fresh_execution_id s"
| "id_fresh c s = True"

inductive fabric_step :: "Runtime \<Rightarrow> Runtime \<Rightarrow> bool" where
  command: "id_fresh c (rt_state r) \<Longrightarrow> fabric_step r (run_command c r)"

inductive_cases fabric_stepE: "fabric_step r r'"

abbreviation fabric_steps :: "Runtime \<Rightarrow> Runtime \<Rightarrow> bool" where
  "fabric_steps \<equiv> rtranclp fabric_step"

section \<open>Refinement\<close>

lemma on_store_state: "rt_state (snd (on_store m r)) = rt_state r"
  by (simp add: on_store_def split: prod.split)

lemma rely_on_store: "(\<And>a r'. rt_state r' = rt_state r \<Longrightarrow> Q a r') \<Longrightarrow> rely refines (on_store m) Q r"
  by (auto simp: rely_def refines_def on_store_def split: prod.splits)

lemma maintenance_refines:
  "moves (take_snapshot t) r" "moves rt_flush r" "moves (query i) r"
  "moves (classify caller i) r" "moves (validate_continuation caller i) r" "moves shutdown r"
  unfolding take_snapshot_def rt_flush_def query_def classify_def validate_continuation_def
    shutdown_def
  by (intro rt.rely_flow rely_checks rely_on_store rely_volatile; simp)+

lemmas command_refines =
  begin_session_refines end_session_refines create_execution_refines update_policy_refines
  bind_worker_refines start_refines begin_action_refines complete_action_refines
  fail_action_refines report_side_effect_refines register_checkpoint_refines resume_refines
  recover_refines resolve_ambiguity_refines transition_op_refines
  advance_execution_generation_refines maintenance_refines

lemma run_command_refines:
  assumes "state_ok (rt_state r)" "id_fresh c (rt_state r)"
  shows "evolutions (rt_state r) (rt_state (run_command c r))"
  using assms
  by (cases c)
    (simp_all add: fence_def retire_def cancel_def drain_def complete_execution_def
      suspend_begin_def suspend_commit_def
      command_refines [THEN rely_rel, unfolded refines_def])

lemma fabric_steps_refine:
  "fabric_steps r r' \<Longrightarrow> state_ok (rt_state r) \<Longrightarrow> evolutions (rt_state r) (rt_state r')"
proof (induction rule: rtranclp_induct)
  case (step r' r'')
  then have "evolutions (rt_state r') (rt_state r'')"
    by (auto elim!: fabric_stepE intro: run_command_refines evolutions_ok)
  with step show ?case by auto
qed simp

section \<open>The invariant\<close>

definition fabric_inv :: "DurableState \<Rightarrow> bool" where
  "fabric_inv s \<longleftrightarrow> state_ok s \<and> accounted s \<and> one_valid s \<and> authority_ok s \<and> commits_complete s"

lemma fabric_inv_fresh: "fabric_inv (fresh_state store)"
  by (simp add: fabric_inv_def state_ok_def accounted_def one_valid_def authority_ok_def
      commits_complete_def fresh_state_def empty_state_def find_execution_def)

lemma fabric_inv_steps:
  "fabric_steps r r' \<Longrightarrow> fabric_inv (rt_state r) \<Longrightarrow> fabric_inv (rt_state r')"
  by (auto simp: fabric_inv_def dest!: fabric_steps_refine
      intro: evolutions_ok evolutions_accounted evolutions_one_valid evolutions_authority
        evolutions_commits_complete)

lemma fabric_command: "id_fresh c (rt_state r) \<Longrightarrow> fabric_steps r (run_command c r)"
  by (rule r_into_rtranclp) (rule fabric_step.command)

end
