(* ===== verification/Durable_Writes.thy ===== *)
theory Durable_Writes
  imports Fabric
begin

text \<open>
  The write discipline of the runtime. Every operation changes the runtime only through a
  dozen primitive writes (the \<open>put_*\<close> members, \<open>stage_commit\<close>, the request cache, the
  session table and the execution counter). A reflexive and transitive relation that these
  primitives respect is therefore respected by every command, whether it succeeds or stops
  halfway. The locale states this once; it is interpreted on the agreement of memory and
  journal (\<open>Durability\<close>) and on the derived indexes and the request cache (\<open>Indexes\<close>).
\<close>

locale durable_writes = state_preorder R for R :: "Runtime \<Rightarrow> Runtime \<Rightarrow> bool" +
  assumes put_policy: "R r (snd (rt_put_policy p flush r))"
    and put_execution: "R r (snd (rt_put_execution e flush r))"
    and put_action: "R r (snd (rt_put_action a flush r))"
    and put_checkpoint: "R r (snd (rt_put_checkpoint k flush r))"
    and put_continuation: "R r (snd (rt_put_continuation c flush r))"
    and put_lease: "R r (snd (rt_put_lease l flush r))"
    and put_replay: "R r (snd (rt_put_replay p' flush r))"
    and put_ambiguity: "R r (snd (rt_put_ambiguity m flush r))"
    and put_recovery: "R r (snd (rt_put_recovery v flush r))"
    and put_store_meta: "R r (snd (rt_put_store_meta flush r))"
    and commit_group: "R r (snd (stage_commit e a rq ev flush r))"
    and remembered: "R r (remember_request i outcome r)"
    and sessions: "R r (r\<lparr>rt_next_session := n, rt_sessions := ss\<rparr>)"
    and counter: "R r (upd_state (\<lambda>s. s\<lparr>ds_next_execution_sequence := n\<rparr>) r)"
begin

abbreviation obeys :: "(Code, Runtime, 'a) oper \<Rightarrow> Runtime \<Rightarrow> bool" where
  "obeys m r \<equiv> rely R m (\<lambda>_ _. True) r"

lemma rely_any: "(\<And>r. R r (snd (m r))) \<Longrightarrow> (\<And>a r'. Q a r') \<Longrightarrow> rely R m Q r"
  by (simp add: rely_def)

lemma rely_write:
  assumes "\<And>r'. Q () r'"
  shows "rely R (rt_put_policy p flush) Q r" "rely R (rt_put_execution e flush) Q r"
    "rely R (rt_put_action a flush) Q r" "rely R (rt_put_checkpoint k flush) Q r"
    "rely R (rt_put_continuation c flush) Q r" "rely R (rt_put_lease l flush) Q r"
    "rely R (rt_put_replay p' flush) Q r" "rely R (rt_put_ambiguity m flush) Q r"
    "rely R (rt_put_recovery v flush) Q r" "rely R (rt_put_store_meta flush) Q r"
    "rely R (remember i d x y) Q r"
  using assms
  by (auto simp: remember_def op_modify_def
      intro!: rely_any put_policy put_execution put_action put_checkpoint put_continuation
        put_lease put_replay put_ambiguity put_recovery put_store_meta remembered)

lemma rely_stage: "(\<And>g r'. Q g r') \<Longrightarrow> rely R (stage_commit e a rq ev flush) Q r"
  by (rule rely_any) (rule commit_group)

lemma rely_each:
  assumes "\<And>x r. rely R (f x) (\<lambda>_ _. True) r" "\<And>r'. Q () r'"
  shows "rely R (op_for f xs) Q r"
  by (rule rely_for [where I = "\<lambda>_ _. True"]) (simp_all add: assms)

lemma rely_sessions:
  assumes "\<And>r'. Q () r'"
  shows "rely R (op_modify (\<lambda>r. r\<lparr>rt_next_session := f r, rt_sessions := g r\<rparr>)) Q r"
    "rely R (op_modify (\<lambda>r. r\<lparr>rt_sessions := g r\<rparr>)) Q r"
    "rely R (op_modify (upd_state (\<lambda>s. s\<lparr>ds_next_execution_sequence := h s\<rparr>))) Q r"
  using sessions [where r = r and n = "rt_next_session r" and ss = "g r"]
  by (auto intro!: rely_modify assms sessions counter)

lemmas write_rules = rely_flow rely_write rely_stage rely_each rely_sessions

lemmas check_defs = check_open_def check_caller_def check_epoch_def validate_token_def
  find_checked_def require_transition_def

lemma session_writes: "obeys (begin_session w b) r" "obeys (end_session i) r"
  unfolding begin_session_def end_session_def fence_bound_def revoke_any_def
  by (intro write_rules; simp)+

lemma create_writes: "obeys (create_execution c q p) r"
  unfolding create_execution_def check_defs by (intro write_rules) simp_all

lemma policy_writes: "obeys (update_policy c q i p b) r"
  unfolding update_policy_def check_defs revoke_any_def by (intro write_rules) simp_all

lemma bind_writes: "obeys (bind_worker c q i w b bs) r" "obeys (start q t) r"
  unfolding bind_worker_def start_def check_defs supersede_def retire_other_continuations_def
  by (intro write_rules; simp)+

lemma transition_writes: "obeys (transition_op c q i refused target) r"
  unfolding transition_op_def persist_transition_def check_defs revoke_active_def
  by (intro write_rules) simp_all

lemma generation_writes: "obeys (advance_execution_generation c q i) r"
  unfolding advance_execution_generation_def check_defs revoke_active_def
  by (intro write_rules) simp_all

lemma action_writes:
  "obeys (begin_action b) r" "obeys (fail_action q t a g e) r"
  "obeys (report_side_effect q t a g x e) r"
  unfolding begin_action_def fail_action_def report_side_effect_def check_defs
  by (intro write_rules; simp)+

lemma complete_writes: "obeys (complete_action q) r"
  unfolding complete_action_def complete_fresh_def check_defs Let_def
  by (intro write_rules) simp_all

lemma checkpoint_writes: "obeys (register_checkpoint q) r"
  unfolding register_checkpoint_def install_checkpoint_def demote_previous_def
    retire_other_continuations_def check_defs
  by (intro write_rules) simp_all

lemma resume_writes: "obeys (resume q t bs b) r"
  unfolding resume_def to_resuming_def retire_other_continuations_def check_defs
  by (intro write_rules) simp_all

lemma recover_writes: "obeys (recover c q i) r"
  unfolding recover_def recover_found_def record_ambiguity_def commit_receipt_def check_defs
  by (intro write_rules) simp_all

lemma resolve_writes: "obeys (resolve_ambiguity q) r"
  unfolding resolve_ambiguity_def apply_resolution_def check_defs
  by (intro write_rules) simp_all

lemma inspection_writes:
  "obeys (query i) r" "obeys (classify c i) r" "obeys (validate_continuation c i) r"
  unfolding query_def classify_def validate_continuation_def check_defs
  by (intro write_rules; simp)+

lemmas command_writes = session_writes create_writes policy_writes bind_writes transition_writes
  generation_writes action_writes complete_writes checkpoint_writes resume_writes recover_writes
  resolve_writes inspection_writes

end

text \<open>The commands that only append to the journal.\<close>

fun logged :: "Command \<Rightarrow> bool" where
  "logged (TakeSnapshot t) = False"
| "logged Flush = False"
| "logged Shutdown = False"
| "logged c = True"

context durable_writes
begin

lemma run_command_writes: "logged c \<Longrightarrow> R r (run_command c r)"
  by (cases c)
    (simp_all add: fence_def retire_def cancel_def drain_def complete_execution_def
      suspend_begin_def suspend_commit_def command_writes [THEN rely_rel])

lemma run_commands_writes: "list_all logged cs \<Longrightarrow> R r (fold run_command cs r)"
  by (induction cs arbitrary: r) (auto intro: R_refl R_trans run_command_writes)

text \<open>The part of \<open>open\<close> that follows the epoch advance.\<close>

lemma revoke_writes: "obeys (revoke_previous_epoch epoch) r"
  unfolding revoke_previous_epoch_def by (intro write_rules) simp_all

lemma pending_writes: "obeys (op_for (recover_pending epoch) is) r"
  using rely_rel [OF recover_writes]
  by (intro rely_each rely_any) (simp_all add: recover_pending_def)

end

end
