(* ===== verification/Durability.thy ===== *)
theory Durability
  imports Durable_Writes
begin

text \<open>
  Memory and journal agree. The runtime appends every record before it installs it, so as
  long as the operating system reports no failure the tables in memory are exactly what
  replaying the journal produces, after every command and also after a refusal halfway
  through one.
\<close>

text \<open>The tables of a state, without its counters.\<close>

definition tables :: "DurableState \<Rightarrow> DurableState" where
  "tables s = s\<lparr>ds_epoch := 0, ds_sequence := 0, ds_next_execution_sequence := 0, ds_schema := 0\<rparr>"

definition synced :: "Runtime \<Rightarrow> log \<Rightarrow> bool" where
  "synced r js \<longleftrightarrow>
     holds (rt_store r) js \<and> fs_io (rt_store r) = [] \<and> fs_snapshot (rt_store r) = None \<and>
     (\<exists>s. replay_log js (fresh_state (fs_store_id (rt_store r))) = Some s \<and>
        tables s = tables (rt_state r))"

definition keeps_log :: "Runtime \<Rightarrow> Runtime \<Rightarrow> bool" where
  "keeps_log r r' \<longleftrightarrow> (\<forall>js. synced r js \<longrightarrow> (\<exists>js'. synced r' (js @ js')))"

interpretation log0: state_preorder keeps_log
proof
  show "keeps_log r r" for r
    unfolding keeps_log_def by (metis append_Nil2)
  show "keeps_log r t" if "keeps_log r s" "keeps_log s t" for r s t
    using that unfolding keeps_log_def by (metis append.assoc)
qed

section \<open>Entries and tables\<close>

lemma tables_sel: "ds_store (tables s) = ds_store s"
  by (simp add: tables_def)

lemma tables_store: "tables s = tables t \<Longrightarrow> ds_store s = ds_store t"
  by (metis tables_sel)

lemma tables_sequence [simp]:
  "tables (s\<lparr>ds_sequence := q\<rparr>) = tables s" "tables (s\<lparr>ds_epoch := e\<rparr>) = tables s"
  "tables (s\<lparr>ds_next_execution_sequence := n\<rparr>) = tables s" "tables (s\<lparr>ds_schema := x\<rparr>) = tables s"
  by (simp_all add: tables_def)

lemma tables_put:
  "tables (put_policy p s) = put_policy p (tables s)"
  "tables (put_execution e s) = put_execution e (tables s)"
  "tables (put_action a s) = put_action a (tables s)"
  "tables (put_progress g s) = put_progress g (tables s)"
  "tables (put_checkpoint k s) = put_checkpoint k (tables s)"
  "tables (put_continuation c s) = put_continuation c (tables s)"
  "tables (put_lease l s) = put_lease l (tables s)"
  "tables (put_replay p' s) = put_replay p' (tables s)"
  "tables (put_ambiguity m s) = put_ambiguity m (tables s)"
  "tables (put_commit t s) = put_commit t (tables s)"
  "tables (put_recovery v s) = put_recovery v (tables s)"
  by (simp_all add: tables_def ds_put_defs)

text \<open>An entry installs the same tables in memory as on replay.\<close>

definition installs :: "Entry \<Rightarrow> (DurableState \<Rightarrow> DurableState) \<Rightarrow> DurableState \<Rightarrow> bool" where
  "installs e g t \<longleftrightarrow>
     (\<forall>s. tables s = tables t \<longrightarrow> (\<exists>s'. apply_entry e s = Some s' \<and> tables s' = tables (g t)))"

lemma installs_entries:
  "installs (PolicyEntry p) (put_policy p) t" "installs (ExecutionEntry e) (put_execution e) t"
  "installs (ActionEntry a) (put_action a) t" "installs (CheckpointEntry k) (put_checkpoint k) t"
  "installs (ContinuationEntry c) (put_continuation c) t" "installs (LeaseEntry l) (put_lease l) t"
  "installs (ReplayEntry p') (put_replay p') t" "installs (AmbiguityEntry m) (put_ambiguity m) t"
  "installs (RecoveryEntry v) (put_recovery v) t" "installs (GroupEntry g) (apply_group g) t"
  by (simp_all add: installs_def tables_put apply_group_def)

lemma installs_meta: "installs (MetaEntry (store_meta t)) (\<lambda>s. s) t"
proof -
  have "tables (s\<lparr>ds_store := ds_store t, ds_epoch := e, ds_next_execution_sequence := n,
      ds_schema := x\<rparr>) = tables t" if "tables s = tables t" for s e n x
  proof -
    have "s\<lparr>ds_store := ds_store t\<rparr> = s" by (simp add: tables_store [OF that, symmetric])
    then show ?thesis using that by simp
  qed
  then show ?thesis by (auto simp: installs_def store_meta_def dest: tables_store)
qed

section \<open>Appending\<close>

lemma append_synced:
  assumes sync: "synced r js" and inst: "installs e g (rt_state r)"
  shows "(\<exists>c. rt_append e flush r = (Inl c, r)) \<or>
    (\<exists>r' q. rt_append e flush r = (Inr (), r') \<and> rt_state r' = (rt_state r)\<lparr>ds_sequence := q\<rparr> \<and>
       (\<forall>r''. rt_store r'' = rt_store r' \<longrightarrow> tables (rt_state r'') = tables (g (rt_state r)) \<longrightarrow>
          synced r'' (js @ [(q, e)])))"
proof -
  let ?st = "rt_store r"
  have h: "holds ?st js" "fs_io ?st = []" "fs_snapshot ?st = None"
    using sync by (simp_all add: synced_def)
  obtain s where s: "replay_log js (fresh_state (fs_store_id ?st)) = Some s"
    "tables s = tables (rt_state r)"
    using sync by (auto simp: synced_def)
  show ?thesis
  proof (cases "length (entry_payload e) \<le> lim_max_journal_payload (fs_limits ?st)")
    case True
    obtain q st' where app: "store_append (entry_kind e) (entry_payload e) flush ?st = (Inr q, st')"
      and io: "fs_io st' = []"
      using store_append_no_fault [OF h(1,2) True] by blast
    note succ = store_append_success [OF h(1) app]
    obtain s' where s': "apply_entry e s = Some s'" "tables s' = tables (g (rt_state r))"
      using inst s(2) by (auto simp: installs_def)
    have "synced r'' (js @ [(q, e)])"
      if "rt_store r'' = st'" "tables (rt_state r'') = tables (g (rt_state r))" for r''
      using that s s' succ io h(3) by (auto simp: synced_def replay_log_append)
    then show ?thesis using app by (auto simp: rt_append_def)
  next
    case False
    obtain res st' where app: "store_append (entry_kind e) (entry_payload e) flush ?st = (res, st')"
      by fastforce
    with store_append_outcomes [OF h(1) app] False
    have "res = Inl LimitExceeded" "st' = ?st" by auto
    with app show ?thesis by (simp add: rt_append_def)
  qed
qed

lemma log_put:
  assumes "\<And>t. installs e g t" and "\<And>r'. rt_state (f r') = g (rt_state r')"
    and "\<And>r'. rt_store (f r') = rt_store r'" and "\<And>t q. tables (g (t\<lparr>ds_sequence := q\<rparr>)) = tables (g t)"
    and "\<And>r'. Q () r'"
  shows "rely keeps_log (pef_try (rt_append e flush) (\<lambda>_. op_modify f)) Q r"
proof -
  have "\<exists>js'. synced (snd (pef_try (rt_append e flush) (\<lambda>_. op_modify f) r)) (js @ js')"
    if "synced r js" for js
    using append_synced [OF that assms(1), of flush]
  proof (elim disjE exE conjE)
    fix r' q
    assume app: "rt_append e flush r = (Inr (), r')" "rt_state r' = (rt_state r)\<lparr>ds_sequence := q\<rparr>"
      and next': "\<forall>r''. rt_store r'' = rt_store r' \<longrightarrow> tables (rt_state r'') = tables (g (rt_state r)) \<longrightarrow>
          synced r'' (js @ [(q, e)])"
    then have "synced (f r') (js @ [(q, e)])" using assms(2-4) by simp
    with app show ?thesis by (auto simp: pef_try_def op_modify_def)
  qed (use that in \<open>auto simp: pef_try_def intro: exI [of _ "[]"]\<close>)
  then show ?thesis
    using assms(5) by (auto simp: rely_def keeps_log_def)
qed

lemma log_append_meta:
  assumes "\<And>r'. Q () r'"
  shows "rely keeps_log (rt_put_store_meta flush) Q r"
proof -
  have "\<exists>js'. synced (snd (rt_append (MetaEntry (store_meta (rt_state r))) flush r)) (js @ js')"
    if "synced r js" for js
    using append_synced [OF that installs_meta, of flush]
    by (elim disjE exE conjE) (use that in \<open>auto intro: exI [of _ "[]"]\<close>)
  then show ?thesis
    using assms by (auto simp: rely_def keeps_log_def rt_put_store_meta_def op_read_def)
qed

lemma keeps_log_volatile:
  "rt_store r' = rt_store r \<Longrightarrow> tables (rt_state r') = tables (rt_state r) \<Longrightarrow> keeps_log r r'"
  by (auto simp: keeps_log_def synced_def intro: exI [of _ "[]"])

lemma remember_store [simp]: "rt_store (remember_request i c r) = rt_store r"
  by (simp add: remember_request_def split: prod.split)

lemma index_action_store [simp]: "rt_store (index_action a r) = rt_store r"
  by (simp add: index_action_def)

lemma tables_puts_sequence:
  "tables (put_policy p (t\<lparr>ds_sequence := q\<rparr>)) = tables (put_policy p t)"
  "tables (put_execution e (t\<lparr>ds_sequence := q\<rparr>)) = tables (put_execution e t)"
  "tables (put_action a (t\<lparr>ds_sequence := q\<rparr>)) = tables (put_action a t)"
  "tables (put_checkpoint k (t\<lparr>ds_sequence := q\<rparr>)) = tables (put_checkpoint k t)"
  "tables (put_continuation c (t\<lparr>ds_sequence := q\<rparr>)) = tables (put_continuation c t)"
  "tables (put_lease l (t\<lparr>ds_sequence := q\<rparr>)) = tables (put_lease l t)"
  "tables (put_replay p' (t\<lparr>ds_sequence := q\<rparr>)) = tables (put_replay p' t)"
  "tables (put_ambiguity m (t\<lparr>ds_sequence := q\<rparr>)) = tables (put_ambiguity m t)"
  "tables (put_recovery v (t\<lparr>ds_sequence := q\<rparr>)) = tables (put_recovery v t)"
  "tables (apply_group g (t\<lparr>ds_sequence := q\<rparr>)) = tables (apply_group g t)"
  by (simp_all add: tables_put apply_group_def)

lemma log_puts:
  assumes "\<And>r'. Q () r'"
  shows "rely keeps_log (rt_put_policy p flush) Q r"
    "rely keeps_log (rt_put_execution e flush) Q r"
    "rely keeps_log (rt_put_action a flush) Q r"
    "rely keeps_log (rt_put_checkpoint k flush) Q r"
    "rely keeps_log (rt_put_continuation c flush) Q r"
    "rely keeps_log (rt_put_lease l flush) Q r"
    "rely keeps_log (rt_put_replay p' flush) Q r"
    "rely keeps_log (rt_put_ambiguity m flush) Q r"
    "rely keeps_log (rt_put_recovery v flush) Q r"
  unfolding rt_put_policy_def rt_put_execution_def rt_put_action_def rt_put_checkpoint_def
    rt_put_continuation_def rt_put_lease_def rt_put_replay_def rt_put_ambiguity_def
    rt_put_recovery_def
  by (rule log_put, rule installs_entries; simp add: tables_puts_sequence Let_def assms)+

lemma install_group_store [simp]: "rt_store (install_group g r) = rt_store r"
  by (simp add: install_group_def Let_def)

lemma log_stage_commit:
  assumes "\<And>g r'. Q g r'"
  shows "rely keeps_log (stage_commit e a rq ev flush) Q r"
proof -
  have eq: "pef_try (rt_append (GroupEntry g) flush) (\<lambda>_. pef_try (op_modify (install_group g))
      (\<lambda>_. op_return g)) = pef_try (pef_try (rt_append (GroupEntry g) flush)
      (\<lambda>_. op_modify (install_group g))) (\<lambda>_. op_return g)" for g
    by (simp add: pef_try_def fun_eq_iff split: prod.split sum.split)
  show ?thesis
    unfolding stage_commit_def eq
    by (intro log0.rely_flow log_put, rule installs_entries)
      (simp_all add: tables_puts_sequence assms)
qed

interpretation log: durable_writes keeps_log
proof
  show "keeps_log r (snd (rt_put_store_meta flush r))" for r flush
    by (rule rely_rel [OF log_append_meta [of "\<lambda>_ _. True"]]) simp
  show "keeps_log r (snd (stage_commit e a rq ev flush r))" for r e a rq ev flush
    by (rule rely_rel [OF log_stage_commit [of "\<lambda>_ _. True"]]) simp
  show "keeps_log r (remember_request i outcome r)" for r i outcome
    by (rule keeps_log_volatile) (simp_all add: remember_store)
qed (auto intro: rely_rel [OF log_puts(1)] rely_rel [OF log_puts(2)] rely_rel [OF log_puts(3)]
    rely_rel [OF log_puts(4)] rely_rel [OF log_puts(5)] rely_rel [OF log_puts(6)]
    rely_rel [OF log_puts(7)] rely_rel [OF log_puts(8)] rely_rel [OF log_puts(9)]
    keeps_log_volatile)

text \<open>Reloading the whole journal gives the tables in memory.\<close>

lemma synced_load:
  assumes sync: "synced r js" and ok: "log_ok (fs_limits (rt_store r)) 0 js"
    and n: "40 + length (log_bytes js) \<le> n" "n \<le> lim_max_journal_load_bytes (fs_limits (rt_store r))"
  shows "\<exists>out report. store_load empty_state (crash n (rt_store r)) =
      (Inr (out, report, Inr ()), crash n (rt_store r)) \<and> tables out = tables (rt_state r)"
proof -
  obtain s where s: "replay_log js (fresh_state (fs_store_id (rt_store r))) = Some s"
    "tables s = tables (rt_state r)" and h: "holds (rt_store r) js" "fs_snapshot (rt_store r) = None"
    using sync by (auto simp: synced_def)
  obtain m res out report where "m \<le> length js"
    and load: "store_load empty_state (crash n (rt_store r)) = (Inr (out, report, res), crash n (rt_store r))"
    and out: "replay_log (take m js) (fresh_state (fs_store_id (rt_store r))) = Some out"
    and full: "40 + length (log_bytes js) \<le> n \<longrightarrow> m = length js \<and> res = Inr ()"
    using load_after_crash [OF h(1) ok h(2), of n] n s(1) by auto
  then show ?thesis using n(1) s by auto
qed

end
