(* ===== verification/Restart.thy ===== *)
theory Restart
  imports Fabric
begin

text \<open>
  Restart of the coordinator: what loading returns is well formed, reconciliation keeps it
  so, and a successful \<open>open\<close> leaves no authority of an earlier epoch.
\<close>

section \<open>Loaded states\<close>

lemma read_table_ok:
  assumes "read_table get p r = (Some rs, r')"
  shows "tbl_ok get rs"
  using assms
  by (auto simp: read_table_def and_then_def decoded_def split: prod.splits option.splits if_splits)

lemma and_then_Some:
  assumes "and_then p f r = (Some y, r')"
  obtains x r1 where "p r = (Some x, r1)" "f x r1 = (Some y, r')"
  using assms by (auto simp: and_then_def split: prod.splits option.splits)

lemma decode_state_ok:
  assumes "decode_DurableState r = (Some s, r')"
  shows "state_ok s"
  using assms unfolding decode_DurableState_def
  by (elim and_then_Some)
    (auto simp: reject_def state_ok_def decoded_def dest!: read_table_ok split: if_splits
      elim!: and_then_Some)

lemma verify_snapshot_ok: "verify_snapshot limits img = Inr s \<Longrightarrow> state_ok s"
  by (auto simp: verify_snapshot_def Let_def decode_from_bytes_def dest!: decode_state_ok
      split: if_splits option.splits prod.splits)

lemma apply_record_ok: "apply_record k b s = Some s' \<Longrightarrow> state_ok s \<Longrightarrow> state_ok s'"
  by (auto simp: apply_record_def dest: apply_entry_ok split: option.splits)

lemma replay_journal_ok:
  "state_ok s \<Longrightarrow> replay_journal limits data snap offset s report = (res, s', report') \<Longrightarrow> state_ok s'"
proof (induction limits data snap offset s report arbitrary: res s' report'
    rule: replay_journal.induct)
  case (1 limits data snap offset s report)
  note run = 1(4) [unfolded replay_journal.simps [of limits data snap offset s report]]
  show ?case
  proof (cases "offset < length data")
    case inside: True
    show ?thesis
    proof (cases "probe_record data offset limits")
      case None
      then show ?thesis using run inside 1(3) by auto
    next
      case (Some b)
      show ?thesis
      proof (cases "snap < rb_sequence b")
        case newer: True
        show ?thesis
        proof (cases "apply_record (rb_kind b)
            (take (rb_payload_size b) (drop (rb_payload_offset b) data)) s")
          case None
          then show ?thesis using run inside Some newer 1(3) by auto
        next
          case applied: (Some s1)
          have "state_ok (s1\<lparr>ds_sequence := rb_sequence b\<rparr>)"
            using apply_record_ok [OF applied 1(3)] by simp
          then show ?thesis using 1(1) [OF inside Some newer applied] run inside Some newer applied
            by simp
        qed
      next
        case False
        then show ?thesis using 1(2) [OF inside Some False 1(3)] run inside Some by simp
      qed
    qed
  qed (use run 1(3) in simp)
qed

lemma load_journal_ok:
  "state_ok s \<Longrightarrow> load_journal limits usable snap file s report = (res, s', report') \<Longrightarrow> state_ok s'"
  by (auto simp: load_journal_def Let_def state_ok_def [of "_\<lparr>ds_store := _\<rparr>"]
      dest!: replay_journal_ok [rotated] split: if_splits option.splits prod.splits sum.splits)
    (simp_all add: state_ok_def)

lemma ds_clear_ok: "state_ok (ds_clear s)"
  by (simp add: state_ok_def ds_clear_def)

lemma store_load_ok:
  assumes "store_load out s = (Inr (out', report, res), s')"
  shows "state_ok out'"
  using assms
  by (auto simp: store_load_def Let_def ds_clear_ok
      dest!: load_journal_ok [rotated] dest: verify_snapshot_ok
      split: prod.splits sum.splits option.splits)

section \<open>Snapshots\<close>

text \<open>A snapshot image verifies and gives back the state in canonical order.\<close>

lemma verify_built_snapshot:
  assumes wf: "wf_state default_decode_limits s" "state_ok s"
    and small: "length (encode_DurableState s) \<le> max_total default_decode_limits"
      "length (encode_DurableState s) \<le> lim_max_snapshot_payload limits"
  shows "verify_snapshot limits (build_snapshot_image s) = Inr (canonical_state s)"
proof -
  let ?body = "encode_DurableState s"
  let ?h = "kSnapshotMagic @ write_le32 kPersistenceSchemaVersion @ write_le16 0 @
      write_le16 0 @ write_le64 (ds_store s) @ write_le64 (ds_sequence s) @
      write_le64 (word_of_nat (length ?body)) @ write_le64 (crc64_ecma ?body)"
  have img: "build_snapshot_image s =
      ?h @ write_le64 (crc64_ecma ?h) @ ?body @ write_le64 (crc64_ecma (?h @ write_le64 (crc64_ecma ?h) @ ?body))"
    by (simp add: build_snapshot_image_def with_crc_def Let_def)
  have len: "length ?h = 48" by simp
  have "length ?body < 2 ^ 64" using small(1) by (simp add: default_decode_limits_def)
  then have n: "unat (word_of_nat (length ?body) :: u64) = length ?body"
    by (rule unat_word64_of_length)
  have fields: "take 8 (build_snapshot_image s) = kSnapshotMagic"
    "read_le32 (drop 8 (build_snapshot_image s)) = kPersistenceSchemaVersion"
    "read_le64 (drop 24 (build_snapshot_image s)) = ds_sequence s"
    "read_le64 (drop 32 (build_snapshot_image s)) = word_of_nat (length ?body)"
    "read_le64 (drop 40 (build_snapshot_image s)) = crc64_ecma ?body"
    by (simp_all add: img)
  have seals: "take 48 (build_snapshot_image s) = ?h"
    "read_le64 (drop 48 (build_snapshot_image s)) = crc64_ecma ?h"
    "take (length ?body) (drop 56 (build_snapshot_image s)) = ?body"
    "take (56 + length ?body) (build_snapshot_image s) = ?h @ write_le64 (crc64_ecma ?h) @ ?body"
    "read_le64 (drop (56 + length ?body) (build_snapshot_image s)) =
       crc64_ecma (?h @ write_le64 (crc64_ecma ?h) @ ?body)"
    by (simp_all add: img)
  have total: "length (build_snapshot_image s) = 64 + length ?body"
    by (simp add: img)
  have same: "(canonical_state s)\<lparr>ds_sequence := ds_sequence s\<rparr> = canonical_state s"
    by (simp add: canonical_state_def)
  show ?thesis
    using decode_encode_state [OF wf small(1)] small(2)
    by (simp add: verify_snapshot_def kSnapshotHeaderSize_def kRecordTrailerSize_def fields
        seals total n same)
qed

section \<open>Reconciliation\<close>

lemma promote_ok:
  "promote_progress e b n s = Some (s', g) \<Longrightarrow> state_ok s \<Longrightarrow>
   state_ok s' \<and> ds_epoch s' = ds_epoch s"
  by (auto simp: promote_progress_def Let_def split: option.splits if_splits)

lemma reconcile_execution_ok:
  "reconcile_execution i (s, repairs, changed) = (s', repairs', changed') \<Longrightarrow> state_ok s \<Longrightarrow>
   state_ok s' \<and> ds_epoch s' = ds_epoch s"
  by (auto simp: reconcile_execution_def Let_def dest: promote_ok
      split: option.splits prod.splits if_splits)

lemma fold_reconcile_ok:
  "fold reconcile_execution is (s, repairs, changed) = (s', repairs', changed') \<Longrightarrow> state_ok s \<Longrightarrow>
   state_ok s' \<and> ds_epoch s' = ds_epoch s"
proof (induction "is" arbitrary: s repairs changed)
  case (Cons i "is")
  obtain s1 r1 c1 where one: "reconcile_execution i (s, repairs, changed) = (s1, r1, c1)"
    by (metis prod_cases3)
  with Cons.prems have "fold reconcile_execution is (s1, r1, c1) = (s', repairs', changed')" by simp
  with Cons.IH [of s1 r1 c1] reconcile_execution_ok [OF one Cons.prems(2)] show ?case by simp
qed simp

lemma reconcile_state_ok:
  "reconcile_state s = (s', repairs, changed) \<Longrightarrow> state_ok s \<Longrightarrow>
   state_ok s' \<and> ds_epoch s' = ds_epoch s"
  unfolding reconcile_state_def by (rule fold_reconcile_ok)

text \<open>
  What reconciliation keeps: commits, progress records and authority are untouched, no
  execution appears or disappears, and an execution only moves forward.
\<close>

definition advanced :: "ExecutionRecord \<Rightarrow> ExecutionRecord \<Rightarrow> bool" where
  "advanced e e' \<longleftrightarrow> exec_id e' = exec_id e \<and> exec_lifecycle e' = exec_lifecycle e \<and>
     exec_lease e' = exec_lease e \<and> exec_continuation e' = exec_continuation e \<and>
     exec_action_frontier e \<le> exec_action_frontier e' \<and>
     exec_progress_generation e \<le> exec_progress_generation e'"

definition carried_forward :: "DurableState \<Rightarrow> DurableState \<Rightarrow> bool" where
  "carried_forward s s' \<longleftrightarrow> ds_commits s' = ds_commits s \<and> ds_progress s' = ds_progress s \<and>
     ds_leases s' = ds_leases s \<and> ds_continuations s' = ds_continuations s \<and>
     (\<forall>i. rel_option advanced (find_execution i s) (find_execution i s'))"

lemma advanced_refl: "advanced e e"
  by (simp add: advanced_def)

lemma advanced_trans: "advanced a b \<Longrightarrow> advanced b c \<Longrightarrow> advanced a c"
  unfolding advanced_def by (metis order_trans)

lemma carried_refl: "carried_forward s s"
  by (simp add: carried_forward_def option.rel_refl advanced_refl)

lemma carried_trans: "carried_forward a b \<Longrightarrow> carried_forward b c \<Longrightarrow> carried_forward a c"
  unfolding carried_forward_def
  by (metis (no_types, lifting) advanced_trans option.rel_sel)

lemma carried_put:
  assumes "find_execution i s = Some e" "advanced e e'"
  shows "carried_forward s (put_execution e' s)"
proof -
  have "exec_id e' = i" using assms find_execution_mem by (fastforce simp: advanced_def)
  then show ?thesis
    using assms
    by (simp add: carried_forward_def find_execution_def put_execution_def option.rel_refl advanced_refl)
qed

lemma carried_put_action: "carried_forward s (put_action a s)"
  by (simp add: carried_forward_def put_action_def find_execution_def option.rel_refl advanced_refl)

lemma scan_actions_ge: "scan_actions e as (f, g) = (f', g') \<Longrightarrow> f \<le> f'"
  by (induction as arbitrary: f g) (auto split: if_splits dest: order_less_imp_le, fastforce)

lemma promote_carried:
  assumes "promote_progress e b n s = Some (s', g)" "find_execution (exec_id e) s = Some e"
    "exec_progress_generation e \<le> prog_generation b"
  shows "carried_forward s s'"
proof -
  let ?e = "e\<lparr>exec_progress_generation := prog_generation b, exec_progress := prog_id b,
      exec_last_commit := prog_commit b, exec_committed_actions := n\<rparr>"
  have adv: "advanced e ?e" using assms(3) by (simp add: advanced_def)
  have find: "find_execution (exec_id e) (put_action a s) = Some e" for a
    using assms(2) by (simp add: find_execution_def put_action_def)
  show ?thesis
    using assms(1) carried_put [OF assms(2) adv] carried_trans [OF carried_put_action carried_put [OF find adv]]
    by (auto simp: promote_progress_def Let_def split: option.splits if_splits)
qed

lemma reconcile_execution_carried:
  assumes "reconcile_execution i (s, repairs, changed) = (s', repairs', changed')"
  shows "carried_forward s s'"
proof (cases "find_execution i s")
  case None
  then show ?thesis using assms by (simp add: reconcile_execution_def carried_refl)
next
  case (Some e)
  obtain f g where scan: "scan_actions (exec_id e) (ds_actions s)
      (exec_action_frontier e, exec_action_generation e) = (f, g)" by fastforce
  obtain best n where prog: "scan_progress (exec_id e) (ds_progress s) (None, 0) = (best, n)" by fastforce
  define e1 where "e1 = (if f \<noteq> exec_action_frontier e
    then e\<lparr>exec_action_frontier := f, exec_action_generation := g\<rparr> else e)"
  define s1 where "s1 = (if f \<noteq> exec_action_frontier e then put_execution e1 s else s)"
  have id: "exec_id e = i" "exec_id e1 = i" using find_execution_mem [OF Some] by (simp_all add: e1_def)
  have "advanced e e1" using scan_actions_ge [OF scan] by (simp add: advanced_def e1_def)
  then have first: "carried_forward s s1"
    using carried_put [OF Some] carried_refl by (simp add: s1_def)
  have find: "find_execution (exec_id e1) s1 = Some e1"
    using Some id by (simp add: s1_def e1_def find_execution_def put_execution_def)
  have "s' = s1 \<or> (\<exists>b g. promote_progress e1 b n s1 = Some (s', g) \<and>
      exec_progress_generation e1 \<le> prog_generation b)"
    using assms
    unfolding reconcile_execution_def prod.case Some option.case scan prog Let_def e1_def [symmetric]
      s1_def [symmetric]
    by (auto split: option.splits if_splits)
  then show ?thesis using first promote_carried find carried_trans by blast
qed

lemma fold_reconcile_carried:
  "fold reconcile_execution is (s, repairs, changed) = (s', repairs', changed') \<Longrightarrow> carried_forward s s'"
proof (induction "is" arbitrary: s repairs changed)
  case (Cons i "is")
  obtain s1 r1 c1 where one: "reconcile_execution i (s, repairs, changed) = (s1, r1, c1)"
    by (metis prod_cases3)
  with Cons.prems have "fold reconcile_execution is (s1, r1, c1) = (s', repairs', changed')" by simp
  with Cons.IH [of s1 r1 c1] reconcile_execution_carried [OF one] show ?case by (blast intro: carried_trans)
qed (simp add: carried_refl)

section \<open>Authority of the current epoch\<close>

text \<open>Active leases and valid continuations belong to the current epoch.\<close>

definition current_authority :: "DurableState \<Rightarrow> bool" where
  "current_authority s \<longleftrightarrow>
     (\<forall>l \<in> set (ds_leases s). lease_state l = Active \<longrightarrow> lease_epoch l = ds_epoch s) \<and>
     (\<forall>c \<in> set (ds_continuations s). cont_state c = Valid \<longrightarrow> cont_epoch c = ds_epoch s)"

lemma current_authority_frame:
  "current_authority s \<Longrightarrow> ds_leases s' = ds_leases s \<Longrightarrow>
   ds_continuations s' = ds_continuations s \<Longrightarrow> ds_epoch s' = ds_epoch s \<Longrightarrow> current_authority s'"
  by (simp add: current_authority_def)

lemma current_authority_lease:
  "current_authority s \<Longrightarrow> (lease_state l = Active \<Longrightarrow> lease_epoch l = ds_epoch s) \<Longrightarrow>
   current_authority (put_lease l s)"
  using set_tbl_upsert_subset [of lease_id l "ds_leases s"]
  by (auto simp: current_authority_def)

lemma current_authority_continuation:
  "current_authority s \<Longrightarrow> (cont_state c = Valid \<Longrightarrow> cont_epoch c = ds_epoch s) \<Longrightarrow>
   current_authority (put_continuation c s)"
  using set_tbl_upsert_subset [of cont_id c "ds_continuations s"]
  by (auto simp: current_authority_def)

lemma evolution_current_authority:
  "evolution s s' \<Longrightarrow> current_authority s \<Longrightarrow> current_authority s'"
  by (induction rule: evolution.induct)
    (auto intro: current_authority_lease current_authority_continuation
      elim: current_authority_frame simp: apply_group_def)

lemma evolutions_current_authority:
  "evolutions s s' \<Longrightarrow> current_authority s \<Longrightarrow> current_authority s'"
  by (induction rule: rtranclp_induct) (auto dest: evolution_current_authority)

section \<open>Opening\<close>

lemma try_success:
  assumes "pef_try m f s = (Inr b, s')"
  obtains a s1 where "m s = (Inr a, s1)" "f a s1 = (Inr b, s')"
  using assms by (auto simp: pef_try_def split: prod.splits sum.splits)

lemma rt_load_success:
  "rt_load r = (Inr report, r') \<Longrightarrow> state_ok (rt_state r')"
  by (auto simp: rt_load_def dest: store_load_ok split: prod.splits sum.splits)

lemma adopt_state_success:
  assumes "adopt_state r = (Inr u, r')"
  shows "state_ok (rt_state r) \<Longrightarrow> state_ok (rt_state r')"
    "ds_epoch (rt_state r') = ds_epoch (rt_state r)"
    "ds_schema (rt_state r') = kPersistenceSchemaVersion"
  using assms
  by (auto simp: adopt_state_def rebuild_indexes_def state_ok_def op_read_def op_modify_def
      op_guard_def op_return_def op_fail_def Let_def elim!: try_success split: if_splits)

lemma append_success_state:
  "rt_append e flush r = (Inr u, r') \<Longrightarrow> \<exists>q. rt_state r' = (rt_state r)\<lparr>ds_sequence := q\<rparr>"
  by (auto simp: rt_append_def split: prod.splits sum.splits)

lemma append_all_state:
  "op_for (\<lambda>g. rt_append (GroupEntry g) flush) gs r = (Inr u, r') \<Longrightarrow>
   \<exists>q. rt_state r' = (rt_state r)\<lparr>ds_sequence := q\<rparr>"
proof (induction gs arbitrary: r)
  case Nil
  then show ?case by (auto simp: op_return_def intro: exI [of _ "ds_sequence (rt_state r)"])
next
  case (Cons g gs)
  then show ?case by (fastforce elim!: try_success dest: append_success_state)
qed

lemma rebuild_state [simp]: "rt_state (rebuild_indexes r) = rt_state r"
  by (simp add: rebuild_indexes_def Let_def)

lemma reconcile_on_open_success:
  assumes "reconcile_on_open r = (Inr n, r')" "state_ok (rt_state r)"
  shows "state_ok (rt_state r') \<and> ds_epoch (rt_state r') = ds_epoch (rt_state r)"
proof -
  obtain s repairs changed where rec: "reconcile_state (rt_state r) = (s, repairs, changed)"
    by (metis prod_cases3)
  note ok = reconcile_state_ok [OF rec assms(2)]
  show ?thesis
    using assms(1) ok
    by (auto simp: reconcile_on_open_def op_read_def rec op_modify_def op_return_def
        elim!: try_success dest!: append_all_state split: if_splits)
qed

lemma advance_epoch_success:
  assumes "advance_epoch r = (Inr epoch, r')"
  shows "epoch = ds_epoch (rt_state r) + 1" "ds_epoch (rt_state r') = epoch"
    "state_ok (rt_state r) \<Longrightarrow> state_ok (rt_state r')"
  using assms
  by (auto simp: advance_epoch_def rt_put_store_meta_def op_read_def op_modify_def op_return_def
      gen_next_def state_ok_def elim!: try_success dest!: append_success_state)

lemma rely_recoveries:
  fixes epoch "is" r
  shows "moves (op_for (recover_pending epoch) is) r"
proof (rule rt.rely_for [where I = "\<lambda>_ _. True"])
  show "rely refines (recover_pending epoch x) (\<lambda>_ s'. True) s" for x s
    using rely_rel [OF recover_refines] by (auto simp: rely_def recover_pending_def)
qed simp_all

lemma restarted_current: "restarted (ds_epoch s) s \<Longrightarrow> current_authority s"
  by (simp add: restarted_def current_authority_def)

text \<open>
  The parts of a successful open: the state right after the previous epoch was revoked, and
  the recoveries that follow it.
\<close>

lemma open_runtime_success:
  assumes "open_runtime config entropy r = (Inr oo, r')"
  obtains s where "restarted (oo_epoch oo) s" "state_ok s" "ds_epoch s = oo_epoch oo"
    "oo_epoch oo = oo_previous_epoch oo + 1" "evolutions s (rt_state r')"
proof -
  obtain r1 report r2 r3 reconciled r4 epoch r5 revoked reclassified r6 r7 where
    load: "rt_load r1 = (Inr report, r2)" and adopt: "adopt_state r2 = (Inr (), r3)"
    and rec: "reconcile_on_open r3 = (Inr reconciled, r4)"
    and adv: "advance_epoch r4 = (Inr epoch, r5)"
    and rev: "revoke_previous_epoch epoch r5 = (Inr (revoked, reclassified), r6)"
    and opened: "r7 = r6\<lparr>rt_open := True\<rparr>"
    and pend: "op_for (recover_pending epoch) (pending_recoveries (rt_state r7)) r7 = (Inr (), r')"
    and oo: "oo_epoch oo = epoch" "oo_previous_epoch oo = ds_epoch (rt_state r2)"
    using assms
    by (auto simp: open_runtime_def op_read_def op_modify_def op_return_def op_fail_def Let_def
        elim!: try_success split: if_splits prod.splits)
  have ok2: "state_ok (rt_state r2)" by (rule rt_load_success [OF load])
  have ok3: "state_ok (rt_state r3)" "ds_epoch (rt_state r3) = ds_epoch (rt_state r2)"
    using adopt_state_success [OF adopt] ok2 by simp_all
  have ok4: "state_ok (rt_state r4)" "ds_epoch (rt_state r4) = ds_epoch (rt_state r2)"
    using reconcile_on_open_success [OF rec ok3(1)] ok3(2) by simp_all
  have ok5: "state_ok (rt_state r5)" "ds_epoch (rt_state r5) = epoch"
    "epoch = ds_epoch (rt_state r2) + 1"
    using advance_epoch_success [OF adv] ok4 by simp_all
  have post: "restarted epoch (rt_state r6) \<and> state_ok (rt_state r6) \<and> ds_epoch (rt_state r6) = epoch"
    by (rule rely_post [OF rely_revoke_previous_epoch rev]) (simp_all add: ok5)
  have "evolutions (rt_state r7) (rt_state r')"
    using rely_rel [OF rely_recoveries [of epoch "pending_recoveries (rt_state r7)" r7]] pend
    by (simp add: refines_def)
  with post show ?thesis
    by (intro that [of "rt_state r6"]) (simp_all add: oo ok5(3) opened)
qed

end
