(* ===== verification/Indexes.thy ===== *)
theory Indexes
  imports Durability Restart
begin

text \<open>
  The process-local structures of the runtime beside the durable state: the derived indexes
  (execution to actions and commits) and the bounded request cache. Both invariants hold
  after \<open>open\<close> and after every command.
\<close>

section \<open>Frames\<close>

text \<open>
  Two runtimes that agree on the commits, the actions, their indexes and the request cache.
  Every primitive write but those of actions and commits leaves them so.
\<close>

definition quiet :: "Runtime \<Rightarrow> Runtime \<Rightarrow> bool" where
  "quiet r r' \<longleftrightarrow>
     rt_commit_index r' = rt_commit_index r \<and> rt_action_index r' = rt_action_index r \<and>
     ds_commits (rt_state r') = ds_commits (rt_state r) \<and>
     ds_actions (rt_state r') = ds_actions (rt_state r) \<and>
     rt_request_cache r' = rt_request_cache r \<and> rt_request_order r' = rt_request_order r \<and>
     rt_config r' = rt_config r"

lemma quiet_append: "quiet r (snd (rt_append e flush r))"
  by (auto simp: rt_append_def quiet_def split: prod.splits sum.splits)

lemma quiet_trans: "quiet r s \<Longrightarrow> quiet s t \<Longrightarrow> quiet r t"
  by (simp add: quiet_def)

text \<open>What an append and the installation of its record keep.\<close>

lemma put_keeps:
  assumes "\<And>r'. quiet r r' \<Longrightarrow> P r'" and "\<And>r'. P r' \<Longrightarrow> P (f r')"
  shows "P (snd (pef_try (rt_append e flush) (\<lambda>_. op_modify f) r))"
proof -
  have "P (snd (rt_append e flush r))" by (rule assms(1)) (rule quiet_append)
  then show ?thesis
    using assms(2) by (cases "rt_append e flush r") (auto simp: pef_try_def op_modify_def split: sum.split)
qed

lemma quiet_puts:
  "quiet r (snd (rt_put_policy p flush r))" "quiet r (snd (rt_put_execution e flush r))"
  "quiet r (snd (rt_put_checkpoint k flush r))" "quiet r (snd (rt_put_continuation c flush r))"
  "quiet r (snd (rt_put_lease l flush r))" "quiet r (snd (rt_put_replay p' flush r))"
  "quiet r (snd (rt_put_ambiguity m flush r))" "quiet r (snd (rt_put_recovery v flush r))"
  unfolding rt_put_policy_def rt_put_execution_def rt_put_checkpoint_def rt_put_continuation_def
    rt_put_lease_def rt_put_replay_def rt_put_ambiguity_def rt_put_recovery_def
  by (rule put_keeps, assumption, simp add: quiet_def Let_def)+

lemma quiet_others:
  "quiet r (snd (rt_put_store_meta flush r))" "quiet r (r\<lparr>rt_next_session := n, rt_sessions := ss\<rparr>)"
  "quiet r (upd_state (\<lambda>s. s\<lparr>ds_next_execution_sequence := n\<rparr>) r)"
  by (simp_all add: rt_put_store_meta_def op_read_def quiet_append, simp_all add: quiet_def)

lemmas quiet_writes = quiet_puts quiet_others

lemma stage_keeps:
  assumes frame: "\<And>r r'. quiet r r' \<Longrightarrow> P r \<Longrightarrow> P r'"
    and install: "\<And>r g. P r \<Longrightarrow> find_commit (com_id (grp_commit g)) (rt_state r) = None \<Longrightarrow>
      P (install_group g r)"
    and "P r"
  shows "P (snd (stage_commit e a rq ev flush r))"
proof -
  let ?g = "staged_group (rt_state r) e a rq ev"
  let ?r' = "snd (rt_append (GroupEntry ?g) flush r)"
  have "P ?r'" "find_commit i (rt_state ?r') = find_commit i (rt_state r)" for i
    using quiet_append [of r "GroupEntry ?g" flush] frame assms(3)
    by (auto simp: find_commit_def quiet_def)
  then show ?thesis
    using install assms(3)
    by (cases "rt_append (GroupEntry ?g) flush r")
      (auto simp: stage_commit_def op_read_def Let_def op_fail_def pef_try_def op_modify_def
        op_return_def split: sum.split)
qed

section \<open>The request cache\<close>

definition cache_ok :: "Runtime \<Rightarrow> bool" where
  "cache_ok r \<longleftrightarrow>
     cache_wf (cfg_request_cache_size (rt_config r)) (rt_request_order r) (rt_request_cache r)"

interpretation outcomes: request_cache "\<lambda>r. cfg_request_cache_size (rt_config r)" rt_request_order
  rt_request_cache remember_request
  by unfold_locales (auto simp: remember_request_def intro: map_upd_triv [symmetric] split: prod.split)

lemma remember_cache_ok: "cache_ok r \<Longrightarrow> cache_ok (remember_request i c r)"
  unfolding cache_ok_def by (rule outcomes.remember_wf)

lemma install_group_cache:
  "rt_request_order (install_group g r) = rt_request_order r"
  "rt_request_cache (install_group g r) = rt_request_cache r"
  "rt_config (install_group g r) = rt_config r"
  by (simp_all add: install_group_def Let_def index_action_def)

lemma cache_ok_quiet: "quiet r r' \<Longrightarrow> cache_ok r \<Longrightarrow> cache_ok r'"
  by (simp add: quiet_def cache_ok_def)

interpretation cache: durable_writes "\<lambda>r r'. cache_ok r \<longrightarrow> cache_ok r'"
proof
  show "cache_ok r \<longrightarrow> cache_ok (remember_request i outcome r)" for r i outcome
    using remember_cache_ok by blast
  show "cache_ok r \<longrightarrow> cache_ok (snd (stage_commit e a rq ev flush r))" for r e a rq ev flush
    by (rule impI, rule stage_keeps [where P = cache_ok])
      (erule (1) cache_ok_quiet, simp_all add: cache_ok_def install_group_cache)
  show "cache_ok r \<longrightarrow> cache_ok (snd (rt_put_action a flush r))" for r a flush
    unfolding rt_put_action_def
    by (rule impI, rule put_keeps [where P = cache_ok])
      (erule (1) cache_ok_quiet, simp add: cache_ok_def index_action_def)
qed (auto intro: cache_ok_quiet quiet_writes)

section \<open>The derived indexes\<close>

text \<open>
  The commit index lists the commits of each execution in order; the action index is
  strictly ascending, misses no stored action and names only stored ones.
\<close>

definition index_ok :: "Runtime \<Rightarrow> bool" where
  "index_ok r \<longleftrightarrow>
     rt_commit_index r = keys_by com_execution com_id (ds_commits (rt_state r)) \<and>
     (\<forall>a \<in> set (ds_actions (rt_state r)). action_key a \<in> set (rt_action_index r (act_execution a))) \<and>
     (\<forall>i. sorted_wrt (<) (rt_action_index r i)) \<and>
     (\<forall>i. \<forall>k \<in> set (rt_action_index r i). tbl_find action_key k (ds_actions (rt_state r)) \<noteq> None)"

lemma set_insert_key: "set (insert_key k ks) = insert k (set ks)"
  by (induction ks) auto

lemma set_index_keys: "set (index_keys k ks) = insert k (set ks)"
  by (auto simp: index_keys_def set_insert_key)

lemma sorted_insert_key: "sorted_wrt (<) ks \<Longrightarrow> sorted_wrt (<) (insert_key k ks)"
  by (induction ks) (auto simp: set_insert_key)

lemma sorted_index_keys: "sorted_wrt (<) ks \<Longrightarrow> sorted_wrt (<) (index_keys k ks)"
proof (induction ks rule: rev_induct)
  case (snoc x xs)
  then show ?case
    by (auto simp: index_keys_def sorted_wrt_append intro: sorted_insert_key)
qed (simp add: index_keys_def)

lemma index_ok_frame:
  "index_ok r \<Longrightarrow> rt_commit_index r' = rt_commit_index r \<Longrightarrow> rt_action_index r' = rt_action_index r \<Longrightarrow>
   ds_commits (rt_state r') = ds_commits (rt_state r) \<Longrightarrow>
   ds_actions (rt_state r') = ds_actions (rt_state r) \<Longrightarrow> index_ok r'"
  by (simp add: index_ok_def)

lemma index_ok_quiet: "quiet r r' \<Longrightarrow> index_ok r \<Longrightarrow> index_ok r'"
  by (simp add: quiet_def index_ok_def)

lemma index_ok_action:
  assumes ok: "index_ok r"
  shows "index_ok (index_action a (upd_state (put_action a) r))"
proof -
  have mem: "b = a \<or> b \<in> set (ds_actions (rt_state r))"
    if "b \<in> set (tbl_upsert action_key a (ds_actions (rt_state r)))" for b
    using that set_tbl_upsert_subset [of action_key a "ds_actions (rt_state r)"] by blast
  show ?thesis
    using ok by (auto simp: index_ok_def index_action_def set_index_keys sorted_index_keys dest!: mem)
qed

lemma index_ok_commit:
  assumes "index_ok r" "find_commit (com_id c) (rt_state r) = None"
  shows "index_ok ((upd_state (put_commit c) r)\<lparr>rt_commit_index :=
      push_index (com_execution c) (com_id c) (rt_commit_index r)\<rparr>)"
  using assms
  by (auto simp: index_ok_def find_commit_def tbl_upsert_fresh keys_by_def push_index_def fun_eq_iff)

lemma index_ok_group:
  assumes "index_ok r" "find_commit (com_id (grp_commit g)) (rt_state r) = None"
  shows "index_ok (install_group g r)"
proof -
  let ?r1 = "(upd_state (put_commit (grp_commit g)) r)\<lparr>rt_commit_index :=
      push_index (com_execution (grp_commit g)) (com_id (grp_commit g)) (rt_commit_index r)\<rparr>"
  have "index_ok (upd_state (put_progress (grp_progress g)) ?r1)"
    by (rule index_ok_frame [OF index_ok_commit [OF assms]]) simp_all
  from index_ok_action [OF this, of "grp_action g"] show ?thesis
    by (rule index_ok_frame) (simp_all add: install_group_def assms(2) index_action_def)
qed

lemma remember_index:
  "rt_commit_index (remember_request i c r) = rt_commit_index r"
  "rt_action_index (remember_request i c r) = rt_action_index r"
  by (simp_all add: remember_request_def split: prod.split)

interpretation index: durable_writes "\<lambda>r r'. index_ok r \<longrightarrow> index_ok r'"
proof
  show "index_ok r \<longrightarrow> index_ok (remember_request i outcome r)" for r i outcome
    by (auto elim!: index_ok_frame simp: remember_index)
  show "index_ok r \<longrightarrow> index_ok (snd (stage_commit e a rq ev flush r))" for r e a rq ev flush
    by (rule impI, rule stage_keeps [where P = index_ok])
      (erule (1) index_ok_quiet, erule (1) index_ok_group)
  show "index_ok r \<longrightarrow> index_ok (snd (rt_put_action a flush r))" for r a flush
    unfolding rt_put_action_def
    by (rule impI, rule put_keeps [where P = index_ok])
      (erule (1) index_ok_quiet, erule index_ok_action)
qed (auto intro: index_ok_quiet quiet_writes)

text \<open>
  What \<open>latest_action\<close> returns: the stored action with the greatest key among those of the
  execution. Keys are hashes of ordinals, so this need not be the newest ordinal.
\<close>

lemma latest_action_greatest:
  assumes "index_ok r" "b \<in> set (ds_actions (rt_state r))" "act_execution b = i"
  obtains a where "latest_action i r = Some a" "action_key b \<le> action_key a"
proof -
  let ?ks = "rt_action_index r i"
  have mem: "action_key b \<in> set ?ks" and sorted: "sorted_wrt (<) ?ks"
    using assms by (auto simp: index_ok_def)
  then have ne: "?ks \<noteq> []" by auto
  then have "last ?ks \<in> set ?ks" by simp
  then obtain a where a: "tbl_find action_key (last ?ks) (ds_actions (rt_state r)) = Some a"
    using assms(1) unfolding index_ok_def by blast
  have "action_key b \<le> last ?ks"
    using mem sorted ne by (cases ?ks rule: rev_cases) (auto simp: sorted_wrt_append)
  moreover have "action_key a = last ?ks" using a by (auto dest: tbl_find_Some)
  ultimately show ?thesis using that ne a by (simp add: latest_action_def)
qed

section \<open>Opening\<close>

lemma rebuild_index_ok:
  assumes "state_ok (rt_state r)"
  shows "index_ok (rebuild_indexes r)"
proof -
  have "distinct (map action_key (ds_actions (rt_state r)))"
    using assms by (simp add: state_ok_def tbl_ok_def)
  then have "distinct (keys_by act_execution action_key (ds_actions (rt_state r)) i)" for i
    by (simp add: keys_by_def distinct_map_filter)
  then show ?thesis
    by (auto simp: index_ok_def rebuild_indexes_def Let_def strict_sorted_iff keys_by_def
        tbl_find_None)
qed

lemma reconcile_unchanged:
  "reconcile_execution i (s, repairs, c) = (s', repairs', False) \<Longrightarrow> s' = s \<and> \<not> c"
  by (auto simp: reconcile_execution_def Let_def split: option.splits prod.splits if_splits)

lemma fold_reconcile_unchanged:
  "fold reconcile_execution is (s, repairs, c) = (s', repairs', False) \<Longrightarrow> s' = s \<and> \<not> c"
proof (induction "is" arbitrary: s repairs c)
  case (Cons i "is")
  obtain s1 r1 c1 where one: "reconcile_execution i (s, repairs, c) = (s1, r1, c1)"
    by (metis prod_cases3)
  with Cons.prems Cons.IH [of s1 r1 c1] have "s' = s1" "\<not> c1" by auto
  with one reconcile_unchanged show ?case by fastforce
qed simp

lemma append_all_index:
  "index_ok r \<Longrightarrow> op_for (\<lambda>g. rt_append (GroupEntry g) flush) gs r = (res, r') \<Longrightarrow> index_ok r'"
proof (induction gs arbitrary: r)
  case Nil
  then show ?case by (simp add: op_return_def)
next
  case (Cons g gs)
  have "index_ok (snd (rt_append (GroupEntry g) flush r))"
    by (rule index_ok_quiet [OF quiet_append Cons.prems(1)])
  with Cons show ?case
    by (cases "rt_append (GroupEntry g) flush r") (auto simp: pef_try_def split: sum.splits)
qed

lemma reconcile_on_open_index:
  assumes "reconcile_on_open r = (Inr n, r')" "state_ok (rt_state r)" "index_ok r"
  shows "index_ok r'"
proof -
  obtain s repairs changed where rec: "reconcile_state (rt_state r) = (s, repairs, changed)"
    by (metis prod_cases3)
  have ok: "state_ok s" using reconcile_state_ok [OF rec assms(2)] by simp
  have same: "s = rt_state r" if "\<not> changed"
    using rec that fold_reconcile_unchanged by (auto simp: reconcile_state_def)
  show ?thesis
  proof (cases changed)
    case True
    have "index_ok (rebuild_indexes (r\<lparr>rt_state := s\<rparr>))" by (rule rebuild_index_ok) (simp add: ok)
    with True show ?thesis
      using assms(1)
      by (auto simp: reconcile_on_open_def op_read_def rec op_modify_def op_return_def
          elim!: try_success intro: append_all_index)
  next
    case False
    with same assms(3) show ?thesis
      using assms(1)
      by (auto simp: reconcile_on_open_def op_read_def rec op_modify_def op_return_def
          elim!: try_success)
  qed
qed

lemma open_runtime_index:
  assumes "open_runtime config entropy r = (Inr oo, r')"
  shows "index_ok r'"
proof -
  obtain r1 report r2 r3 reconciled r4 epoch r5 revoked reclassified r6 where
    load: "rt_load r1 = (Inr report, r2)" and adopt: "adopt_state r2 = (Inr (), r3)"
    and rec: "reconcile_on_open r3 = (Inr reconciled, r4)"
    and adv: "advance_epoch r4 = (Inr epoch, r5)"
    and rev: "revoke_previous_epoch epoch r5 = (Inr (revoked, reclassified), r6)"
    and pend: "op_for (recover_pending epoch) (pending_recoveries (rt_state r6))
      (r6\<lparr>rt_open := True\<rparr>) = (Inr (), r')"
    using assms
    by (auto simp: open_runtime_def op_read_def op_modify_def op_return_def op_fail_def Let_def
        elim!: try_success split: if_splits prod.splits)
  have ok2: "state_ok (rt_state r2)" by (rule rt_load_success [OF load])
  have ok3: "state_ok (rt_state r3)" by (rule adopt_state_success(1) [OF adopt ok2])
  have "index_ok r3"
    using adopt ok3
    by (auto simp: adopt_state_def op_modify_def elim!: try_success intro!: rebuild_index_ok)
  then have "index_ok r4" by (rule reconcile_on_open_index [OF rec ok3])
  then have "index_ok (upd_state (\<lambda>s. s\<lparr>ds_epoch := gen_next (ds_epoch s)\<rparr>) r4)"
    by (rule index_ok_frame) simp_all
  then have "index_ok r5"
    using adv index_ok_quiet [OF quiet_others(1)]
    by (auto simp: advance_epoch_def op_modify_def op_read_def op_return_def elim!: try_success)
      (metis snd_conv)
  then have "index_ok r6" using rely_rel [OF index.revoke_writes [of epoch r5]] rev by simp
  then have "index_ok (r6\<lparr>rt_open := True\<rparr>)" by (rule index_ok_frame) simp_all
  then show ?thesis
    using rely_rel [OF index.pending_writes [of epoch "pending_recoveries (rt_state r6)" "r6\<lparr>rt_open := True\<rparr>"]]
      pend by simp
qed

end
