(* ===== verification/Runtime_Behaviour.thy ===== *)
theory Runtime_Behaviour
  imports Indexes
begin

text \<open>
  The functional behaviour of single operations: what a success establishes in the durable
  state, and what a repeated or late call does.
\<close>

section \<open>Logical commits\<close>

text \<open>A successful staging: the four records are in the tables.\<close>

lemma stage_commit_success:
  assumes "stage_commit e a rq ev flush r = (Inr g, r')"
  obtains q where "g = staged_group (rt_state r) e a rq ev"
    "rt_state r' = apply_group g ((rt_state r)\<lparr>ds_sequence := q\<rparr>)"
    "find_commit (com_id (grp_commit g)) (rt_state r) = None"
    "rt_open r' = rt_open r" "rt_shutting_down r' = rt_shutting_down r"
    "rt_request_cache r' = rt_request_cache r"
  using assms
  by (auto simp: stage_commit_def op_read_def op_fail_def op_return_def op_modify_def Let_def
      rt_append_def install_group_def index_action_def apply_group_def
      elim!: try_success split: if_splits prod.splits sum.splits)

lemma group_lookups:
  "find_commit (com_id (grp_commit g)) (apply_group g s) = Some (grp_commit g)"
  "find_progress (prog_id (grp_progress g)) (apply_group g s) = Some (grp_progress g)"
  "find_action (act_id (grp_action g)) (act_generation (grp_action g)) (apply_group g s) =
     Some (grp_action g)"
  "find_execution (exec_id (grp_execution g)) (apply_group g s) = Some (grp_execution g)"
  by (simp_all add: apply_group_simps action_key_def)

lemma remember_frame:
  "rt_open (remember_request i c r) = rt_open r"
  "rt_shutting_down (remember_request i c r) = rt_shutting_down r"
  by (simp_all add: remember_request_def split: prod.split)

lemma check_open_success: "check_open r = (Inr u, r') \<longleftrightarrow> rt_open r \<and> \<not> rt_shutting_down r \<and> r' = r"
  by (auto simp: check_open_def op_read_def op_fail_def op_return_def)

lemma check_epoch_success:
  "check_epoch e r = (Inr u, r') \<longleftrightarrow> e = ds_epoch (rt_state r) \<and> r' = r"
  by (auto simp: check_epoch_def op_read_def op_guard_def op_fail_def op_return_def)

lemma try_check_epoch:
  "pef_try (check_epoch e) f r =
     (if e = ds_epoch (rt_state r) then f () r else (Inl StaleEpoch, r))"
  by (simp add: pef_try_def check_epoch_def op_read_def op_guard_def op_return_def op_fail_def)

lemma find_action_key: "find_action i g s = Some a \<Longrightarrow> act_id a = i \<and> act_generation a = g"
  by (auto simp: find_action_def action_key_def dest: tbl_find_Some)

lemma find_commit_id: "find_commit i s = Some c \<Longrightarrow> com_id c = i"
  by (auto simp: find_commit_def dest: tbl_find_Some)

lemma validate_token_success:
  assumes "validate_token t r = (Inr (e, l), r')"
  shows "r' = r" "token_refusal t (rt_state r) = None" "tok_epoch t = ds_epoch (rt_state r)"
    "find_execution (tok_execution t) (rt_state r) = Some e" "t = authority_token (rt_state r) e"
proof -
  have none: "token_refusal t (rt_state r) = None"
    and el: "e = the (find_execution (tok_execution t) (rt_state r))" "r' = r"
    using assms by (auto simp: validate_token_def op_read_def op_fail_def op_return_def
        split: option.splits)
  from token_acceptedD [OF none] obtain x where
    "find_execution (tok_execution t) (rt_state r) = Some x" "t = authority_token (rt_state r) x"
    by blast
  then show "r' = r" "token_refusal t (rt_state r) = None" "tok_epoch t = ds_epoch (rt_state r)"
    "find_execution (tok_execution t) (rt_state r) = Some e" "t = authority_token (rt_state r) e"
    using none el by (simp_all add: authority_token_def)
qed

lemma try_validate:
  assumes "pef_try (validate_token t) (\<lambda>(e, l). f e l) r = (Inr b, r')"
  obtains e l where "validate_token t r = (Inr (e, l), r)" "f e l r = (Inr b, r')"
proof -
  from assms obtain x r1 where x: "validate_token t r = (Inr x, r1)" "(case x of (e, l) \<Rightarrow> f e l) r1 = (Inr b, r')"
    by (rule try_success)
  obtain e l where el: "x = (e, l)" by (cases x)
  have "r1 = r" using x(1) el by (auto dest: validate_token_success)
  then show ?thesis using x el by (intro that [of e l]) simp_all
qed

text \<open>A completion that is not a duplicate made the commit.\<close>

lemma complete_fresh_success:
  assumes "complete_fresh request existing e r = (Inr res, r')" "\<not> cres_duplicate res"
  obtains g r1 where "complete_refusal e existing request = None"
    "stage_commit e (the existing) (car_request request) (car_evidence request)
       (flush_for (policy_of e r)) r = (Inr g, r1)"
    "rt_state r' = rt_state r1" "rt_open r' = rt_open r1"
    "rt_shutting_down r' = rt_shutting_down r1"
    "cres_commit res = com_id (grp_commit g)" "cres_progress res = prog_id (grp_progress g)"
    "cres_progress_generation res = com_progress_generation (grp_commit g)"
    "cres_ordinal res = act_sequence (grp_action g)"
proof -
  have none: "lookup_request (car_request request) r = None"
    using assms by (auto simp: complete_fresh_def op_read_def op_return_def split: option.splits)
  have ref: "complete_refusal e existing request = None"
    using assms none by (auto simp: complete_fresh_def op_read_def op_fail_def split: option.splits)
  obtain g r1 where g: "stage_commit e (the existing) (car_request request) (car_evidence request)
       (flush_for (policy_of e r)) r = (Inr g, r1)"
    and rest: "r' = remember_request (car_request request)
        \<lparr>co_code = Ok, co_a = com_id (grp_commit g), co_b = com_progress_generation (grp_commit g)\<rparr> r1"
      "cres_commit res = com_id (grp_commit g)" "cres_progress res = prog_id (grp_progress g)"
      "cres_progress_generation res = com_progress_generation (grp_commit g)"
      "cres_ordinal res = act_sequence (grp_action g)"
    using assms(1) none ref
    by (auto simp: complete_fresh_def op_read_def op_return_def Let_def remember_def op_modify_def
        elim!: try_success)
  show ?thesis by (rule that [OF ref g]) (simp_all add: rest remember_frame)
qed

text \<open>The shape of a completion by cases on what it found.\<close>

lemma complete_action_cases:
  assumes run: "complete_action request r = (Inr res, r')"
  defines "existing \<equiv> find_action (car_action request) (car_action_generation request) (rt_state r)"
  obtains
    (sealed) a c where "existing = Some a" "act_status a = Committed"
      "find_commit (act_commit a) (rt_state r) = Some c" "r' = r" "cres_duplicate res"
  | (fresh) e l where "committed_already existing (rt_state r) = None"
      "validate_token (car_token request) r = (Inr (e, l), r)"
      "complete_fresh request existing e r = (Inr res, r')"
proof -
  let ?go = "pef_try (validate_token (car_token request)) (\<lambda>(execution, lease).
      complete_fresh request existing execution)"
  have go: thesis if "?go r = (Inr res, r')" "committed_already existing (rt_state r) = None"
    using that(1) by (rule try_validate) (rule fresh [OF that(2)])
  have main: "op_read (\<lambda>r. case existing of
      Some a \<Rightarrow> if act_status a = Committed then
        pef_try (check_epoch (tok_epoch (car_token request))) (\<lambda>_.
        case committed_already existing (rt_state r) of
          Some commit \<Rightarrow> op_return \<lparr>cres_commit = com_id commit, cres_progress = com_progress commit,
            cres_progress_generation = com_progress_generation commit,
            cres_ordinal = act_sequence a, cres_duplicate = True, cres_checkpoint_due = False\<rparr>
        | None \<Rightarrow> ?go) else ?go
    | None \<Rightarrow> ?go) r = (Inr res, r')"
    using run unfolding complete_action_def existing_def
    by (auto simp: check_open_success op_read_def Let_def elim!: try_success)
  show thesis
  proof (cases existing)
    case None
    then show ?thesis using main go by (simp add: op_read_def committed_already_def)
  next
    case (Some a)
    show ?thesis
    proof (cases "act_status a = Committed")
      case False
      then show ?thesis using main go Some by (simp add: op_read_def committed_already_def)
    next
      case True
      show ?thesis
      proof (cases "committed_already existing (rt_state r)")
        case None
        have "?go r = (Inr res, r')"
          using main Some True None
          by (simp add: op_read_def try_check_epoch split: if_splits)
        then show ?thesis using None by (rule go)
      next
        case (Some c)
        then show ?thesis
          using main \<open>existing = Some a\<close> True
          by (intro sealed [of a c])
            (auto simp: op_read_def check_epoch_success op_return_def committed_already_def
              elim!: try_success)
      qed
    qed
  qed
qed

text \<open>What a commit leaves in the state, seen by the next completion of the same action.\<close>

lemma complete_commits:
  assumes run: "complete_action request r = (Inr res, r')" and new: "\<not> cres_duplicate res"
  obtains e a c a' where
    "find_execution (tok_execution (car_token request)) (rt_state r) = Some e"
    "find_action (car_action request) (car_action_generation request) (rt_state r) = Some a"
    "complete_refusal e (Some a) request = None"
    "find_commit (cres_commit res) (rt_state r) = None"
    "find_commit (cres_commit res) (rt_state r') = Some c" "com_id c = cres_commit res"
    "com_progress c = cres_progress res" "com_progress_generation c = cres_progress_generation res"
    "com_execution c = exec_id e" "com_action c = car_action request"
    "com_progress_generation c = exec_progress_generation e + 1"
    "find_action (car_action request) (car_action_generation request) (rt_state r') = Some a'"
    "act_status a' = Committed" "act_commit a' = cres_commit res" "act_sequence a' = cres_ordinal res"
    "act_sequence a' = act_sequence a"
    "find_execution (exec_id e) (rt_state r') =
       Some (grp_execution (staged_group (rt_state r) e a (car_request request) (car_evidence request)))"
    "rt_open r'" "\<not> rt_shutting_down r'" "ds_epoch (rt_state r') = ds_epoch (rt_state r)"
    "tok_epoch (car_token request) = ds_epoch (rt_state r)"
proof -
  let ?existing = "find_action (car_action request) (car_action_generation request) (rt_state r)"
  have open': "rt_open r" "\<not> rt_shutting_down r"
    using run by (auto simp: complete_action_def check_open_success elim!: try_success)
  from run obtain e l where tok: "validate_token (car_token request) r = (Inr (e, l), r)"
    and fresh: "complete_fresh request ?existing e r = (Inr res, r')"
    using new by (cases rule: complete_action_cases) auto
  from complete_fresh_success [OF fresh new] obtain g r1 where
    ref: "complete_refusal e ?existing request = None"
    and stage: "stage_commit e (the ?existing) (car_request request) (car_evidence request)
       (flush_for (policy_of e r)) r = (Inr g, r1)"
    and r': "rt_state r' = rt_state r1" "rt_open r' = rt_open r1"
    "rt_shutting_down r' = rt_shutting_down r1"
    and res: "cres_commit res = com_id (grp_commit g)" "cres_progress res = prog_id (grp_progress g)"
    "cres_progress_generation res = com_progress_generation (grp_commit g)"
    "cres_ordinal res = act_sequence (grp_action g)" by metis
  obtain a where a: "?existing = Some a"
    using ref by (auto simp: complete_refusal_def split: if_splits option.splits)
  from stage_commit_success [OF stage] obtain q where
    g: "g = staged_group (rt_state r) e a (car_request request) (car_evidence request)"
    and r1: "rt_state r1 = apply_group g ((rt_state r)\<lparr>ds_sequence := q\<rparr>)"
    and none: "find_commit (com_id (grp_commit g)) (rt_state r) = None"
    and flags: "rt_open r1 = rt_open r" "rt_shutting_down r1 = rt_shutting_down r"
    using a by (metis option.sel)
  have key: "act_id a = car_action request" "act_generation a = car_action_generation request"
    using find_action_key [OF a] by simp_all
  have ga: "grp_action g = a\<lparr>act_status := Committed, act_commit := com_id (grp_commit g),
      act_receipt := car_evidence request\<rparr>" "com_progress_generation (grp_commit g) =
      exec_progress_generation e + 1"
    by (simp_all add: g staged_group_def staged_commit_def Let_def gen_next_def)
  show ?thesis
  proof (rule that [of e a "grp_commit g" "grp_action g"])
    show "find_action (car_action request) (car_action_generation request) (rt_state r') =
        Some (grp_action g)"
      using group_lookups(3) [of g "(rt_state r)\<lparr>ds_sequence := q\<rparr>"] ga key by (simp add: r' r1)
    show "find_execution (exec_id e) (rt_state r') =
        Some (grp_execution (staged_group (rt_state r) e a (car_request request) (car_evidence request)))"
      by (simp add: r' r1 g)
    show "ds_epoch (rt_state r') = ds_epoch (rt_state r)" by (simp add: r' r1 apply_group_def)
  qed (use validate_token_success [OF tok] a ref none res ga open' in
      \<open>simp_all add: r' r1 flags group_lookups g key\<close>)
qed

text \<open>Repeating a completion that committed answers with the same commit.\<close>

lemma complete_again:
  assumes run: "complete_action request r = (Inr res, r')" and new: "\<not> cres_duplicate res"
  shows "complete_action request r' =
    (Inr (res\<lparr>cres_duplicate := True, cres_checkpoint_due := False\<rparr>), r')"
proof -
  obtain c a' where c: "find_commit (cres_commit res) (rt_state r') = Some c"
    "com_id c = cres_commit res" "com_progress c = cres_progress res"
    "com_progress_generation c = cres_progress_generation res"
    and a': "find_action (car_action request) (car_action_generation request) (rt_state r') = Some a'"
    "act_status a' = Committed" "act_commit a' = cres_commit res" "act_sequence a' = cres_ordinal res"
    and flags: "rt_open r'" "\<not> rt_shutting_down r'"
    "tok_epoch (car_token request) = ds_epoch (rt_state r')"
    using complete_commits [OF run new] by metis
  show ?thesis
    using c a' flags
    by (cases res) (simp add: complete_action_def pef_try_def check_open_def check_epoch_def
        op_read_def op_guard_def op_return_def committed_already_def)
qed

section \<open>Request identity\<close>

lemma remember_lookup:
  "id_valid i \<Longrightarrow> cfg_request_cache_size (rt_config r) \<noteq> 0 \<Longrightarrow>
   rt_request_cache (remember_request i c r) i = Some c"
  by (simp add: remember_request_def split: prod.split)

lemma check_caller_success:
  "check_caller c r = (Inr u, r') \<longleftrightarrow>
   rt_open r \<and> \<not> rt_shutting_down r \<and> caller_epoch c = ds_epoch (rt_state r) \<and> r' = r"
  by (auto simp: check_caller_def pef_try_def check_open_success check_epoch_success
      check_open_def op_read_def op_fail_def op_return_def check_epoch_def op_guard_def)

text \<open>Success of an append: only the store and the sequence change.\<close>

lemma append_success:
  assumes "rt_append e flush r = (Inr u, r')"
  obtains q st where "r' = r\<lparr>rt_store := st, rt_state := (rt_state r)\<lparr>ds_sequence := q\<rparr>\<rparr>"
  using assms by (auto simp: rt_append_def split: prod.splits sum.splits)

text \<open>The parts of the runtime that no durable write touches.\<close>

definition same_control :: "Runtime \<Rightarrow> Runtime \<Rightarrow> bool" where
  "same_control r r' \<longleftrightarrow> rt_open r' = rt_open r \<and> rt_shutting_down r' = rt_shutting_down r \<and>
     rt_config r' = rt_config r \<and> rt_request_cache r' = rt_request_cache r"

lemma put_success:
  "rt_put_policy p flush r = (Inr u, r') \<Longrightarrow>
     same_control r r' \<and> (\<exists>q. rt_state r' = moved r (put_policy p) q)"
  "rt_put_execution e flush r = (Inr u, r') \<Longrightarrow>
     same_control r r' \<and> (\<exists>q. rt_state r' = moved r (put_execution e) q)"
  "rt_put_store_meta flush r = (Inr u, r') \<Longrightarrow>
     same_control r r' \<and> (\<exists>q. rt_state r' = (rt_state r)\<lparr>ds_sequence := q\<rparr>)"
  by (auto simp: rt_put_policy_def rt_put_execution_def rt_put_store_meta_def op_modify_def
      op_read_def same_control_def elim!: try_success append_success) (rule exI, rule refl)+

lemma create_success:
  assumes run: "create_execution caller request policy r = (Inr res, r')"
    and none: "rt_request_cache r request = None"
  defines "i \<equiv> derive_execution_id (ds_store (rt_state r)) (ds_next_execution_sequence (rt_state r))"
  defines "p \<equiv> policy\<lparr>pol_id := derive_policy_id i 1, pol_generation := 1\<rparr>"
  defines "e \<equiv> fresh_execution i p (ds_epoch (rt_state r)) (ds_next_execution_sequence (rt_state r))"
  obtains r1 where "res = \<lparr>cer_execution = i, cer_generation = 1, cer_policy = pol_id p,
      cer_policy_generation = 1, cer_existing = False\<rparr>"
    "find_execution i (rt_state r1) = Some e" "ds_epoch (rt_state r1) = ds_epoch (rt_state r)"
    "same_control r r1"
    "r' = remember_request request \<lparr>co_code = Ok, co_a = i, co_b = 1\<rparr> r1"
proof -
  have flags: "rt_open r" "\<not> rt_shutting_down r" "caller_epoch caller = ds_epoch (rt_state r)"
    using run by (auto simp: create_execution_def check_caller_success elim!: try_success)
  have gates: "\<not> length (ds_executions (rt_state r)) \<ge> cfg_max_executions (rt_config r)"
    "validate_policy p = None"
    using run none flags unfolding p_def i_def
    by (auto simp: create_execution_def check_caller_success lookup_request_def op_read_def
        op_fail_def Let_def elim!: try_success split: if_splits)
  let ?r0 = "upd_state (\<lambda>s. s\<lparr>ds_next_execution_sequence := ds_next_execution_sequence (rt_state r) + 1\<rparr>) r"
  obtain r1 r2 r3 where meta: "rt_put_store_meta True ?r0 = (Inr (), r1)"
    and pol: "rt_put_policy p True r1 = (Inr (), r2)"
    and exe: "rt_put_execution (fresh_execution i p (ds_epoch (rt_state r1))
        (ds_next_execution_sequence (rt_state r))) True r2 = (Inr (), r3)"
    and res: "res = \<lparr>cer_execution = i, cer_generation = 1, cer_policy = pol_id p,
      cer_policy_generation = 1, cer_existing = False\<rparr>"
    and r': "r' = remember_request request \<lparr>co_code = Ok, co_a = i, co_b = 1\<rparr> r3"
    using run none flags gates unfolding p_def i_def
    by (auto simp: create_execution_def check_caller_success lookup_request_def op_read_def
        op_return_def op_modify_def Let_def remember_def fresh_execution_def elim!: try_success)
  have e1: "ds_epoch (rt_state r1) = ds_epoch (rt_state r)" "same_control r r1"
    using put_success(3) [OF meta] by (auto simp: same_control_def)
  show ?thesis
  proof (rule that [OF res _ _ _ r'])
    show "find_execution i (rt_state r3) = Some e" "ds_epoch (rt_state r3) = ds_epoch (rt_state r)"
      using put_success(2) [OF exe] put_success(1) [OF pol] e1(1) by (auto simp: e_def)
    show "same_control r r3"
      using put_success(2) [OF exe] put_success(1) [OF pol] e1(2) by (auto simp: same_control_def)
  qed
qed

text \<open>A creation repeated under the same request identity returns the same execution.\<close>

lemma create_again:
  assumes run: "create_execution caller request policy r = (Inr res, r')"
    and new: "rt_request_cache r request = None" and id: "id_valid request"
    and size: "cfg_request_cache_size (rt_config r) \<noteq> 0"
  shows "create_execution caller request policy' r' = (Inr (res\<lparr>cer_existing := True\<rparr>), r')"
proof -
  let ?i = "derive_execution_id (ds_store (rt_state r)) (ds_next_execution_sequence (rt_state r))"
  let ?p = "policy\<lparr>pol_id := derive_policy_id ?i 1, pol_generation := 1\<rparr>"
  let ?e = "fresh_execution ?i ?p (ds_epoch (rt_state r)) (ds_next_execution_sequence (rt_state r))"
  obtain r1 where res: "res = \<lparr>cer_execution = ?i, cer_generation = 1, cer_policy = pol_id ?p,
      cer_policy_generation = 1, cer_existing = False\<rparr>"
    and e: "find_execution ?i (rt_state r1) = Some ?e"
    and r1: "ds_epoch (rt_state r1) = ds_epoch (rt_state r)" "same_control r r1"
    and r': "r' = remember_request request \<lparr>co_code = Ok, co_a = ?i, co_b = 1\<rparr> r1"
    by (rule create_success [OF run new])
  have sel: "exec_policy ?e = pol_id ?p" "exec_policy_generation ?e = 1"
    by (simp_all add: fresh_execution_def)
  have flags: "rt_open r" "\<not> rt_shutting_down r" "caller_epoch caller = ds_epoch (rt_state r)"
    using run by (auto simp: create_execution_def check_caller_success elim!: try_success)
  have hit: "lookup_request request r' = Some \<lparr>co_code = Ok, co_a = ?i, co_b = 1\<rparr>"
    using remember_lookup [OF id] r1(2) size by (simp add: lookup_request_def r' same_control_def)
  have "check_caller caller r' = (Inr (), r')"
    using flags r1 by (simp add: check_caller_success r' remember_frame same_control_def)
  moreover have "rt_state r' = rt_state r1" by (simp add: r')
  ultimately show ?thesis
    using e sel by (simp add: create_execution_def pef_try_def op_read_def op_return_def hit res)
qed

section \<open>Lifecycle transitions\<close>

text \<open>A persisted transition: the new lifecycle, and no lease where authority is dropped.\<close>

lemma rely_persist:
  assumes e: "find_execution (exec_id e) (rt_state r) = Some e"
    and Q: "\<And>r' e'. find_execution (exec_id e) (rt_state r') = Some e' \<Longrightarrow>
      is_legal_transition (exec_lifecycle e) target \<Longrightarrow> exec_lifecycle e' = target \<Longrightarrow>
      (drops_authority target \<Longrightarrow> \<not> has_lease e') \<Longrightarrow> Q () r'"
  shows "rely refines (persist_transition e target flush) Q r"
proof -
  let ?n = "if drops_authority target \<and> has_lease (e\<lparr>exec_lifecycle := target\<rparr>)
        then drop_binding (e\<lparr>exec_lifecycle := target\<rparr>) else e\<lparr>exec_lifecycle := target\<rparr>"
  have put: "rely refines (op_read (\<lambda>r'. rt_put_execution
      (?n\<lparr>exec_epoch := ds_epoch (rt_state r')\<rparr>) flush)) Q r'"
    if legal: "is_legal_transition (exec_lifecycle e) target"
      and r': "\<And>i. find_execution i (rt_state r') = find_execution i (rt_state r)" for r'
  proof (rule rt.rely_read, rule rely_put_execution)
    show "updates (rt_state r') (?n\<lparr>exec_epoch := ds_epoch (rt_state r')\<rparr>)"
      by (rule updates_found [OF _ persist_step [OF legal]]) (use e r' in simp)
    show "Q () r''" if "rt_state r'' = moved r' (put_execution (?n\<lparr>exec_epoch := ds_epoch (rt_state r')\<rparr>)) q"
      for r'' q
      by (rule Q [of _ "?n\<lparr>exec_epoch := ds_epoch (rt_state r')\<rparr>"])
        (simp_all add: that legal, simp_all add: drop_binding_def)
  qed
  show ?thesis
    unfolding persist_transition_def Let_def
    apply (rule rt.rely_try, rule rely_require_transition, rule rt.rely_try, rule rt.rely_if)
     apply (rule rely_lease_ops, rule put, assumption, simp)
    apply (rule rt.rely_return, rule put, assumption, simp)
    done
qed

lemma rely_transition_op:
  "rely refines (transition_op caller request i refused target)
     (\<lambda>_ r'. rt_request_cache r request = None \<longrightarrow>
        (\<exists>e e'. find_execution i (rt_state r) = Some e \<and> find_execution i (rt_state r') = Some e' \<and>
          \<not> refused e (rt_state r) \<and> is_legal_transition (exec_lifecycle e) target \<and>
          exec_lifecycle e' = target \<and> (drops_authority target \<longrightarrow> \<not> has_lease e'))) r"
  unfolding transition_op_def
  by (intro rt.rely_flow rely_checks rely_persist) (auto simp: lookup_request_def)

section \<open>Ambiguity\<close>

lemma classify_receipt:
  "plan_commit_from_receipt (classify_recovery input) \<Longrightarrow>
   plan_decision (classify_recovery input) = ResumeFromCurrent"
  by (auto simp: classify_recovery_def Let_def classify_idle_safe empty_plan_def
      dest: in_flight_receipt split: option.splits if_splits)

lemma ambiguity_record_open:
  "ambiguity_is_open (amb_state (ambiguity_record e a plan s))"
  by (auto simp: ambiguity_record_def Let_def open_ambiguity_def ambiguity_is_open_def
      split: option.splits)

text \<open>
  Recovery that cannot decide: the ambiguity is durable and open, the action is sealed as
  ambiguous, and the execution is blocked from the action's ordinal on.
\<close>

definition ambiguity_recorded :: "u64 \<Rightarrow> ActionRecord \<Rightarrow> ExecutionPolicy option \<Rightarrow> DurableState \<Rightarrow> bool" where
  "ambiguity_recorded i a policy s \<longleftrightarrow>
     find_action (act_id a) (act_generation a) s = Some (a\<lparr>act_status := Ambiguous\<rparr>) \<and>
     (\<exists>e m. find_execution i s = Some e \<and> find_ambiguity (exec_ambiguity e) s = Some m \<and>
        ambiguity_is_open (amb_state m) \<and>
        (\<not> policy_test (\<lambda>p. \<not> pol_ambiguity_blocks_later_progress p) policy \<longrightarrow>
           exec_blocked e \<and> exec_blocked_above_ordinal e = act_sequence a - 1))"

lemma blocked_sel:
  "exec_id (blocked_execution e m a policy) = exec_id e"
  "exec_ambiguity (blocked_execution e m a policy) = amb_id m"
  "exec_lifecycle (blocked_execution e m a policy) = exec_lifecycle e"
  "\<not> policy_test (\<lambda>p. \<not> pol_ambiguity_blocks_later_progress p) policy \<Longrightarrow>
   exec_blocked (blocked_execution e m a policy) \<and>
   exec_blocked_above_ordinal (blocked_execution e m a policy) = act_sequence a - 1"
  by (auto simp: blocked_execution_def Let_def policy_test_def split: option.splits)

lemma rely_record_some:
  assumes "opens_ambiguity (plan_decision plan)"
    and "\<And>r' q q' m. m = ambiguity_record e a plan (rt_state r) \<Longrightarrow>
      rt_state r' = put_action (a\<lparr>act_status := Ambiguous\<rparr>)
        ((put_ambiguity m ((rt_state r)\<lparr>ds_sequence := q\<rparr>))\<lparr>ds_sequence := q'\<rparr>) \<Longrightarrow>
      Q (blocked_execution e m a policy) r'"
  shows "rely refines (record_ambiguity e (Some a) plan policy flush) Q r"
  unfolding record_ambiguity_def
  by (intro rt.rely_flow rely_put_ambiguity rely_put_action) (use assms in simp_all)

lemma commit_receipt_none:
  "\<not> plan_commit_from_receipt plan \<Longrightarrow>
   commit_receipt e n (Some a) plan request flush = op_return (n, None)"
  by (simp add: commit_receipt_def)

text \<open>The tables after the recovery's last two writes still show the ambiguity.\<close>

lemma ambiguity_recorded_final:
  assumes s: "s = put_action (a\<lparr>act_status := Ambiguous\<rparr>)
        ((put_ambiguity m s0)\<lparr>ds_sequence := q'\<rparr>)"
    and t: "t = put_execution e' ((put_recovery v (s\<lparr>ds_sequence := x\<rparr>))\<lparr>ds_sequence := y\<rparr>)"
    and open': "ambiguity_is_open (amb_state m)"
    and e': "exec_id e' = i" "exec_ambiguity e' = amb_id m"
      "\<not> policy_test (\<lambda>p. \<not> pol_ambiguity_blocks_later_progress p) policy \<Longrightarrow>
       exec_blocked e' \<and> exec_blocked_above_ordinal e' = act_sequence a - 1"
  shows "ambiguity_recorded i a policy t"
proof -
  have "find_action (act_id a) (act_generation a) t = Some (a\<lparr>act_status := Ambiguous\<rparr>)"
    "find_ambiguity (amb_id m) t = Some m" "find_execution i t = Some e'"
    using e'(1)
    by (simp_all add: s t find_action_def find_ambiguity_def action_key_def ds_put_defs
        find_execution_def)
  then show ?thesis using open' e' by (auto simp: ambiguity_recorded_def)
qed

lemma recover_found_ambiguous:
  fixes e r
  defines "plan \<equiv> classify_recovery (recovery_input e r)"
  assumes e: "find_execution (exec_id e) (rt_state r) = Some e"
    and plan: "opens_ambiguity (plan_decision plan)"
    and a: "id_valid (plan_action plan)"
      "find_action (plan_action plan) (plan_action_generation plan) (rt_state r) = Some a"
  shows "rely refines (recover_found request e)
    (\<lambda>_ r'. ambiguity_recorded (exec_id e) a (policy_of e r) (rt_state r')) r"
proof -
  have noreceipt: "\<not> plan_commit_from_receipt plan"
    using classify_receipt [of "recovery_input e r"] plan by (auto simp: opens_ambiguity_def plan_def)
  have noauto: "\<not> recovery_allows_automatic_continue (plan_decision plan)"
    "plan_decision plan \<noteq> ResumeFromCheckpoint"
    using plan by (auto simp: opens_ambiguity_def)
  have step: "exec_step e ((blocked_execution e m a policy)\<lparr>exec_recovery := x,
      exec_recovery_generation := y, exec_epoch := z\<rparr>)" for m policy x y z
    by (simp add: blocked_execution_def exec_step_def unleased_def Let_def split: option.split)
  show ?thesis
    unfolding recover_found_def
    apply (rule rt.rely_read)
    apply (simp add: plan_def [symmetric] a noauto Let_def
        del: recovery_allows_automatic_continue.simps)
    apply (rule rt.rely_try, rule rely_record_some [OF plan])
    apply (simp add: commit_receipt_none noreceipt)
    apply (intro rt.rely_flow rely_put_recovery rely_put_execution rely_remember)
     apply (clarsimp, rule updates_found [OF e step])
    apply (clarsimp, rule ambiguity_recorded_final [OF refl refl ambiguity_record_open])
      apply (simp_all add: blocked_sel)
    done
qed

text \<open>A blocked execution admits no action at or above the blocked ordinal.\<close>

lemma begin_ordinal_ge:
  assumes "exec_action_frontier e \<noteq> - 1"
  shows "exec_action_frontier e \<le> begin_ordinal e latest"
proof -
  have "1 + exec_action_frontier e \<noteq> 0"
    using assms by (metis add.commute eq_neg_iff_add_eq_0)
  then have "exec_action_frontier e < exec_action_frontier e + 1"
    using unatSuc [of "exec_action_frontier e"] by (simp add: word_less_nat_alt add.commute)
  then show ?thesis by (auto simp: begin_ordinal_def split: option.split)
qed

lemma begin_blocked:
  assumes e: "find_execution (tok_execution (bar_token request)) (rt_state r) = Some e"
    and blocked: "exec_blocked e" "exec_blocked_above_ordinal e < exec_action_frontier e"
    and room: "exec_action_frontier e \<noteq> - 1" and new: "rt_request_cache r (bar_request request) = None"
  shows "\<exists>c. begin_action request r = (Inl c, r)"
proof -
  have "begin_refusal e (policy_of e r) (retryable_frontier e r) request \<noteq> None"
    using begin_ordinal_ge [OF room, of "retryable_frontier e r"] blocked
    by (auto simp: begin_refusal_def)
  then obtain c where c: "begin_refusal e (policy_of e r) (retryable_frontier e r) request = Some c"
    by blast
  show ?thesis
    using e new c
    by (cases "token_refusal (bar_token request) (rt_state r)")
      (simp_all add: begin_action_def check_open_def validate_token_def pef_try_def op_read_def
        op_fail_def op_return_def lookup_request_def Let_def)
qed

section \<open>Resume\<close>

text \<open>
  A resume that is not a repeated request makes the execution run under a continuation that
  is valid in the final state and is the only valid one.
\<close>

definition resumed :: "u64 \<Rightarrow> DurableState \<Rightarrow> bool" where
  "resumed i s \<longleftrightarrow>
     (\<exists>e c. find_execution i s = Some e \<and> exec_lifecycle e = Running \<and>
        find_continuation (exec_continuation e) s = Some c \<and> cont_state c = Valid \<and>
        cont_execution c = i \<and> cont_epoch c = ds_epoch s \<and>
        cont_resume_ordinal c = exec_action_frontier e \<and>
        cont_progress_generation c = exec_progress_generation e \<and>
        sole_valid i (cont_id c) (ds_continuations s))"

lemma resumedI:
  assumes "s = put_execution e (s1\<lparr>ds_sequence := q\<rparr>)" "s1 = put_continuation c s0"
    and "exec_id e = i" "exec_lifecycle e = Running" "exec_continuation e = cont_id c"
    "cont_state c = Valid" "cont_execution c = i" "cont_epoch c = ds_epoch s0"
    "cont_resume_ordinal c = exec_action_frontier e"
    "cont_progress_generation c = exec_progress_generation e"
    and "sole_valid i (cont_id c) (ds_continuations s0)"
  shows "resumed i s"
proof -
  have "find_execution i s = Some e" "find_continuation (cont_id c) s = Some c"
    "ds_epoch s = ds_epoch s0"
    using assms(1-3) by (simp_all add: find_continuation_def)
  moreover have "sole_valid i (cont_id c) (ds_continuations s)"
    using assms(1,2,11) set_tbl_upsert_subset [of cont_id c "ds_continuations s0"]
    by (auto simp: sole_valid_def)
  ultimately show ?thesis using assms(4-10) by (auto simp: resumed_def)
qed

lemma rely_resume:
  assumes ok: "state_ok (rt_state r)" and new: "rt_request_cache r request = None"
  shows "rely refines (resume request token observed revalidate)
    (\<lambda>_ r'. resumed (tok_execution token) (rt_state r')) r"
  unfolding resume_def
  apply (intro rt.rely_flow rely_checks rely_to_resuming rely_put_execution rely_retire_others
      rely_new_continuation)
  apply (simp_all add: ok new lookup_request_def)
    apply (erule updates_found, simp add: exec_step_def unleased_def)
    apply (metis resumable_evolves resume_refusal_resumable)
   apply (rule updates_put, simp add: exec_step_def unleased_def evolves_step running_legal)
  apply (rule resumedI [OF refl refl])
  apply (simp_all add: mint_continuation_def Let_def)
  done

lemma token_lease: "token_refusal token s = None \<Longrightarrow> find_execution (tok_execution token) s = Some e \<Longrightarrow>
   tok_lease token = exec_lease e"
  using token_acceptedD [of token s] by (auto simp: authority_token_def)

end
