(* ===== verification/Liveness.thy ===== *)
theory Liveness
  imports Runtime_Behaviour
begin

text \<open>
  Progress: on a store whose journal is open and whose operating system reports no failure,
  an operation that is not refused returns a result. \<open>succeeds m Q r\<close> says that \<open>m\<close> returns
  from \<open>r\<close> with a value and a runtime that satisfy \<open>Q\<close>; its rules follow the code.
\<close>

section \<open>The calculus\<close>

definition succeeds :: "(Code, 's, 'a) oper \<Rightarrow> ('a \<Rightarrow> 's \<Rightarrow> bool) \<Rightarrow> 's \<Rightarrow> bool" where
  "succeeds m Q s \<longleftrightarrow> (\<exists>a s'. m s = (Inr a, s') \<and> Q a s')"

lemma succeeds_return: "Q a s \<Longrightarrow> succeeds (op_return a) Q s"
  by (simp add: succeeds_def op_return_def)

lemma succeeds_read: "succeeds (f s) Q s \<Longrightarrow> succeeds (op_read f) Q s"
  by (simp add: succeeds_def op_read_def)

lemma succeeds_modify: "Q () (f s) \<Longrightarrow> succeeds (op_modify f) Q s"
  by (simp add: succeeds_def op_modify_def)

lemma succeeds_try: "succeeds m (\<lambda>a s'. succeeds (f a) Q s') s \<Longrightarrow> succeeds (pef_try m f) Q s"
  by (auto simp: succeeds_def pef_try_def)

lemma succeeds_guard: "b \<Longrightarrow> Q () s \<Longrightarrow> succeeds (op_guard b e) Q s"
  by (simp add: succeeds_def op_guard_def op_return_def)

lemma succeeds_weaken: "succeeds m P s \<Longrightarrow> (\<And>a s'. P a s' \<Longrightarrow> Q a s') \<Longrightarrow> succeeds m Q s"
  by (auto simp: succeeds_def)

lemmas succeeds_flow = succeeds_return succeeds_read succeeds_modify succeeds_try succeeds_guard

lemma succeeds_for:
  assumes "I xs s" and "\<And>x xs s. I (x # xs) s \<Longrightarrow> succeeds (f x) (\<lambda>_ s'. I xs s') s"
    and "\<And>s'. I [] s' \<Longrightarrow> Q () s'"
  shows "succeeds (op_for f xs) Q s"
  using assms(1)
proof (induction xs arbitrary: s)
  case Nil
  then show ?case by (simp add: succeeds_return assms(3))
next
  case (Cons x xs)
  show ?case
    unfolding op_for.simps
    by (rule succeeds_try, rule succeeds_weaken [OF assms(2) [OF Cons.prems]]) (rule Cons.IH)
qed

section \<open>Writes on a store without faults\<close>

definition writable :: "Runtime \<Rightarrow> bool" where
  "writable r \<longleftrightarrow> (\<exists>js. holds (rt_store r) js) \<and> fs_io (rt_store r) = []"

abbreviation room :: "Runtime \<Rightarrow> nat" where
  "room r \<equiv> lim_max_journal_payload (fs_limits (rt_store r))"

text \<open>The runtime after a durable write: the tables have moved, the controls have not.\<close>

definition written :: "Runtime \<Rightarrow> (DurableState \<Rightarrow> DurableState) \<Rightarrow> Runtime \<Rightarrow> bool" where
  "written r g r' \<longleftrightarrow>
     writable r' \<and> room r' = room r \<and> same_control r r' \<and>
     (\<exists>q. rt_state r' = g ((rt_state r)\<lparr>ds_sequence := q\<rparr>))"

lemma append_succeeds:
  assumes "writable r" "length (entry_payload e) \<le> room r"
    and "\<And>r'. written r (\<lambda>s. s) r' \<Longrightarrow> Q () r'"
  shows "succeeds (rt_append e flush) Q r"
proof -
  obtain js where h: "holds (rt_store r) js" "fs_io (rt_store r) = []"
    using assms(1) by (auto simp: writable_def)
  obtain st where st: "store_append (entry_kind e) (entry_payload e) flush (rt_store r) =
      (Inr (fs_last_sequence (rt_store r) + 1), st)" "fs_io st = []"
    using store_append_no_fault [OF h assms(2)] by blast
  note succ = store_append_success [OF h(1) st(1)]
  let ?r' = "r\<lparr>rt_store := st, rt_state := (rt_state r)\<lparr>ds_sequence := fs_last_sequence (rt_store r) + 1\<rparr>\<rparr>"
  have "written r (\<lambda>s. s) ?r'"
    using st(2) succ by (auto simp: written_def writable_def same_control_def)
  then have "Q () ?r'" by (rule assms(3))
  then show ?thesis using st(1) by (simp add: succeeds_def rt_append_def)
qed

lemma put_succeeds:
  assumes "writable r" "length (entry_payload e) \<le> room r"
    and "\<And>r'. rt_state (f r') = g (rt_state r')" "\<And>r'. rt_store (f r') = rt_store r'"
      "\<And>r'. same_control r' (f r')"
    and "\<And>r'. written r g r' \<Longrightarrow> Q () r'"
  shows "succeeds (pef_try (rt_append e flush) (\<lambda>_. op_modify f)) Q r"
  by (rule succeeds_try, rule append_succeeds [OF assms(1,2)], rule succeeds_modify, rule assms(6))
    (use assms(3-5) in \<open>auto simp: written_def writable_def same_control_def\<close>)

lemma write_succeeds:
  assumes "writable r"
  shows "length (encode_ExecutionRecord e) \<le> room r \<Longrightarrow>
      (\<And>r'. written r (put_execution e) r' \<Longrightarrow> Q () r') \<Longrightarrow> succeeds (rt_put_execution e flush) Q r"
    "length (encode_LeaseRecord l) \<le> room r \<Longrightarrow>
      (\<And>r'. written r (put_lease l) r' \<Longrightarrow> Q () r') \<Longrightarrow> succeeds (rt_put_lease l flush) Q r"
    "length (encode_ActionRecord a) \<le> room r \<Longrightarrow>
      (\<And>r'. written r (put_action a) r' \<Longrightarrow> Q () r') \<Longrightarrow> succeeds (rt_put_action a flush) Q r"
    "length (encode_ExecutionPolicy p) \<le> room r \<Longrightarrow>
      (\<And>r'. written r (put_policy p) r' \<Longrightarrow> Q () r') \<Longrightarrow> succeeds (rt_put_policy p flush) Q r"
    "length (encode_AmbiguityRecord m) \<le> room r \<Longrightarrow>
      (\<And>r'. written r (put_ambiguity m) r' \<Longrightarrow> Q () r') \<Longrightarrow> succeeds (rt_put_ambiguity m flush) Q r"
    "length (encode_RecoveryRecord v) \<le> room r \<Longrightarrow>
      (\<And>r'. written r (put_recovery v) r' \<Longrightarrow> Q () r') \<Longrightarrow> succeeds (rt_put_recovery v flush) Q r"
    "length (encode_ContinuationRecord c) \<le> room r \<Longrightarrow>
      (\<And>r'. written r (put_continuation c) r' \<Longrightarrow> Q () r') \<Longrightarrow>
      succeeds (rt_put_continuation c flush) Q r"
  unfolding rt_put_execution_def rt_put_lease_def rt_put_action_def rt_put_policy_def
    rt_put_ambiguity_def rt_put_recovery_def rt_put_continuation_def
  subgoal by (rule put_succeeds [OF assms, where g = "put_execution e"]; simp add: same_control_def)
  subgoal by (rule put_succeeds [OF assms, where g = "put_lease l"]; simp add: same_control_def)
  subgoal by (rule put_succeeds [OF assms, where g = "put_action a"];
        simp add: same_control_def index_action_def)
  subgoal by (rule put_succeeds [OF assms, where g = "put_policy p"]; simp add: same_control_def)
  subgoal by (rule put_succeeds [OF assms, where g = "put_ambiguity m"]; simp add: same_control_def)
  subgoal by (rule put_succeeds [OF assms, where g = "put_recovery v"]; simp add: same_control_def)
  subgoal by (rule put_succeeds [OF assms, where g = "put_continuation c"]; simp add: same_control_def)
  done

lemma remember_succeeds:
  assumes "\<And>r'. rt_state r' = rt_state r \<Longrightarrow> rt_store r' = rt_store r \<Longrightarrow> Q () r'"
  shows "succeeds (remember i c a b) Q r"
  unfolding remember_def by (rule succeeds_modify, rule assms) simp_all

lemma stage_succeeds:
  assumes "writable r"
    and "find_commit (com_id (staged_commit (rt_state r) e a rq)) (rt_state r) = None"
    and "length (encode_CommitGroupRecord (staged_group (rt_state r) e a rq ev)) \<le> room r"
    and "\<And>r'. written r (apply_group (staged_group (rt_state r) e a rq ev)) r' \<Longrightarrow>
      Q (staged_group (rt_state r) e a rq ev) r'"
  shows "succeeds (stage_commit e a rq ev flush) Q r"
proof -
  let ?g = "staged_group (rt_state r) e a rq ev"
  have none: "find_commit (com_id (grp_commit ?g)) (rt_state r) = None"
    using assms(2) by (simp add: staged_group_def Let_def)
  have "succeeds (rt_append (GroupEntry ?g) flush)
      (\<lambda>_. succeeds (pef_try (op_modify (install_group ?g)) (\<lambda>_. op_return ?g)) Q) r"
  proof (rule append_succeeds [OF assms(1)])
    fix r'
    assume "written r (\<lambda>s. s) r'"
    then have "written r (apply_group ?g) (install_group ?g r')"
      by (auto simp: written_def writable_def same_control_def install_group_def Let_def
          index_action_def apply_group_def)
    then show "succeeds (pef_try (op_modify (install_group ?g)) (\<lambda>_. op_return ?g)) Q r'"
      using assms(4) by (intro succeeds_flow)
  qed (use assms(3) in simp)
  then show ?thesis
    unfolding stage_commit_def
    by (intro succeeds_read) (simp add: Let_def none succeeds_try)
qed

section \<open>Checks\<close>

lemma checks_succeed:
  "rt_open r \<Longrightarrow> \<not> rt_shutting_down r \<Longrightarrow> Q () r \<Longrightarrow> succeeds check_open Q r"
  "rt_open r \<Longrightarrow> \<not> rt_shutting_down r \<Longrightarrow> caller_epoch caller = ds_epoch (rt_state r) \<Longrightarrow>
   find_execution i (rt_state r) = Some e \<Longrightarrow> P e r \<Longrightarrow> succeeds (find_checked caller i) P r"
  "token_refusal t (rt_state r) = None \<Longrightarrow>
   T (the (find_execution (tok_execution t) (rt_state r)), the (find_lease (tok_lease t) (rt_state r))) r \<Longrightarrow>
   succeeds (validate_token t) T r"
  by (simp_all add: succeeds_def check_open_def find_checked_def check_caller_def check_epoch_def
      validate_token_def op_read_def op_return_def op_guard_def pef_try_def)

section \<open>Lifecycle transitions\<close>

lemma size_lease_state: "length (encode_LeaseRecord (l\<lparr>lease_state := st\<rparr>)) = length (encode_LeaseRecord l)"
  by (simp add: encode_LeaseRecord_def write_enum_def)

lemma size_execution:
  "length (encode_ExecutionRecord (e\<lparr>exec_lifecycle := x\<rparr>)) = length (encode_ExecutionRecord e)"
  "length (encode_ExecutionRecord (e\<lparr>exec_epoch := y\<rparr>)) = length (encode_ExecutionRecord e)"
  "length (encode_ExecutionRecord (drop_binding e)) = length (encode_ExecutionRecord e)"
  by (simp_all add: encode_ExecutionRecord_def write_enum_def drop_binding_def)

text \<open>Every stored execution and lease record fits a journal record.\<close>

definition records_fit :: "Runtime \<Rightarrow> bool" where
  "records_fit r \<longleftrightarrow>
     (\<forall>e \<in> set (ds_executions (rt_state r)). length (encode_ExecutionRecord e) \<le> room r) \<and>
     (\<forall>l \<in> set (ds_leases (rt_state r)). length (encode_LeaseRecord l) \<le> room r)"

lemma revoke_active_succeeds:
  assumes "writable r" "records_fit r"
    and "\<And>r'. writable r' \<Longrightarrow> room r' = room r \<Longrightarrow> Q () r'"
  shows "succeeds (revoke_active i flush) Q r"
proof -
  have "length (encode_LeaseRecord l) \<le> room r" if "find_lease i (rt_state r) = Some l" for l
    using find_lease_mem [OF that] assms(2) by (auto simp: records_fit_def)
  then show ?thesis
    unfolding revoke_active_def using assms(1,3)
    by (intro succeeds_read)
      (auto intro!: succeeds_flow write_succeeds simp: size_lease_state written_def split: option.split)
qed

lemma transition_succeeds:
  assumes "rt_open r" "\<not> rt_shutting_down r" "caller_epoch caller = ds_epoch (rt_state r)"
    and "writable r" "records_fit r" and e: "find_execution i (rt_state r) = Some e"
    and "rt_request_cache r request = None" "\<not> refused e (rt_state r)"
    and legal: "is_legal_transition (exec_lifecycle e) target"
  shows "succeeds (transition_op caller request i refused target) (\<lambda>_ _. True) r"
proof -
  have fit: "length (encode_ExecutionRecord e) \<le> room r"
    using find_execution_mem [OF e] assms(5) by (auto simp: records_fit_def)
  have "succeeds (persist_transition e target True) (\<lambda>_ _. True) r"
    unfolding persist_transition_def require_transition_def Let_def
    by (intro succeeds_flow write_succeeds revoke_active_succeeds legal if_splits [THEN iffD2])
      (use assms(4,5) fit in \<open>auto intro!: succeeds_flow write_succeeds revoke_active_succeeds
        simp: size_execution\<close>)
  then show ?thesis
    unfolding transition_op_def
    using assms
    by (intro succeeds_try checks_succeed succeeds_read)
      (auto simp: lookup_request_def intro!: succeeds_try remember_succeeds elim!: succeeds_weaken)
qed

section \<open>Ending a session\<close>

definition leases_fit :: "Runtime \<Rightarrow> bool" where
  "leases_fit r \<longleftrightarrow> (\<forall>l \<in> set (ds_leases (rt_state r)). length (encode_LeaseRecord l) \<le> room r)"

lemma revoke_any_succeeds:
  assumes "writable r" "leases_fit r"
    and "\<And>r'. writable r' \<Longrightarrow> room r' = room r \<Longrightarrow> leases_fit r' \<Longrightarrow> Q () r'"
  shows "succeeds (revoke_any i flush) Q r"
proof -
  have fit: "length (encode_LeaseRecord l) \<le> room r" if "find_lease i (rt_state r) = Some l" for l
    using find_lease_mem [OF that] assms(2) by (auto simp: leases_fit_def)
  show ?thesis
  proof (cases "find_lease i (rt_state r)")
    case None
    then show ?thesis
      unfolding revoke_any_def using assms by (auto intro!: succeeds_flow)
  next
    case (Some l)
    have "Q () r'" if w: "written r (put_lease (l\<lparr>lease_state := Revoked\<rparr>)) r'" for r'
    proof (rule assms(3))
      have "set (ds_leases (rt_state r')) \<subseteq> insert (l\<lparr>lease_state := Revoked\<rparr>) (set (ds_leases (rt_state r)))"
        using w by (auto simp: written_def put_lease_def dest!: set_tbl_upsert_subset [THEN subsetD])
      then show "leases_fit r'"
        using w fit [OF Some] assms(2) by (auto simp: written_def leases_fit_def size_lease_state)
    qed (use w in \<open>simp_all add: written_def\<close>)
    then show ?thesis
      unfolding revoke_any_def using assms(1) fit [OF Some]
      by (intro succeeds_read) (auto intro!: write_succeeds simp: Some size_lease_state)
  qed
qed

lemma fence_bound_succeeds:
  assumes "writable r" "leases_fit r" "length (encode_ExecutionRecord e) \<le> room r"
    and "\<And>r'. writable r' \<Longrightarrow> room r' = room r \<Longrightarrow> leases_fit r' \<Longrightarrow> Q () r'"
  shows "succeeds (fence_bound e) Q r"
proof -
  have put: "succeeds (rt_put_execution x True) Q r'"
    if "writable r'" "room r' = room r" "leases_fit r'"
      "length (encode_ExecutionRecord x) = length (encode_ExecutionRecord e)" for x r'
    using that assms(3)
    by (intro write_succeeds(1) assms(4)) (auto simp: written_def leases_fit_def)
  show ?thesis
    unfolding fence_bound_def Let_def using assms
    by (auto intro!: succeeds_flow revoke_any_succeeds put simp: size_execution)
qed

lemma end_session_succeeds:
  assumes "rt_sessions r session = Some info" "writable r" "records_fit r"
  shows "succeeds (end_session session) (\<lambda>_ _. True) r"
proof -
  let ?I = "\<lambda>es r'. writable r' \<and> room r' = room r \<and> leases_fit r' \<and>
    (\<forall>e \<in> set es. length (encode_ExecutionRecord e) \<le> room r)"
  let ?r = "r\<lparr>rt_sessions := (rt_sessions r)(session := None)\<rparr>"
  have "succeeds (op_for fence_bound (filter P (ds_executions (rt_state r)))) (\<lambda>_ _. True) ?r" for P
  proof (rule succeeds_for [where I = ?I])
    show "?I (filter P (ds_executions (rt_state r))) ?r"
      using assms(2,3) by (auto simp: writable_def records_fit_def leases_fit_def)
    show "succeeds (fence_bound x) (\<lambda>_ s'. ?I xs s') s" if "?I (x # xs) s" for x xs s
      using that by (intro fence_bound_succeeds) auto
  qed simp
  then show ?thesis
    unfolding end_session_def using assms(1) by (auto intro!: succeeds_flow)
qed

section \<open>Completion\<close>

lemma complete_succeeds:
  fixes r request
  defines "s \<equiv> rt_state r"
  assumes "rt_open r" "\<not> rt_shutting_down r" "writable r"
    and tok: "token_refusal (car_token request) s = None"
    and e: "find_execution (tok_execution (car_token request)) s = Some e"
    and a: "find_action (car_action request) (car_action_generation request) s = Some a"
    and new: "rt_request_cache r (car_request request) = None" "act_status a \<noteq> Committed"
    and ref: "complete_refusal e (Some a) request = None"
    and fresh: "find_commit (com_id (staged_commit s e a (car_request request))) s = None"
    and fit: "length (encode_CommitGroupRecord
      (staged_group s e a (car_request request) (car_evidence request))) \<le> room r"
  shows "succeeds (complete_action request) (\<lambda>res _. \<not> cres_duplicate res) r"
  unfolding complete_action_def complete_fresh_def
  using assms
  by (intro succeeds_try checks_succeed succeeds_read)
    (auto simp: s_def lookup_request_def Let_def split: prod.split
      intro!: succeeds_flow checks_succeed stage_succeeds remember_succeeds)

section \<open>Recovery\<close>

text \<open>Recovery of an action whose outcome is unknown returns and records the ambiguity.\<close>

lemma recover_ambiguous_succeeds:
  fixes e r a caller
  defines "plan \<equiv> classify_recovery (recovery_input e r)" and "s \<equiv> rt_state r"
  defines "m \<equiv> ambiguity_record e a plan s"
  defines "n \<equiv> blocked_execution e m a (policy_of e r)"
  assumes "rt_open r" "\<not> rt_shutting_down r" "caller_epoch caller = ds_epoch s" "writable r"
    and "find_execution i s = Some e" "\<not> is_terminal_state (exec_lifecycle e)"
    and plan: "opens_ambiguity (plan_decision plan)" "id_valid (plan_action plan)"
      "find_action (plan_action plan) (plan_action_generation plan) s = Some a"
      "\<not> plan_commit_from_receipt plan"
    and size: "length (encode_AmbiguityRecord m) \<le> room r"
      "length (encode_ActionRecord (a\<lparr>act_status := Ambiguous\<rparr>)) \<le> room r"
      "length (encode_RecoveryRecord (recovery_record e n (Some a) plan (ds_epoch s))) \<le> room r"
      "length (encode_ExecutionRecord n) \<le> room r"
  shows "succeeds (recover caller request i) (\<lambda>_ _. True) r"
proof -
  have noauto: "\<not> recovery_allows_automatic_continue (plan_decision plan)"
    "plan_decision plan \<noteq> ResumeFromCheckpoint"
    using plan(1) by (auto simp: opens_ambiguity_def)
  have noted: "succeeds (record_ambiguity e (Some a) plan (policy_of e r) flush)
      (\<lambda>next' r'. next' = n \<and> writable r' \<and> room r' = room r \<and> ds_epoch (rt_state r') = ds_epoch s) r" for flush
    unfolding record_ambiguity_def
    by (intro succeeds_read) (use assms in \<open>auto simp: Let_def m_def n_def
      intro!: succeeds_flow write_succeeds simp: written_def\<close>)
  have "succeeds (recover_found request e) (\<lambda>_ _. True) r"
    unfolding recover_found_def
    apply (rule succeeds_read)
    apply (simp add: plan_def [symmetric] s_def [symmetric] plan noauto Let_def
        del: recovery_allows_automatic_continue.simps)
    apply (rule succeeds_try, rule succeeds_weaken [OF noted])
    apply (auto simp: commit_receipt_none plan intro!: succeeds_flow write_succeeds remember_succeeds)
      apply (simp add: size)
     apply (simp add: written_def)
    using size(4) apply (simp add: written_def encode_ExecutionRecord_def)
    done
  then show ?thesis
    unfolding recover_def using assms
    by (intro succeeds_try succeeds_read)
      (auto simp: succeeds_def check_caller_success op_read_def)
qed

section \<open>Resume\<close>

lemma retire_succeeds:
  assumes "writable r" "\<forall>c \<in> set (ds_continuations (rt_state r)). length (encode_ContinuationRecord c) \<le> room r"
    and "\<And>r'. writable r' \<Longrightarrow> room r' = room r \<Longrightarrow> Q () r'"
  shows "succeeds (retire_other_continuations e keep flush) Q r"
proof -
  let ?fit = "\<lambda>cs. \<forall>c \<in> set cs. length (encode_ContinuationRecord c) \<le> room r"
  have fit: "?fit (retirable e keep (ds_continuations (rt_state r)))"
    using assms(2) by (auto simp: retirable_def encode_ContinuationRecord_def write_enum_def)
  show ?thesis
    unfolding retire_other_continuations_def
    by (rule succeeds_read, rule succeeds_for [where I = "\<lambda>cs r'. writable r' \<and> room r' = room r \<and> ?fit cs"])
      (use assms fit in \<open>auto intro!: write_succeeds simp: written_def\<close>)
qed

lemma mint_frame: "ds_epoch s = ds_epoch s' \<Longrightarrow> mint_continuation e n st q s = mint_continuation e n st q s'"
  by (simp add: mint_continuation_def)

lemma resume_succeeds:
  fixes r token request e observed
  defines "s \<equiv> rt_state r"
  defines "n \<equiv> e\<lparr>exec_bindings := observed, exec_epoch := ds_epoch s, exec_lifecycle := Resuming\<rparr>"
  defines "c \<equiv> mint_continuation n n Valid (exec_action_frontier n) s"
  assumes "rt_open r" "\<not> rt_shutting_down r" "writable r"
    and tok: "token_refusal token s = None" "find_execution (tok_execution token) s = Some e"
    and new: "rt_request_cache r request = None"
    and ref: "resume_refusal e s observed revalidate = None"
    and valid: "\<And>q. fst (validate_continuation_state (put_execution n (s\<lparr>ds_sequence := q\<rparr>)) c) = Valid"
    and size: "length (encode_ExecutionRecord n) \<le> room r" "length (encode_ContinuationRecord c) \<le> room r"
      "\<forall>c \<in> set (ds_continuations s). length (encode_ContinuationRecord c) \<le> room r"
  shows "succeeds (resume request token observed revalidate) (\<lambda>_ _. True) r"
proof -
  have legal: "is_legal_transition RecoveryRequired Recovering" "is_legal_transition Recovering Resuming"
    "is_legal_transition Suspended Resuming" "is_legal_transition Resuming Running"
    by (simp_all add: is_legal_transition_def)
  have to: "succeeds (to_resuming l) Q r" if "Q () r" for l Q
    using that by (auto simp: to_resuming_def require_transition_def legal intro!: succeeds_flow)
  have mint: "mint_continuation n n Valid (exec_action_frontier n) (rt_state r1) = c"
    if "written r (put_execution n) r1" for r1
    using that by (auto simp: c_def s_def written_def intro!: mint_frame)
  have ok: "fst (validate_continuation_state (rt_state r1) c) = Valid" if "written r (put_execution n) r1" for r1
    using that valid by (auto simp: written_def s_def)
  have size': "length (encode_ExecutionRecord (n\<lparr>exec_continuation := x, exec_continuation_generation := y,
      exec_lifecycle := z\<rparr>)) = length (encode_ExecutionRecord n)" for x y z
    by (simp add: encode_ExecutionRecord_def write_enum_def)
  have conts: "ds_continuations (rt_state r1) = ds_continuations s" "writable r1" "room r1 = room r"
    if "written r (put_execution n) r1" for r1
    using that by (auto simp: written_def s_def)
  have last: "succeeds (pef_try (rt_put_continuation c flush) (\<lambda>_.
        pef_try (rt_put_execution (n\<lparr>exec_continuation := x, exec_continuation_generation := y,
          exec_lifecycle := Running\<rparr>) flush) (\<lambda>_. pef_try (remember request Ok 0 0) (\<lambda>_. op_return res))))
      (\<lambda>_ _. True) r2" if "writable r2" "room r2 = room r" for r2 x y flush res
    using that size
    by (intro succeeds_try write_succeeds(7) write_succeeds(1) remember_succeeds succeeds_return)
      (auto simp: written_def size')
  show ?thesis
    unfolding resume_def
    apply (rule succeeds_try, rule checks_succeed, fact, fact)
    apply (rule succeeds_try, rule checks_succeed, fact tok(1) [unfolded s_def])
    apply (simp only: prod.case tok(2) [unfolded s_def] option.sel)
    apply (rule succeeds_read)
    apply (simp only: lookup_request_def new simp_thms if_False ref [unfolded s_def] option.case Let_def
        n_def [unfolded s_def, symmetric])
    apply (rule succeeds_try, rule to, rule succeeds_try, rule write_succeeds(1), fact, fact size(1))
    apply (rule succeeds_read)
    apply (simp add: mint ok require_transition_def legal)
    apply (rule succeeds_try, rule succeeds_guard, rule TrueI)
    apply (rule succeeds_try, rule retire_succeeds)
      apply (simp_all add: conts size)
    apply (rule last, simp_all add: conts)
    done
qed

section \<open>Creation\<close>

lemma check_caller_succeeds:
  "rt_open r \<Longrightarrow> \<not> rt_shutting_down r \<Longrightarrow> caller_epoch caller = ds_epoch (rt_state r) \<Longrightarrow> Q () r \<Longrightarrow>
   succeeds (check_caller caller) Q r"
  by (simp add: succeeds_def check_caller_success)

lemma create_succeeds:
  fixes caller request policy r
  defines "s \<equiv> rt_state r"
  defines "i \<equiv> derive_execution_id (ds_store s) (ds_next_execution_sequence s)"
  defines "p \<equiv> policy\<lparr>pol_id := derive_policy_id i 1, pol_generation := 1\<rparr>"
  assumes "rt_open r" "\<not> rt_shutting_down r" "caller_epoch caller = ds_epoch s" "writable r"
    and "rt_request_cache r request = None" "length (ds_executions s) < cfg_max_executions (rt_config r)"
    and "validate_policy p = None" and room: "1000 \<le> room r"
  shows "succeeds (create_execution caller request policy) (\<lambda>_ _. True) r"
proof -
  have size: "length (encode_StoreMetaRecord m) \<le> 1000" "length (encode_ExecutionPolicy p) \<le> 1000"
    "length (encode_ExecutionRecord (fresh_execution i p ep n)) \<le> 1000" for m p i ep n
    by (simp_all add: encode_StoreMetaRecord_def encode_ExecutionPolicy_def encode_ExecutionRecord_def
        write_enum_def encode_BindingSet_def write_vector_def fresh_execution_def empty_bindings_def)
  have meta: "succeeds (rt_put_store_meta True) Q r'"
    if "writable r'" "room r' = room r" "\<And>r''. written r' (\<lambda>s. s) r'' \<Longrightarrow> Q () r''" for Q r'
    using that room size(1) unfolding rt_put_store_meta_def
    by (intro succeeds_read append_succeeds) (auto intro: order_trans)
  have le: "n \<le> 1000 \<Longrightarrow> n \<le> room r" for n using room by simp
  show ?thesis
    unfolding create_execution_def
    apply (rule succeeds_try, rule check_caller_succeeds, fact, fact, fact assms(6) [unfolded s_def])
    apply (rule succeeds_read)
    using assms(8-10) apply (simp add: lookup_request_def Let_def p_def i_def s_def)
    apply (rule succeeds_try, rule succeeds_modify, rule succeeds_try, rule meta)
      apply (use assms(7) in \<open>simp_all add: writable_def\<close>)
    apply (intro succeeds_read succeeds_try write_succeeds(4) write_succeeds(1) remember_succeeds
        succeeds_return)
    apply (auto simp: written_def writable_def intro!: le size)
    done
qed

end
