(* ===== verification/Samples.thy ===== *)
theory Samples
  imports Liveness
begin

text \<open>
  One small concrete fabric, used to show that the hypotheses of the properties can hold: a
  store that has just been created, and a runtime in epoch 1 with one running execution, its
  active lease, its policy and one action in flight. Checksums and derived identities stay
  symbolic; nothing below depends on their values.
\<close>

definition sample_limits :: StoreLimits where
  "sample_limits = default_store_limits"

definition sample_store :: FileStore where
  "sample_store =
     \<lparr>fs_platform = Posix, fs_dir = Directory, fs_journal = Some (build_journal_header 7 1),
      fs_synced = 40, fs_snapshot = None, fs_temp = None, fs_io = [], fs_handle = Some 40,
      fs_limits = sample_limits, fs_last_sequence = 0, fs_journal_first_sequence = 1,
      fs_store_id = 7, fs_open = True\<rparr>"

definition sample_config :: RuntimeConfig where
  "sample_config = \<lparr>cfg_create_if_missing = True, cfg_store_limits = sample_limits,
     cfg_max_executions = 10, cfg_request_cache_size = 4, cfg_max_view_actions = 8\<rparr>"

definition sample_execution :: ExecutionRecord where
  "sample_execution = (fresh_execution 5 (default_policy 21) 1 1)
     \<lparr>exec_lifecycle := Running, exec_incarnation := 6, exec_incarnation_generation := 1,
      exec_worker := 10, exec_boot := 11, exec_lease := 12, exec_lease_generation := 1,
      exec_action_frontier := 1, exec_action_generation := 1\<rparr>"

definition sample_lease :: LeaseRecord where
  "sample_lease =
     \<lparr>lease_id = 12, lease_generation = 1, lease_execution = 5, lease_execution_generation = 1,
      lease_incarnation = 6, lease_incarnation_generation = 1, lease_worker = 10,
      lease_boot = 11, lease_epoch = 1, lease_policy_generation = 1, lease_bindings = empty_bindings, lease_state = Active\<rparr>"

definition sample_action :: ActionRecord where
  "sample_action =
     \<lparr>act_id = 3, act_generation = 1, act_execution = 5, act_execution_generation = 1,
      act_incarnation_generation = 1, act_sequence = 1, act_attempt = 30,
      act_attempt_generation = 1, act_effect_class = NonRepeatable,
      act_request_key = [], act_status = InFlight, act_effect_id = 31,
      act_effect_generation = 1, act_receipt = no_evidence, act_replay_generation = 0,
      act_replayed_from = 0, act_replayed_from_generation = 0, act_commit = 0,
      act_dispatch_count = 1\<rparr>"

definition sample_state :: DurableState where
  "sample_state = (fresh_state 7)
     \<lparr>ds_epoch := 1, ds_schema := kPersistenceSchemaVersion,
      ds_policies := [default_policy 21], ds_executions := [sample_execution],
      ds_actions := [sample_action], ds_leases := [sample_lease]\<rparr>"

definition runtime_on :: "DurableState \<Rightarrow> Runtime" where
  "runtime_on s =
     \<lparr>rt_store = sample_store, rt_state = s, rt_config = sample_config, rt_open = True,
      rt_shutting_down = False, rt_next_session = 1, rt_sessions = Map.empty,
      rt_request_cache = Map.empty, rt_request_order = [],
      rt_action_index = (\<lambda>i. keys_by act_execution action_key (ds_actions s) i),
      rt_checkpoint_index = (\<lambda>i. []), rt_commit_index = (\<lambda>i. []), rt_replay_index = (\<lambda>i. [])\<rparr>"

definition sample_runtime :: Runtime where
  "sample_runtime = runtime_on sample_state"

definition sample_token :: LeaseToken where
  "sample_token =
     \<lparr>tok_execution = 5, tok_execution_generation = 1, tok_incarnation = 6,
      tok_incarnation_generation = 1, tok_lease = 12, tok_lease_generation = 1, tok_epoch = 1,
      tok_worker = 10, tok_boot = 11, tok_policy_generation = 1\<rparr>"

definition sample_caller :: CallerContext where
  "sample_caller = \<lparr>caller_session = 1, caller_epoch = 1\<rparr>"

definition sample_completion :: CompleteActionRequest where
  "sample_completion =
     \<lparr>car_request = 40, car_token = sample_token, car_action = 3, car_action_generation = 1,
      car_effect_applied = True, car_evidence = no_evidence\<rparr>"

lemmas sample_defs = sample_limits_def sample_store_def sample_config_def sample_execution_def
  sample_lease_def sample_action_def sample_state_def runtime_on_def sample_runtime_def
  sample_token_def sample_caller_def sample_completion_def fresh_execution_def
  default_policy_def empty_bindings_def no_evidence_def fresh_state_def empty_state_def

section \<open>The sample satisfies the invariants\<close>

lemma sample_inv: "fabric_inv sample_state"
  by (auto simp: fabric_inv_def state_ok_def accounted_def one_valid_def authority_ok_def
      commits_complete_def commits_of_def unleased_def find_execution_def tbl_ok_def sample_defs)

lemma sample_token_accepted: "token_refusal sample_token sample_state = None"
  by (simp add: token_refusal_def find_execution_def find_lease_def sample_defs)

lemma sample_holds: "holds sample_store []"
  by (simp add: holds_def last_seq_def sample_store_def)

section \<open>Opening a fresh directory\<close>

definition closed_runtime :: Runtime where
  "closed_runtime = (runtime_on empty_state)\<lparr>rt_open := False,
     rt_store := sample_store\<lparr>fs_dir := Absent, fs_journal := None, fs_handle := None, fs_open := False,
       fs_synced := 0, fs_store_id := 0\<rparr>\<rparr>"

lemma scan_empty: "scan_journal limits file (length file) q = (length file, q)"
  by (simp add: scan_journal.simps)

lemma replay_empty:
  "replay_journal limits file snap (length file) out report = (Inr (length file), out, report)"
  by (simp add: replay_journal.simps)

lemmas op_evals = op_read_def op_modify_def op_return_def op_fail_def pef_try_def op_guard_def
  io_call_def io_simple_def

lemma open_store:
  "store_open True sample_limits 7 (rt_store closed_runtime) =
     (Inr (), sample_store)"
  using journal_header_fields [of 7 1 "[]"] scan_empty [of sample_limits "build_journal_header 7 1"]
  by (simp add: store_open_def open_directory_def ensure_journal_def create_journal_def mark_synced_def
      sync_directory_def journal_open_append_def read_file_def adopt_journal_def op_evals
      closed_runtime_def runtime_on_def sample_store_def sample_limits_def default_store_limits_def
      kJournalHeaderSize_def)

lemma sample_store_sel:
  "fs_io sample_store = []" "fs_snapshot sample_store = None" "fs_limits sample_store = sample_limits"
  "fs_journal sample_store = Some (build_journal_header 7 1)" "fs_store_id sample_store = 7"
  "fs_open sample_store" "lim_max_journal_load_bytes sample_limits = 1073741824"
  "lim_max_journal_payload sample_limits = 8388608"
  by (simp_all add: sample_store_def sample_limits_def default_store_limits_def)

lemma load_store:
  "store_load empty_state sample_store =
     (Inr (fresh_state 7, empty_report\<lparr>lr_journal_present := True\<rparr>, Inr ()), sample_store)"
  using journal_header_fields [of 7 1 "[]"] replay_empty [of sample_limits "build_journal_header 7 1"]
    store_load_journal_only [of sample_store "build_journal_header 7 1"]
  by (simp add: sample_store_sel load_journal_def kJournalHeaderSize_def fresh_state_def
     empty_state_def)

lemma open_success: "\<exists>oo r'. open_runtime sample_config 7 closed_runtime = (Inr oo, r')"
proof -
  let ?s = "fresh_state 7\<lparr>ds_schema := kPersistenceSchemaVersion, ds_epoch := 1\<rparr>"
  have "length (entry_payload (MetaEntry (store_meta ?s))) \<le> 8388608"
    by (simp add: encode_StoreMetaRecord_def)
  then obtain q st where app: "store_append (entry_kind (MetaEntry (store_meta ?s)))
      (entry_payload (MetaEntry (store_meta ?s))) True sample_store = (Inr q, st)"
    using store_append_no_fault [OF sample_holds, of "MetaEntry (store_meta ?s)" True]
    by (auto simp: sample_store_sel)
  have closed: "rt_state closed_runtime = empty_state" "\<not> rt_open closed_runtime"
    by (simp_all add: closed_runtime_def runtime_on_def)
  have cfg: "cfg_create_if_missing sample_config" "cfg_store_limits sample_config = sample_limits"
    by (simp_all add: sample_config_def)
  have fresh: "ds_store (fresh_state 7) = 7" "ds_schema (fresh_state 7) = 0" "ds_epoch (fresh_state 7) = 0"
    "ds_executions (fresh_state 7) = []" "ds_leases (fresh_state 7) = []" "ds_continuations (fresh_state 7) = []"
    by (simp_all add: fresh_state_def empty_state_def)
  have rec: "reconcile_state s = (s, [], False)" if "ds_executions s = []" for s
    using that by (simp add: reconcile_state_def)
  show ?thesis
   using app
   by (simp add: open_runtime_def op_evals on_store_def rt_load_def closed cfg open_store load_store adopt_state_def
      fresh sample_store_sel rebuild_indexes_def reconcile_on_open_def rec advance_epoch_def gen_next_def
      rt_put_store_meta_def rt_append_def Let_def revoke_previous_epoch_def foreign_leases_def foreign_continuations_def
      pending_recoveries_def map_filter_simps)
qed

section \<open>Operations on the sample\<close>

lemma runtime_on_sel [simp]:
  "rt_state (runtime_on s) = s" "rt_open (runtime_on s)" "\<not> rt_shutting_down (runtime_on s)"
  "rt_request_cache (runtime_on s) = Map.empty" "rt_store (runtime_on s) = sample_store"
  "rt_config (runtime_on s) = sample_config" "rt_request_order (runtime_on s) = []"
  "rt_sessions (runtime_on s) = Map.empty"
  by (simp_all add: runtime_on_def)

lemma sample_writable: "writable (runtime_on s)" "room (runtime_on s) = 8388608"
  using sample_holds by (auto simp: writable_def sample_store_sel)

lemma sample_found:
  "find_execution 5 sample_state = Some sample_execution"
  "find_action 3 1 sample_state = Some sample_action"
  "find_lease 12 sample_state = Some sample_lease" "find_commit i sample_state = None"
  by (simp_all add: find_execution_def find_action_def find_lease_def find_commit_def
      action_key_def sample_defs)

lemma sample_sizes:
  "length (encode_ExecutionRecord (sample_execution\<lparr>exec_lifecycle := l\<rparr>)) \<le> 8388608"
  "length (encode_ExecutionRecord sample_execution) \<le> 8388608"
  "length (encode_LeaseRecord sample_lease) \<le> 8388608"
  by (simp_all add: encode_ExecutionRecord_def encode_LeaseRecord_def encode_BindingSet_def
      write_vector_def sample_execution_def fresh_execution_def sample_lease_def empty_bindings_def)

lemma sample_records_fit: "records_fit sample_runtime"
  using sample_sizes
  by (simp add: records_fit_def sample_runtime_def sample_store_sel sample_state_def)

lemma fence_sample: "\<exists>r'. fence sample_caller 50 5 sample_runtime = (Inr (), r')"
proof -
  have "succeeds (fence sample_caller 50 5) (\<lambda>_ _. True) sample_runtime"
    unfolding fence_def
    by (rule transition_succeeds [where e = sample_execution])
      (use sample_found sample_records_fit sample_writable in
        \<open>simp_all add: sample_runtime_def, simp_all add: sample_defs is_legal_transition_def\<close>)
  then show ?thesis by (auto simp: succeeds_def)
qed

lemma sample_group_size:
  "length (encode_CommitGroupRecord (staged_group sample_state sample_execution sample_action
     (car_request sample_completion) (car_evidence sample_completion))) \<le> 8388608"
  by (simp add: encode_CommitGroupRecord_def encode_CommitRecord_def encode_ProgressRecord_def
      encode_ActionRecord_def encode_ExecutionRecord_def encode_Evidence_def encode_BindingSet_def
      write_vector_def staged_group_def staged_commit_def staged_progress_def Let_def
      sample_action_def sample_execution_def fresh_execution_def no_evidence_def
      empty_bindings_def sample_completion_def)

lemma complete_sample:
  "\<exists>res r'. complete_action sample_completion sample_runtime = (Inr res, r') \<and> \<not> cres_duplicate res"
proof -
  have "succeeds (complete_action sample_completion) (\<lambda>res _. \<not> cres_duplicate res) sample_runtime"
    by (rule complete_succeeds [where e = sample_execution and a = sample_action])
      (use sample_found sample_token_accepted sample_writable sample_group_size in
        \<open>simp_all add: sample_runtime_def sample_store_sel, simp_all add: sample_completion_def
          complete_refusal_def sample_token_def, simp_all add: sample_defs\<close>)
  then show ?thesis by (auto simp: succeeds_def)
qed

section \<open>An interrupted execution\<close>

definition interrupted_execution :: ExecutionRecord where
  "interrupted_execution = drop_binding (sample_execution\<lparr>exec_lifecycle := RecoveryRequired\<rparr>)"

definition interrupted_state :: DurableState where
  "interrupted_state = sample_state\<lparr>ds_executions := [interrupted_execution], ds_leases := []\<rparr>"

lemma interrupted_found:
  "find_execution 5 interrupted_state = Some interrupted_execution"
  "find_action 3 1 interrupted_state = Some sample_action"
  "policy_of interrupted_execution (runtime_on interrupted_state) = Some (default_policy 21)"
  "latest_action 5 (runtime_on interrupted_state) = Some sample_action"
  "exec_lifecycle interrupted_execution = RecoveryRequired" "exec_id interrupted_execution = 5"
  "exec_checkpoint interrupted_execution = 0" "exec_ambiguity interrupted_execution = 0"
  "\<not> exec_blocked interrupted_execution" "exec_bindings interrupted_execution = empty_bindings"
  "ds_epoch interrupted_state = 1"
  by (simp_all add: interrupted_state_def interrupted_execution_def find_execution_def find_action_def
      policy_of_def find_policy_def latest_action_def runtime_on_def keys_by_def action_key_def
      sample_state_def sample_action_def drop_binding_def sample_execution_def fresh_execution_def
      default_policy_def)

lemma interrupted_plan:
  fixes plan defines "plan \<equiv> classify_recovery (recovery_input interrupted_execution (runtime_on interrupted_state))"
  shows "opens_ambiguity (plan_decision plan)" "plan_action plan = 3" "plan_action_generation plan = 1"
    "\<not> plan_commit_from_receipt plan"
  by (simp_all add: plan_def recovery_input_def classify_recovery_def Let_def interrupted_found unsettled_def
      open_ambiguity_def classify_in_flight_def, simp_all add: sample_action_def default_policy_def
      policy_test_def opens_ambiguity_def decide_def
      resolved_not_applied_def)

lemma recover_interrupted:
  "\<exists>outcome r'. recover sample_caller 60 5 (runtime_on interrupted_state) = (Inr outcome, r')"
proof -
  let ?e = interrupted_execution and ?r = "runtime_on interrupted_state"
  have txt_len: "length (plan_explanation (classify_recovery (recovery_input ?e ?r))) \<le> 1000"
    by (simp add: recovery_input_def classify_recovery_def Let_def interrupted_found unsettled_def
      open_ambiguity_def classify_in_flight_def, simp add: sample_action_def default_policy_def
      policy_test_def decide_def resolved_not_applied_def)
  have "succeeds (recover sample_caller 60 5) (\<lambda>_ _. True) ?r"
    by (rule recover_ambiguous_succeeds [where e = ?e and a = sample_action])
      (use interrupted_found interrupted_plan txt_len in \<open>simp_all add: sample_writable sample_store_sel
       encode_AmbiguityRecord_def encode_ActionRecord_def encode_RecoveryRecord_def encode_Evidence_def
       ambiguity_record_def open_ambiguity_def recovery_record_def no_evidence_def sample_action_def
       sample_caller_def Let_def empty_bindings_def blocked_execution_def
       encode_ExecutionRecord_def encode_BindingSet_def write_vector_def\<close>)
  then show ?thesis by (auto simp: succeeds_def)
qed

end
