(* ===== verification/Storage_Properties.thy ===== *)
theory Storage_Properties
  imports Samples "HOL-Library.Multiset"
begin

text \<open>
  The properties of the storage half of the fabric: the text and byte encodings, the record
  tables, the canonical binding sets, the append-only journal and the snapshot. Each property
  is stated over the model of the sources and followed by a witness that applies it.
\<close>

section \<open>Crashes and the journal\<close>






text \<open>
  C40. Replay ends: from an offset within the journal it stops within the file or
  reports a corrupt record, and since every record takes at least 48 bytes it processes at
  most one record per 48 bytes of the rest of the file, whatever the bytes are.
\<close>

theorem replay_bounded:
  assumes "replay_journal limits data q offset out report = (res, out', report')"
    and "offset \<le> length data"
  shows "(case res of Inl c \<Rightarrow> c = CorruptState \<and> lr_corrupted report' | Inr stop \<Rightarrow> offset \<le> stop \<and> stop \<le> length data) \<and>
    48 * (lr_records_loaded report' + lr_records_skipped report') + offset \<le>
    48 * (lr_records_loaded report + lr_records_skipped report) + length data"
  using assms
proof (induction limits data q offset out report rule: replay_journal.induct)
  case (1 limits data q offset out report)
  show ?case
  proof (cases "offset < length data")
    case True
    show ?thesis
    proof (cases "probe_record data offset limits")
      case None
      then show ?thesis using 1(3) True by (auto simp: replay_journal.simps)
    next
      case (Some b)
      note bound = probe_record_total [OF Some] probe_record_size [OF Some]
      show ?thesis
      proof (cases "rb_sequence b > q")
        case False
        have "replay_journal limits data q (offset + rb_total_size b) out
            (report\<lparr>lr_records_skipped := lr_records_skipped report + 1\<rparr>) = (res, out', report')"
          using 1(3) True Some False by (subst (asm) replay_journal.simps) simp
        from 1(2) [OF True Some False this] bound show ?thesis by (auto split: sum.splits)
      next
        case new: True
        show ?thesis
        proof (cases "apply_record (rb_kind b) (take (rb_payload_size b) (drop (rb_payload_offset b) data)) out")
          case None
          then show ?thesis using 1(3) True Some new by (auto simp: replay_journal.simps)
        next
          case (Some s)
          have "replay_journal limits data q (offset + rb_total_size b) (s\<lparr>ds_sequence := rb_sequence b\<rparr>)
              (report\<lparr>lr_records_loaded := lr_records_loaded report + 1\<rparr>) = (res, out', report')"
            using 1(3) True \<open>probe_record data offset limits = Some b\<close> new Some
            by (subst (asm) replay_journal.simps) simp
          from 1(1) [OF True \<open>probe_record data offset limits = Some b\<close> new Some this] bound
          show ?thesis by (auto split: sum.splits)
        qed
      qed
    qed
  qed (use 1(3,4) in \<open>auto simp: replay_journal.simps\<close>)
qed

theorem replay_bounded_witness:
  "lr_records_loaded (snd (snd (replay_journal sample_limits (replicate 100 0) 0 0 empty_state empty_report))) \<le> 2"
proof -
  obtain res out report where run: "replay_journal sample_limits (replicate 100 0) 0 0 empty_state empty_report =
      (res, out, report)" by (metis prod_cases3)
  from replay_bounded [OF run] have
    "48 * lr_records_loaded report \<le> 100" by (auto simp: empty_report_def)
  then show ?thesis unfolding run by simp
qed

text \<open>
  The scan for the end of the journal stays within the file and stops at the first
  offset where no record can be read.
\<close>

theorem scan_within_file:
  assumes "scan_journal limits data offset q = (end', q')" and "offset \<le> length data"
  shows "offset \<le> end' \<and> end' \<le> length data \<and>
    (end' < length data \<longrightarrow> probe_record data end' limits = None)"
  using assms
proof (induction limits data offset q rule: scan_journal.induct)
  case (1 limits data offset q)
  show ?case
  proof (cases "offset < length data")
    case True
    show ?thesis
    proof (cases "probe_record data offset limits")
      case None
      then show ?thesis using 1(2) True by (simp add: scan_journal.simps)
    next
      case (Some b)
      note bound = probe_record_total [OF Some]
      show ?thesis using 1(1) [OF True Some] 1(2) True Some bound
        by (simp add: scan_journal.simps [of limits data offset])
    qed
  qed (use 1(2,3) in \<open>simp add: scan_journal.simps\<close>)
qed

text \<open>
  C37. Whatever bytes the journal and the snapshot contain, a state that loading hands
  out is well formed: every table has unique keys.
\<close>

theorem loaded_state_well_formed:
  assumes "store_load out s = (Inr (out', report, res), s')"
  shows "state_ok out'"
  using assms by (rule store_load_ok)

theorem loaded_state_well_formed_witness:
  "state_ok (fresh_state 7)"
  using loaded_state_well_formed [OF load_store] .

section \<open>Encodings\<close>



text \<open>
  The canonical encoding of a commit group round-trips: every group within the
  reader's bounds decodes from its own bytes to itself, and no other bytes decode to it.
\<close>

theorem commit_group_codec:
  assumes "wf_CommitGroupRecord default_decode_limits g"
    and "length (encode_CommitGroupRecord g) \<le> max_total default_decode_limits"
  shows "decode_from_bytes decode_CommitGroupRecord b = Some g \<longleftrightarrow> b = encode_CommitGroupRecord g"
  using CommitGroupRecord_codec.decode_write [OF assms] CommitGroupRecord_codec.decode_canonical
  by blast

text \<open>
  C31. Every kind of journal entry round-trips: a payload decodes to an entry of that kind
  exactly when it is the canonical encoding of the entry. So no two entries share a journal
  image, and a payload read under another kind is never mistaken for it.
\<close>

theorem entry_codec:
  assumes "wf_entry e" and "length (entry_payload e) \<le> max_total default_decode_limits"
  shows "decode_entry k b = Some e \<longleftrightarrow> k = entry_kind e \<and> b = entry_payload e"
  using decode_entry_payload [OF assms] decode_entry_canonical by blast

theorem entry_codec_witness:
  "decode_entry Lease (entry_payload (LeaseEntry sample_lease)) = Some (LeaseEntry sample_lease)"
  using entry_codec [of "LeaseEntry sample_lease" Lease "entry_payload (LeaseEntry sample_lease)"]
  by (simp add: wf_LeaseRecord_def wf_BindingSet_def wf_vector_def sample_lease_def empty_bindings_def
      encode_LeaseRecord_def encode_BindingSet_def write_vector_def default_decode_limits_def)

text \<open>
  The hexadecimal text of an identity parses back to it, with and without the
  decimal form enabled, because sixteen digits are always read as hexadecimal.
\<close>

theorem hex_round_trip:
  "parse_hex_u64 (hex64 v) = Some v \<and> parse_id (hex64 v) allow_decimal = Some v"
proof -
  have "length (hex64 v) = 16" by (simp add: hex64_def hex_digits_def)
  moreover have "parse_hex_loop 0 (hex64 v) = Some v"
    using parse_hex_digits [of 0 16 v] by (simp add: hex64_def take_bit_word_eq_self)
  ultimately show ?thesis by (simp add: parse_hex_u64_def parse_id_def)
qed

text \<open>
  The parsers of the enumerations invert the printers: a text parses to a value exactly
  when it is that value's name. In particular all names are distinct and unknown ones are
  refused.
\<close>

theorem names_round_trip:
  "(parse_lifecycle t = Some l \<longleftrightarrow> t = lifecycle_name l) \<and>
   (parse_side_effect_class t = Some c \<longleftrightarrow> t = side_effect_class_name c) \<and>
   (parse_evidence_kind t = Some ek \<longleftrightarrow> t = evidence_kind_name ek) \<and>
   (parse_action_status t = Some st \<longleftrightarrow> t = action_status_name st) \<and>
   (parse_ambiguity_state t = Some am \<longleftrightarrow> t = ambiguity_state_name am) \<and>
   (parse_binding_domain t = Some bd \<longleftrightarrow> t = binding_domain_name bd) \<and>
   (parse_checkpoint_state t = Some ck \<longleftrightarrow> t = checkpoint_state_name ck) \<and>
   (parse_continuation_state t = Some ct \<longleftrightarrow> t = continuation_state_name ct) \<and>
   (parse_lease_state t = Some ls \<longleftrightarrow> t = lease_state_name ls) \<and>
   (parse_replay_status t = Some rs \<longleftrightarrow> t = replay_status_name rs) \<and>
   (parse_record_kind t = Some rk \<longleftrightarrow> t = record_kind_name rk) \<and>
   (parse_recovery_decision t = Some d \<longleftrightarrow> t = recovery_decision_name d)"
proof -
  have "rk \<in> set record_kinds" for rk by (cases rk) (simp_all add: record_kinds_def)
  moreover have "d \<in> set recovery_decisions" for d by (cases d) (simp_all add: recovery_decisions_def)
  ultimately show ?thesis
    unfolding parse_lifecycle_def parse_side_effect_class_def parse_evidence_kind_def
      parse_action_status_def parse_ambiguity_state_def parse_binding_domain_def
      parse_checkpoint_state_def parse_continuation_state_def parse_lease_state_def
      parse_replay_status_def parse_record_kind_def parse_recovery_decision_def
    by (intro conjI find_name)
     (simp_all add: lifecycles_complete enumerations_complete side_effect_classes_complete
      evidence_kinds_complete action_statuses_complete ambiguity_states_complete,
      simp_all add: lifecycles_def side_effect_classes_def evidence_kinds_def action_statuses_def
      ambiguity_states_def binding_domains_def checkpoint_states_def continuation_states_def
      lease_states_def replay_statuses_def record_kinds_def recovery_decisions_def)
qed

section \<open>Tables and binding sets\<close>

text \<open>
  C30. A record table (a vector with a key index) implements a finite map: upsert and
  erase keep the index consistent with the vector and change exactly one key; erase reports
  whether the key was present; and on the vector both act like the index-free list
  operations the rest of the model uses.
\<close>

theorem table_refines_map:
  assumes "tab_ok get t"
  shows "tab_ok get (tab_upsert get r t) \<and> tab_ok get (snd (tab_erase k t)) \<and>
    tab_find j (tab_upsert get r t) = (if j = get r then Some r else tab_find j t) \<and>
    tab_find j (snd (tab_erase k t)) = (if j = k then None else tab_find j t) \<and>
    (fst (tab_erase k t) \<longleftrightarrow> tab_find k t \<noteq> None) \<and>
    tab_records (tab_upsert get r t) = tbl_upsert get r (tab_records t) \<and>
    tab_records (snd (tab_erase k t)) = tbl_erase get k (tab_records t)"
  using tab_ok_upsert [OF assms] tab_ok_erase [OF assms] tab_find_upsert [OF assms]
    tab_upsert_refines [OF assms] tab_erase_refines [OF assms] tab_find_refines [OF assms]
    tab_find_erase [OF assms]
  by simp

definition sample_table :: "(u64, LeaseRecord) RecordTable" where
  "sample_table = tab_upsert lease_id sample_lease tab_empty"

lemma sample_table_ok: "tab_ok lease_id sample_table"
  unfolding sample_table_def by (rule tab_ok_upsert) (rule tab_ok_empty)

lemma sample_table_find: "tab_find k sample_table = (if k = 12 then Some sample_lease else None)"
  unfolding sample_table_def by (simp add: tab_upsert_def tab_find_def tab_empty_def sample_lease_def)

theorem table_refines_map_witness:
  "tab_find 12 (snd (tab_erase 5 sample_table)) = Some sample_lease"
  unfolding table_refines_map [OF sample_table_ok, THEN conjunct2, THEN conjunct2, THEN conjunct2,
    THEN conjunct1] sample_table_find by simp

text \<open>
  The canonical order of a table depends only on what it contains: two tables with the
  same lookups materialise to the same vector, so snapshots do not depend on insertion order.
\<close>

theorem canonical_order_unique:
  assumes "tab_ok get t" and "tab_ok get t'" and "\<forall>k. tab_find k t = tab_find k t'"
  shows "tab_canonical_order get t = tab_canonical_order get t'"
  using tab_canonical_order_unique [OF assms(1,2)] assms(3) by blast

theorem canonical_order_unique_witness:
  "tab_canonical_order lease_id (snd (tab_erase 5 sample_table)) =
   tab_canonical_order lease_id (tab_upsert lease_id sample_lease sample_table)"
proof (rule canonical_order_unique)
  show "tab_ok lease_id (snd (tab_erase 5 sample_table))" by (rule tab_ok_erase [OF sample_table_ok])
  show "tab_ok lease_id (tab_upsert lease_id sample_lease sample_table)"
    by (rule tab_ok_upsert [OF sample_table_ok])
  have "lease_id sample_lease = 12" by (simp add: sample_lease_def)
  then show "\<forall>k. tab_find k (snd (tab_erase 5 sample_table)) =
      tab_find k (tab_upsert lease_id sample_lease sample_table)"
    by (simp only: tab_find_erase [OF sample_table_ok] tab_find_upsert [OF sample_table_ok] sample_table_find)
      simp
qed

text \<open>
  The comparison of binding references is the lexicographic order of their keys.
\<close>

theorem bref_less_lexicographic: "bref_less a b \<longleftrightarrow> bref_key a < bref_key b"
  by (auto simp: bref_less_def bref_key_def enum_domain_inj less_prod_def')

text \<open>
  Canonicalising a binding set gives a sorted selection of its references, is
  idempotent, and does not depend on the order in which the references were given.
\<close>

theorem canonical_bindings:
  "canonicalize (canonicalize a) = canonicalize a \<and>
   (mset (bset_refs a) = mset (bset_refs b) \<longrightarrow> canonicalize a = canonicalize b) \<and>
   sorted (map bref_key (bset_refs (canonicalize a))) \<and>
   set (bset_refs (canonicalize a)) \<subseteq> set (bset_refs a)"
proof (intro conjI impI)
  have diff: "differing_ids (bset_refs (canonicalize a))" by (simp add: canonicalize_def dedup_differing)
  show "canonicalize (canonicalize a) = canonicalize a"
    unfolding canonicalize_def [of "canonicalize a"]
    using diff sorted_canonical by (simp add: sort_refs_def sort_key_id_if_sorted remdups_differing dedup_id)
  show "canonicalize a = canonicalize b" if "mset (bset_refs a) = mset (bset_refs b)"
  proof -
    have "sort_refs (bset_refs a) = sort_refs (bset_refs b)"
      unfolding sort_refs_def using that
      by (intro sort_key_inj_key_eq) (simp_all add: inj_on_def bref_key_inj)
    then show ?thesis by (simp add: canonicalize_def)
  qed
  show "sorted (map bref_key (bset_refs (canonicalize a)))" by (rule sorted_canonical)
  show "set (bset_refs (canonicalize a)) \<subseteq> set (bset_refs a)"
    using set_dedup [of None "remdups_adj (sort_refs (bset_refs a))"]
    by (simp add: canonicalize_def sort_refs_def)
qed

definition sample_ref :: "u64 \<Rightarrow> BindingRef" where
  "sample_ref i = \<lparr>bref_domain = Tool, bref_id = i, bref_generation = 1, bref_label = ''db''\<rparr>"

theorem canonical_bindings_witness:
  "canonicalize \<lparr>bset_refs = [sample_ref 2, sample_ref 1]\<rparr> =
   canonicalize \<lparr>bset_refs = [sample_ref 1, sample_ref 2]\<rparr>"
  using canonical_bindings [of "\<lparr>bset_refs = [sample_ref 2, sample_ref 1]\<rparr>"
    "\<lparr>bset_refs = [sample_ref 1, sample_ref 2]\<rparr>"] by simp

text \<open>
  C34. Reconciliation at start-up only moves executions forward: commits, progress records,
  leases and continuations stay as they are, no execution appears or disappears, and each
  keeps its lifecycle, lease and continuation while its frontier and progress generation
  never decrease.
\<close>

theorem reconcile_moves_forward:
  assumes "reconcile_state s = (s', repairs, changed)"
  shows "carried_forward s s'"
  using assms unfolding reconcile_state_def by (rule fold_reconcile_carried)

theorem reconcile_moves_forward_witness:
  "carried_forward sample_state (fst (reconcile_state sample_state))"
  using reconcile_moves_forward [of sample_state] by (metis prod.collapse)

end
