(* ===== verification/Auditing.thy ===== *)
theory Auditing
  imports Runtime_Core
begin

text \<open>
  \<open>include/pef/audit.hpp\<close> and \<open>src/audit.cpp\<close>: the invariant auditor, a pure function of a
  durable state. Each section of \<open>audit_state\<close> is a function that lists the findings of one
  record; \<open>continue\<close> is an early answer. Every finding has its stable code and its text,
  because both enter the digest of the report.
\<close>

section \<open>Reports\<close>

record AuditFinding =
  af_code :: string
  af_detail :: string
  af_execution :: u64
  af_fatal :: bool

record AuditCounts =
  cnt_executions :: u64
  cnt_actions :: u64
  cnt_progress :: u64
  cnt_checkpoints :: u64
  cnt_continuations :: u64
  cnt_leases :: u64
  cnt_replays :: u64
  cnt_ambiguities :: u64
  cnt_commits :: u64
  cnt_recoveries :: u64
  cnt_policies :: u64

record AuditReport =
  ar_counts :: AuditCounts
  ar_findings :: "AuditFinding list"
  ar_epoch :: u64
  ar_store :: u64
  ar_sequence :: u64

definition clean :: "AuditReport \<Rightarrow> bool" where
  "clean r \<longleftrightarrow> ar_findings r = []"

definition violations :: "AuditReport \<Rightarrow> nat" where
  "violations r = length (ar_findings r)"

text \<open>\<open>add\<close> under a condition.\<close>

definition add_if :: "bool \<Rightarrow> string \<Rightarrow> string \<Rightarrow> u64 \<Rightarrow> AuditFinding list" where
  "add_if cond code detail execution =
     (if cond then [\<lparr>af_code = code, af_detail = detail, af_execution = execution, af_fatal = True\<rparr>]
      else [])"

abbreviation add :: "string \<Rightarrow> string \<Rightarrow> u64 \<Rightarrow> AuditFinding list" where
  "add code detail execution \<equiv> add_if True code detail execution"

text \<open>
  \<open>render\<close> and \<open>digest\<close> sort the findings by code, execution and text. Findings that agree on
  the three print and hash alike, so the order among them does not matter.
\<close>

definition finding_key :: "AuditFinding \<Rightarrow> nat list \<times> u64 \<times> nat list" where
  "finding_key f = (map of_char (af_code f), af_execution f, map of_char (af_detail f))"

definition ordered_findings :: "AuditReport \<Rightarrow> AuditFinding list" where
  "ordered_findings r = sort_key finding_key (ar_findings r)"

definition newline :: string where
  "newline = [char_of (10 :: nat)]"

definition render_finding :: "AuditFinding \<Rightarrow> string" where
  "render_finding f =
     ''  VIOLATION '' @ af_code f @
     (if id_valid (af_execution f) then '' execution='' @ hex64 (af_execution f) else []) @
     '' :: '' @ af_detail f @ newline"

definition render :: "AuditReport \<Rightarrow> string" where
  "render r =
     (let c = ar_counts r; dec = (\<lambda>v. decimal (unat v)) in
      ''audit store='' @ hex64 (ar_store r) @ '' epoch='' @ dec (ar_epoch r) @
      '' sequence='' @ dec (ar_sequence r) @ '' violations='' @ decimal (violations r) @ newline @
      ''  executions='' @ dec (cnt_executions c) @ '' actions='' @ dec (cnt_actions c) @
      '' progress='' @ dec (cnt_progress c) @ '' checkpoints='' @ dec (cnt_checkpoints c) @
      '' continuations='' @ dec (cnt_continuations c) @ '' leases='' @ dec (cnt_leases c) @
      '' replays='' @ dec (cnt_replays c) @ '' ambiguities='' @ dec (cnt_ambiguities c) @
      '' commits='' @ dec (cnt_commits c) @ '' recoveries='' @ dec (cnt_recoveries c) @
      '' policies='' @ dec (cnt_policies c) @ newline @
      concat (map render_finding (ordered_findings r)))"

definition hash_finding :: "u64 \<Rightarrow> AuditFinding \<Rightarrow> u64" where
  "hash_finding h f = hb_text (hb_u64 (hb_text h (af_code f)) (af_execution f)) (af_detail f)"

definition report_digest :: "AuditReport \<Rightarrow> u64" where
  "report_digest r =
     (let c = ar_counts r;
          h = foldl hb_u64 hb_new [ar_store r, ar_epoch r, ar_sequence r, cnt_executions c,
            cnt_actions c, cnt_progress c, cnt_checkpoints c, cnt_continuations c, cnt_leases c,
            cnt_replays c, cnt_ambiguities c, cnt_commits c, cnt_recoveries c, cnt_policies c]
      in foldl hash_finding h (ordered_findings r))"

section \<open>The checks of one execution\<close>

definition audit_identity :: "ExecutionRecord \<Rightarrow> DurableState \<Rightarrow> AuditFinding list" where
  "audit_identity e s =
     (let i = exec_id e in
      add_if (exec_generation e = 0) ''EXECUTION_GENERATION_ZERO''
        ''execution generation is not established'' i @
      add_if (exec_policy_generation e = 0) ''EXECUTION_POLICY_GENERATION_ZERO''
        ''execution references no policy generation'' i @
      add_if (exec_epoch e > ds_epoch s) ''EXECUTION_EPOCH_AHEAD''
        ''execution records a coordinator epoch the store has not reached'' i @
      add_if (find_policy (exec_policy e) s = None) ''EXECUTION_POLICY_MISSING''
        ''execution references a missing policy'' i @
      (if id_valid (exec_incarnation e) \<or> exec_incarnation_generation e \<noteq> 0 then
         (if exec_incarnation_generation e = 0 then
            add ''INCARNATION_GENERATION_ZERO''
              ''execution has an incarnation but no incarnation generation'' i
          else add_if (derive_incarnation_id i (exec_incarnation_generation e) \<noteq> exec_incarnation e)
            ''INCARNATION_ID_MISMATCH''
            ''execution incarnation id is not the derived identity for its generation'' i)
       else []))"

definition audit_held_lease ::
  "ExecutionRecord \<Rightarrow> LeaseRecord \<Rightarrow> DurableState \<Rightarrow> AuditFinding list" where
  "audit_held_lease e l s =
     (let i = exec_id e in
      add_if (lease_state l \<noteq> Active) ''EXECUTION_REFERENCES_INACTIVE_LEASE''
        ''execution references a lease that is not active'' i @
      add_if (lease_execution l \<noteq> i) ''LEASE_EXECUTION_MISMATCH''
        ''lease belongs to a different execution'' i @
      add_if (lease_worker l \<noteq> exec_worker e \<or> lease_boot l \<noteq> exec_boot e) ''LEASE_WORKER_MISMATCH''
        ''lease worker or boot does not match the execution binding'' i @
      add_if (lease_epoch l \<noteq> ds_epoch s) ''LEASE_STALE_EPOCH''
        ''active lease carries an epoch that is not current'' i @
      add_if (lease_incarnation_generation l \<noteq> exec_incarnation_generation e)
        ''LEASE_INCARNATION_MISMATCH'' ''active lease binds a different incarnation generation'' i @
      add_if (lease_policy_generation l \<noteq> exec_policy_generation e) ''LEASE_POLICY_MISMATCH''
        ''active lease binds a different policy generation'' i)"

definition audit_authority :: "ExecutionRecord \<Rightarrow> DurableState \<Rightarrow> AuditFinding list" where
  "audit_authority e s =
     (let i = exec_id e; lease = find_lease (exec_lease e) s in
      (if has_lease e then
         (case lease of
            None \<Rightarrow> add ''EXECUTION_LEASE_MISSING'' ''execution references a missing lease'' i
          | Some l \<Rightarrow> audit_held_lease e l s) @
         add_if (\<not> id_valid (exec_worker e) \<or> \<not> id_valid (exec_boot e)) ''EXECUTION_WORKER_MISSING''
           ''execution holds a lease but records no worker binding'' i
       else add_if (has_worker e) ''EXECUTION_WORKER_WITHOUT_LEASE''
         ''execution records a worker binding but no lease'' i) @
      add_if (is_terminal_state (exec_lifecycle e) \<and> has_lease e) ''TERMINAL_EXECUTION_HOLDS_LEASE''
        (''lifecycle '' @ lifecycle_name (exec_lifecycle e) @ '' still holds a lease'') i @
      add_if (exec_lifecycle e = Retired \<and>
          (case lease of None \<Rightarrow> False | Some l \<Rightarrow> lease_state l = Active))
        ''RETIRED_EXECUTION_ACTIVE_LEASE'' ''a retired execution has an active lease'' i @
      (if is_terminal_state (exec_lifecycle e) \<and> id_valid (exec_ambiguity e) then
         (case find_ambiguity (exec_ambiguity e) s of
            None \<Rightarrow> []
          | Some m \<Rightarrow> add_if (ambiguity_is_open (amb_state m)) ''TERMINAL_EXECUTION_OPEN_AMBIGUITY''
              ''a terminal execution still has an open ambiguity'' i)
       else []))"

definition audit_seed :: "u64 \<Rightarrow> ContinuationRecord \<Rightarrow> DurableState \<Rightarrow> AuditFinding list" where
  "audit_seed i c s =
     (if id_valid (cont_checkpoint c) then
        (case find_checkpoint (cont_checkpoint c) s of
           None \<Rightarrow> add ''CONTINUATION_CHECKPOINT_MISSING''
             ''continuation references a missing checkpoint'' i
         | Some k \<Rightarrow> add_if (ckpt_state k = Corrupt \<or> ckpt_state k = Unsupported_CS)
             ''CONTINUATION_CHECKPOINT_UNUSABLE''
             ''continuation references a checkpoint that cannot seed execution'' i)
      else [])"

definition audit_continuation_ref :: "ExecutionRecord \<Rightarrow> DurableState \<Rightarrow> AuditFinding list" where
  "audit_continuation_ref e s =
     (let i = exec_id e in
      if id_valid (exec_continuation e) then
        (case find_continuation (exec_continuation e) s of
           None \<Rightarrow> add ''EXECUTION_CONTINUATION_MISSING''
             ''execution references a missing continuation'' i
         | Some c \<Rightarrow>
             add_if (cont_execution c \<noteq> i) ''CONTINUATION_EXECUTION_MISMATCH''
               ''continuation belongs to a different execution'' i @
             add_if (cont_execution_generation c > exec_generation e) ''CONTINUATION_GENERATION_AHEAD''
               ''continuation claims an execution generation that does not exist'' i @
             add_if (cont_progress_generation c > exec_progress_generation e)
               ''CONTINUATION_PROGRESS_AHEAD''
               ''continuation claims progress beyond the authoritative frontier'' i @
             add_if (cont_action_generation c > exec_action_generation e) ''CONTINUATION_ACTION_AHEAD''
               ''continuation claims an action generation that does not exist'' i @
             audit_seed i c s @
             add_if (cont_policy_generation c > exec_policy_generation e) ''CONTINUATION_POLICY_AHEAD''
               ''continuation claims a policy generation that does not exist'' i @
             add_if (cont_state c = Valid \<and> cont_epoch c \<noteq> ds_epoch s)
               ''VALID_CONTINUATION_STALE_EPOCH''
               ''a continuation marked VALID carries a non-current epoch'' i)
      else [])"

definition audit_checkpoint_ref :: "ExecutionRecord \<Rightarrow> DurableState \<Rightarrow> AuditFinding list" where
  "audit_checkpoint_ref e s =
     (let i = exec_id e in
      if id_valid (exec_checkpoint e) then
        (case find_checkpoint (exec_checkpoint e) s of
           None \<Rightarrow> add ''EXECUTION_CHECKPOINT_MISSING''
             ''execution references a missing checkpoint'' i
         | Some k \<Rightarrow>
             add_if (ckpt_execution k \<noteq> i) ''CHECKPOINT_EXECUTION_MISMATCH''
               ''checkpoint belongs to a different execution'' i @
             add_if (ckpt_content_hash k = 0) ''CHECKPOINT_CONTENT_HASH_ZERO''
               ''checkpoint carries no content integrity digest'' i @
             add_if (ckpt_state k = Corrupt) ''CURRENT_CHECKPOINT_CORRUPT''
               ''the execution's current checkpoint is marked corrupt'' i)
      else [])"

definition audit_progress_record ::
  "ExecutionRecord \<Rightarrow> DurableState \<Rightarrow> ProgressRecord \<Rightarrow> AuditFinding list" where
  "audit_progress_record e s p =
     (let i = exec_id e in
      if prog_execution p \<noteq> i then []
      else
        add_if (\<not> id_valid (prog_id p)) ''PROGRESS_ID_NIL'' ''progress record carries a nil id'' i @
        add_if (prog_generation p = 0) ''PROGRESS_GENERATION_ZERO''
          ''progress record carries no generation'' i @
        add_if (prog_generation p > exec_progress_generation e) ''PROGRESS_BEYOND_FRONTIER''
          ''progress generation exceeds the execution's authoritative progress'' i @
        add_if (prog_execution_generation p > exec_generation e)
          ''PROGRESS_EXECUTION_GENERATION_AHEAD''
          ''progress record claims a future execution generation'' i @
        add_if (prog_committed p \<and> find_commit (prog_commit p) s = None)
          ''COMMITTED_PROGRESS_WITHOUT_COMMIT''
          ''committed progress has no durable commit record'' i @
        add_if (exec_blocked e \<and> prog_committed p \<and> prog_ordinal p > exec_blocked_above_ordinal e)
          ''PROGRESS_BEYOND_AMBIGUOUS_ACTION''
          ''committed progress exists above an unresolved ambiguous action'' i)"

text \<open>
  The committed progress of an execution by generation. \<open>std::sort\<close> leaves records of equal
  generation in an unspecified order; here they keep their order in the table.
\<close>

definition committed_progress :: "u64 \<Rightarrow> DurableState \<Rightarrow> ProgressRecord list" where
  "committed_progress i s =
     sort_key prog_generation
       (filter (\<lambda>p. prog_execution p = i \<and> prog_committed p) (ds_progress s))"

fun contiguous_from :: "u64 \<Rightarrow> ProgressRecord list \<Rightarrow> bool" where
  "contiguous_from n [] = True"
| "contiguous_from n (p # ps) = (prog_generation p = n \<and> contiguous_from (n + 1) ps)"

text \<open>\<open>std::adjacent_find\<close> on the sorted ordinals.\<close>

fun adjacent_equal :: "u64 list \<Rightarrow> bool" where
  "adjacent_equal (a # b # xs) = (a = b \<or> adjacent_equal (b # xs))"
| "adjacent_equal xs = False"

definition audit_frontier :: "ExecutionRecord \<Rightarrow> DurableState \<Rightarrow> AuditFinding list" where
  "audit_frontier e s =
     (let i = exec_id e; committed = committed_progress i s in
      add_if (\<not> contiguous_from 1 committed) ''PROGRESS_GENERATION_NOT_CONTIGUOUS''
        ''committed progress generations are not contiguous from 1'' i @
      add_if (adjacent_equal (sort (map prog_ordinal committed))) ''PROGRESS_ORDINAL_DUPLICATE''
        ''two committed progress records share an action ordinal'' i @
      add_if (word_of_nat (length committed) \<noteq> exec_committed_actions e)
        ''COMMITTED_ACTION_COUNT_MISMATCH''
        ''execution's committed action counter disagrees with its committed progress'' i @
      (if committed \<noteq> [] then
         add_if (exec_progress_generation e \<noteq> prog_generation (last committed))
           ''FRONTIER_NOT_LATEST_COMMIT''
           ''authoritative progress generation is not the latest durable commit'' i @
         add_if (exec_last_commit e \<noteq> prog_commit (last committed)) ''LAST_COMMIT_MISMATCH''
           ''execution's last commit identity is not the latest durable commit'' i
       else add_if (exec_progress_generation e \<noteq> 0) ''FRONTIER_WITHOUT_COMMITS''
         ''execution reports a progress generation with no committed progress'' i))"

definition audit_ambiguity_ref :: "ExecutionRecord \<Rightarrow> DurableState \<Rightarrow> AuditFinding list" where
  "audit_ambiguity_ref e s =
     (let i = exec_id e in
      if id_valid (exec_ambiguity e) then
        (case find_ambiguity (exec_ambiguity e) s of
           None \<Rightarrow> add ''EXECUTION_AMBIGUITY_MISSING''
             ''execution references a missing ambiguity record'' i
         | Some m \<Rightarrow>
             add_if (amb_execution m \<noteq> i) ''AMBIGUITY_EXECUTION_MISMATCH''
               ''ambiguity record belongs to a different execution'' i @
             add_if (\<not> ambiguity_is_open (amb_state m) \<and> exec_blocked e)
               ''BLOCK_WITH_RESOLVED_AMBIGUITY''
               ''execution is blocked but its ambiguity is resolved'' i)
      else add_if (exec_blocked e) ''BLOCK_WITHOUT_AMBIGUITY''
        ''execution is blocked but references no ambiguity record'' i)"

definition audit_execution :: "DurableState \<Rightarrow> ExecutionRecord \<Rightarrow> AuditFinding list" where
  "audit_execution s e =
     (if \<not> id_valid (exec_id e) then
        add ''EXECUTION_ID_NIL'' ''execution record carries a nil id'' 0
      else
        audit_identity e s @ audit_authority e s @ audit_continuation_ref e s @
        audit_checkpoint_ref e s @ concat (map (audit_progress_record e s) (ds_progress s)) @
        audit_frontier e s @ audit_ambiguity_ref e s @
        add_if (id_valid (exec_recovery e) \<and> find_recovery (exec_recovery e) s = None)
          ''EXECUTION_RECOVERY_MISSING'' ''execution references a missing recovery record''
          (exec_id e) @
        (case binding_set_defect (exec_bindings e) of
           None \<Rightarrow> []
         | Some defect \<Rightarrow> add ''EXECUTION_BINDING_SET_DEFECT'' defect (exec_id e)))"

section \<open>The checks of the other tables\<close>

definition audit_committed_action :: "DurableState \<Rightarrow> ActionRecord \<Rightarrow> AuditFinding list" where
  "audit_committed_action s a =
     (if act_status a = Committed then
        (case find_commit (act_commit a) s of
           None \<Rightarrow> add ''COMMITTED_ACTION_WITHOUT_COMMIT''
             ''action is committed but has no durable commit record'' (act_execution a)
         | Some c \<Rightarrow> add_if (com_action c \<noteq> act_id a \<or> com_action_generation c \<noteq> act_generation a)
             ''COMMIT_ACTION_MISMATCH'' ''commit record does not identify the committed action''
             (act_execution a))
      else [])"

definition audit_action :: "DurableState \<Rightarrow> ActionRecord \<Rightarrow> AuditFinding list" where
  "audit_action s a =
     (let i = act_execution a in
      if \<not> id_valid (act_id a) then add ''ACTION_ID_NIL'' ''action record carries a nil id'' 0
      else
        add_if (act_generation a = 0) ''ACTION_GENERATION_ZERO''
          ''action record carries no generation'' i @
        (case find_execution i s of
           None \<Rightarrow> add ''ACTION_EXECUTION_MISSING'' ''action references a missing execution'' 0
         | Some e \<Rightarrow>
             add_if (act_execution_generation a > exec_generation e)
               ''ACTION_EXECUTION_GENERATION_AHEAD''
               ''action claims a future execution generation'' i @
             add_if (act_sequence a = 0) ''ACTION_ORDINAL_ZERO'' ''action has no ordinal'' i @
             add_if (act_sequence a > exec_action_frontier e) ''ACTION_BEYOND_FRONTIER''
               ''action ordinal exceeds the execution's action frontier'' i @
             add_if (requires_request_key (act_effect_class a) \<and> act_request_key a = [])
               ''ACTION_MISSING_REQUEST_KEY''
               ''an action whose class requires a request key has none'' i @
             add_if (act_sealed a \<and> \<not> evidence_present (act_receipt a) \<and>
                 act_status a = EffectApplied) ''ACTION_SEALED_WITHOUT_RECEIPT''
               ''action is sealed as applied without durable evidence'' i @
             audit_committed_action s a @
             add_if (id_valid (act_replayed_from a) \<and>
                 find_latest_action (act_replayed_from a) s = None) ''REPLAY_ORIGIN_MISSING''
               ''replayed action references a missing original action'' i))"

definition audit_lineage :: "DurableState \<Rightarrow> CheckpointRecord \<Rightarrow> AuditFinding list" where
  "audit_lineage s k =
     (let i = ckpt_execution k in
      if id_valid (ckpt_parent k) then
        (case find_checkpoint (ckpt_parent k) s of
           None \<Rightarrow> add ''CHECKPOINT_LINEAGE_BREAK'' ''checkpoint references a missing parent'' i
         | Some parent \<Rightarrow>
             add_if (ckpt_execution parent \<noteq> i) ''CHECKPOINT_LINEAGE_CROSS_EXECUTION''
               ''checkpoint parent belongs to a different execution'' i @
             add_if (ckpt_lineage_depth k \<noteq> ckpt_lineage_depth parent + 1)
               ''CHECKPOINT_LINEAGE_DEPTH_MISMATCH''
               ''checkpoint lineage depth does not follow its parent'' i @
             add_if (ckpt_generation parent \<ge> ckpt_generation k) ''CHECKPOINT_LINEAGE_NOT_BACKWARD''
               ''checkpoint parent generation is not older than the child'' i)
      else add_if (ckpt_lineage_depth k \<noteq> 0) ''CHECKPOINT_LINEAGE_DEPTH_WITHOUT_PARENT''
        ''checkpoint declares lineage depth but has no parent'' i)"

definition audit_checkpoint :: "DurableState \<Rightarrow> CheckpointRecord \<Rightarrow> AuditFinding list" where
  "audit_checkpoint s k =
     (let i = ckpt_execution k in
      if \<not> id_valid (ckpt_id k) then
        add ''CHECKPOINT_ID_NIL'' ''checkpoint record carries a nil id'' 0
      else case find_execution i s of
        None \<Rightarrow> add ''CHECKPOINT_EXECUTION_MISSING'' ''checkpoint references a missing execution'' 0
      | Some e \<Rightarrow>
          add_if (ckpt_content_hash k = 0) ''CHECKPOINT_HASH_ZERO''
            ''checkpoint carries no content integrity digest'' i @
          add_if (ckpt_progress_generation k > exec_progress_generation e)
            ''CHECKPOINT_PROGRESS_AHEAD''
            ''checkpoint claims progress beyond the authoritative frontier'' i @
          add_if (ckpt_generation k = 0) ''CHECKPOINT_GENERATION_ZERO''
            ''checkpoint carries no generation'' i @
          audit_lineage s k @
          (case binding_set_defect (ckpt_bindings k) of
             None \<Rightarrow> []
           | Some defect \<Rightarrow> add ''CHECKPOINT_BINDING_SET_DEFECT'' defect i))"

definition audit_continuation :: "DurableState \<Rightarrow> ContinuationRecord \<Rightarrow> AuditFinding list" where
  "audit_continuation s c =
     (let i = cont_execution c in
      add_if (find_execution i s = None) ''CONTINUATION_EXECUTION_MISSING''
        ''continuation references a missing execution'' 0 @
      (if cont_state c = Valid \<and> id_valid (cont_checkpoint c) then
         (case find_checkpoint (cont_checkpoint c) s of
            None \<Rightarrow> add ''VALID_CONTINUATION_MISSING_CHECKPOINT''
              ''a continuation marked VALID references a checkpoint that does not exist'' i
          | Some k \<Rightarrow> add_if (\<not> checkpoint_can_seed_continuation (ckpt_state k))
              ''VALID_CONTINUATION_UNSEEDABLE_CHECKPOINT''
              ''a continuation marked VALID references a checkpoint that cannot seed'' i)
       else []))"

text \<open>The valid continuations of an execution; \<open>valid_id\<close> of the loop is the id of the last one.\<close>

definition valid_continuations :: "u64 \<Rightarrow> DurableState \<Rightarrow> ContinuationRecord list" where
  "valid_continuations i s =
     filter (\<lambda>c. cont_execution c = i \<and> cont_state c = Valid) (ds_continuations s)"

definition audit_exclusive :: "DurableState \<Rightarrow> ExecutionRecord \<Rightarrow> AuditFinding list" where
  "audit_exclusive s e =
     (let i = exec_id e; valid = valid_continuations i s in
      add_if (length valid > 1) ''MULTIPLE_VALID_CONTINUATIONS''
        ''more than one continuation is marked VALID for one execution'' i @
      add_if (length valid = 1 \<and> cont_id (last valid) \<noteq> exec_continuation e)
        ''VALID_CONTINUATION_NOT_CURRENT''
        ''a continuation is marked VALID but is not the execution's current continuation'' i @
      add_if (valid = [] \<and> exec_lifecycle e \<in> {Running, Checkpointing, Draining})
        ''ACTIVE_EXECUTION_WITHOUT_VALID_CONTINUATION''
        ''an execution that is exercising authority has no VALID continuation'' i)"

definition audit_lease :: "DurableState \<Rightarrow> LeaseRecord \<Rightarrow> AuditFinding list" where
  "audit_lease s l =
     (let i = lease_execution l in
      if \<not> id_valid i then add ''LEASE_EXECUTION_NIL'' ''lease carries a nil execution id'' 0
      else case find_execution i s of
        None \<Rightarrow> add ''LEASE_EXECUTION_MISSING'' ''lease references a missing execution'' 0
      | Some e \<Rightarrow>
          add_if (lease_epoch l < ds_epoch s \<and> lease_state l = Active) ''STALE_LEASE_STILL_ACTIVE''
            ''a lease from a previous coordinator epoch is still active'' i @
          add_if (lease_state l = Active \<and> exec_lease e \<noteq> lease_id l) ''ORPHAN_ACTIVE_LEASE''
            ''an active lease is not the execution's current lease'' i)"

text \<open>The loop over the commits with the set \<open>commit_keys\<close> of the keys seen so far.\<close>

definition commit_key :: "CommitRecord \<Rightarrow> string" where
  "commit_key c = hex64 (com_action c) @ '':'' @ hex64 (com_action_generation c)"

definition audit_commit_progress :: "DurableState \<Rightarrow> CommitRecord \<Rightarrow> AuditFinding list" where
  "audit_commit_progress s c =
     (case find_progress (com_progress c) s of
        None \<Rightarrow> add ''COMMIT_PROGRESS_MISSING'' ''commit references a missing progress record''
          (com_execution c)
      | Some p \<Rightarrow> add_if (\<not> prog_committed p) ''COMMIT_PROGRESS_NOT_COMMITTED''
          ''commit references a progress record that is not committed'' (com_execution c))"

fun audit_commits :: "DurableState \<Rightarrow> string list \<Rightarrow> CommitRecord list \<Rightarrow> AuditFinding list" where
  "audit_commits s keys [] = []"
| "audit_commits s keys (c # cs) =
     (if \<not> id_valid (com_id c) then
        add ''COMMIT_ID_NIL'' ''commit record carries a nil id'' 0 @ audit_commits s keys cs
      else if find_action (com_action c) (com_action_generation c) s = None then
        add ''COMMIT_ACTION_MISSING'' ''commit references a missing action'' (com_execution c) @
        audit_commits s keys cs
      else
        add_if (List.member keys (commit_key c)) ''DUPLICATE_LOGICAL_COMMIT''
          ''two commit records exist for the same action identity and generation''
          (com_execution c) @
        audit_commit_progress s c @ audit_commits s (commit_key c # keys) cs)"

definition audit_replay :: "DurableState \<Rightarrow> ReplayRecord \<Rightarrow> AuditFinding list" where
  "audit_replay s p =
     add_if (find_latest_action (rep_action p) s = None) ''REPLAY_ACTION_MISSING''
       ''replay references a missing action'' (rep_execution p) @
     add_if (id_valid (rep_new_action p) \<and> find_latest_action (rep_new_action p) s = None)
       ''REPLAY_TARGET_MISSING'' ''replay references a missing replacement action''
       (rep_execution p) @
     add_if (rep_status p = Admitted \<and> \<not> id_valid (rep_new_action p))
       ''ADMITTED_REPLAY_WITHOUT_TARGET''
       ''an admitted replay has no replacement action identity'' (rep_execution p)"

definition audit_ambiguity :: "DurableState \<Rightarrow> AmbiguityRecord \<Rightarrow> AuditFinding list" where
  "audit_ambiguity s m =
     (case find_execution (amb_execution m) s of
        None \<Rightarrow> add ''AMBIGUITY_EXECUTION_MISSING'' ''ambiguity references a missing execution'' 0
      | Some e \<Rightarrow>
          add_if (find_action (amb_action m) (amb_action_generation m) s = None)
            ''AMBIGUITY_ACTION_MISSING'' ''ambiguity references a missing action''
            (amb_execution m) @
          add_if (ambiguity_is_open (amb_state m) \<and> \<not> id_valid (exec_ambiguity e))
            ''OPEN_AMBIGUITY_NOT_REFERENCED''
            ''an open ambiguity is not referenced by its execution'' (amb_execution m))"

definition kRecoveryDecisionCount :: u8 where
  "kRecoveryDecisionCount = 10"

definition audit_recovery :: "DurableState \<Rightarrow> RecoveryRecord \<Rightarrow> AuditFinding list" where
  "audit_recovery s v =
     add_if (find_execution (rec_execution v) s = None) ''RECOVERY_EXECUTION_MISSING''
       ''recovery record references a missing execution'' 0 @
     add_if (rec_decision v \<ge> kRecoveryDecisionCount) ''RECOVERY_DECISION_INVALID''
       ''recovery record carries an unknown decision ordinal'' (rec_execution v)"

definition audit_policy :: "ExecutionPolicy \<Rightarrow> AuditFinding list" where
  "audit_policy p =
     (case validate_policy p of
        None \<Rightarrow> []
      | Some reason \<Rightarrow> add ''POLICY_INVALID'' reason 0)"

section \<open>The audit\<close>

definition audit_counts :: "DurableState \<Rightarrow> AuditCounts" where
  "audit_counts s =
     \<lparr>cnt_executions = word_of_nat (length (ds_executions s)),
      cnt_actions = word_of_nat (length (ds_actions s)),
      cnt_progress = word_of_nat (length (ds_progress s)),
      cnt_checkpoints = word_of_nat (length (ds_checkpoints s)),
      cnt_continuations = word_of_nat (length (ds_continuations s)),
      cnt_leases = word_of_nat (length (ds_leases s)),
      cnt_replays = word_of_nat (length (ds_replays s)),
      cnt_ambiguities = word_of_nat (length (ds_ambiguities s)),
      cnt_commits = word_of_nat (length (ds_commits s)),
      cnt_recoveries = word_of_nat (length (ds_recoveries s)),
      cnt_policies = word_of_nat (length (ds_policies s))\<rparr>"

definition audit_findings :: "DurableState \<Rightarrow> AuditFinding list" where
  "audit_findings s =
     add_if (\<not> id_valid (ds_store s)) ''STORE_ID_NIL'' ''durable state carries no store id'' 0 @
     add_if (ds_schema s \<noteq> kPersistenceSchemaVersion) ''STORE_SCHEMA_UNEXPECTED''
       ''durable state schema is not the supported version'' 0 @
     concat (map (audit_execution s) (ds_executions s)) @
     concat (map (audit_action s) (ds_actions s)) @
     concat (map (audit_checkpoint s) (ds_checkpoints s)) @
     concat (map (audit_continuation s) (ds_continuations s)) @
     concat (map (audit_exclusive s) (ds_executions s)) @
     concat (map (audit_lease s) (ds_leases s)) @
     audit_commits s [] (ds_commits s) @
     concat (map (audit_replay s) (ds_replays s)) @
     concat (map (audit_ambiguity s) (ds_ambiguities s)) @
     concat (map (audit_recovery s) (ds_recoveries s)) @
     concat (map audit_policy (ds_policies s))"

definition audit_state :: "DurableState \<Rightarrow> AuditReport" where
  "audit_state s =
     \<lparr>ar_counts = audit_counts s, ar_findings = audit_findings s, ar_epoch = ds_epoch s,
      ar_store = ds_store s, ar_sequence = ds_sequence s\<rparr>"

text \<open>\<open>Runtime::audit\<close>: the report of the state in memory.\<close>

definition runtime_audit :: "AuditReport rt_op" where
  "runtime_audit = op_read (\<lambda>r. op_return (audit_state (rt_state r)))"

end
