(* ===== verification/Audit_Soundness.thy ===== *)
theory Audit_Soundness
  imports Auditing Restart "HOL-Library.Multiset"
begin

text \<open>
  The auditor against the invariants of the fabric: what a clean report guarantees, and which
  findings can never be reported for the states the coordinator reaches.
\<close>

section \<open>Findings\<close>

lemma add_if_Nil [simp]: "add_if c code detail i = [] \<longleftrightarrow> \<not> c"
  by (simp add: add_if_def)

lemma find_execution_in_set:
  "find_execution i s = Some e \<Longrightarrow> e \<in> set (ds_executions s) \<and> exec_id e = i"
  using find_execution_mem by simp

text \<open>No finding of a list has a code of a given set.\<close>

definition avoids :: "string set \<Rightarrow> AuditFinding list \<Rightarrow> bool" where
  "avoids C fs \<longleftrightarrow> (\<forall>f \<in> set fs. af_code f \<notin> C)"

lemma avoids_simps [simp]:
  "avoids C []" "avoids C (fs @ gs) \<longleftrightarrow> avoids C fs \<and> avoids C gs"
  "avoids C (add_if c code detail i) \<longleftrightarrow> (c \<longrightarrow> code \<notin> C)"
  "avoids C (concat (map g xs)) \<longleftrightarrow> (\<forall>x \<in> set xs. avoids C (g x))"
  by (auto simp: avoids_def add_if_def)

lemma avoids_branch [simp]:
  "avoids C (if b then fs else gs) \<longleftrightarrow> (if b then avoids C fs else avoids C gs)"
  "avoids C (case x of None \<Rightarrow> fs | Some y \<Rightarrow> g y) \<longleftrightarrow>
     (case x of None \<Rightarrow> avoids C fs | Some y \<Rightarrow> avoids C (g y))"
  by (simp_all split: option.split)

lemma avoids_Un: "avoids (C \<union> D) fs \<longleftrightarrow> avoids C fs \<and> avoids D fs"
  by (auto simp: avoids_def)

lemmas audit_section_defs =
  audit_identity_def audit_held_lease_def audit_authority_def audit_seed_def
  audit_continuation_ref_def audit_checkpoint_ref_def audit_progress_record_def
  audit_frontier_def audit_ambiguity_ref_def audit_execution_def audit_committed_action_def
  audit_action_def audit_lineage_def audit_checkpoint_def audit_continuation_def
  audit_exclusive_def audit_lease_def audit_commit_progress_def audit_replay_def
  audit_ambiguity_def audit_recovery_def audit_policy_def

section \<open>What reachable states are never charged with\<close>

lemma one_valid_length:
  assumes "one_valid s" "state_ok s"
  shows "length (valid_continuations i s) \<le> 1"
proof -
  have "distinct (ds_continuations s)"
    using assms(2) by (auto simp: state_ok_def tbl_ok_def distinct_map)
  then have "distinct (valid_continuations i s)" by (simp add: valid_continuations_def)
  moreover have "c = d" if "c \<in> set (valid_continuations i s)" "d \<in> set (valid_continuations i s)" for c d
    using assms(1) that by (simp add: one_valid_def valid_continuations_def)
  then have "set (valid_continuations i s) \<subseteq> {hd (valid_continuations i s)}"
    by (cases "valid_continuations i s") auto
  ultimately show ?thesis
    using card_mono [of "{hd (valid_continuations i s)}" "set (valid_continuations i s)"]
    by (simp add: distinct_card)
qed

lemma avoids_commits:
  assumes "\<forall>c \<in> set cs. find_progress (com_progress c) s \<noteq> None \<and>
      find_action (com_action c) (com_action_generation c) s \<noteq> None"
  shows "avoids {''COMMIT_ACTION_MISSING'', ''COMMIT_PROGRESS_MISSING''} (audit_commits s keys cs)"
  using assms
  by (induction cs arbitrary: keys) (auto simp: audit_commit_progress_def split: option.splits)

definition never_charged :: "string set" where
  "never_charged = {''MULTIPLE_VALID_CONTINUATIONS'', ''TERMINAL_EXECUTION_HOLDS_LEASE'',
     ''COMMIT_ACTION_MISSING'', ''COMMIT_PROGRESS_MISSING''}"

lemma avoids_commits_all:
  "commits_complete s \<Longrightarrow> avoids never_charged (audit_commits s keys cs) \<longleftrightarrow>
     avoids {''COMMIT_ACTION_MISSING'', ''COMMIT_PROGRESS_MISSING''} (audit_commits s keys cs)"
  by (induction cs arbitrary: keys)
    (auto simp: audit_commit_progress_def never_charged_def split: option.splits)

lemma avoids_execution_parts:
  "avoids never_charged (audit_identity e s)" "avoids never_charged (audit_continuation_ref e s)"
  "avoids never_charged (audit_checkpoint_ref e s)" "avoids never_charged (audit_progress_record e s p)"
  "avoids never_charged (audit_frontier e s)" "avoids never_charged (audit_ambiguity_ref e s)"
  by (simp_all add: audit_identity_def audit_continuation_ref_def audit_seed_def audit_checkpoint_ref_def
      audit_progress_record_def audit_frontier_def audit_ambiguity_ref_def Let_def never_charged_def
      split: option.split)

lemma avoids_held: "avoids never_charged (audit_held_lease e l s)"
  by (simp add: audit_held_lease_def Let_def never_charged_def)

lemma avoids_authority:
  "\<not> (is_terminal_state (exec_lifecycle e) \<and> has_lease e) \<Longrightarrow> avoids never_charged (audit_authority e s)"
  unfolding audit_authority_def Let_def
  by (simp add: avoids_held [unfolded never_charged_def] never_charged_def split: option.split del: is_terminal_state.simps)

lemma avoids_tables:
  "avoids never_charged (audit_action s a)" "avoids never_charged (audit_checkpoint s k)"
  "avoids never_charged (audit_continuation s c)" "avoids never_charged (audit_lease s l)"
  "avoids never_charged (audit_replay s p)" "avoids never_charged (audit_ambiguity s m)"
  "avoids never_charged (audit_recovery s v)" "avoids never_charged (audit_policy q)"
  by (simp_all add: audit_action_def audit_committed_action_def audit_checkpoint_def audit_lineage_def
      audit_continuation_def audit_lease_def audit_replay_def audit_ambiguity_def audit_recovery_def
      audit_policy_def Let_def never_charged_def split: option.split)

lemma fabric_inv_avoids:
  assumes "fabric_inv s"
  shows "avoids never_charged (audit_findings s)"
proof -
  have exec: "avoids never_charged (audit_execution s e)" if "e \<in> set (ds_executions s)" for e
  proof -
    have "\<not> (is_terminal_state (exec_lifecycle e) \<and> has_lease e)"
      using assms that by (auto simp: fabric_inv_def authority_ok_def unleased_def)
    then have "avoids never_charged (audit_authority e s)"
      by (rule avoids_authority)
    then show ?thesis
      by (simp add: audit_execution_def avoids_execution_parts)
        (simp add: never_charged_def split: option.split)
  qed
  have "length (valid_continuations i s) \<le> 1" for i
    using one_valid_length assms by (simp add: fabric_inv_def)
  then have exclusive: "avoids never_charged (audit_exclusive s e)" for e
    by (simp add: audit_exclusive_def Let_def never_charged_def not_less)
  have commits: "avoids never_charged (audit_commits s [] (ds_commits s))"
    using assms avoids_commits [of "ds_commits s" s]
    by (simp add: avoids_commits_all fabric_inv_def commits_complete_def)
  show ?thesis
    using exec exclusive commits
    by (simp add: audit_findings_def avoids_tables) (simp add: never_charged_def)
qed


section \<open>After a restart\<close>

definition settled_by_restart :: "string set" where
  "settled_by_restart = {''STALE_LEASE_STILL_ACTIVE'', ''VALID_CONTINUATION_STALE_EPOCH''}"

lemma settled_execution_parts:
  "avoids settled_by_restart (audit_identity e s)" "avoids settled_by_restart (audit_held_lease e l s)"
  "avoids settled_by_restart (audit_seed i c s)"
  "avoids settled_by_restart (audit_checkpoint_ref e s)"
  "avoids settled_by_restart (audit_progress_record e s p)"
  "avoids settled_by_restart (audit_frontier e s)" "avoids settled_by_restart (audit_ambiguity_ref e s)"
  by (simp_all add: audit_identity_def audit_held_lease_def audit_seed_def audit_checkpoint_ref_def
      audit_progress_record_def audit_frontier_def audit_ambiguity_ref_def Let_def
      settled_by_restart_def split: option.split)

lemma settled_authority: "avoids settled_by_restart (audit_authority e s)"
  unfolding audit_authority_def Let_def
  by (simp add: settled_execution_parts [unfolded settled_by_restart_def] settled_by_restart_def
      split: option.split del: is_terminal_state.simps)

lemma settled_tables:
  "avoids settled_by_restart (audit_action s a)" "avoids settled_by_restart (audit_checkpoint s k)"
  "avoids settled_by_restart (audit_continuation s c)" "avoids settled_by_restart (audit_exclusive s e)"
  "avoids settled_by_restart (audit_replay s p)" "avoids settled_by_restart (audit_ambiguity s m)"
  "avoids settled_by_restart (audit_recovery s v)" "avoids settled_by_restart (audit_policy q)"
  by (simp_all add: audit_action_def audit_committed_action_def audit_checkpoint_def audit_lineage_def
      audit_continuation_def audit_exclusive_def audit_replay_def audit_ambiguity_def audit_recovery_def
      audit_policy_def Let_def settled_by_restart_def split: option.split)

lemma settled_commits: "avoids settled_by_restart (audit_commits s keys cs)"
  by (induction cs arbitrary: keys)
    (auto simp: audit_commit_progress_def settled_by_restart_def split: option.splits)

lemma current_authority_avoids:
  assumes "current_authority s"
  shows "avoids settled_by_restart (audit_findings s)"
proof -
  have lease: "avoids settled_by_restart (audit_lease s l)" if "l \<in> set (ds_leases s)" for l
    using assms that
    by (auto simp: audit_lease_def Let_def settled_by_restart_def current_authority_def split: option.split)
  have "c \<in> set (ds_continuations s)" if "find_continuation i s = Some c" for i c
    using that tbl_find_Some by (fastforce simp: find_continuation_def)
  then have "avoids settled_by_restart (audit_continuation_ref e s)" for e
    using assms
    by (auto simp: audit_continuation_ref_def Let_def current_authority_def
        settled_execution_parts split: option.split)
      (simp_all add: settled_by_restart_def)
  then have "avoids settled_by_restart (audit_execution s e)" for e
    by (simp add: audit_execution_def settled_execution_parts settled_authority)
      (simp add: settled_by_restart_def split: option.split)
  then show ?thesis
    using lease by (simp add: audit_findings_def settled_tables settled_commits)
      (simp add: settled_by_restart_def)
qed

section \<open>What a clean report guarantees\<close>

lemma clean_sections:
  assumes "clean (audit_state s)"
  shows "e \<in> set (ds_executions s) \<Longrightarrow> audit_execution s e = []"
    "a \<in> set (ds_actions s) \<Longrightarrow> audit_action s a = []"
    "c \<in> set (ds_continuations s) \<Longrightarrow> audit_continuation s c = []"
    "e \<in> set (ds_executions s) \<Longrightarrow> audit_exclusive s e = []"
    "l \<in> set (ds_leases s) \<Longrightarrow> audit_lease s l = []"
    "audit_commits s [] (ds_commits s) = []"
  using assms by (simp_all add: clean_def audit_state_def audit_findings_def)

lemma clean_commits:
  assumes "audit_commits s keys cs = []"
  shows "(\<forall>c \<in> set cs. find_progress (com_progress c) s \<noteq> None \<and>
      find_action (com_action c) (com_action_generation c) s \<noteq> None) \<and>
    distinct (map commit_key cs) \<and> set keys \<inter> set (map commit_key cs) = {}"
  using assms
  by (induction cs arbitrary: keys)
    (fastforce simp: audit_commit_progress_def split: if_splits option.splits)+

lemma contiguous_last:
  "contiguous_from n ps \<Longrightarrow> ps \<noteq> [] \<Longrightarrow> prog_generation (last ps) = n + word_of_nat (length ps) - 1"
  by (induction n ps rule: contiguous_from.induct) auto

lemma clean_frontier:
  "audit_frontier e s = [] \<Longrightarrow>
   exec_progress_generation e = word_of_nat (length (committed_progress (exec_id e) s)) \<and>
   exec_committed_actions e = exec_progress_generation e"
  using contiguous_last [of 1 "committed_progress (exec_id e) s"]
  by (auto simp: audit_frontier_def Let_def split: if_splits)

lemma clean_exclusive:
  assumes "audit_exclusive s e = []" "c \<in> set (valid_continuations (exec_id e) s)"
  shows "valid_continuations (exec_id e) s = [c] \<and> exec_continuation e = cont_id c"
  using assms
  by (cases "valid_continuations (exec_id e) s") (auto simp: audit_exclusive_def Let_def)

lemma clean_execution:
  assumes "audit_execution s e = []"
  shows "audit_authority e s = []" "audit_frontier e s = []" "id_valid (exec_id e)"
  using assms by (auto simp: audit_execution_def split: if_splits)

lemma clean_lease:
  assumes clean: "clean (audit_state s)" and ok: "state_ok s"
    and l: "l \<in> set (ds_leases s)" "lease_state l = Active" "id_valid (lease_id l)"
  shows "\<exists>e. find_execution (lease_execution l) s = Some e \<and> exec_lease e = lease_id l \<and>
    lease_epoch l = ds_epoch s \<and> lease_worker l = exec_worker e \<and> lease_boot l = exec_boot e \<and>
    \<not> is_terminal_state (exec_lifecycle e)"
proof -
  obtain e where e: "find_execution (lease_execution l) s = Some e" "exec_lease e = lease_id l"
    using clean_sections(5) [OF clean l(1)] l(2)
    by (auto simp: audit_lease_def Let_def split: if_splits option.splits)
  have "find_lease (lease_id l) s = Some l"
    using ok l(1) tbl_find_mem by (fastforce simp: state_ok_def find_lease_def)
  moreover have "audit_authority e s = []"
    using clean_execution(1) clean_sections(1) [OF clean] find_execution_in_set [OF e(1)] by blast
  ultimately show ?thesis
    using e l(3)
    by (auto simp: audit_authority_def audit_held_lease_def Let_def simp del: is_terminal_state.simps)
qed

lemma clean_one_valid:
  assumes "clean (audit_state s)"
  shows "one_valid s"
  unfolding one_valid_def
proof (intro ballI impI, elim conjE)
  fix c d
  assume c: "c \<in> set (ds_continuations s)" "cont_state c = Valid"
    and d: "d \<in> set (ds_continuations s)" "cont_state d = Valid" "cont_execution c = cont_execution d"
  obtain e where "find_execution (cont_execution c) s = Some e"
    using clean_sections(3) [OF assms c(1)] by (auto simp: audit_continuation_def Let_def)
  then have e: "e \<in> set (ds_executions s)" "exec_id e = cont_execution c"
    using find_execution_in_set by blast+
  have "c \<in> set (valid_continuations (exec_id e) s)" "d \<in> set (valid_continuations (exec_id e) s)"
    using c d e by (simp_all add: valid_continuations_def)
  then show "c = d"
    using clean_exclusive [OF clean_sections(4) [OF assms e(1)]] by fastforce
qed

section \<open>The order of the findings does not matter\<close>

lemma map_sort_key: "map f (sort_key f xs) = sort (map f xs)"
  by (rule properties_for_sort [symmetric]) simp_all

lemma finding_key_eq:
  "finding_key f = finding_key g \<longleftrightarrow>
   af_code f = af_code g \<and> af_execution f = af_execution g \<and> af_detail f = af_detail g"
proof -
  have "inj (of_char :: char \<Rightarrow> nat)" by (simp add: inj_def)
  then show ?thesis by (auto simp: finding_key_def dest: map_injective)
qed

lemma ordered_findings_keys:
  assumes "mset (ar_findings r) = mset (ar_findings r')"
  shows "list_all2 (\<lambda>f g. finding_key f = finding_key g) (ordered_findings r) (ordered_findings r')"
proof -
  have "map finding_key (ordered_findings r) = map finding_key (ordered_findings r')"
    unfolding ordered_findings_def map_sort_key
    using assms by (intro properties_for_sort) (simp_all add: mset_map)
  then show ?thesis by (simp add: list_all2_conv_all_nth list_eq_iff_nth_eq)
qed

lemma render_findings_cong:
  "list_all2 (\<lambda>f g. finding_key f = finding_key g) fs gs \<Longrightarrow>
   map render_finding fs = map render_finding gs"
  by (induction rule: list_all2_induct) (simp_all add: finding_key_eq render_finding_def)

lemma hash_findings_cong:
  "list_all2 (\<lambda>f g. finding_key f = finding_key g) fs gs \<Longrightarrow>
   foldl hash_finding h fs = foldl hash_finding h gs"
  by (induction arbitrary: h rule: list_all2_induct) (simp_all add: finding_key_eq hash_finding_def)

end
