(* ===== verification/Wire_Requests.thy ===== *)
theory Wire_Requests
  imports Runtime_Recovery
begin

text \<open>
  The request payloads of the wire protocol (\<open>include/pef/protocol.hpp\<close>): one record per
  structure that the runtime does not already declare, and the canonical encoding of each,
  unfolded from its \<open>PEF_WIRE_TRAITS\<close> in the order listed there. \<open>CompletionEvidence\<close> is
  part of \<open>CompleteActionRequest\<close>, whose fields follow each other on the wire.
\<close>

section \<open>Structures and their encoding\<close>

subsection \<open>\<open>LeaseToken\<close>\<close>

definition encode_LeaseToken :: "LeaseToken \<Rightarrow> bytes" where
  "encode_LeaseToken r =
     w_u64 (tok_execution r) @ w_u64 (tok_execution_generation r) @ w_u64 (tok_incarnation r) @
     w_u64 (tok_incarnation_generation r) @ w_u64 (tok_lease r) @
     w_u64 (tok_lease_generation r) @ w_u64 (tok_epoch r) @ w_u64 (tok_worker r) @
     w_u64 (tok_boot r) @ w_u64 (tok_policy_generation r)"

definition decode_LeaseToken :: "LeaseToken field_reader" where
  "decode_LeaseToken =
     and_then read_u64 (\<lambda>execution.
     and_then read_u64 (\<lambda>execution_generation.
     and_then read_u64 (\<lambda>incarnation.
     and_then read_u64 (\<lambda>incarnation_generation.
     and_then read_u64 (\<lambda>lease.
     and_then read_u64 (\<lambda>lease_generation.
     and_then read_u64 (\<lambda>epoch.
     and_then read_u64 (\<lambda>worker.
     and_then read_u64 (\<lambda>boot.
     and_then read_u64 (\<lambda>policy_generation.
     decoded
       \<lparr>tok_execution = execution, tok_execution_generation = execution_generation,
        tok_incarnation = incarnation, tok_incarnation_generation = incarnation_generation,
        tok_lease = lease, tok_lease_generation = lease_generation, tok_epoch = epoch,
        tok_worker = worker, tok_boot = boot, tok_policy_generation = policy_generation\<rparr>))))))))))"

interpretation LeaseToken_codec: field_codec encode_LeaseToken decode_LeaseToken any_value
proof (rule codec_from_chain)
  fix lim :: DecodeLimits and r :: LeaseToken
  show "reads lim decode_LeaseToken (encode_LeaseToken r) r"
    by (cases r, unfold encode_LeaseToken_def decode_LeaseToken_def)
      (simp, (rule reads_and_then, rule codec_reads, simp)+, rule reads_last, rule codec_reads, simp)
next
  show "yields decode_LeaseToken (\<lambda>r used. used = encode_LeaseToken r)"
    unfolding decode_LeaseToken_def
    by ((rule yields_and_then, rule codec_yields)+, rule yields_decoded, simp add: encode_LeaseToken_def)
qed

declare LeaseToken_codec.reads_write [codec_reads] LeaseToken_codec.read_canonical [codec_yields]

subsection \<open>\<open>CallerContext\<close>\<close>

definition encode_CallerContext :: "CallerContext \<Rightarrow> bytes" where
  "encode_CallerContext r =
     w_u64 (caller_session r) @ w_u64 (caller_epoch r)"

definition decode_CallerContext :: "CallerContext field_reader" where
  "decode_CallerContext =
     and_then read_u64 (\<lambda>session.
     and_then read_u64 (\<lambda>epoch.
     decoded
       \<lparr>caller_session = session, caller_epoch = epoch\<rparr>))"

interpretation CallerContext_codec: field_codec encode_CallerContext decode_CallerContext any_value
proof (rule codec_from_chain)
  fix lim :: DecodeLimits and r :: CallerContext
  show "reads lim decode_CallerContext (encode_CallerContext r) r"
    by (cases r, unfold encode_CallerContext_def decode_CallerContext_def)
      (simp, (rule reads_and_then, rule codec_reads, simp)+, rule reads_last, rule codec_reads, simp)
next
  show "yields decode_CallerContext (\<lambda>r used. used = encode_CallerContext r)"
    unfolding decode_CallerContext_def
    by ((rule yields_and_then, rule codec_yields)+, rule yields_decoded, simp add: encode_CallerContext_def)
qed

declare CallerContext_codec.reads_write [codec_reads] CallerContext_codec.read_canonical [codec_yields]

subsection \<open>\<open>HelloRequest\<close>\<close>

record HelloRequest =
  hrq_client_name :: string
  hrq_client_version :: string
  hrq_worker :: u64
  hrq_boot :: u64
  hrq_as_worker :: bool

definition encode_HelloRequest :: "HelloRequest \<Rightarrow> bytes" where
  "encode_HelloRequest r =
     w_text (hrq_client_name r) @ w_text (hrq_client_version r) @ w_u64 (hrq_worker r) @
     w_u64 (hrq_boot r) @ w_boolean (hrq_as_worker r)"

definition decode_HelloRequest :: "HelloRequest field_reader" where
  "decode_HelloRequest =
     and_then read_text (\<lambda>client_name.
     and_then read_text (\<lambda>client_version.
     and_then read_u64 (\<lambda>worker.
     and_then read_u64 (\<lambda>boot.
     and_then read_bool (\<lambda>as_worker.
     decoded
       \<lparr>hrq_client_name = client_name, hrq_client_version = client_version, hrq_worker = worker,
        hrq_boot = boot, hrq_as_worker = as_worker\<rparr>)))))"

definition wf_HelloRequest :: "DecodeLimits \<Rightarrow> HelloRequest \<Rightarrow> bool" where
  "wf_HelloRequest lim r \<longleftrightarrow> wf_text lim (hrq_client_name r) \<and> wf_text lim (hrq_client_version r)"

interpretation HelloRequest_codec: field_codec encode_HelloRequest decode_HelloRequest wf_HelloRequest
proof (rule codec_from_chain)
  fix lim :: DecodeLimits and r :: HelloRequest
  assume "wf_HelloRequest lim r"
  then show "reads lim decode_HelloRequest (encode_HelloRequest r) r"
    by (cases r, unfold encode_HelloRequest_def decode_HelloRequest_def)
      (simp add: wf_HelloRequest_def, (rule reads_and_then, rule codec_reads, simp)+, rule reads_last, rule codec_reads, simp)
next
  show "yields decode_HelloRequest (\<lambda>r used. used = encode_HelloRequest r)"
    unfolding decode_HelloRequest_def
    by ((rule yields_and_then, rule codec_yields)+, rule yields_decoded, simp add: encode_HelloRequest_def)
qed

declare HelloRequest_codec.reads_write [codec_reads] HelloRequest_codec.read_canonical [codec_yields]

subsection \<open>\<open>PingRequest\<close>\<close>

record PingRequest =
  prq_token :: u64

definition encode_PingRequest :: "PingRequest \<Rightarrow> bytes" where
  "encode_PingRequest r =
     w_u64 (prq_token r)"

definition decode_PingRequest :: "PingRequest field_reader" where
  "decode_PingRequest =
     and_then read_u64 (\<lambda>token.
     decoded
       \<lparr>prq_token = token\<rparr>)"

interpretation PingRequest_codec: field_codec encode_PingRequest decode_PingRequest any_value
proof (rule codec_from_chain)
  fix lim :: DecodeLimits and r :: PingRequest
  show "reads lim decode_PingRequest (encode_PingRequest r) r"
    by (cases r, unfold encode_PingRequest_def decode_PingRequest_def)
      (simp, rule reads_last, rule codec_reads, simp)
next
  show "yields decode_PingRequest (\<lambda>r used. used = encode_PingRequest r)"
    unfolding decode_PingRequest_def
    by ((rule yields_and_then, rule codec_yields)+, rule yields_decoded, simp add: encode_PingRequest_def)
qed

declare PingRequest_codec.reads_write [codec_reads] PingRequest_codec.read_canonical [codec_yields]

subsection \<open>\<open>CreateExecutionRequest\<close>\<close>

record CreateExecutionRequest =
  crq_request :: u64
  crq_policy :: ExecutionPolicy

definition encode_CreateExecutionRequest :: "CreateExecutionRequest \<Rightarrow> bytes" where
  "encode_CreateExecutionRequest r =
     w_u64 (crq_request r) @ encode_ExecutionPolicy (crq_policy r)"

definition decode_CreateExecutionRequest :: "CreateExecutionRequest field_reader" where
  "decode_CreateExecutionRequest =
     and_then read_u64 (\<lambda>request.
     and_then decode_ExecutionPolicy (\<lambda>policy.
     decoded
       \<lparr>crq_request = request, crq_policy = policy\<rparr>))"

interpretation CreateExecutionRequest_codec: field_codec encode_CreateExecutionRequest decode_CreateExecutionRequest any_value
proof (rule codec_from_chain)
  fix lim :: DecodeLimits and r :: CreateExecutionRequest
  show "reads lim decode_CreateExecutionRequest (encode_CreateExecutionRequest r) r"
    by (cases r, unfold encode_CreateExecutionRequest_def decode_CreateExecutionRequest_def)
      (simp, (rule reads_and_then, rule codec_reads, simp)+, rule reads_last, rule codec_reads, simp)
next
  show "yields decode_CreateExecutionRequest (\<lambda>r used. used = encode_CreateExecutionRequest r)"
    unfolding decode_CreateExecutionRequest_def
    by ((rule yields_and_then, rule codec_yields)+, rule yields_decoded, simp add: encode_CreateExecutionRequest_def)
qed

declare CreateExecutionRequest_codec.reads_write [codec_reads] CreateExecutionRequest_codec.read_canonical [codec_yields]

subsection \<open>\<open>BindWorkerRequest\<close>\<close>

record BindWorkerRequest =
  bwq_request :: u64
  bwq_execution :: u64
  bwq_worker :: u64
  bwq_boot :: u64
  bwq_bindings :: BindingSet

definition encode_BindWorkerRequest :: "BindWorkerRequest \<Rightarrow> bytes" where
  "encode_BindWorkerRequest r =
     w_u64 (bwq_request r) @ w_u64 (bwq_execution r) @ w_u64 (bwq_worker r) @
     w_u64 (bwq_boot r) @ encode_BindingSet (bwq_bindings r)"

definition decode_BindWorkerRequest :: "BindWorkerRequest field_reader" where
  "decode_BindWorkerRequest =
     and_then read_u64 (\<lambda>request.
     and_then read_u64 (\<lambda>execution.
     and_then read_u64 (\<lambda>worker.
     and_then read_u64 (\<lambda>boot.
     and_then decode_BindingSet (\<lambda>bindings.
     decoded
       \<lparr>bwq_request = request, bwq_execution = execution, bwq_worker = worker, bwq_boot = boot,
        bwq_bindings = bindings\<rparr>)))))"

definition wf_BindWorkerRequest :: "DecodeLimits \<Rightarrow> BindWorkerRequest \<Rightarrow> bool" where
  "wf_BindWorkerRequest lim r \<longleftrightarrow> wf_BindingSet lim (bwq_bindings r)"

interpretation BindWorkerRequest_codec: field_codec encode_BindWorkerRequest decode_BindWorkerRequest wf_BindWorkerRequest
proof (rule codec_from_chain)
  fix lim :: DecodeLimits and r :: BindWorkerRequest
  assume "wf_BindWorkerRequest lim r"
  then show "reads lim decode_BindWorkerRequest (encode_BindWorkerRequest r) r"
    by (cases r, unfold encode_BindWorkerRequest_def decode_BindWorkerRequest_def)
      (simp add: wf_BindWorkerRequest_def, (rule reads_and_then, rule codec_reads, simp)+, rule reads_last, rule codec_reads, simp)
next
  show "yields decode_BindWorkerRequest (\<lambda>r used. used = encode_BindWorkerRequest r)"
    unfolding decode_BindWorkerRequest_def
    by ((rule yields_and_then, rule codec_yields)+, rule yields_decoded, simp add: encode_BindWorkerRequest_def)
qed

declare BindWorkerRequest_codec.reads_write [codec_reads] BindWorkerRequest_codec.read_canonical [codec_yields]

subsection \<open>\<open>StartRequest\<close>\<close>

record StartRequest =
  srq_request :: u64
  srq_token :: LeaseToken

definition encode_StartRequest :: "StartRequest \<Rightarrow> bytes" where
  "encode_StartRequest r =
     w_u64 (srq_request r) @ encode_LeaseToken (srq_token r)"

definition decode_StartRequest :: "StartRequest field_reader" where
  "decode_StartRequest =
     and_then read_u64 (\<lambda>request.
     and_then decode_LeaseToken (\<lambda>token.
     decoded
       \<lparr>srq_request = request, srq_token = token\<rparr>))"

interpretation StartRequest_codec: field_codec encode_StartRequest decode_StartRequest any_value
proof (rule codec_from_chain)
  fix lim :: DecodeLimits and r :: StartRequest
  show "reads lim decode_StartRequest (encode_StartRequest r) r"
    by (cases r, unfold encode_StartRequest_def decode_StartRequest_def)
      (simp, (rule reads_and_then, rule codec_reads, simp)+, rule reads_last, rule codec_reads, simp)
next
  show "yields decode_StartRequest (\<lambda>r used. used = encode_StartRequest r)"
    unfolding decode_StartRequest_def
    by ((rule yields_and_then, rule codec_yields)+, rule yields_decoded, simp add: encode_StartRequest_def)
qed

declare StartRequest_codec.reads_write [codec_reads] StartRequest_codec.read_canonical [codec_yields]

subsection \<open>\<open>BeginActionRequest\<close>\<close>

definition encode_BeginActionRequest :: "BeginActionRequest \<Rightarrow> bytes" where
  "encode_BeginActionRequest r =
     w_u64 (bar_request r) @ encode_LeaseToken (bar_token r) @
     write_enum side_effect_classes (bar_effect_class r) @ w_text (bar_request_key r) @
     encode_Evidence (bar_evidence r)"

definition decode_BeginActionRequest :: "BeginActionRequest field_reader" where
  "decode_BeginActionRequest =
     and_then read_u64 (\<lambda>request.
     and_then decode_LeaseToken (\<lambda>token.
     and_then (read_enum side_effect_classes) (\<lambda>effect_class.
     and_then read_text (\<lambda>request_key.
     and_then decode_Evidence (\<lambda>evidence.
     decoded
       \<lparr>bar_request = request, bar_token = token, bar_effect_class = effect_class,
        bar_request_key = request_key, bar_evidence = evidence\<rparr>)))))"

definition wf_BeginActionRequest :: "DecodeLimits \<Rightarrow> BeginActionRequest \<Rightarrow> bool" where
  "wf_BeginActionRequest lim r \<longleftrightarrow> wf_text lim (bar_request_key r) \<and> wf_Evidence lim (bar_evidence r)"

interpretation BeginActionRequest_codec: field_codec encode_BeginActionRequest decode_BeginActionRequest wf_BeginActionRequest
proof (rule codec_from_chain)
  fix lim :: DecodeLimits and r :: BeginActionRequest
  assume "wf_BeginActionRequest lim r"
  then show "reads lim decode_BeginActionRequest (encode_BeginActionRequest r) r"
    by (cases r, unfold encode_BeginActionRequest_def decode_BeginActionRequest_def)
      (simp add: wf_BeginActionRequest_def, (rule reads_and_then, rule codec_reads, simp)+, rule reads_last, rule codec_reads, simp)
next
  show "yields decode_BeginActionRequest (\<lambda>r used. used = encode_BeginActionRequest r)"
    unfolding decode_BeginActionRequest_def
    by ((rule yields_and_then, rule codec_yields)+, rule yields_decoded, simp add: encode_BeginActionRequest_def)
qed

declare BeginActionRequest_codec.reads_write [codec_reads] BeginActionRequest_codec.read_canonical [codec_yields]

subsection \<open>\<open>CompleteActionRequest\<close>\<close>

definition encode_CompleteActionRequest :: "CompleteActionRequest \<Rightarrow> bytes" where
  "encode_CompleteActionRequest r =
     w_u64 (car_request r) @ encode_LeaseToken (car_token r) @ w_u64 (car_action r) @
     w_u64 (car_action_generation r) @ w_boolean (car_effect_applied r) @
     encode_Evidence (car_evidence r)"

definition decode_CompleteActionRequest :: "CompleteActionRequest field_reader" where
  "decode_CompleteActionRequest =
     and_then read_u64 (\<lambda>request.
     and_then decode_LeaseToken (\<lambda>token.
     and_then read_u64 (\<lambda>action.
     and_then read_u64 (\<lambda>action_generation.
     and_then read_bool (\<lambda>effect_applied.
     and_then decode_Evidence (\<lambda>evidence.
     decoded
       \<lparr>car_request = request, car_token = token, car_action = action,
        car_action_generation = action_generation, car_effect_applied = effect_applied,
        car_evidence = evidence\<rparr>))))))"

definition wf_CompleteActionRequest :: "DecodeLimits \<Rightarrow> CompleteActionRequest \<Rightarrow> bool" where
  "wf_CompleteActionRequest lim r \<longleftrightarrow> wf_Evidence lim (car_evidence r)"

interpretation CompleteActionRequest_codec: field_codec encode_CompleteActionRequest decode_CompleteActionRequest wf_CompleteActionRequest
proof (rule codec_from_chain)
  fix lim :: DecodeLimits and r :: CompleteActionRequest
  assume "wf_CompleteActionRequest lim r"
  then show "reads lim decode_CompleteActionRequest (encode_CompleteActionRequest r) r"
    by (cases r, unfold encode_CompleteActionRequest_def decode_CompleteActionRequest_def)
      (simp add: wf_CompleteActionRequest_def, (rule reads_and_then, rule codec_reads, simp)+, rule reads_last, rule codec_reads, simp)
next
  show "yields decode_CompleteActionRequest (\<lambda>r used. used = encode_CompleteActionRequest r)"
    unfolding decode_CompleteActionRequest_def
    by ((rule yields_and_then, rule codec_yields)+, rule yields_decoded, simp add: encode_CompleteActionRequest_def)
qed

declare CompleteActionRequest_codec.reads_write [codec_reads] CompleteActionRequest_codec.read_canonical [codec_yields]

subsection \<open>\<open>FailActionRequest\<close>\<close>

record FailActionRequest =
  far_request :: u64
  far_token :: LeaseToken
  far_action :: u64
  far_action_generation :: u64
  far_evidence :: Evidence
  far_reason :: string

definition encode_FailActionRequest :: "FailActionRequest \<Rightarrow> bytes" where
  "encode_FailActionRequest r =
     w_u64 (far_request r) @ encode_LeaseToken (far_token r) @ w_u64 (far_action r) @
     w_u64 (far_action_generation r) @ encode_Evidence (far_evidence r) @ w_text (far_reason r)"

definition decode_FailActionRequest :: "FailActionRequest field_reader" where
  "decode_FailActionRequest =
     and_then read_u64 (\<lambda>request.
     and_then decode_LeaseToken (\<lambda>token.
     and_then read_u64 (\<lambda>action.
     and_then read_u64 (\<lambda>action_generation.
     and_then decode_Evidence (\<lambda>evidence.
     and_then read_text (\<lambda>reason.
     decoded
       \<lparr>far_request = request, far_token = token, far_action = action,
        far_action_generation = action_generation, far_evidence = evidence, far_reason = reason\<rparr>))))))"

definition wf_FailActionRequest :: "DecodeLimits \<Rightarrow> FailActionRequest \<Rightarrow> bool" where
  "wf_FailActionRequest lim r \<longleftrightarrow> wf_Evidence lim (far_evidence r) \<and> wf_text lim (far_reason r)"

interpretation FailActionRequest_codec: field_codec encode_FailActionRequest decode_FailActionRequest wf_FailActionRequest
proof (rule codec_from_chain)
  fix lim :: DecodeLimits and r :: FailActionRequest
  assume "wf_FailActionRequest lim r"
  then show "reads lim decode_FailActionRequest (encode_FailActionRequest r) r"
    by (cases r, unfold encode_FailActionRequest_def decode_FailActionRequest_def)
      (simp add: wf_FailActionRequest_def, (rule reads_and_then, rule codec_reads, simp)+, rule reads_last, rule codec_reads, simp)
next
  show "yields decode_FailActionRequest (\<lambda>r used. used = encode_FailActionRequest r)"
    unfolding decode_FailActionRequest_def
    by ((rule yields_and_then, rule codec_yields)+, rule yields_decoded, simp add: encode_FailActionRequest_def)
qed

declare FailActionRequest_codec.reads_write [codec_reads] FailActionRequest_codec.read_canonical [codec_yields]

subsection \<open>\<open>ReportSideEffectRequest\<close>\<close>

record ReportSideEffectRequest =
  rse_request :: u64
  rse_token :: LeaseToken
  rse_action :: u64
  rse_action_generation :: u64
  rse_applied :: bool
  rse_evidence :: Evidence

definition encode_ReportSideEffectRequest :: "ReportSideEffectRequest \<Rightarrow> bytes" where
  "encode_ReportSideEffectRequest r =
     w_u64 (rse_request r) @ encode_LeaseToken (rse_token r) @ w_u64 (rse_action r) @
     w_u64 (rse_action_generation r) @ w_boolean (rse_applied r) @
     encode_Evidence (rse_evidence r)"

definition decode_ReportSideEffectRequest :: "ReportSideEffectRequest field_reader" where
  "decode_ReportSideEffectRequest =
     and_then read_u64 (\<lambda>request.
     and_then decode_LeaseToken (\<lambda>token.
     and_then read_u64 (\<lambda>action.
     and_then read_u64 (\<lambda>action_generation.
     and_then read_bool (\<lambda>applied.
     and_then decode_Evidence (\<lambda>evidence.
     decoded
       \<lparr>rse_request = request, rse_token = token, rse_action = action,
        rse_action_generation = action_generation, rse_applied = applied,
        rse_evidence = evidence\<rparr>))))))"

definition wf_ReportSideEffectRequest :: "DecodeLimits \<Rightarrow> ReportSideEffectRequest \<Rightarrow> bool" where
  "wf_ReportSideEffectRequest lim r \<longleftrightarrow> wf_Evidence lim (rse_evidence r)"

interpretation ReportSideEffectRequest_codec: field_codec encode_ReportSideEffectRequest decode_ReportSideEffectRequest wf_ReportSideEffectRequest
proof (rule codec_from_chain)
  fix lim :: DecodeLimits and r :: ReportSideEffectRequest
  assume "wf_ReportSideEffectRequest lim r"
  then show "reads lim decode_ReportSideEffectRequest (encode_ReportSideEffectRequest r) r"
    by (cases r, unfold encode_ReportSideEffectRequest_def decode_ReportSideEffectRequest_def)
      (simp add: wf_ReportSideEffectRequest_def, (rule reads_and_then, rule codec_reads, simp)+, rule reads_last, rule codec_reads, simp)
next
  show "yields decode_ReportSideEffectRequest (\<lambda>r used. used = encode_ReportSideEffectRequest r)"
    unfolding decode_ReportSideEffectRequest_def
    by ((rule yields_and_then, rule codec_yields)+, rule yields_decoded, simp add: encode_ReportSideEffectRequest_def)
qed

declare ReportSideEffectRequest_codec.reads_write [codec_reads] ReportSideEffectRequest_codec.read_canonical [codec_yields]

subsection \<open>\<open>RegisterCheckpointRequest\<close>\<close>

definition encode_RegisterCheckpointRequest :: "RegisterCheckpointRequest \<Rightarrow> bytes" where
  "encode_RegisterCheckpointRequest r =
     w_u64 (rcr_request r) @ encode_LeaseToken (rcr_token r) @
     w_u64 (rcr_expected_checkpoint r) @ w_u64 (rcr_expected_checkpoint_generation r) @
     w_u64 (rcr_content_size r) @ w_u64 (rcr_content_hash r) @
     w_u64 (rcr_effect_boundary_ordinal r)"

definition decode_RegisterCheckpointRequest :: "RegisterCheckpointRequest field_reader" where
  "decode_RegisterCheckpointRequest =
     and_then read_u64 (\<lambda>request.
     and_then decode_LeaseToken (\<lambda>token.
     and_then read_u64 (\<lambda>expected_checkpoint.
     and_then read_u64 (\<lambda>expected_checkpoint_generation.
     and_then read_u64 (\<lambda>content_size.
     and_then read_u64 (\<lambda>content_hash.
     and_then read_u64 (\<lambda>effect_boundary_ordinal.
     decoded
       \<lparr>rcr_request = request, rcr_token = token, rcr_expected_checkpoint = expected_checkpoint,
        rcr_expected_checkpoint_generation = expected_checkpoint_generation,
        rcr_content_size = content_size, rcr_content_hash = content_hash,
        rcr_effect_boundary_ordinal = effect_boundary_ordinal\<rparr>)))))))"

interpretation RegisterCheckpointRequest_codec: field_codec encode_RegisterCheckpointRequest decode_RegisterCheckpointRequest any_value
proof (rule codec_from_chain)
  fix lim :: DecodeLimits and r :: RegisterCheckpointRequest
  show "reads lim decode_RegisterCheckpointRequest (encode_RegisterCheckpointRequest r) r"
    by (cases r, unfold encode_RegisterCheckpointRequest_def decode_RegisterCheckpointRequest_def)
      (simp, (rule reads_and_then, rule codec_reads, simp)+, rule reads_last, rule codec_reads, simp)
next
  show "yields decode_RegisterCheckpointRequest (\<lambda>r used. used = encode_RegisterCheckpointRequest r)"
    unfolding decode_RegisterCheckpointRequest_def
    by ((rule yields_and_then, rule codec_yields)+, rule yields_decoded, simp add: encode_RegisterCheckpointRequest_def)
qed

declare RegisterCheckpointRequest_codec.reads_write [codec_reads] RegisterCheckpointRequest_codec.read_canonical [codec_yields]

subsection \<open>\<open>ResumeRequest\<close>\<close>

record ResumeRequest =
  rrq_request :: u64
  rrq_token :: LeaseToken
  rrq_observed_bindings :: BindingSet
  rrq_revalidate_bindings :: bool

definition encode_ResumeRequest :: "ResumeRequest \<Rightarrow> bytes" where
  "encode_ResumeRequest r =
     w_u64 (rrq_request r) @ encode_LeaseToken (rrq_token r) @
     encode_BindingSet (rrq_observed_bindings r) @ w_boolean (rrq_revalidate_bindings r)"

definition decode_ResumeRequest :: "ResumeRequest field_reader" where
  "decode_ResumeRequest =
     and_then read_u64 (\<lambda>request.
     and_then decode_LeaseToken (\<lambda>token.
     and_then decode_BindingSet (\<lambda>observed_bindings.
     and_then read_bool (\<lambda>revalidate_bindings.
     decoded
       \<lparr>rrq_request = request, rrq_token = token, rrq_observed_bindings = observed_bindings,
        rrq_revalidate_bindings = revalidate_bindings\<rparr>))))"

definition wf_ResumeRequest :: "DecodeLimits \<Rightarrow> ResumeRequest \<Rightarrow> bool" where
  "wf_ResumeRequest lim r \<longleftrightarrow> wf_BindingSet lim (rrq_observed_bindings r)"

interpretation ResumeRequest_codec: field_codec encode_ResumeRequest decode_ResumeRequest wf_ResumeRequest
proof (rule codec_from_chain)
  fix lim :: DecodeLimits and r :: ResumeRequest
  assume "wf_ResumeRequest lim r"
  then show "reads lim decode_ResumeRequest (encode_ResumeRequest r) r"
    by (cases r, unfold encode_ResumeRequest_def decode_ResumeRequest_def)
      (simp add: wf_ResumeRequest_def, (rule reads_and_then, rule codec_reads, simp)+, rule reads_last, rule codec_reads, simp)
next
  show "yields decode_ResumeRequest (\<lambda>r used. used = encode_ResumeRequest r)"
    unfolding decode_ResumeRequest_def
    by ((rule yields_and_then, rule codec_yields)+, rule yields_decoded, simp add: encode_ResumeRequest_def)
qed

declare ResumeRequest_codec.reads_write [codec_reads] ResumeRequest_codec.read_canonical [codec_yields]

subsection \<open>\<open>ExecutionIdRequest\<close>\<close>

record ExecutionIdRequest =
  eir_execution :: u64
  eir_reason :: string

definition encode_ExecutionIdRequest :: "ExecutionIdRequest \<Rightarrow> bytes" where
  "encode_ExecutionIdRequest r =
     w_u64 (eir_execution r) @ w_text (eir_reason r)"

definition decode_ExecutionIdRequest :: "ExecutionIdRequest field_reader" where
  "decode_ExecutionIdRequest =
     and_then read_u64 (\<lambda>execution.
     and_then read_text (\<lambda>reason.
     decoded
       \<lparr>eir_execution = execution, eir_reason = reason\<rparr>))"

definition wf_ExecutionIdRequest :: "DecodeLimits \<Rightarrow> ExecutionIdRequest \<Rightarrow> bool" where
  "wf_ExecutionIdRequest lim r \<longleftrightarrow> wf_text lim (eir_reason r)"

interpretation ExecutionIdRequest_codec: field_codec encode_ExecutionIdRequest decode_ExecutionIdRequest wf_ExecutionIdRequest
proof (rule codec_from_chain)
  fix lim :: DecodeLimits and r :: ExecutionIdRequest
  assume "wf_ExecutionIdRequest lim r"
  then show "reads lim decode_ExecutionIdRequest (encode_ExecutionIdRequest r) r"
    by (cases r, unfold encode_ExecutionIdRequest_def decode_ExecutionIdRequest_def)
      (simp add: wf_ExecutionIdRequest_def, (rule reads_and_then, rule codec_reads, simp)+, rule reads_last, rule codec_reads, simp)
next
  show "yields decode_ExecutionIdRequest (\<lambda>r used. used = encode_ExecutionIdRequest r)"
    unfolding decode_ExecutionIdRequest_def
    by ((rule yields_and_then, rule codec_yields)+, rule yields_decoded, simp add: encode_ExecutionIdRequest_def)
qed

declare ExecutionIdRequest_codec.reads_write [codec_reads] ExecutionIdRequest_codec.read_canonical [codec_yields]

subsection \<open>\<open>UpdatePolicyRequest\<close>\<close>

record UpdatePolicyRequest =
  upr_execution :: u64
  upr_policy :: ExecutionPolicy
  upr_apply :: bool

definition encode_UpdatePolicyRequest :: "UpdatePolicyRequest \<Rightarrow> bytes" where
  "encode_UpdatePolicyRequest r =
     w_u64 (upr_execution r) @ encode_ExecutionPolicy (upr_policy r) @ w_boolean (upr_apply r)"

definition decode_UpdatePolicyRequest :: "UpdatePolicyRequest field_reader" where
  "decode_UpdatePolicyRequest =
     and_then read_u64 (\<lambda>execution.
     and_then decode_ExecutionPolicy (\<lambda>policy.
     and_then read_bool (\<lambda>apply'.
     decoded
       \<lparr>upr_execution = execution, upr_policy = policy, upr_apply = apply'\<rparr>)))"

interpretation UpdatePolicyRequest_codec: field_codec encode_UpdatePolicyRequest decode_UpdatePolicyRequest any_value
proof (rule codec_from_chain)
  fix lim :: DecodeLimits and r :: UpdatePolicyRequest
  show "reads lim decode_UpdatePolicyRequest (encode_UpdatePolicyRequest r) r"
    by (cases r, unfold encode_UpdatePolicyRequest_def decode_UpdatePolicyRequest_def)
      (simp, (rule reads_and_then, rule codec_reads, simp)+, rule reads_last, rule codec_reads, simp)
next
  show "yields decode_UpdatePolicyRequest (\<lambda>r used. used = encode_UpdatePolicyRequest r)"
    unfolding decode_UpdatePolicyRequest_def
    by ((rule yields_and_then, rule codec_yields)+, rule yields_decoded, simp add: encode_UpdatePolicyRequest_def)
qed

declare UpdatePolicyRequest_codec.reads_write [codec_reads] UpdatePolicyRequest_codec.read_canonical [codec_yields]

subsection \<open>\<open>ResolveAmbiguityRequest\<close>\<close>

definition encode_ResolveAmbiguityRequest :: "ResolveAmbiguityRequest \<Rightarrow> bytes" where
  "encode_ResolveAmbiguityRequest r =
     w_u64 (rar_request r) @ encode_CallerContext (rar_caller r) @ w_u64 (rar_execution r) @
     w_u64 (rar_ambiguity r) @ w_u64 (rar_ambiguity_generation r) @
     write_enum ambiguity_states (rar_resolution r) @ encode_Evidence (rar_evidence r) @
     w_text (rar_note r)"

definition decode_ResolveAmbiguityRequest :: "ResolveAmbiguityRequest field_reader" where
  "decode_ResolveAmbiguityRequest =
     and_then read_u64 (\<lambda>request.
     and_then decode_CallerContext (\<lambda>caller.
     and_then read_u64 (\<lambda>execution.
     and_then read_u64 (\<lambda>ambiguity.
     and_then read_u64 (\<lambda>ambiguity_generation.
     and_then (read_enum ambiguity_states) (\<lambda>resolution.
     and_then decode_Evidence (\<lambda>evidence.
     and_then read_text (\<lambda>note.
     decoded
       \<lparr>rar_request = request, rar_caller = caller, rar_execution = execution,
        rar_ambiguity = ambiguity, rar_ambiguity_generation = ambiguity_generation,
        rar_resolution = resolution, rar_evidence = evidence, rar_note = note\<rparr>))))))))"

definition wf_ResolveAmbiguityRequest :: "DecodeLimits \<Rightarrow> ResolveAmbiguityRequest \<Rightarrow> bool" where
  "wf_ResolveAmbiguityRequest lim r \<longleftrightarrow> wf_Evidence lim (rar_evidence r) \<and> wf_text lim (rar_note r)"

interpretation ResolveAmbiguityRequest_codec: field_codec encode_ResolveAmbiguityRequest decode_ResolveAmbiguityRequest wf_ResolveAmbiguityRequest
proof (rule codec_from_chain)
  fix lim :: DecodeLimits and r :: ResolveAmbiguityRequest
  assume "wf_ResolveAmbiguityRequest lim r"
  then show "reads lim decode_ResolveAmbiguityRequest (encode_ResolveAmbiguityRequest r) r"
    by (cases r, unfold encode_ResolveAmbiguityRequest_def decode_ResolveAmbiguityRequest_def)
      (simp add: wf_ResolveAmbiguityRequest_def, (rule reads_and_then, rule codec_reads, simp)+, rule reads_last, rule codec_reads, simp)
next
  show "yields decode_ResolveAmbiguityRequest (\<lambda>r used. used = encode_ResolveAmbiguityRequest r)"
    unfolding decode_ResolveAmbiguityRequest_def
    by ((rule yields_and_then, rule codec_yields)+, rule yields_decoded, simp add: encode_ResolveAmbiguityRequest_def)
qed

declare ResolveAmbiguityRequest_codec.reads_write [codec_reads] ResolveAmbiguityRequest_codec.read_canonical [codec_yields]

subsection \<open>\<open>SnapshotRequest\<close>\<close>

record SnapshotRequest =
  snr_truncate_journal :: bool

definition encode_SnapshotRequest :: "SnapshotRequest \<Rightarrow> bytes" where
  "encode_SnapshotRequest r =
     w_boolean (snr_truncate_journal r)"

definition decode_SnapshotRequest :: "SnapshotRequest field_reader" where
  "decode_SnapshotRequest =
     and_then read_bool (\<lambda>truncate_journal.
     decoded
       \<lparr>snr_truncate_journal = truncate_journal\<rparr>)"

interpretation SnapshotRequest_codec: field_codec encode_SnapshotRequest decode_SnapshotRequest any_value
proof (rule codec_from_chain)
  fix lim :: DecodeLimits and r :: SnapshotRequest
  show "reads lim decode_SnapshotRequest (encode_SnapshotRequest r) r"
    by (cases r, unfold encode_SnapshotRequest_def decode_SnapshotRequest_def)
      (simp, rule reads_last, rule codec_reads, simp)
next
  show "yields decode_SnapshotRequest (\<lambda>r used. used = encode_SnapshotRequest r)"
    unfolding decode_SnapshotRequest_def
    by ((rule yields_and_then, rule codec_yields)+, rule yields_decoded, simp add: encode_SnapshotRequest_def)
qed

declare SnapshotRequest_codec.reads_write [codec_reads] SnapshotRequest_codec.read_canonical [codec_yields]

end
