(* ===== verification/Wire_Replies.thy ===== *)
theory Wire_Replies
  imports Wire_Requests Auditing
begin

text \<open>
  The reply payloads of the wire protocol (\<open>include/pef/protocol.hpp\<close>). Every operation reply
  is a status followed by a result; \<open>Reply\<close> is that shape for any result, so that
  \<open>CreateExecutionReply\<close> and its siblings are instances of it.
\<close>

section \<open>Status codes on the wire\<close>

definition codes :: "Code list" where
  "codes = [Ok, InvalidArgument, NotFound, AlreadyExists, IllegalTransition, StaleEpoch,
     StaleWorkerBoot, StaleLease, StaleExecutionGeneration, StaleIncarnation, StaleContinuation,
     StaleCheckpointGeneration, StalePolicyGeneration, StaleBindingGeneration, StaleRequest,
     DuplicateRequest, DuplicateCommit, AmbiguousCompletion, UnresolvedAmbiguity,
     AuthorityRevoked, FencedCode, LifecycleRefused, PolicyRefused, UnsupportedCode,
     LimitExceeded, CorruptState, TruncatedState, PersistenceFailure, TransportFailure,
     ProtocolViolation, ShuttingDown, Internal]"

lemma codes_complete: "c \<in> set codes"
  by (cases c) (simp_all add: codes_def)

interpretation Code_codec: field_codec "write_enum codes" "read_enum codes" any_value
  by (rule enum_codec) (simp_all add: codes_complete, simp_all add: codes_def)

interpretation RecoveryDecision_codec: field_codec "write_enum recovery_decisions"
  "read_enum recovery_decisions" any_value
proof (rule enum_codec)
  show "d \<in> set recovery_decisions" for d by (cases d) (simp_all add: recovery_decisions_def)
qed (simp_all add: recovery_decisions_def)

lemmas reply_reads [codec_reads] =
  u16_codec.reads_write Code_codec.reads_write RecoveryDecision_codec.reads_write

lemmas reply_yields [codec_yields] =
  u16_codec.read_canonical Code_codec.read_canonical RecoveryDecision_codec.read_canonical

section \<open>Structures and their encoding\<close>

subsection \<open>\<open>StatusPayload\<close>\<close>

record StatusPayload =
  stp_code :: Code
  stp_message :: string

definition encode_StatusPayload :: "StatusPayload \<Rightarrow> bytes" where
  "encode_StatusPayload r =
     write_enum codes (stp_code r) @ w_text (stp_message r)"

definition decode_StatusPayload :: "StatusPayload field_reader" where
  "decode_StatusPayload =
     and_then (read_enum codes) (\<lambda>code.
     and_then read_text (\<lambda>message.
     decoded
       \<lparr>stp_code = code, stp_message = message\<rparr>))"

definition wf_StatusPayload :: "DecodeLimits \<Rightarrow> StatusPayload \<Rightarrow> bool" where
  "wf_StatusPayload lim r \<longleftrightarrow> wf_text lim (stp_message r)"

interpretation StatusPayload_codec: field_codec encode_StatusPayload decode_StatusPayload wf_StatusPayload
proof (rule codec_from_chain)
  fix lim :: DecodeLimits and r :: StatusPayload
  assume "wf_StatusPayload lim r"
  then show "reads lim decode_StatusPayload (encode_StatusPayload r) r"
    by (cases r, unfold encode_StatusPayload_def decode_StatusPayload_def)
      (simp add: wf_StatusPayload_def, (rule reads_and_then, rule codec_reads, simp)+, rule reads_last, rule codec_reads, simp)
next
  show "yields decode_StatusPayload (\<lambda>r used. used = encode_StatusPayload r)"
    unfolding decode_StatusPayload_def
    by ((rule yields_and_then, rule codec_yields)+, rule yields_decoded, simp add: encode_StatusPayload_def)
qed

declare StatusPayload_codec.reads_write [codec_reads] StatusPayload_codec.read_canonical [codec_yields]

subsection \<open>\<open>HelloReply\<close>\<close>

record HelloReply =
  hrp_store :: u64
  hrp_epoch :: u64
  hrp_session :: u64
  hrp_coordinator_version :: string
  hrp_protocol_version :: u16
  hrp_persistence_schema :: u32
  hrp_resumed_from_durable_state :: bool
  hrp_journal_sequence :: u64

definition encode_HelloReply :: "HelloReply \<Rightarrow> bytes" where
  "encode_HelloReply r =
     w_u64 (hrp_store r) @ w_u64 (hrp_epoch r) @ w_u64 (hrp_session r) @
     w_text (hrp_coordinator_version r) @ w_u16 (hrp_protocol_version r) @
     w_u32 (hrp_persistence_schema r) @ w_boolean (hrp_resumed_from_durable_state r) @
     w_u64 (hrp_journal_sequence r)"

definition decode_HelloReply :: "HelloReply field_reader" where
  "decode_HelloReply =
     and_then read_u64 (\<lambda>store.
     and_then read_u64 (\<lambda>epoch.
     and_then read_u64 (\<lambda>session.
     and_then read_text (\<lambda>coordinator_version.
     and_then read_u16 (\<lambda>protocol_version.
     and_then read_u32 (\<lambda>persistence_schema.
     and_then read_bool (\<lambda>resumed_from_durable_state.
     and_then read_u64 (\<lambda>journal_sequence.
     decoded
       \<lparr>hrp_store = store, hrp_epoch = epoch, hrp_session = session,
        hrp_coordinator_version = coordinator_version, hrp_protocol_version = protocol_version,
        hrp_persistence_schema = persistence_schema,
        hrp_resumed_from_durable_state = resumed_from_durable_state,
        hrp_journal_sequence = journal_sequence\<rparr>))))))))"

definition wf_HelloReply :: "DecodeLimits \<Rightarrow> HelloReply \<Rightarrow> bool" where
  "wf_HelloReply lim r \<longleftrightarrow> wf_text lim (hrp_coordinator_version r)"

interpretation HelloReply_codec: field_codec encode_HelloReply decode_HelloReply wf_HelloReply
proof (rule codec_from_chain)
  fix lim :: DecodeLimits and r :: HelloReply
  assume "wf_HelloReply lim r"
  then show "reads lim decode_HelloReply (encode_HelloReply r) r"
    by (cases r, unfold encode_HelloReply_def decode_HelloReply_def)
      (simp add: wf_HelloReply_def, (rule reads_and_then, rule codec_reads, simp)+, rule reads_last, rule codec_reads, simp)
next
  show "yields decode_HelloReply (\<lambda>r used. used = encode_HelloReply r)"
    unfolding decode_HelloReply_def
    by ((rule yields_and_then, rule codec_yields)+, rule yields_decoded, simp add: encode_HelloReply_def)
qed

declare HelloReply_codec.reads_write [codec_reads] HelloReply_codec.read_canonical [codec_yields]

subsection \<open>\<open>PingReply\<close>\<close>

record PingReply =
  prp_token :: u64
  prp_epoch :: u64

definition encode_PingReply :: "PingReply \<Rightarrow> bytes" where
  "encode_PingReply r =
     w_u64 (prp_token r) @ w_u64 (prp_epoch r)"

definition decode_PingReply :: "PingReply field_reader" where
  "decode_PingReply =
     and_then read_u64 (\<lambda>token.
     and_then read_u64 (\<lambda>epoch.
     decoded
       \<lparr>prp_token = token, prp_epoch = epoch\<rparr>))"

interpretation PingReply_codec: field_codec encode_PingReply decode_PingReply any_value
proof (rule codec_from_chain)
  fix lim :: DecodeLimits and r :: PingReply
  show "reads lim decode_PingReply (encode_PingReply r) r"
    by (cases r, unfold encode_PingReply_def decode_PingReply_def)
      (simp, (rule reads_and_then, rule codec_reads, simp)+, rule reads_last, rule codec_reads, simp)
next
  show "yields decode_PingReply (\<lambda>r used. used = encode_PingReply r)"
    unfolding decode_PingReply_def
    by ((rule yields_and_then, rule codec_yields)+, rule yields_decoded, simp add: encode_PingReply_def)
qed

declare PingReply_codec.reads_write [codec_reads] PingReply_codec.read_canonical [codec_yields]

subsection \<open>\<open>CreateExecutionResult\<close>\<close>

definition encode_CreateExecutionResult :: "CreateExecutionResult \<Rightarrow> bytes" where
  "encode_CreateExecutionResult r =
     w_u64 (cer_execution r) @ w_u64 (cer_generation r) @ w_u64 (cer_policy r) @
     w_u64 (cer_policy_generation r) @ w_boolean (cer_existing r)"

definition decode_CreateExecutionResult :: "CreateExecutionResult field_reader" where
  "decode_CreateExecutionResult =
     and_then read_u64 (\<lambda>execution.
     and_then read_u64 (\<lambda>generation.
     and_then read_u64 (\<lambda>policy.
     and_then read_u64 (\<lambda>policy_generation.
     and_then read_bool (\<lambda>existing.
     decoded
       \<lparr>cer_execution = execution, cer_generation = generation, cer_policy = policy,
        cer_policy_generation = policy_generation, cer_existing = existing\<rparr>)))))"

interpretation CreateExecutionResult_codec: field_codec encode_CreateExecutionResult decode_CreateExecutionResult any_value
proof (rule codec_from_chain)
  fix lim :: DecodeLimits and r :: CreateExecutionResult
  show "reads lim decode_CreateExecutionResult (encode_CreateExecutionResult r) r"
    by (cases r, unfold encode_CreateExecutionResult_def decode_CreateExecutionResult_def)
      (simp, (rule reads_and_then, rule codec_reads, simp)+, rule reads_last, rule codec_reads, simp)
next
  show "yields decode_CreateExecutionResult (\<lambda>r used. used = encode_CreateExecutionResult r)"
    unfolding decode_CreateExecutionResult_def
    by ((rule yields_and_then, rule codec_yields)+, rule yields_decoded, simp add: encode_CreateExecutionResult_def)
qed

declare CreateExecutionResult_codec.reads_write [codec_reads] CreateExecutionResult_codec.read_canonical [codec_yields]

subsection \<open>\<open>BindWorkerResult\<close>\<close>

definition encode_BindWorkerResult :: "BindWorkerResult \<Rightarrow> bytes" where
  "encode_BindWorkerResult r =
     w_u64 (bwr_incarnation r) @ w_u64 (bwr_incarnation_generation r) @ w_u64 (bwr_lease r) @
     w_u64 (bwr_lease_generation r) @ write_enum lifecycles (bwr_lifecycle r) @
     w_boolean (bwr_incarnation_advanced r)"

definition decode_BindWorkerResult :: "BindWorkerResult field_reader" where
  "decode_BindWorkerResult =
     and_then read_u64 (\<lambda>incarnation.
     and_then read_u64 (\<lambda>incarnation_generation.
     and_then read_u64 (\<lambda>lease.
     and_then read_u64 (\<lambda>lease_generation.
     and_then (read_enum lifecycles) (\<lambda>lifecycle.
     and_then read_bool (\<lambda>incarnation_advanced.
     decoded
       \<lparr>bwr_incarnation = incarnation, bwr_incarnation_generation = incarnation_generation,
        bwr_lease = lease, bwr_lease_generation = lease_generation, bwr_lifecycle = lifecycle,
        bwr_incarnation_advanced = incarnation_advanced\<rparr>))))))"

interpretation BindWorkerResult_codec: field_codec encode_BindWorkerResult decode_BindWorkerResult any_value
proof (rule codec_from_chain)
  fix lim :: DecodeLimits and r :: BindWorkerResult
  show "reads lim decode_BindWorkerResult (encode_BindWorkerResult r) r"
    by (cases r, unfold encode_BindWorkerResult_def decode_BindWorkerResult_def)
      (simp, (rule reads_and_then, rule codec_reads, simp)+, rule reads_last, rule codec_reads, simp)
next
  show "yields decode_BindWorkerResult (\<lambda>r used. used = encode_BindWorkerResult r)"
    unfolding decode_BindWorkerResult_def
    by ((rule yields_and_then, rule codec_yields)+, rule yields_decoded, simp add: encode_BindWorkerResult_def)
qed

declare BindWorkerResult_codec.reads_write [codec_reads] BindWorkerResult_codec.read_canonical [codec_yields]

subsection \<open>\<open>BeginActionResult\<close>\<close>

definition encode_BeginActionResult :: "BeginActionResult \<Rightarrow> bytes" where
  "encode_BeginActionResult r =
     w_u64 (bres_action r) @ w_u64 (bres_action_generation r) @ w_u64 (bres_ordinal r) @
     w_u64 (bres_attempt r) @ w_u64 (bres_attempt_generation r) @ w_u64 (bres_effect_id r) @
     w_u64 (bres_effect_generation r)"

definition decode_BeginActionResult :: "BeginActionResult field_reader" where
  "decode_BeginActionResult =
     and_then read_u64 (\<lambda>action.
     and_then read_u64 (\<lambda>action_generation.
     and_then read_u64 (\<lambda>ordinal.
     and_then read_u64 (\<lambda>attempt.
     and_then read_u64 (\<lambda>attempt_generation.
     and_then read_u64 (\<lambda>effect_id.
     and_then read_u64 (\<lambda>effect_generation.
     decoded
       \<lparr>bres_action = action, bres_action_generation = action_generation,
        bres_ordinal = ordinal, bres_attempt = attempt,
        bres_attempt_generation = attempt_generation, bres_effect_id = effect_id,
        bres_effect_generation = effect_generation\<rparr>)))))))"

interpretation BeginActionResult_codec: field_codec encode_BeginActionResult decode_BeginActionResult any_value
proof (rule codec_from_chain)
  fix lim :: DecodeLimits and r :: BeginActionResult
  show "reads lim decode_BeginActionResult (encode_BeginActionResult r) r"
    by (cases r, unfold encode_BeginActionResult_def decode_BeginActionResult_def)
      (simp, (rule reads_and_then, rule codec_reads, simp)+, rule reads_last, rule codec_reads, simp)
next
  show "yields decode_BeginActionResult (\<lambda>r used. used = encode_BeginActionResult r)"
    unfolding decode_BeginActionResult_def
    by ((rule yields_and_then, rule codec_yields)+, rule yields_decoded, simp add: encode_BeginActionResult_def)
qed

declare BeginActionResult_codec.reads_write [codec_reads] BeginActionResult_codec.read_canonical [codec_yields]

subsection \<open>\<open>CompleteActionResult\<close>\<close>

definition encode_CompleteActionResult :: "CompleteActionResult \<Rightarrow> bytes" where
  "encode_CompleteActionResult r =
     w_u64 (cres_commit r) @ w_u64 (cres_progress r) @ w_u64 (cres_progress_generation r) @
     w_u64 (cres_ordinal r) @ w_boolean (cres_duplicate r) @ w_boolean (cres_checkpoint_due r)"

definition decode_CompleteActionResult :: "CompleteActionResult field_reader" where
  "decode_CompleteActionResult =
     and_then read_u64 (\<lambda>commit.
     and_then read_u64 (\<lambda>progress.
     and_then read_u64 (\<lambda>progress_generation.
     and_then read_u64 (\<lambda>ordinal.
     and_then read_bool (\<lambda>duplicate.
     and_then read_bool (\<lambda>checkpoint_due.
     decoded
       \<lparr>cres_commit = commit, cres_progress = progress,
        cres_progress_generation = progress_generation, cres_ordinal = ordinal,
        cres_duplicate = duplicate, cres_checkpoint_due = checkpoint_due\<rparr>))))))"

interpretation CompleteActionResult_codec: field_codec encode_CompleteActionResult decode_CompleteActionResult any_value
proof (rule codec_from_chain)
  fix lim :: DecodeLimits and r :: CompleteActionResult
  show "reads lim decode_CompleteActionResult (encode_CompleteActionResult r) r"
    by (cases r, unfold encode_CompleteActionResult_def decode_CompleteActionResult_def)
      (simp, (rule reads_and_then, rule codec_reads, simp)+, rule reads_last, rule codec_reads, simp)
next
  show "yields decode_CompleteActionResult (\<lambda>r used. used = encode_CompleteActionResult r)"
    unfolding decode_CompleteActionResult_def
    by ((rule yields_and_then, rule codec_yields)+, rule yields_decoded, simp add: encode_CompleteActionResult_def)
qed

declare CompleteActionResult_codec.reads_write [codec_reads] CompleteActionResult_codec.read_canonical [codec_yields]

subsection \<open>\<open>RegisterCheckpointResult\<close>\<close>

definition encode_RegisterCheckpointResult :: "RegisterCheckpointResult \<Rightarrow> bytes" where
  "encode_RegisterCheckpointResult r =
     w_u64 (rres_checkpoint r) @ w_u64 (rres_checkpoint_generation r) @
     write_enum checkpoint_states (rres_state r) @ w_u64 (rres_continuation r) @
     w_u64 (rres_continuation_generation r) @ w_u32 (rres_lineage_depth r)"

definition decode_RegisterCheckpointResult :: "RegisterCheckpointResult field_reader" where
  "decode_RegisterCheckpointResult =
     and_then read_u64 (\<lambda>checkpoint.
     and_then read_u64 (\<lambda>checkpoint_generation.
     and_then (read_enum checkpoint_states) (\<lambda>state.
     and_then read_u64 (\<lambda>continuation.
     and_then read_u64 (\<lambda>continuation_generation.
     and_then read_u32 (\<lambda>lineage_depth.
     decoded
       \<lparr>rres_checkpoint = checkpoint, rres_checkpoint_generation = checkpoint_generation,
        rres_state = state, rres_continuation = continuation,
        rres_continuation_generation = continuation_generation,
        rres_lineage_depth = lineage_depth\<rparr>))))))"

interpretation RegisterCheckpointResult_codec: field_codec encode_RegisterCheckpointResult decode_RegisterCheckpointResult any_value
proof (rule codec_from_chain)
  fix lim :: DecodeLimits and r :: RegisterCheckpointResult
  show "reads lim decode_RegisterCheckpointResult (encode_RegisterCheckpointResult r) r"
    by (cases r, unfold encode_RegisterCheckpointResult_def decode_RegisterCheckpointResult_def)
      (simp, (rule reads_and_then, rule codec_reads, simp)+, rule reads_last, rule codec_reads, simp)
next
  show "yields decode_RegisterCheckpointResult (\<lambda>r used. used = encode_RegisterCheckpointResult r)"
    unfolding decode_RegisterCheckpointResult_def
    by ((rule yields_and_then, rule codec_yields)+, rule yields_decoded, simp add: encode_RegisterCheckpointResult_def)
qed

declare RegisterCheckpointResult_codec.reads_write [codec_reads] RegisterCheckpointResult_codec.read_canonical [codec_yields]

subsection \<open>\<open>ResumeResult\<close>\<close>

definition encode_ResumeResult :: "ResumeResult \<Rightarrow> bytes" where
  "encode_ResumeResult r =
     write_enum continuation_states (rsr_continuation_state r) @
     write_enum lifecycles (rsr_lifecycle r) @ write_enum recovery_decisions (rsr_decision r)"

definition decode_ResumeResult :: "ResumeResult field_reader" where
  "decode_ResumeResult =
     and_then (read_enum continuation_states) (\<lambda>continuation_state.
     and_then (read_enum lifecycles) (\<lambda>lifecycle.
     and_then (read_enum recovery_decisions) (\<lambda>decision.
     decoded
       \<lparr>rsr_continuation_state = continuation_state, rsr_lifecycle = lifecycle,
        rsr_decision = decision\<rparr>)))"

interpretation ResumeResult_codec: field_codec encode_ResumeResult decode_ResumeResult any_value
proof (rule codec_from_chain)
  fix lim :: DecodeLimits and r :: ResumeResult
  show "reads lim decode_ResumeResult (encode_ResumeResult r) r"
    by (cases r, unfold encode_ResumeResult_def decode_ResumeResult_def)
      (simp, (rule reads_and_then, rule codec_reads, simp)+, rule reads_last, rule codec_reads, simp)
next
  show "yields decode_ResumeResult (\<lambda>r used. used = encode_ResumeResult r)"
    unfolding decode_ResumeResult_def
    by ((rule yields_and_then, rule codec_yields)+, rule yields_decoded, simp add: encode_ResumeResult_def)
qed

declare ResumeResult_codec.reads_write [codec_reads] ResumeResult_codec.read_canonical [codec_yields]

subsection \<open>\<open>RecoveryPlan\<close>\<close>

definition encode_RecoveryPlan :: "RecoveryPlan \<Rightarrow> bytes" where
  "encode_RecoveryPlan r =
     write_enum recovery_decisions (plan_decision r) @ w_u64 (plan_execution r) @
     w_u64 (plan_execution_generation r) @ w_u64 (plan_epoch r) @ w_u64 (plan_action r) @
     w_u64 (plan_action_generation r) @ w_u64 (plan_checkpoint r) @
     w_u64 (plan_checkpoint_generation r) @ w_u64 (plan_continuation r) @
     w_u64 (plan_continuation_generation r) @ w_u64 (plan_ambiguity r) @
     w_u64 (plan_ambiguity_generation r) @ w_boolean (plan_commit_from_receipt r) @
     w_text (plan_explanation r)"

definition decode_RecoveryPlan :: "RecoveryPlan field_reader" where
  "decode_RecoveryPlan =
     and_then (read_enum recovery_decisions) (\<lambda>decision.
     and_then read_u64 (\<lambda>execution.
     and_then read_u64 (\<lambda>execution_generation.
     and_then read_u64 (\<lambda>epoch.
     and_then read_u64 (\<lambda>action.
     and_then read_u64 (\<lambda>action_generation.
     and_then read_u64 (\<lambda>checkpoint.
     and_then read_u64 (\<lambda>checkpoint_generation.
     and_then read_u64 (\<lambda>continuation.
     and_then read_u64 (\<lambda>continuation_generation.
     and_then read_u64 (\<lambda>ambiguity.
     and_then read_u64 (\<lambda>ambiguity_generation.
     and_then read_bool (\<lambda>commit_from_receipt.
     and_then read_text (\<lambda>explanation.
     decoded
       \<lparr>plan_decision = decision, plan_execution = execution,
        plan_execution_generation = execution_generation, plan_epoch = epoch,
        plan_action = action, plan_action_generation = action_generation,
        plan_checkpoint = checkpoint, plan_checkpoint_generation = checkpoint_generation,
        plan_continuation = continuation,
        plan_continuation_generation = continuation_generation, plan_ambiguity = ambiguity,
        plan_ambiguity_generation = ambiguity_generation,
        plan_commit_from_receipt = commit_from_receipt, plan_explanation = explanation\<rparr>))))))))))))))"

definition wf_RecoveryPlan :: "DecodeLimits \<Rightarrow> RecoveryPlan \<Rightarrow> bool" where
  "wf_RecoveryPlan lim r \<longleftrightarrow> wf_text lim (plan_explanation r)"

interpretation RecoveryPlan_codec: field_codec encode_RecoveryPlan decode_RecoveryPlan wf_RecoveryPlan
proof (rule codec_from_chain)
  fix lim :: DecodeLimits and r :: RecoveryPlan
  assume "wf_RecoveryPlan lim r"
  then show "reads lim decode_RecoveryPlan (encode_RecoveryPlan r) r"
    by (cases r, unfold encode_RecoveryPlan_def decode_RecoveryPlan_def)
      (simp add: wf_RecoveryPlan_def, (rule reads_and_then, rule codec_reads, simp)+, rule reads_last, rule codec_reads, simp)
next
  show "yields decode_RecoveryPlan (\<lambda>r used. used = encode_RecoveryPlan r)"
    unfolding decode_RecoveryPlan_def
    by ((rule yields_and_then, rule codec_yields)+, rule yields_decoded, simp add: encode_RecoveryPlan_def)
qed

declare RecoveryPlan_codec.reads_write [codec_reads] RecoveryPlan_codec.read_canonical [codec_yields]

subsection \<open>\<open>RecoveryOutcome\<close>\<close>

definition encode_RecoveryOutcome :: "RecoveryOutcome \<Rightarrow> bytes" where
  "encode_RecoveryOutcome r =
     encode_RecoveryPlan (ro_plan r) @ w_boolean (ro_applied r) @ w_boolean (ro_committed r) @
     w_u64 (ro_commit r) @ w_u64 (ro_recovery r) @ w_u64 (ro_recovery_generation r) @
     w_u64 (ro_ambiguity r) @ w_u64 (ro_ambiguity_generation r) @ w_u64 (ro_continuation r) @
     w_u64 (ro_continuation_generation r)"

definition decode_RecoveryOutcome :: "RecoveryOutcome field_reader" where
  "decode_RecoveryOutcome =
     and_then decode_RecoveryPlan (\<lambda>plan.
     and_then read_bool (\<lambda>applied.
     and_then read_bool (\<lambda>committed.
     and_then read_u64 (\<lambda>commit.
     and_then read_u64 (\<lambda>recovery.
     and_then read_u64 (\<lambda>recovery_generation.
     and_then read_u64 (\<lambda>ambiguity.
     and_then read_u64 (\<lambda>ambiguity_generation.
     and_then read_u64 (\<lambda>continuation.
     and_then read_u64 (\<lambda>continuation_generation.
     decoded
       \<lparr>ro_plan = plan, ro_applied = applied, ro_committed = committed, ro_commit = commit,
        ro_recovery = recovery, ro_recovery_generation = recovery_generation,
        ro_ambiguity = ambiguity, ro_ambiguity_generation = ambiguity_generation,
        ro_continuation = continuation, ro_continuation_generation = continuation_generation\<rparr>))))))))))"

definition wf_RecoveryOutcome :: "DecodeLimits \<Rightarrow> RecoveryOutcome \<Rightarrow> bool" where
  "wf_RecoveryOutcome lim r \<longleftrightarrow> wf_RecoveryPlan lim (ro_plan r)"

interpretation RecoveryOutcome_codec: field_codec encode_RecoveryOutcome decode_RecoveryOutcome wf_RecoveryOutcome
proof (rule codec_from_chain)
  fix lim :: DecodeLimits and r :: RecoveryOutcome
  assume "wf_RecoveryOutcome lim r"
  then show "reads lim decode_RecoveryOutcome (encode_RecoveryOutcome r) r"
    by (cases r, unfold encode_RecoveryOutcome_def decode_RecoveryOutcome_def)
      (simp add: wf_RecoveryOutcome_def, (rule reads_and_then, rule codec_reads, simp)+, rule reads_last, rule codec_reads, simp)
next
  show "yields decode_RecoveryOutcome (\<lambda>r used. used = encode_RecoveryOutcome r)"
    unfolding decode_RecoveryOutcome_def
    by ((rule yields_and_then, rule codec_yields)+, rule yields_decoded, simp add: encode_RecoveryOutcome_def)
qed

declare RecoveryOutcome_codec.reads_write [codec_reads] RecoveryOutcome_codec.read_canonical [codec_yields]

subsection \<open>\<open>ResolveAmbiguityResult\<close>\<close>

definition encode_ResolveAmbiguityResult :: "ResolveAmbiguityResult \<Rightarrow> bytes" where
  "encode_ResolveAmbiguityResult r =
     write_enum ambiguity_states (rars_state r) @ w_boolean (rars_committed r) @
     w_u64 (rars_commit r) @ w_u64 (rars_progress_generation r) @
     w_boolean (rars_replay_admitted r) @ w_u64 (rars_replay r) @ w_u64 (rars_ambiguity r) @
     w_u64 (rars_ambiguity_generation r) @ w_u64 (rars_action r) @
     w_u64 (rars_action_generation r)"

definition decode_ResolveAmbiguityResult :: "ResolveAmbiguityResult field_reader" where
  "decode_ResolveAmbiguityResult =
     and_then (read_enum ambiguity_states) (\<lambda>state.
     and_then read_bool (\<lambda>committed.
     and_then read_u64 (\<lambda>commit.
     and_then read_u64 (\<lambda>progress_generation.
     and_then read_bool (\<lambda>replay_admitted.
     and_then read_u64 (\<lambda>replay.
     and_then read_u64 (\<lambda>ambiguity.
     and_then read_u64 (\<lambda>ambiguity_generation.
     and_then read_u64 (\<lambda>action.
     and_then read_u64 (\<lambda>action_generation.
     decoded
       \<lparr>rars_state = state, rars_committed = committed, rars_commit = commit,
        rars_progress_generation = progress_generation, rars_replay_admitted = replay_admitted,
        rars_replay = replay, rars_ambiguity = ambiguity,
        rars_ambiguity_generation = ambiguity_generation, rars_action = action,
        rars_action_generation = action_generation\<rparr>))))))))))"

interpretation ResolveAmbiguityResult_codec: field_codec encode_ResolveAmbiguityResult decode_ResolveAmbiguityResult any_value
proof (rule codec_from_chain)
  fix lim :: DecodeLimits and r :: ResolveAmbiguityResult
  show "reads lim decode_ResolveAmbiguityResult (encode_ResolveAmbiguityResult r) r"
    by (cases r, unfold encode_ResolveAmbiguityResult_def decode_ResolveAmbiguityResult_def)
      (simp, (rule reads_and_then, rule codec_reads, simp)+, rule reads_last, rule codec_reads, simp)
next
  show "yields decode_ResolveAmbiguityResult (\<lambda>r used. used = encode_ResolveAmbiguityResult r)"
    unfolding decode_ResolveAmbiguityResult_def
    by ((rule yields_and_then, rule codec_yields)+, rule yields_decoded, simp add: encode_ResolveAmbiguityResult_def)
qed

declare ResolveAmbiguityResult_codec.reads_write [codec_reads] ResolveAmbiguityResult_codec.read_canonical [codec_yields]

subsection \<open>\<open>AuditCounts\<close>\<close>

definition encode_AuditCounts :: "AuditCounts \<Rightarrow> bytes" where
  "encode_AuditCounts r =
     w_u64 (cnt_executions r) @ w_u64 (cnt_actions r) @ w_u64 (cnt_progress r) @
     w_u64 (cnt_checkpoints r) @ w_u64 (cnt_continuations r) @ w_u64 (cnt_leases r) @
     w_u64 (cnt_replays r) @ w_u64 (cnt_ambiguities r) @ w_u64 (cnt_commits r) @
     w_u64 (cnt_recoveries r) @ w_u64 (cnt_policies r)"

definition decode_AuditCounts :: "AuditCounts field_reader" where
  "decode_AuditCounts =
     and_then read_u64 (\<lambda>executions.
     and_then read_u64 (\<lambda>actions.
     and_then read_u64 (\<lambda>progress.
     and_then read_u64 (\<lambda>checkpoints.
     and_then read_u64 (\<lambda>continuations.
     and_then read_u64 (\<lambda>leases.
     and_then read_u64 (\<lambda>replays.
     and_then read_u64 (\<lambda>ambiguities.
     and_then read_u64 (\<lambda>commits.
     and_then read_u64 (\<lambda>recoveries.
     and_then read_u64 (\<lambda>policies.
     decoded
       \<lparr>cnt_executions = executions, cnt_actions = actions, cnt_progress = progress,
        cnt_checkpoints = checkpoints, cnt_continuations = continuations, cnt_leases = leases,
        cnt_replays = replays, cnt_ambiguities = ambiguities, cnt_commits = commits,
        cnt_recoveries = recoveries, cnt_policies = policies\<rparr>)))))))))))"

interpretation AuditCounts_codec: field_codec encode_AuditCounts decode_AuditCounts any_value
proof (rule codec_from_chain)
  fix lim :: DecodeLimits and r :: AuditCounts
  show "reads lim decode_AuditCounts (encode_AuditCounts r) r"
    by (cases r, unfold encode_AuditCounts_def decode_AuditCounts_def)
      (simp, (rule reads_and_then, rule codec_reads, simp)+, rule reads_last, rule codec_reads, simp)
next
  show "yields decode_AuditCounts (\<lambda>r used. used = encode_AuditCounts r)"
    unfolding decode_AuditCounts_def
    by ((rule yields_and_then, rule codec_yields)+, rule yields_decoded, simp add: encode_AuditCounts_def)
qed

declare AuditCounts_codec.reads_write [codec_reads] AuditCounts_codec.read_canonical [codec_yields]

subsection \<open>\<open>AuditFinding\<close>\<close>

definition encode_AuditFinding :: "AuditFinding \<Rightarrow> bytes" where
  "encode_AuditFinding r =
     w_text (af_code r) @ w_text (af_detail r) @ w_u64 (af_execution r) @ w_boolean (af_fatal r)"

definition decode_AuditFinding :: "AuditFinding field_reader" where
  "decode_AuditFinding =
     and_then read_text (\<lambda>code.
     and_then read_text (\<lambda>detail.
     and_then read_u64 (\<lambda>execution.
     and_then read_bool (\<lambda>fatal.
     decoded
       \<lparr>af_code = code, af_detail = detail, af_execution = execution, af_fatal = fatal\<rparr>))))"

definition wf_AuditFinding :: "DecodeLimits \<Rightarrow> AuditFinding \<Rightarrow> bool" where
  "wf_AuditFinding lim r \<longleftrightarrow> wf_text lim (af_code r) \<and> wf_text lim (af_detail r)"

interpretation AuditFinding_codec: field_codec encode_AuditFinding decode_AuditFinding wf_AuditFinding
proof (rule codec_from_chain)
  fix lim :: DecodeLimits and r :: AuditFinding
  assume "wf_AuditFinding lim r"
  then show "reads lim decode_AuditFinding (encode_AuditFinding r) r"
    by (cases r, unfold encode_AuditFinding_def decode_AuditFinding_def)
      (simp add: wf_AuditFinding_def, (rule reads_and_then, rule codec_reads, simp)+, rule reads_last, rule codec_reads, simp)
next
  show "yields decode_AuditFinding (\<lambda>r used. used = encode_AuditFinding r)"
    unfolding decode_AuditFinding_def
    by ((rule yields_and_then, rule codec_yields)+, rule yields_decoded, simp add: encode_AuditFinding_def)
qed

declare AuditFinding_codec.reads_write [codec_reads] AuditFinding_codec.read_canonical [codec_yields]

interpretation AuditFindings_codec: field_codec "write_vector encode_AuditFinding"
  "read_vector decode_AuditFinding" "wf_vector wf_AuditFinding"
  by (rule AuditFinding_codec.vector_codec)

declare AuditFindings_codec.reads_write [codec_reads] AuditFindings_codec.read_canonical [codec_yields]

subsection \<open>\<open>AuditReport\<close>\<close>

definition encode_AuditReport :: "AuditReport \<Rightarrow> bytes" where
  "encode_AuditReport r =
     encode_AuditCounts (ar_counts r) @ write_vector encode_AuditFinding (ar_findings r) @
     w_u64 (ar_epoch r) @ w_u64 (ar_store r) @ w_u64 (ar_sequence r)"

definition decode_AuditReport :: "AuditReport field_reader" where
  "decode_AuditReport =
     and_then decode_AuditCounts (\<lambda>counts.
     and_then (read_vector decode_AuditFinding) (\<lambda>findings.
     and_then read_u64 (\<lambda>epoch.
     and_then read_u64 (\<lambda>store.
     and_then read_u64 (\<lambda>sequence.
     decoded
       \<lparr>ar_counts = counts, ar_findings = findings, ar_epoch = epoch, ar_store = store,
        ar_sequence = sequence\<rparr>)))))"

definition wf_AuditReport :: "DecodeLimits \<Rightarrow> AuditReport \<Rightarrow> bool" where
  "wf_AuditReport lim r \<longleftrightarrow> wf_vector wf_AuditFinding lim (ar_findings r)"

interpretation AuditReport_codec: field_codec encode_AuditReport decode_AuditReport wf_AuditReport
proof (rule codec_from_chain)
  fix lim :: DecodeLimits and r :: AuditReport
  assume "wf_AuditReport lim r"
  then show "reads lim decode_AuditReport (encode_AuditReport r) r"
    by (cases r, unfold encode_AuditReport_def decode_AuditReport_def)
      (simp add: wf_AuditReport_def, (rule reads_and_then, rule codec_reads, simp)+, rule reads_last, rule codec_reads, simp)
next
  show "yields decode_AuditReport (\<lambda>r used. used = encode_AuditReport r)"
    unfolding decode_AuditReport_def
    by ((rule yields_and_then, rule codec_yields)+, rule yields_decoded, simp add: encode_AuditReport_def)
qed

declare AuditReport_codec.reads_write [codec_reads] AuditReport_codec.read_canonical [codec_yields]

subsection \<open>Status and result\<close>

record 'a Reply =
  rp_status :: StatusPayload
  rp_result :: 'a

definition encode_Reply :: "('a \<Rightarrow> bytes) \<Rightarrow> 'a Reply \<Rightarrow> bytes" where
  "encode_Reply wr r = encode_StatusPayload (rp_status r) @ wr (rp_result r)"

definition decode_Reply :: "'a field_reader \<Rightarrow> 'a Reply field_reader" where
  "decode_Reply rd =
     and_then decode_StatusPayload (\<lambda>status.
     and_then rd (\<lambda>result.
     decoded \<lparr>rp_status = status, rp_result = result\<rparr>))"

definition wf_Reply :: "(DecodeLimits \<Rightarrow> 'a \<Rightarrow> bool) \<Rightarrow> DecodeLimits \<Rightarrow> 'a Reply \<Rightarrow> bool" where
  "wf_Reply ok lim r \<longleftrightarrow> wf_StatusPayload lim (rp_status r) \<and> ok lim (rp_result r)"

context field_codec
begin

lemma reply_codec: "field_codec (encode_Reply wr) (decode_Reply rd) (wf_Reply wf)"
proof (rule codec_from_chain)
  fix lim and r :: "'a Reply"
  assume "wf_Reply wf lim r"
  then show "reads lim (decode_Reply rd) (encode_Reply wr r) r"
    by (cases r, unfold encode_Reply_def decode_Reply_def)
      (simp add: wf_Reply_def, rule reads_and_then, rule codec_reads, simp,
        rule reads_last, rule reads_write, simp)
next
  show "yields (decode_Reply rd) (\<lambda>r used. used = encode_Reply wr r)"
    unfolding decode_Reply_def
    by (rule yields_and_then, rule codec_yields, rule yields_and_then, rule read_canonical,
        rule yields_decoded, simp add: encode_Reply_def)
qed

end

end
