(* ===== verification/Protocol.thy ===== *)
theory Protocol
  imports Wire_Replies
begin

unbundle bit_operations_syntax

text \<open>
  The frames of the wire protocol (\<open>include/pef/protocol.hpp\<close>, \<open>src/protocol.cpp\<close>). A message
  type is a 16-bit number, as the C++ enumeration admits every value of its underlying type
  after a cast; the decoder accepts the range of the enumeration, gaps included. The result of
  decoding is the reason of a refusal or the frame.
\<close>

section \<open>Message types\<close>

type_synonym MessageType = u16

abbreviation mt_Hello :: MessageType where "mt_Hello \<equiv> 1"
abbreviation mt_Ping :: MessageType where "mt_Ping \<equiv> 2"
abbreviation mt_Shutdown :: MessageType where "mt_Shutdown \<equiv> 3"
abbreviation mt_CreateExecution :: MessageType where "mt_CreateExecution \<equiv> 10"
abbreviation mt_BindWorker :: MessageType where "mt_BindWorker \<equiv> 11"
abbreviation mt_Start :: MessageType where "mt_Start \<equiv> 12"
abbreviation mt_BeginAction :: MessageType where "mt_BeginAction \<equiv> 13"
abbreviation mt_CompleteAction :: MessageType where "mt_CompleteAction \<equiv> 14"
abbreviation mt_FailAction :: MessageType where "mt_FailAction \<equiv> 15"
abbreviation mt_ReportSideEffect :: MessageType where "mt_ReportSideEffect \<equiv> 16"
abbreviation mt_RegisterCheckpoint :: MessageType where "mt_RegisterCheckpoint \<equiv> 17"
abbreviation mt_SuspendBegin :: MessageType where "mt_SuspendBegin \<equiv> 18"
abbreviation mt_SuspendCommit :: MessageType where "mt_SuspendCommit \<equiv> 19"
abbreviation mt_Resume :: MessageType where "mt_Resume \<equiv> 20"
abbreviation mt_Fence :: MessageType where "mt_Fence \<equiv> 30"
abbreviation mt_Cancel :: MessageType where "mt_Cancel \<equiv> 31"
abbreviation mt_Retire :: MessageType where "mt_Retire \<equiv> 32"
abbreviation mt_Drain :: MessageType where "mt_Drain \<equiv> 33"
abbreviation mt_CompleteExecution :: MessageType where "mt_CompleteExecution \<equiv> 34"
abbreviation mt_AdvanceGeneration :: MessageType where "mt_AdvanceGeneration \<equiv> 35"
abbreviation mt_UpdatePolicy :: MessageType where "mt_UpdatePolicy \<equiv> 36"
abbreviation mt_Classify :: MessageType where "mt_Classify \<equiv> 37"
abbreviation mt_Recover :: MessageType where "mt_Recover \<equiv> 38"
abbreviation mt_ResolveAmbiguity :: MessageType where "mt_ResolveAmbiguity \<equiv> 39"
abbreviation mt_RevalidateContinuation :: MessageType where "mt_RevalidateContinuation \<equiv> 40"
abbreviation mt_Query :: MessageType where "mt_Query \<equiv> 50"
abbreviation mt_ListExecutions :: MessageType where "mt_ListExecutions \<equiv> 51"
abbreviation mt_Snapshot :: MessageType where "mt_Snapshot \<equiv> 52"
abbreviation mt_Audit :: MessageType where "mt_Audit \<equiv> 53"

definition kReplyBit :: u16 where
  "kReplyBit = 0x8000"

definition kMaxMessageType :: u16 where
  "kMaxMessageType = 53"

definition message_types :: "(MessageType \<times> string) list" where
  "message_types =
     [(mt_Hello, ''HELLO''), (mt_Ping, ''PING''), (mt_Shutdown, ''SHUTDOWN''),
      (mt_CreateExecution, ''CREATE_EXECUTION''), (mt_BindWorker, ''BIND_WORKER''),
      (mt_Start, ''START''), (mt_BeginAction, ''BEGIN_ACTION''),
      (mt_CompleteAction, ''COMPLETE_ACTION''), (mt_FailAction, ''FAIL_ACTION''),
      (mt_ReportSideEffect, ''REPORT_SIDE_EFFECT''), (mt_RegisterCheckpoint, ''CHECKPOINT''),
      (mt_SuspendBegin, ''SUSPEND_BEGIN''), (mt_SuspendCommit, ''SUSPEND_COMMIT''),
      (mt_Resume, ''RESUME''), (mt_Fence, ''FENCE''), (mt_Cancel, ''CANCEL''),
      (mt_Retire, ''RETIRE''), (mt_Drain, ''DRAIN''),
      (mt_CompleteExecution, ''COMPLETE_EXECUTION''),
      (mt_AdvanceGeneration, ''ADVANCE_GENERATION''), (mt_UpdatePolicy, ''UPDATE_POLICY''),
      (mt_Classify, ''CLASSIFY''), (mt_Recover, ''RECOVER''),
      (mt_ResolveAmbiguity, ''RESOLVE_AMBIGUITY''),
      (mt_RevalidateContinuation, ''VALIDATE_CONTINUATION''), (mt_Query, ''QUERY''),
      (mt_ListExecutions, ''LIST_EXECUTIONS''), (mt_Snapshot, ''SNAPSHOT''), (mt_Audit, ''AUDIT'')]"

definition message_type_name :: "MessageType \<Rightarrow> string" where
  "message_type_name t =
     (case map_of message_types t of Some name \<Rightarrow> name | None \<Rightarrow> ''UNKNOWN_MESSAGE'')"

definition parse_message_type :: "u16 \<Rightarrow> MessageType option" where
  "parse_message_type raw =
     (let base = raw AND NOT kReplyBit in
      if base < 1 \<or> base > kMaxMessageType then None else Some raw)"

section \<open>Frames\<close>

definition kFrameHeaderSize :: nat where
  "kFrameHeaderSize = 28"

definition kFrameTrailerSize :: nat where
  "kFrameTrailerSize = 8"

definition kFrameMagic :: u32 where
  "kFrameMagic = 0x50464550"

definition kMaxFramePayload :: u32 where
  "kMaxFramePayload = 1 * 1024 * 1024"

definition kProtocolVersion :: u16 where
  "kProtocolVersion = 1"

record Frame =
  fr_version :: u16
  fr_type :: MessageType
  fr_request :: u64
  fr_flags :: u32
  fr_payload :: bytes

definition is_reply :: "Frame \<Rightarrow> bool" where
  "is_reply f \<longleftrightarrow> fr_type f AND kReplyBit \<noteq> 0"

definition base_type :: "Frame \<Rightarrow> MessageType" where
  "base_type f = fr_type f AND NOT kReplyBit"

text \<open>The low 32 bits of the checksum guard the header.\<close>

definition header_crc :: "bytes \<Rightarrow> u32" where
  "header_crc b = ucast (crc64_ecma b AND 0xFFFFFFFF)"

definition frame_fields :: "Frame \<Rightarrow> bytes" where
  "frame_fields f =
     write_le32 kFrameMagic @ write_le16 (fr_version f) @ write_le16 (fr_type f) @
     write_le64 (fr_request f) @ write_le32 (word_of_nat (length (fr_payload f))) @
     write_le32 (fr_flags f)"

definition encode_frame :: "Frame \<Rightarrow> bytes" where
  "encode_frame f =
     with_crc (frame_fields f @ write_le32 (header_crc (frame_fields f)) @ fr_payload f)"

definition decode_frame_header :: "bytes \<Rightarrow> string + Frame" where
  "decode_frame_header header =
     (if length header < kFrameHeaderSize then
        Inl ''frame header is shorter than the fixed header size''
      else if read_le32 header \<noteq> kFrameMagic then Inl ''frame magic mismatch''
      else let version = read_le16 (drop 4 header) in
      if version \<noteq> kProtocolVersion then Inl ''unsupported protocol version''
      else case parse_message_type (read_le16 (drop 6 header)) of
        None \<Rightarrow> Inl ''unknown message type''
      | Some type \<Rightarrow>
        (let flags = read_le32 (drop 20 header) in
         if flags \<noteq> 0 then Inl ''frame carries non-zero reserved flags''
         else if read_le32 (drop 24 header) \<noteq> header_crc (take 24 header) then
           Inl ''frame header checksum mismatch''
         else let payload_size = read_le32 (drop 16 header) in
         if payload_size > kMaxFramePayload then Inl ''frame payload exceeds the protocol limit''
         else Inr \<lparr>fr_version = version, fr_type = type,
           fr_request = read_le64 (drop 8 header), fr_flags = flags, fr_payload = []\<rparr>))"

definition decode_frame :: "bytes \<Rightarrow> string + Frame" where
  "decode_frame b =
     (if length b < kFrameHeaderSize + kFrameTrailerSize then
        Inl ''frame is shorter than the minimum frame size''
      else case decode_frame_header b of
        Inl reason \<Rightarrow> Inl reason
      | Inr f \<Rightarrow>
        (let payload_size = unat (read_le32 (drop 16 b)) in
         if length b \<noteq> kFrameHeaderSize + payload_size + kFrameTrailerSize then
           Inl ''frame length does not match the declared payload length''
         else if read_le64 (drop (kFrameHeaderSize + payload_size) b) \<noteq>
                 crc64_ecma (take (kFrameHeaderSize + payload_size) b) then
           Inl ''frame checksum mismatch''
         else Inr (f\<lparr>fr_payload := take payload_size (drop kFrameHeaderSize b)\<rparr>)))"

definition make_error_reply :: "u64 \<Rightarrow> Code \<Rightarrow> string \<Rightarrow> Frame" where
  "make_error_reply request code message =
     \<lparr>fr_version = kProtocolVersion, fr_type = mt_Ping OR kReplyBit, fr_request = request,
      fr_flags = 0,
      fr_payload = encode_StatusPayload \<lparr>stp_code = code, stp_message = message\<rparr>\<rparr>"

definition reply_status :: "Frame \<Rightarrow> StatusPayload option" where
  "reply_status f = fst (decode_StatusPayload (reader_on (fr_payload f) default_decode_limits))"

section \<open>Fixed-width fields written back\<close>

lemma le_bytes_nth: "i < n \<Longrightarrow> le_bytes n v ! i = ucast (drop_bit (8 * i) v AND 0xFF)"
  by (simp add: le_bytes_def)

lemma write_read_le64: "length p = 8 \<Longrightarrow> write_le64 (read_le64 p) = p"
proof (rule nth_equalityI)
  fix i
  assume p: "length p = 8" and "i < length (write_le64 (read_le64 p))"
  then have i: "i < 8" by simp
  show "write_le64 (read_le64 p) ! i = p ! i"
  proof (rule bit_word_eqI)
    fix k
    assume "k < LENGTH(8)"
    then have "k < 8" by simp
    moreover have "(8 * i + k) div 8 = i" "(8 * i + k) mod 8 = k" "8 * i + k < 64"
      using \<open>k < 8\<close> i by auto
    ultimately show "bit (write_le64 (read_le64 p) ! i) k = bit (p ! i) k"
      using i p
      by (simp add: write_le64_def le_bytes_nth read_le64_def and_0xFF bit_ucast_iff
          bit_take_bit_iff bit_drop_bit_eq bit_foldr_bytes)
  qed
qed simp

lemma write_read_le32: "length p = 4 \<Longrightarrow> write_le32 (read_le32 p) = p"
proof -
  assume len: "length p = 4"
  then obtain a b c d where p: "p = [a, b, c, d]" by (auto simp: length_Suc_conv eval_nat_numeral)
  then have "read_le32 p = le_value 0 0 p" by (simp add: read_le32_def or.assoc eval_nat_numeral)
  with le_bytes_le_value [of p, where 'a = 32] len show ?thesis by (simp add: write_le32_def)
qed

lemma write_read_le16: "length p = 2 \<Longrightarrow> write_le16 (read_le16 p) = p"
proof -
  assume len: "length p = 2"
  then obtain a b where p: "p = [a, b]" by (auto simp: length_Suc_conv eval_nat_numeral)
  then have "read_le16 p = le_value 0 0 p" by (simp add: read_le16_def)
  with le_bytes_le_value [of p, where 'a = 16] len show ?thesis by (simp add: write_le16_def)
qed

lemma read_le_take:
  "read_le64 (take 8 p) = read_le64 p" "4 \<le> length p \<Longrightarrow> read_le32 (take 4 p) = read_le32 p"
  "2 \<le> length p \<Longrightarrow> read_le16 (take 2 p) = read_le16 p"
  by (simp_all add: read_le64_def read_le32_def read_le16_def)

text \<open>A field of a long enough buffer is the image of its value.\<close>

lemma field_image:
  "i + 8 \<le> length b \<Longrightarrow> take 8 (drop i b) = write_le64 (read_le64 (drop i b))"
  "i + 4 \<le> length b \<Longrightarrow> take 4 (drop i b) = write_le32 (read_le32 (drop i b))"
  "i + 2 \<le> length b \<Longrightarrow> take 2 (drop i b) = write_le16 (read_le16 (drop i b))"
  using write_read_le64 [of "take 8 (drop i b)"] write_read_le32 [of "take 4 (drop i b)"]
    write_read_le16 [of "take 2 (drop i b)"]
  by (simp_all add: read_le_take)

section \<open>A frame is its canonical bytes\<close>

definition wf_frame :: "Frame \<Rightarrow> bool" where
  "wf_frame f \<longleftrightarrow> fr_version f = kProtocolVersion \<and> parse_message_type (fr_type f) \<noteq> None \<and>
     fr_flags f = 0 \<and> length (fr_payload f) \<le> unat kMaxFramePayload"

lemmas frame_sizes = kFrameHeaderSize_def kFrameTrailerSize_def

lemma length_frame_fields [simp]: "length (frame_fields f) = 24"
  by (simp add: frame_fields_def)

lemma parse_message_type_Some: "parse_message_type t = Some t' \<Longrightarrow> t' = t"
  by (auto simp: parse_message_type_def Let_def split: if_splits)

lemma decode_encode_frame:
  assumes "wf_frame f"
  shows "decode_frame (encode_frame f) = Inr f"
proof -
  let ?h = "frame_fields f @ write_le32 (header_crc (frame_fields f))"
  have small: "length (fr_payload f) \<le> 1048576"
    using assms by (simp add: wf_frame_def kMaxFramePayload_def)
  then have size: "unat (word_of_nat (length (fr_payload f)) :: u32) = length (fr_payload f)"
    by (intro unat_word32_of_length) simp
  then have fits: "(word_of_nat (length (fr_payload f)) :: u32) \<le> kMaxFramePayload"
    using small by (simp add: word_le_nat_alt kMaxFramePayload_def)
  obtain t where t: "parse_message_type (fr_type f) = Some t" using assms by (auto simp: wf_frame_def)
  have take: "take 24 (encode_frame f) = frame_fields f"
    by (simp add: encode_frame_def with_crc_def)
  have fields: "read_le32 (encode_frame f) = kFrameMagic" "read_le16 (drop 4 (encode_frame f)) = fr_version f"
    "read_le16 (drop 6 (encode_frame f)) = fr_type f" "read_le64 (drop 8 (encode_frame f)) = fr_request f"
    "read_le32 (drop 16 (encode_frame f)) = word_of_nat (length (fr_payload f))"
    "read_le32 (drop 20 (encode_frame f)) = fr_flags f"
    "read_le32 (drop 24 (encode_frame f)) = header_crc (frame_fields f)"
    by (simp_all add: encode_frame_def with_crc_def frame_fields_def)
  have trailer: "read_le64 (drop (28 + length (fr_payload f)) (encode_frame f)) =
      crc64_ecma (take (28 + length (fr_payload f)) (encode_frame f))"
    "take (length (fr_payload f)) (drop 28 (encode_frame f)) = fr_payload f"
    "length (encode_frame f) = 36 + length (fr_payload f)"
    by (simp_all add: encode_frame_def with_crc_def)
  show ?thesis
    using assms fits t trailer parse_message_type_Some [OF t]
    by (simp add: decode_frame_def decode_frame_header_def frame_sizes fields size take wf_frame_def Let_def)
qed

lemma split_at: "take n xs @ take m (drop n xs) = take (n + m) xs"
  by (simp add: take_add)

lemma decode_frame_header_Inr:
  "decode_frame_header b = Inr g \<longleftrightarrow>
   28 \<le> length b \<and> read_le32 b = kFrameMagic \<and> read_le16 (drop 4 b) = kProtocolVersion \<and>
   parse_message_type (read_le16 (drop 6 b)) \<noteq> None \<and> read_le32 (drop 20 b) = 0 \<and>
   read_le32 (drop 24 b) = header_crc (take 24 b) \<and> read_le32 (drop 16 b) \<le> kMaxFramePayload \<and>
   g = \<lparr>fr_version = kProtocolVersion, fr_type = read_le16 (drop 6 b),
     fr_request = read_le64 (drop 8 b), fr_flags = 0, fr_payload = []\<rparr>"
proof -
  have "parse_message_type t = (if parse_message_type t = None then None else Some t)" for t
    by (auto simp: parse_message_type_def Let_def)
  then show ?thesis
    unfolding decode_frame_header_def frame_sizes Let_def
    by (smt (verit, best) Inl_Inr_False Inr_inject linorder_not_less option.simps(4,5))
qed

lemma decode_frame_canonical:
  assumes "decode_frame b = Inr f"
  shows "wf_frame f \<and> b = encode_frame f"
proof -
  define n where "n = unat (read_le32 (drop 16 b))"
  obtain g where g: "decode_frame_header b = Inr g" and len: "length b = 36 + n"
    and crc: "read_le64 (drop (28 + n) b) = crc64_ecma (take (28 + n) b)"
    and f: "f = g\<lparr>fr_payload := take n (drop 28 b)\<rparr>"
    using assms unfolding decode_frame_def frame_sizes Let_def n_def [symmetric]
    by (simp split: if_splits sum.splits)
  note h = g [unfolded decode_frame_header_Inr]
  have payload: "length (fr_payload f) = n" using len by (simp add: f)
  have size: "(word_of_nat n :: u32) = read_le32 (drop 16 b)" by (simp add: n_def)
  have "take 24 b = take 4 (drop 0 b) @ take 2 (drop 4 b) @ take 2 (drop 6 b) @ take 8 (drop 8 b) @
      take 4 (drop 16 b) @ take 4 (drop 20 b)"
    by (simp add: take_add [of 4 20 b, simplified] take_add [of 2 18 "drop 4 b", simplified]
        take_add [of 2 16 "drop 6 b", simplified] take_add [of 8 8 "drop 8 b", simplified]
        take_add [of 4 4 "drop 16 b", simplified])
  also have "\<dots> = frame_fields f"
    using len h payload size
    by (simp add: field_image(1) [of 8 b] field_image(2) [of 0 b, simplified] field_image(2) [of 16 b]
        field_image(2) [of 20 b] field_image(3) frame_fields_def f)
  finally have fields: "take 24 b = frame_fields f" .
  have pre: "take (28 + n) b = take 24 b @ take 4 (drop 24 b) @ take n (drop 28 b)"
    using split_at [of 24 b 4] split_at [of 28 b n] by (simp flip: append_assoc)
  moreover have "b = take (28 + n) b @ take 8 (drop (28 + n) b)"
    using len split_at [of "28 + n" b 8] by simp
  moreover have "take 4 (drop 24 b) = write_le32 (header_crc (frame_fields f))"
    using field_image(2) [of 24 b] len h fields by simp
  moreover have "take 8 (drop (28 + n) b) = write_le64 (crc64_ecma (take (28 + n) b))"
    using field_image(1) [of "28 + n" b] len crc by simp
  ultimately have "b = encode_frame f"
    unfolding encode_frame_def with_crc_def using fields f by (metis append_assoc Frame.select_convs(5) Frame.surjective Frame.update_convs(5))
  moreover have "n \<le> unat kMaxFramePayload"
    using h by (simp add: n_def word_le_nat_alt)
  then have "wf_frame f"
    using h payload by (simp add: wf_frame_def f)
  ultimately show ?thesis by simp
qed

end
