(* ===== verification/Channel.thy ===== *)
theory Channel
  imports Protocol
begin

text \<open>
  Framed transport over one connection (\<open>Socket::send_all\<close>, \<open>recv_exact\<close> and \<open>FrameChannel\<close> of
  \<open>src/net.cpp\<close>). A socket is described by what the operating system does with it: the
  answers to \<open>send\<close> (how many bytes it takes, 0 for an error), the bytes it has taken, and the
  deliveries to \<open>recv\<close>. How the peer's bytes are cut into deliveries is arbitrary.
\<close>

section \<open>Sockets\<close>

datatype Delivery = Segment bytes | RecvError

record Socket =
  sk_valid :: bool
  sk_sends :: "nat list"
  sk_output :: bytes
  sk_input :: "Delivery list"

text \<open>At most 1 MiB is handed to one call.\<close>

definition kChunk :: nat where
  "kChunk = 2 ^ 20"

text \<open>
  One call of \<open>send\<close>: the operating system takes as much as it answers, and everything once no
  answer is listed.
\<close>

definition os_send :: "bytes \<Rightarrow> Socket \<Rightarrow> nat \<times> Socket" where
  "os_send chunk s =
     (let n = (case sk_sends s of [] \<Rightarrow> length chunk | a # _ \<Rightarrow> min a (length chunk)) in
      (n, s\<lparr>sk_sends := tl (sk_sends s), sk_output := sk_output s @ take n chunk\<rparr>))"

function send_loop :: "bytes \<Rightarrow> Socket \<Rightarrow> (Code + unit) \<times> Socket" where
  "send_loop data s =
     (if data = [] then (Inr (), s)
      else case os_send (take kChunk data) s of
        (sent, s') \<Rightarrow>
          if sent = 0 then (Inl TransportFailure, s') else send_loop (drop sent data) s')"
  by pat_completeness auto

termination
  by (relation "measure (\<lambda>(data, s). length data)") auto

definition send_all :: "bytes \<Rightarrow> Socket \<Rightarrow> (Code + unit) \<times> Socket" where
  "send_all data s = (if \<not> sk_valid s then (Inl TransportFailure, s) else send_loop data s)"

text \<open>One call of \<open>recv\<close>; the end of the stream is an empty result.\<close>

definition recv_some :: "nat \<Rightarrow> Socket \<Rightarrow> (Code + bytes) \<times> Socket" where
  "recv_some wanted s =
     (if \<not> sk_valid s then (Inl TransportFailure, s)
      else case sk_input s of
        [] \<Rightarrow> (Inr [], s)
      | RecvError # rest \<Rightarrow> (Inl TransportFailure, s\<lparr>sk_input := rest\<rparr>)
      | Segment b # rest \<Rightarrow>
          (let n = min wanted kChunk in
           (Inr (take n b),
            s\<lparr>sk_input := (if drop n b = [] then rest else Segment (drop n b) # rest)\<rparr>)))"

lemma recv_some_length: "recv_some wanted s = (Inr got, s') \<Longrightarrow> length got \<le> wanted"
  by (auto simp: recv_some_def Let_def split: if_splits list.splits Delivery.splits)

function recv_exact :: "nat \<Rightarrow> Socket \<Rightarrow> (Code + bytes) \<times> Socket" where
  "recv_exact remaining s =
     (if remaining = 0 then (Inr [], s)
      else case recv_some remaining s of
        (Inl e, s') \<Rightarrow> (Inl e, s')
      | (Inr got, s') \<Rightarrow>
          if got = [] then (Inl TransportFailure, s')
          else case recv_exact (remaining - length got) s' of
            (Inl e, s'') \<Rightarrow> (Inl e, s'')
          | (Inr later, s'') \<Rightarrow> (Inr (got @ later), s''))"
  by pat_completeness auto

termination
  by (relation "measure (\<lambda>(remaining, s). remaining)") auto

declare send_loop.simps [simp del] recv_exact.simps [simp del]

section \<open>Frames\<close>

definition channel_send :: "Frame \<Rightarrow> Socket \<Rightarrow> (Code + unit) \<times> Socket" where
  "channel_send f = send_all (encode_frame f)"

definition channel_receive :: "Socket \<Rightarrow> (Code + Frame) \<times> Socket" where
  "channel_receive =
     pef_try (recv_exact kFrameHeaderSize) (\<lambda>header.
     case decode_frame_header header of
       Inl reason \<Rightarrow> op_fail ProtocolViolation
     | Inr partial \<Rightarrow>
       (let payload_size = unat (read_le32 (drop 16 header)) in
        pef_try (if payload_size > 0 then recv_exact payload_size else op_return []) (\<lambda>payload.
        pef_try (recv_exact kFrameTrailerSize) (\<lambda>trailer.
        case decode_frame (header @ payload @ trailer) of
          Inl reason \<Rightarrow> op_fail ProtocolViolation
        | Inr f \<Rightarrow> op_return f))))"

definition channel_close :: "Socket \<Rightarrow> Socket" where
  "channel_close s = s\<lparr>sk_valid := False\<rparr>"

section \<open>Sending\<close>

lemma send_loop_result:
  "send_loop data s = (result, s') \<Longrightarrow> sk_input s' = sk_input s \<and> sk_valid s' = sk_valid s \<and>
   (\<exists>n \<le> length data. sk_output s' = sk_output s @ take n data \<and> (result = Inr () \<longrightarrow> n = length data))"
proof (induction data s rule: send_loop.induct)
  case (1 data s)
  show ?case
  proof (cases "data = []")
    case True
    then show ?thesis using 1(2) by (simp add: send_loop.simps)
  next
    case False
    obtain sent s1 where os: "os_send (take kChunk data) s = (sent, s1)" by fastforce
    have s1: "sent \<le> length data" "sk_output s1 = sk_output s @ take sent data"
      "sk_input s1 = sk_input s" "sk_valid s1 = sk_valid s"
      using os by (auto simp: os_send_def Let_def min_def take_take split: list.splits if_splits)
    show ?thesis
    proof (cases "sent = 0")
      case True
      then show ?thesis using 1(2) False os s1 by (auto simp: send_loop.simps [of data])
    next
      case sent: False
      have rest: "send_loop (drop sent data) s1 = (result, s')"
        using 1(2) False os sent by (simp add: send_loop.simps [of data])
      from 1(1) [OF False os [symmetric] sent rest]
      obtain n where n: "n \<le> length (drop sent data)" "sk_output s' = sk_output s1 @ take n (drop sent data)"
        "result = Inr () \<longrightarrow> n = length (drop sent data)" "sk_input s' = sk_input s1" "sk_valid s' = sk_valid s1"
        by auto
      then show ?thesis
        using s1 by (intro conjI exI [of _ "sent + n"]) (auto simp: take_add)
    qed
  qed
qed

lemma send_all_success:
  "send_all data s = (Inr (), s') \<Longrightarrow>
   sk_output s' = sk_output s @ data \<and> sk_input s' = sk_input s \<and> sk_valid s' = sk_valid s"
  by (auto simp: send_all_def dest!: send_loop_result split: if_splits)

lemma send_loop_no_fault:
  "sk_sends s = [] \<Longrightarrow> send_loop data s = (Inr (), s\<lparr>sk_output := sk_output s @ data\<rparr>)"
proof (induction data s rule: send_loop.induct)
  case (1 data s)
  show ?case
  proof (cases "data = []")
    case False
    let ?n = "length (take kChunk data)"
    let ?s1 = "s\<lparr>sk_output := sk_output s @ take kChunk data\<rparr>"
    have os: "os_send (take kChunk data) s = (?n, ?s1)" using 1(2) by (cases s) (simp add: os_send_def Let_def min_def)
    have "take kChunk data @ drop ?n data = data"
      by (cases "length data \<le> kChunk") simp_all
    moreover have "?n \<noteq> 0" using False by (simp add: kChunk_def)
    ultimately show ?thesis using 1(1) [OF False os [symmetric]] 1(2) os False
      by (simp add: send_loop.simps [of data s])
  qed (simp add: send_loop.simps)
qed

lemma send_all_no_fault:
  "sk_valid s \<Longrightarrow> sk_sends s = [] \<Longrightarrow> send_all data s = (Inr (), s\<lparr>sk_output := sk_output s @ data\<rparr>)"
  by (simp add: send_all_def send_loop_no_fault)

section \<open>Receiving\<close>

text \<open>The bytes that can be read before the stream ends or fails.\<close>

fun stream :: "Delivery list \<Rightarrow> bytes" where
  "stream [] = []"
| "stream (Segment b # rest) = b @ stream rest"
| "stream (RecvError # rest) = []"

text \<open>The operating system delivers no empty segment.\<close>

definition deliverable :: "Socket \<Rightarrow> bool" where
  "deliverable s \<longleftrightarrow> sk_valid s \<and> Segment [] \<notin> set (sk_input s)"

lemma recv_some_stream:
  assumes "deliverable s" and "0 < wanted" and "recv_some wanted s = (Inr got, s')"
  shows "deliverable s' \<and> stream (sk_input s) = got @ stream (sk_input s') \<and>
    sk_output s' = sk_output s \<and> sk_sends s' = sk_sends s"
  using assms
  by (auto simp: recv_some_def Let_def deliverable_def kChunk_def split: if_splits list.splits Delivery.splits)

lemma recv_exact_sound:
  "recv_exact n s = (Inr got, s') \<Longrightarrow> deliverable s \<Longrightarrow>
   deliverable s' \<and> length got = n \<and> stream (sk_input s) = got @ stream (sk_input s') \<and>
   sk_output s' = sk_output s \<and> sk_sends s' = sk_sends s"
proof (induction n s arbitrary: got s' rule: recv_exact.induct)
  case (1 n s)
  show ?case
  proof (cases "n = 0")
    case True
    then show ?thesis using 1(2,3) by (simp add: recv_exact.simps)
  next
    case False
    then obtain first s1 later where some: "recv_some n s = (Inr first, s1)" "first \<noteq> []"
      and rest: "recv_exact (n - length first) s1 = (Inr later, s')" "got = first @ later"
      using 1(2) by (auto simp: recv_exact.simps [of n] split: prod.splits sum.splits if_splits)
    note here = recv_some_stream [OF 1(3) _ some(1)]
    then show ?thesis
      using 1(1) [OF False some(1) [symmetric] refl some(2) rest(1)] False rest(2)
        recv_some_length [OF some(1)] by simp
  qed
qed

lemma recv_exact_complete:
  "n \<le> length (stream (sk_input s)) \<Longrightarrow> deliverable s \<Longrightarrow> \<exists>got s'. recv_exact n s = (Inr got, s')"
proof (induction n arbitrary: s rule: less_induct)
  case (less n)
  show ?case
  proof (cases "n = 0")
    case False
    then obtain b rest where input: "sk_input s = Segment b # rest" "b \<noteq> []"
      using less(2,3) by (cases "sk_input s" rule: stream.cases) (auto simp: deliverable_def)
    then obtain got s1 where some: "recv_some n s = (Inr got, s1)" "got \<noteq> []"
      using less(3) False by (auto simp: recv_some_def Let_def deliverable_def kChunk_def)
    have here: "deliverable s1" "stream (sk_input s) = got @ stream (sk_input s1)"
      using recv_some_stream [OF less(3) _ some(1)] False by auto
    moreover have "length got \<le> n" by (rule recv_some_length [OF some(1)])
    ultimately have "\<exists>later s'. recv_exact (n - length got) s1 = (Inr later, s')"
      using less(2) some(2) by (intro less.IH) (auto simp: length_greater_0_conv [symmetric] simp del: length_greater_0_conv)
    then show ?thesis using some False by (auto simp: recv_exact.simps [of n])
  qed (simp add: recv_exact.simps)
qed

text \<open>Reading exactly the bytes that come next, however they are delivered.\<close>

lemma recv_exact_prefix:
  assumes "deliverable s" and "stream (sk_input s) = a @ b"
  shows "\<exists>s'. recv_exact (length a) s = (Inr a, s') \<and> deliverable s' \<and> stream (sk_input s') = b \<and>
    sk_output s' = sk_output s \<and> sk_sends s' = sk_sends s"
proof -
  obtain got s' where run: "recv_exact (length a) s = (Inr got, s')"
    using recv_exact_complete [of "length a" s] assms by auto
  note sound = recv_exact_sound [OF run assms(1)]
  then have "a @ b = got @ stream (sk_input s')" "length a = length got" using assms(2) by simp_all
  then have "got = a \<and> stream (sk_input s') = b" by (simp add: append_eq_append_conv)
  then show ?thesis using run sound by blast
qed

section \<open>Frames in transit\<close>

lemma read_le_prefix:
  "4 \<le> m \<Longrightarrow> read_le32 (take m p) = read_le32 p" "2 \<le> m \<Longrightarrow> read_le16 (take m p) = read_le16 p"
  "8 \<le> m \<Longrightarrow> read_le64 (take m p) = read_le64 p"
  by (simp_all add: read_le32_def read_le16_def read_le64_def)

lemma decode_frame_header_prefix:
  "28 \<le> length b \<Longrightarrow> decode_frame_header (take 28 b) = decode_frame_header b"
  by (simp add: decode_frame_header_def frame_sizes Let_def drop_take read_le_prefix min_def
      split: option.split)

lemma decode_frame_header_of:
  "decode_frame b = Inr f \<Longrightarrow> unat (read_le32 (drop 16 b)) = n \<Longrightarrow>
   (\<exists>g. decode_frame_header b = Inr g) \<and> length b = 36 + n"
  unfolding decode_frame_def frame_sizes Let_def by (simp split: if_splits sum.splits)

text \<open>A frame whose bytes come next is received, and exactly its bytes are consumed.\<close>

lemma channel_receive_frame:
  assumes "deliverable s" and "wf_frame f" and "stream (sk_input s) = encode_frame f @ rest"
  shows "\<exists>s'. channel_receive s = (Inr f, s') \<and> deliverable s' \<and> stream (sk_input s') = rest \<and>
    sk_output s' = sk_output s \<and> sk_sends s' = sk_sends s"
proof -
  define b where "b = encode_frame f"
  define n where "n = unat (read_le32 (drop 16 b))"
  have dec: "decode_frame b = Inr f" unfolding b_def by (rule decode_encode_frame [OF assms(2)])
  obtain g where len: "length b = 28 + n + 8" and g: "decode_frame_header b = Inr g"
    using decode_frame_header_of [OF dec n_def [symmetric]] by auto
  obtain h p t where parts: "b = h @ p @ t" "length h = 28" "length p = n" "length t = 8"
    and h: "h = take 28 b"
  proof
    show "b = take 28 b @ take n (drop 28 b) @ drop n (drop 28 b)"
      by (simp only: append_take_drop_id)
  qed (use len in simp_all)
  have head: "decode_frame_header h = Inr g"
    using g len unfolding h by (simp only: decode_frame_header_prefix)
  have size: "unat (read_le32 (drop 16 h)) = n"
    unfolding h n_def by (simp add: drop_take read_le_prefix)
  obtain s1 where s1: "recv_exact 28 s = (Inr h, s1)" "deliverable s1"
    "stream (sk_input s1) = p @ t @ rest" "sk_output s1 = sk_output s" "sk_sends s1 = sk_sends s"
    using recv_exact_prefix [OF assms(1), of h "p @ t @ rest"] assms(3) parts by (auto simp: b_def)
  obtain s2 where s2: "recv_exact n s1 = (Inr p, s2)" "deliverable s2"
    "stream (sk_input s2) = t @ rest" "sk_output s2 = sk_output s" "sk_sends s2 = sk_sends s"
    using recv_exact_prefix [OF s1(2,3)] parts(3) s1 by auto
  obtain s3 where s3: "recv_exact 8 s2 = (Inr t, s3)" "deliverable s3"
    "stream (sk_input s3) = rest" "sk_output s3 = sk_output s" "sk_sends s3 = sk_sends s"
    using recv_exact_prefix [OF s2(2,3)] parts(4) s2 by auto
  have body: "(if 0 < n then recv_exact n else op_return []) s1 = (Inr p, s2)"
    using s2(1) parts(3) by (auto simp: op_return_def recv_exact.simps [of 0])
  have "channel_receive s = (Inr f, s3)"
    using s1(1) s3(1) head size body dec parts(1)
    by (simp add: channel_receive_def frame_sizes pef_try_def Let_def op_return_def)
  then show ?thesis using s3 by blast
qed

text \<open>Only whole frames are received.\<close>

lemma channel_receive_sound:
  assumes "channel_receive s = (Inr f, s')" and "deliverable s"
  shows "wf_frame f \<and> stream (sk_input s) = encode_frame f @ stream (sk_input s')"
proof -
  obtain h s1 where h: "recv_exact 28 s = (Inr h, s1)" and rest1: "\<exists>g. decode_frame_header h = Inr g"
    using assms(1) by (auto simp: channel_receive_def frame_sizes pef_try_def op_fail_def
        split: prod.splits sum.splits)
  let ?n = "unat (read_le32 (drop 16 h))"
  have body: "(if 0 < ?n then recv_exact ?n else op_return []) s1 = recv_exact ?n s1"
    by (auto simp: op_return_def recv_exact.simps [of 0])
  obtain p s2 t where p: "recv_exact ?n s1 = (Inr p, s2)" and t: "recv_exact 8 s2 = (Inr t, s')"
    and dec: "decode_frame (h @ p @ t) = Inr f"
    using assms(1) h rest1 body
    by (auto simp: channel_receive_def frame_sizes pef_try_def op_fail_def op_return_def Let_def
        split: prod.splits sum.splits)
  note r1 = recv_exact_sound [OF h assms(2)]
  note r2 = recv_exact_sound [OF p] recv_exact_sound [OF t]
  have "stream (sk_input s) = (h @ p @ t) @ stream (sk_input s')" using r1 r2 by simp
  then show ?thesis using decode_frame_canonical [OF dec] by simp
qed

text \<open>A frame over the payload limit is sent like any other, but never received.\<close>

lemma oversized_refused:
  assumes "deliverable s" and "stream (sk_input s) = encode_frame f @ rest"
    and "unat kMaxFramePayload < length (fr_payload f)" and "length (fr_payload f) < 2 ^ 32"
  shows "fst (channel_receive s) = Inl ProtocolViolation"
proof -
  let ?h = "take 28 (encode_frame f)"
  have len: "28 \<le> length (encode_frame f)" by (simp add: encode_frame_def with_crc_def)
  obtain s1 where s1: "recv_exact 28 s = (Inr ?h, s1)"
    using recv_exact_prefix [OF assms(1), of ?h "drop 28 (encode_frame f) @ rest"] assms(2) len
    by (auto simp: min.absorb2)
  have "read_le32 (drop 16 (encode_frame f)) = word_of_nat (length (fr_payload f))"
    by (simp add: encode_frame_def with_crc_def frame_fields_def)
  moreover have "unat (word_of_nat (length (fr_payload f)) :: u32) = length (fr_payload f)"
    using assms(4) by (intro unat_word32_of_length) simp
  ultimately have "\<not> read_le32 (drop 16 (encode_frame f)) \<le> kMaxFramePayload"
    using assms(3) by (simp add: word_le_nat_alt)
  then have "\<nexists>g. decode_frame_header ?h = Inr g"
    using decode_frame_header_Inr len by (simp add: decode_frame_header_prefix)
  then obtain reason where "decode_frame_header ?h = Inl reason"
    by (cases "decode_frame_header ?h") auto
  then show ?thesis
    using s1 by (simp add: channel_receive_def frame_sizes pef_try_def op_fail_def)
qed

section \<open>Conversations\<close>

text \<open>The receive loop of a connection, for a number of frames.\<close>

primrec receive_frames :: "nat \<Rightarrow> (Code, Socket, Frame list) oper" where
  "receive_frames 0 = op_return []"
| "receive_frames (Suc n) =
     pef_try channel_receive (\<lambda>f.
     pef_try (receive_frames n) (\<lambda>fs.
     op_return (f # fs)))"

lemma encode_frame_nonempty: "0 < length (encode_frame f)"
  by (simp add: encode_frame_def with_crc_def)

text \<open>No frame's bytes begin another's, since the receiver is deterministic.\<close>

lemma encode_frame_prefix_free:
  assumes "wf_frame f" "wf_frame g" and "encode_frame f @ x = encode_frame g @ y"
  shows "f = g \<and> x = y"
proof -
  let ?s = "\<lparr>sk_valid = True, sk_sends = [], sk_output = [], sk_input = [Segment (encode_frame f @ x)]\<rparr>"
  have s: "deliverable ?s"
    using encode_frame_nonempty [of f] by (auto simp: deliverable_def)
  obtain s1 where s1: "channel_receive ?s = (Inr f, s1)" "stream (sk_input s1) = x"
    using channel_receive_frame [OF s assms(1), of x] by auto
  obtain s2 where s2: "channel_receive ?s = (Inr g, s2)" "stream (sk_input s2) = y"
    using channel_receive_frame [OF s assms(2), of y] assms(3) by auto
  show ?thesis using s1 s2 by simp
qed

lemma send_frames_output:
  "op_for channel_send fs s = (Inr (), s') \<Longrightarrow>
   sk_output s' = sk_output s @ concat (map encode_frame fs)"
proof (induction fs arbitrary: s)
  case (Cons f fs)
  then obtain s1 where "channel_send f s = (Inr (), s1)" "op_for channel_send fs s1 = (Inr (), s')"
    by (auto simp: pef_try_def split: prod.splits sum.splits)
  moreover from this have "sk_output s1 = sk_output s @ encode_frame f"
    using send_all_success unfolding channel_send_def by blast
  ultimately show ?case using Cons.IH [of s1] by simp
qed (simp add: op_return_def)

lemma receive_frames_complete:
  "deliverable s \<Longrightarrow> list_all wf_frame fs \<Longrightarrow> stream (sk_input s) = concat (map encode_frame fs) @ rest \<Longrightarrow>
   \<exists>s'. receive_frames (length fs) s = (Inr fs, s') \<and> stream (sk_input s') = rest"
proof (induction fs arbitrary: s)
  case (Cons f fs)
  then obtain s1 where "channel_receive s = (Inr f, s1)" "deliverable s1"
    "stream (sk_input s1) = concat (map encode_frame fs) @ rest"
    using channel_receive_frame [of s f "concat (map encode_frame fs) @ rest"] by auto
  moreover from this Cons(3) obtain s2 where "receive_frames (length fs) s1 = (Inr fs, s2)"
    "stream (sk_input s2) = rest"
    using Cons.IH [of s1] by auto
  ultimately show ?case by (simp add: pef_try_def op_return_def)
qed (simp add: op_return_def)

lemma channel_receive_deliverable:
  "channel_receive s = (Inr f, s') \<Longrightarrow> deliverable s \<Longrightarrow> deliverable s'"
proof -
  assume run: "channel_receive s = (Inr f, s')" and ok: "deliverable s"
  then have "wf_frame f \<and> stream (sk_input s) = encode_frame f @ stream (sk_input s')"
    by (rule channel_receive_sound)
  then show ?thesis using channel_receive_frame [OF ok, of f] run by auto
qed

lemma receive_frames_sound:
  "receive_frames n s = (Inr gs, s') \<Longrightarrow> deliverable s \<Longrightarrow> list_all wf_frame fs \<Longrightarrow>
   stream (sk_input s) @ lost = concat (map encode_frame fs) \<Longrightarrow> gs = take n fs"
proof (induction n arbitrary: s gs fs)
  case (Suc n)
  then obtain f s1 gs1 where first: "channel_receive s = (Inr f, s1)"
    and rest: "receive_frames n s1 = (Inr gs1, s')" and gs: "gs = f # gs1"
    by (auto simp: pef_try_def op_return_def split: prod.splits sum.splits)
  note sound = channel_receive_sound [OF first Suc(3)]
  then obtain g fs1 where fs: "fs = g # fs1"
    using encode_frame_nonempty [of f] Suc(5) by (cases fs) auto
  have "f = g \<and> stream (sk_input s1) @ lost = concat (map encode_frame fs1)"
    by (rule encode_frame_prefix_free) (use sound Suc(4,5) fs in auto)
  then show ?case
    using Suc.IH [OF rest channel_receive_deliverable [OF first Suc(3)], of fs1] Suc(4) fs gs by simp
qed (simp add: op_return_def)

end
