(* ===== verification/Wire_View.thy ===== *)
theory Wire_View
  imports Wire_Replies
begin

text \<open>
  The answer to a query on the wire. The view of the runtime model leaves out the records that
  are absent; the structure of the code (\<open>ExecutionView\<close> of \<open>include/pef/runtime.hpp\<close>) has
  default-constructed ones instead, and that is what is encoded.
\<close>

section \<open>Default-constructed records\<close>

definition unset_policy :: ExecutionPolicy where
  "unset_policy = (default_policy 0)\<lparr>pol_generation := 0\<rparr>"

definition unset_lease :: LeaseRecord where
  "unset_lease =
     \<lparr>lease_id = 0, lease_generation = 0, lease_execution = 0, lease_execution_generation = 0,
      lease_incarnation = 0, lease_incarnation_generation = 0, lease_worker = 0, lease_boot = 0,
      lease_epoch = 0, lease_policy_generation = 0, lease_bindings = empty_bindings,
      lease_state = Active\<rparr>"

definition unset_continuation :: ContinuationRecord where
  "unset_continuation =
     \<lparr>cont_id = 0, cont_generation = 0, cont_execution = 0, cont_execution_generation = 0,
      cont_incarnation = 0, cont_incarnation_generation = 0, cont_checkpoint = 0,
      cont_checkpoint_generation = 0, cont_progress_generation = 0, cont_action_generation = 0,
      cont_policy = 0, cont_policy_generation = 0, cont_bindings = empty_bindings,
      cont_epoch = 0, cont_recovery = 0, cont_recovery_generation = 0, cont_state = Invalid,
      cont_resume_ordinal = 0\<rparr>"

definition unset_checkpoint :: CheckpointRecord where
  "unset_checkpoint =
     \<lparr>ckpt_id = 0, ckpt_generation = 0, ckpt_execution = 0, ckpt_execution_generation = 0,
      ckpt_incarnation_generation = 0, ckpt_progress_generation = 0, ckpt_action_generation = 0,
      ckpt_policy = 0, ckpt_policy_generation = 0, ckpt_bindings = empty_bindings,
      ckpt_epoch = 0, ckpt_worker = 0, ckpt_boot = 0, ckpt_parent = 0,
      ckpt_parent_generation = 0, ckpt_lineage_depth = 0, ckpt_effect_boundary_ordinal = 0,
      ckpt_boundary_action = 0, ckpt_content_size = 0, ckpt_content_hash = 0,
      ckpt_state = Created_CS\<rparr>"

definition unset_recovery :: RecoveryRecord where
  "unset_recovery =
     \<lparr>rec_id = 0, rec_generation = 0, rec_execution = 0, rec_execution_generation = 0,
      rec_decision = 0, rec_continuation = 0, rec_continuation_generation = 0,
      rec_checkpoint = 0, rec_checkpoint_generation = 0, rec_epoch = 0,
      rec_evidence = no_evidence, rec_explanation = []\<rparr>"

definition unset_ambiguity :: AmbiguityRecord where
  "unset_ambiguity =
     \<lparr>amb_id = 0, amb_generation = 0, amb_execution = 0, amb_execution_generation = 0,
      amb_action = 0, amb_action_generation = 0, amb_effect_class = Unknown_SE,
      amb_action_ordinal = 0, amb_state = Open, amb_reason = [],
      amb_resolution_evidence = no_evidence, amb_resolution_note = []\<rparr>"

section \<open>Lists of records\<close>

interpretation ActionRecords_codec: field_codec "write_vector encode_ActionRecord"
  "read_vector decode_ActionRecord" "wf_vector wf_ActionRecord"
  by (rule ActionRecord_codec.vector_codec)

declare ActionRecords_codec.reads_write [codec_reads] ActionRecords_codec.read_canonical [codec_yields]

interpretation CheckpointRecords_codec: field_codec "write_vector encode_CheckpointRecord"
  "read_vector decode_CheckpointRecord" "wf_vector wf_CheckpointRecord"
  by (rule CheckpointRecord_codec.vector_codec)

declare CheckpointRecords_codec.reads_write [codec_reads] CheckpointRecords_codec.read_canonical [codec_yields]

interpretation ReplayRecords_codec: field_codec "write_vector encode_ReplayRecord"
  "read_vector decode_ReplayRecord" "wf_vector wf_ReplayRecord"
  by (rule ReplayRecord_codec.vector_codec)

declare ReplayRecords_codec.reads_write [codec_reads] ReplayRecords_codec.read_canonical [codec_yields]

interpretation ExecutionRecords_codec: field_codec "write_vector encode_ExecutionRecord"
  "read_vector decode_ExecutionRecord" "wf_vector wf_ExecutionRecord"
  by (rule ExecutionRecord_codec.vector_codec)

declare ExecutionRecords_codec.reads_write [codec_reads] ExecutionRecords_codec.read_canonical [codec_yields]

section \<open>The view\<close>

record ViewPayload =
  vp_found :: bool
  vp_execution :: ExecutionRecord
  vp_policy :: ExecutionPolicy
  vp_lease :: LeaseRecord
  vp_continuation :: ContinuationRecord
  vp_checkpoint :: CheckpointRecord
  vp_recovery :: RecoveryRecord
  vp_ambiguity :: AmbiguityRecord
  vp_actions :: "ActionRecord list"
  vp_checkpoints :: "CheckpointRecord list"
  vp_replays :: "ReplayRecord list"
  vp_action_count :: u64
  vp_commit_count :: u64

definition encode_ViewPayload :: "ViewPayload \<Rightarrow> bytes" where
  "encode_ViewPayload r =
     w_boolean (vp_found r) @ encode_ExecutionRecord (vp_execution r) @
     encode_ExecutionPolicy (vp_policy r) @ encode_LeaseRecord (vp_lease r) @
     encode_ContinuationRecord (vp_continuation r) @ encode_CheckpointRecord (vp_checkpoint r) @
     encode_RecoveryRecord (vp_recovery r) @ encode_AmbiguityRecord (vp_ambiguity r) @
     write_vector encode_ActionRecord (vp_actions r) @
     write_vector encode_CheckpointRecord (vp_checkpoints r) @
     write_vector encode_ReplayRecord (vp_replays r) @ w_u64 (vp_action_count r) @
     w_u64 (vp_commit_count r)"

definition decode_ViewPayload :: "ViewPayload field_reader" where
  "decode_ViewPayload =
     and_then read_bool (\<lambda>found.
     and_then decode_ExecutionRecord (\<lambda>execution.
     and_then decode_ExecutionPolicy (\<lambda>policy.
     and_then decode_LeaseRecord (\<lambda>lease.
     and_then decode_ContinuationRecord (\<lambda>continuation.
     and_then decode_CheckpointRecord (\<lambda>checkpoint.
     and_then decode_RecoveryRecord (\<lambda>recovery.
     and_then decode_AmbiguityRecord (\<lambda>ambiguity.
     and_then (read_vector decode_ActionRecord) (\<lambda>actions.
     and_then (read_vector decode_CheckpointRecord) (\<lambda>checkpoints.
     and_then (read_vector decode_ReplayRecord) (\<lambda>replays.
     and_then read_u64 (\<lambda>action_count.
     and_then read_u64 (\<lambda>commit_count.
     decoded
       \<lparr>vp_found = found, vp_execution = execution, vp_policy = policy, vp_lease = lease,
        vp_continuation = continuation, vp_checkpoint = checkpoint, vp_recovery = recovery,
        vp_ambiguity = ambiguity, vp_actions = actions, vp_checkpoints = checkpoints,
        vp_replays = replays, vp_action_count = action_count, vp_commit_count = commit_count\<rparr>)))))))))))))"

definition wf_ViewPayload :: "DecodeLimits \<Rightarrow> ViewPayload \<Rightarrow> bool" where
  "wf_ViewPayload lim r \<longleftrightarrow> wf_ExecutionRecord lim (vp_execution r) \<and> wf_LeaseRecord lim (vp_lease r) \<and> wf_ContinuationRecord lim (vp_continuation r) \<and> wf_CheckpointRecord lim (vp_checkpoint r) \<and> wf_RecoveryRecord lim (vp_recovery r) \<and> wf_AmbiguityRecord lim (vp_ambiguity r) \<and> wf_vector wf_ActionRecord lim (vp_actions r) \<and> wf_vector wf_CheckpointRecord lim (vp_checkpoints r) \<and> wf_vector wf_ReplayRecord lim (vp_replays r)"

interpretation ViewPayload_codec: field_codec encode_ViewPayload decode_ViewPayload wf_ViewPayload
proof (rule codec_from_chain)
  fix lim :: DecodeLimits and r :: ViewPayload
  assume "wf_ViewPayload lim r"
  then show "reads lim decode_ViewPayload (encode_ViewPayload r) r"
    by (cases r, unfold encode_ViewPayload_def decode_ViewPayload_def)
      (simp add: wf_ViewPayload_def, (rule reads_and_then, rule codec_reads, simp)+, rule reads_last, rule codec_reads, simp)
next
  show "yields decode_ViewPayload (\<lambda>r used. used = encode_ViewPayload r)"
    unfolding decode_ViewPayload_def
    by ((rule yields_and_then, rule codec_yields)+, rule yields_decoded, simp add: encode_ViewPayload_def)
qed

declare ViewPayload_codec.reads_write [codec_reads] ViewPayload_codec.read_canonical [codec_yields]

text \<open>The view that \<open>query\<close> fills in for an execution that exists.\<close>

definition view_payload :: "ExecutionView \<Rightarrow> ViewPayload" where
  "view_payload v =
     \<lparr>vp_found = True, vp_execution = vw_execution v,
      vp_policy = (case vw_policy v of None \<Rightarrow> unset_policy | Some p \<Rightarrow> p),
      vp_lease = (case vw_lease v of None \<Rightarrow> unset_lease | Some l \<Rightarrow> l),
      vp_continuation = (case vw_continuation v of None \<Rightarrow> unset_continuation | Some c \<Rightarrow> c),
      vp_checkpoint = (case vw_checkpoint v of None \<Rightarrow> unset_checkpoint | Some c \<Rightarrow> c),
      vp_recovery = (case vw_recovery v of None \<Rightarrow> unset_recovery | Some c \<Rightarrow> c),
      vp_ambiguity = (case vw_ambiguity v of None \<Rightarrow> unset_ambiguity | Some c \<Rightarrow> c),
      vp_actions = vw_actions v, vp_checkpoints = vw_checkpoints v, vp_replays = vw_replays v,
      vp_action_count = word_of_nat (vw_action_count v),
      vp_commit_count = word_of_nat (vw_commit_count v)\<rparr>"

section \<open>The verdict on a continuation\<close>

text \<open>What follows the status in \<open>ValidateContinuationReply\<close>.\<close>

record ContinuationVerdict =
  cv_state :: ContinuationState
  cv_reason :: string

definition encode_ContinuationVerdict :: "ContinuationVerdict \<Rightarrow> bytes" where
  "encode_ContinuationVerdict r =
     write_enum continuation_states (cv_state r) @ w_text (cv_reason r)"

definition decode_ContinuationVerdict :: "ContinuationVerdict field_reader" where
  "decode_ContinuationVerdict =
     and_then (read_enum continuation_states) (\<lambda>state.
     and_then read_text (\<lambda>reason.
     decoded
       \<lparr>cv_state = state, cv_reason = reason\<rparr>))"

definition wf_ContinuationVerdict :: "DecodeLimits \<Rightarrow> ContinuationVerdict \<Rightarrow> bool" where
  "wf_ContinuationVerdict lim r \<longleftrightarrow> wf_text lim (cv_reason r)"

interpretation ContinuationVerdict_codec: field_codec encode_ContinuationVerdict decode_ContinuationVerdict wf_ContinuationVerdict
proof (rule codec_from_chain)
  fix lim :: DecodeLimits and r :: ContinuationVerdict
  assume "wf_ContinuationVerdict lim r"
  then show "reads lim decode_ContinuationVerdict (encode_ContinuationVerdict r) r"
    by (cases r, unfold encode_ContinuationVerdict_def decode_ContinuationVerdict_def)
      (simp add: wf_ContinuationVerdict_def, (rule reads_and_then, rule codec_reads, simp)+, rule reads_last, rule codec_reads, simp)
next
  show "yields decode_ContinuationVerdict (\<lambda>r used. used = encode_ContinuationVerdict r)"
    unfolding decode_ContinuationVerdict_def
    by ((rule yields_and_then, rule codec_yields)+, rule yields_decoded, simp add: encode_ContinuationVerdict_def)
qed

declare ContinuationVerdict_codec.reads_write [codec_reads] ContinuationVerdict_codec.read_canonical [codec_yields]

end
