(* ===== verification/Server.thy ===== *)
theory Server
  imports Protocol Wire_View Fabric
begin

unbundle bit_operations_syntax

text \<open>
  The coordinator server (\<open>include/pef/server.hpp\<close>, \<open>src/server.cpp\<close>): one exchange of a
  connection (\<open>serve\<close>), the reply cache, and accepting and closing connections. Requests are
  decoded from the payload bytes of a frame. A reply is kept as the value that
  \<open>make_typed_reply\<close> encodes; of a refusal only the code is modelled, since the runtime model
  has no message texts. The counters are 64-bit and wrap. \<open>sv_build_info\<close> stands for
  \<open>build_info_string\<close>, which the compiler fixes.
\<close>

section \<open>Requests\<close>

datatype WireRequest =
    CreateQ CreateExecutionRequest
  | BindQ BindWorkerRequest
  | StartQ StartRequest
  | BeginQ BeginActionRequest
  | CompleteQ CompleteActionRequest
  | FailQ FailActionRequest
  | ReportQ ReportSideEffectRequest
  | CheckpointQ RegisterCheckpointRequest
  | ResumeQ ResumeRequest
  | ExecutionQ MessageType ExecutionIdRequest
  | PolicyQ UpdatePolicyRequest
  | ResolveQ ResolveAmbiguityRequest
  | ListQ
  | SnapshotQ SnapshotRequest
  | AuditQ

text \<open>The message types whose payload is an \<open>ExecutionIdRequest\<close>.\<close>

definition execution_types :: "MessageType list" where
  "execution_types = [mt_SuspendBegin, mt_SuspendCommit, mt_Fence, mt_Cancel, mt_Retire, mt_Drain,
     mt_CompleteExecution, mt_AdvanceGeneration, mt_Classify, mt_Recover,
     mt_RevalidateContinuation, mt_Query]"

text \<open>
  The decoding step of each case of the switch; \<open>None\<close> is a payload that does not decode or a
  type without a case, both of which are refused with \<open>PROTOCOL_VIOLATION\<close>.
\<close>

definition decode_request :: "MessageType \<Rightarrow> bytes \<Rightarrow> WireRequest option" where
  "decode_request t b =
     (if t = mt_CreateExecution then
        map_option CreateQ (decode_from_bytes decode_CreateExecutionRequest b)
      else if t = mt_BindWorker then
        map_option BindQ (decode_from_bytes decode_BindWorkerRequest b)
      else if t = mt_Start then map_option StartQ (decode_from_bytes decode_StartRequest b)
      else if t = mt_BeginAction then
        map_option BeginQ (decode_from_bytes decode_BeginActionRequest b)
      else if t = mt_CompleteAction then
        map_option CompleteQ (decode_from_bytes decode_CompleteActionRequest b)
      else if t = mt_FailAction then
        map_option FailQ (decode_from_bytes decode_FailActionRequest b)
      else if t = mt_ReportSideEffect then
        map_option ReportQ (decode_from_bytes decode_ReportSideEffectRequest b)
      else if t = mt_RegisterCheckpoint then
        map_option CheckpointQ (decode_from_bytes decode_RegisterCheckpointRequest b)
      else if t = mt_Resume then map_option ResumeQ (decode_from_bytes decode_ResumeRequest b)
      else if List.member execution_types t then
        map_option (ExecutionQ t) (decode_from_bytes decode_ExecutionIdRequest b)
      else if t = mt_UpdatePolicy then
        map_option PolicyQ (decode_from_bytes decode_UpdatePolicyRequest b)
      else if t = mt_ResolveAmbiguity then
        map_option ResolveQ (decode_from_bytes decode_ResolveAmbiguityRequest b)
      else if t = mt_ListExecutions then Some ListQ
      else if t = mt_Snapshot then
        map_option SnapshotQ (decode_from_bytes decode_SnapshotRequest b)
      else if t = mt_Audit then Some AuditQ
      else None)"

section \<open>Executing a request\<close>

datatype OpResult =
    Done
  | Created_R CreateExecutionResult
  | Bound BindWorkerResult
  | Begun BeginActionResult
  | Completed_R CompleteActionResult
  | Checkpointed RegisterCheckpointResult
  | Resumed ResumeResult
  | Classified RecoveryPlan
  | Recovered RecoveryOutcome
  | Resolved ResolveAmbiguityResult
  | Viewed ViewPayload
  | Listed "ExecutionRecord list"
  | Validated ContinuationVerdict
  | Snapshotted u64
  | Audited AuditReport

definition answer :: "('a \<Rightarrow> OpResult) \<Rightarrow> 'a rt_op \<Rightarrow> OpResult rt_op" where
  "answer g m = pef_try m (\<lambda>a. op_return (g a))"

abbreviation acknowledged :: "unit rt_op \<Rightarrow> OpResult rt_op" where
  "acknowledged m \<equiv> answer (\<lambda>_. Done) m"

definition execute_on :: "CallerContext \<Rightarrow> u64 \<Rightarrow> MessageType \<Rightarrow> u64 \<Rightarrow> OpResult rt_op" where
  "execute_on caller request t i =
     (if t = mt_SuspendBegin then acknowledged (suspend_begin caller request i)
      else if t = mt_SuspendCommit then acknowledged (suspend_commit caller request i)
      else if t = mt_Fence then acknowledged (fence caller request i)
      else if t = mt_Cancel then acknowledged (cancel caller request i)
      else if t = mt_Retire then acknowledged (retire caller request i)
      else if t = mt_Drain then acknowledged (drain caller request i)
      else if t = mt_CompleteExecution then acknowledged (complete_execution caller request i)
      else if t = mt_Classify then answer Classified (classify caller i)
      else if t = mt_Recover then answer Recovered (recover caller request i)
      else if t = mt_RevalidateContinuation then
        answer (\<lambda>(state, reason). Validated \<lparr>cv_state = state, cv_reason = reason\<rparr>)
          (validate_continuation caller i)
      else if t = mt_Query then answer (\<lambda>v. Viewed (view_payload v)) (query i)
      else acknowledged (advance_execution_generation caller request i))"

fun execute :: "CallerContext \<Rightarrow> u64 \<Rightarrow> WireRequest \<Rightarrow> OpResult rt_op" where
  "execute caller request (CreateQ q) =
     answer Created_R (create_execution caller (crq_request q) (crq_policy q))"
| "execute caller request (BindQ q) =
     answer Bound (bind_worker caller (bwq_request q) (bwq_execution q) (bwq_worker q) (bwq_boot q)
       (bwq_bindings q))"
| "execute caller request (StartQ q) = acknowledged (start (srq_request q) (srq_token q))"
| "execute caller request (BeginQ q) = answer Begun (begin_action q)"
| "execute caller request (CompleteQ q) = answer Completed_R (complete_action q)"
| "execute caller request (FailQ q) =
     acknowledged (fail_action (far_request q) (far_token q) (far_action q) (far_action_generation q)
       (far_evidence q))"
| "execute caller request (ReportQ q) =
     acknowledged (report_side_effect (rse_request q) (rse_token q) (rse_action q)
       (rse_action_generation q) (rse_applied q) (rse_evidence q))"
| "execute caller request (CheckpointQ q) = answer Checkpointed (register_checkpoint q)"
| "execute caller request (ResumeQ q) =
     answer Resumed (resume (rrq_request q) (rrq_token q) (rrq_observed_bindings q)
       (rrq_revalidate_bindings q))"
| "execute caller request (ExecutionQ t q) = execute_on caller request t (eir_execution q)"
| "execute caller request (PolicyQ q) =
     acknowledged (update_policy caller request (upr_execution q) (upr_policy q) (upr_apply q))"
| "execute caller request (ResolveQ q) =
     answer Resolved (resolve_ambiguity (q\<lparr>rar_caller := caller\<rparr>))"
| "execute caller request ListQ =
     op_read (\<lambda>r. op_return (Listed (list_executions r)))"
| "execute caller request (SnapshotQ q) =
     pef_try (take_snapshot (snr_truncate_journal q)) (\<lambda>_.
     op_read (\<lambda>r. op_return (Snapshotted (ds_sequence (rt_state r)))))"
| "execute caller request AuditQ = answer Audited runtime_audit"

text \<open>Read-only operations and snapshots are never remembered.\<close>

fun remembered_request :: "WireRequest \<Rightarrow> bool" where
  "remembered_request (ExecutionQ t q) \<longleftrightarrow>
     t \<noteq> mt_Classify \<and> t \<noteq> mt_RevalidateContinuation \<and> t \<noteq> mt_Query"
| "remembered_request ListQ \<longleftrightarrow> False"
| "remembered_request (SnapshotQ q) \<longleftrightarrow> False"
| "remembered_request AuditQ \<longleftrightarrow> False"
| "remembered_request q \<longleftrightarrow> True"

section \<open>The server\<close>

text \<open>
  \<open>Refusal\<close> is a status payload alone; \<open>Outcome\<close> a status with a result, which is meaningful
  only when the status is \<open>OK\<close>.
\<close>

datatype ReplyBody =
    Refusal Code
  | Hail HelloReply
  | Pong PingReply
  | Goodbye
  | Outcome "Code + OpResult"

record ServerReply =
  sr_type :: MessageType
  sr_request :: u64
  sr_body :: ReplyBody

record CachedReply =
  cr_type :: MessageType
  cr_body :: ReplyBody

record ConnectionState =
  cn_session :: u64
  cn_established :: bool
  cn_is_worker :: bool
  cn_worker :: u64
  cn_boot :: u64

record ServerConfig =
  svc_host :: string
  svc_port :: u16
  svc_store_path :: string
  svc_runtime :: RuntimeConfig
  svc_max_connections :: nat
  svc_request_cache_size :: nat
  svc_allow_remote_shutdown :: bool

record Server =
  sv_config :: ServerConfig
  sv_runtime :: Runtime
  sv_build_info :: string
  sv_running :: bool
  sv_stop_requested :: bool
  sv_accept_finished :: bool
  sv_requests :: u64
  sv_refusals :: u64
  sv_replayed :: u64
  sv_active_connections :: nat
  sv_reply_cache :: "u64 \<Rightarrow> CachedReply option"
  sv_reply_order :: "u64 list"

abbreviation sv_cache_size :: "Server \<Rightarrow> nat" where
  "sv_cache_size s \<equiv> svc_request_cache_size (sv_config s)"

definition make_reply :: "Frame \<Rightarrow> MessageType \<Rightarrow> ReplyBody \<Rightarrow> ServerReply" where
  "make_reply f t body = \<lparr>sr_type = t OR kReplyBit, sr_request = fr_request f, sr_body = body\<rparr>"

definition remember_reply :: "u64 \<Rightarrow> CachedReply \<Rightarrow> Server \<Rightarrow> Server" where
  "remember_reply i reply s =
     (if \<not> id_valid i \<or> sv_cache_size s = 0 then s
      else if sv_reply_cache s i \<noteq> None then s
      else case evict (sv_cache_size s) (sv_reply_order s) (sv_reply_cache s) of
        (order, cache) \<Rightarrow>
          s\<lparr>sv_reply_cache := cache(i \<mapsto> reply), sv_reply_order := order @ [i]\<rparr>)"

definition lookup_reply :: "u64 \<Rightarrow> Server \<Rightarrow> CachedReply option" where
  "lookup_reply i s = (if id_valid i then sv_reply_cache s i else None)"

text \<open>The lambda \<open>refuse\<close> of \<open>serve\<close>.\<close>

definition refuse :: "Frame \<Rightarrow> Code \<Rightarrow> Server \<Rightarrow> ServerReply \<times> Server" where
  "refuse f code s =
     (make_reply f (base_type f) (Refusal code), s\<lparr>sv_refusals := sv_refusals s + 1\<rparr>)"

definition hello_reply :: "u64 \<Rightarrow> Server \<Rightarrow> HelloReply" where
  "hello_reply session s =
     (let d = rt_state (sv_runtime s) in
      \<lparr>hrp_store = ds_store d, hrp_epoch = ds_epoch d, hrp_session = session,
       hrp_coordinator_version = sv_build_info s, hrp_protocol_version = kProtocolVersion,
       hrp_persistence_schema = kPersistenceSchemaVersion,
       hrp_resumed_from_durable_state = False, hrp_journal_sequence = ds_sequence d\<rparr>)"

definition serve_hello ::
  "Frame \<Rightarrow> ConnectionState \<Rightarrow> Server \<Rightarrow> ServerReply \<times> ConnectionState \<times> Server" where
  "serve_hello f c s =
     (case decode_from_bytes decode_HelloRequest (fr_payload f) of
        None \<Rightarrow> (case refuse f ProtocolViolation s of (reply, s') \<Rightarrow> (reply, c, s'))
      | Some hello \<Rightarrow>
        if hrq_as_worker hello then
          (case begin_session (hrq_worker hello) (hrq_boot hello) (sv_runtime s) of
             (Inl code, r) \<Rightarrow>
               (case refuse f code (s\<lparr>sv_runtime := r\<rparr>) of (reply, s') \<Rightarrow> (reply, c, s'))
           | (Inr caller, r) \<Rightarrow>
               (make_reply f (base_type f) (Hail (hello_reply (caller_session caller) s)),
                \<lparr>cn_session = caller_session caller, cn_established = True, cn_is_worker = True,
                 cn_worker = hrq_worker hello, cn_boot = hrq_boot hello\<rparr>,
                s\<lparr>sv_runtime := r\<rparr>))
        else (make_reply f (base_type f) (Hail (hello_reply 0 s)), c, s))"

definition serve_ping :: "Frame \<Rightarrow> Server \<Rightarrow> ServerReply \<times> Server" where
  "serve_ping f s =
     (case decode_from_bytes decode_PingRequest (fr_payload f) of
        None \<Rightarrow> refuse f ProtocolViolation s
      | Some ping \<Rightarrow>
        (make_reply f (base_type f)
          (Pong \<lparr>prp_token = prq_token ping, prp_epoch = ds_epoch (rt_state (sv_runtime s))\<rparr>), s))"

definition serve_shutdown :: "Frame \<Rightarrow> Server \<Rightarrow> ServerReply \<times> Server" where
  "serve_shutdown f s =
     (if \<not> svc_allow_remote_shutdown (sv_config s) then refuse f PolicyRefused s
      else (make_reply f (base_type f) Goodbye, s\<lparr>sv_stop_requested := True\<rparr>))"

definition serve_operation :: "Frame \<Rightarrow> CallerContext \<Rightarrow> Server \<Rightarrow> ServerReply \<times> Server" where
  "serve_operation f caller s =
     (case decode_request (base_type f) (fr_payload f) of
        None \<Rightarrow> refuse f ProtocolViolation s
      | Some q \<Rightarrow>
        (case execute caller (fr_request f) q (sv_runtime s) of
           (result, r) \<Rightarrow>
             (let s1 = s\<lparr>sv_runtime := r\<rparr>; body = Outcome result in
              (make_reply f (base_type f) body,
               if \<not> isl result \<and> remembered_request q
               then remember_reply (fr_request f) \<lparr>cr_type = base_type f, cr_body = body\<rparr> s1
               else s1))))"

definition serve ::
  "Frame \<Rightarrow> ConnectionState \<Rightarrow> Server \<Rightarrow> ServerReply \<times> ConnectionState \<times> Server" where
  "serve f c s0 =
     (let s = s0\<lparr>sv_requests := sv_requests s0 + 1\<rparr>; base = base_type f in
      if is_reply f then
        (\<lparr>sr_type = mt_Ping OR kReplyBit, sr_request = fr_request f,
          sr_body = Refusal ProtocolViolation\<rparr>, c, s)
      else case (if base \<noteq> mt_Hello \<and> base \<noteq> mt_Ping then lookup_reply (fr_request f) s else None) of
        Some cached \<Rightarrow>
          (make_reply f (cr_type cached) (cr_body cached), c,
           s\<lparr>sv_replayed := sv_replayed s + 1\<rparr>)
      | None \<Rightarrow>
        if base = mt_Hello then serve_hello f c s
        else
          (let caller = \<lparr>caller_session = (if cn_established c then cn_session c else 0),
                 caller_epoch = ds_epoch (rt_state (sv_runtime s))\<rparr>;
               (reply, s') =
                 (if base = mt_Ping then serve_ping f s
                  else if base = mt_Shutdown then serve_shutdown f s
                  else serve_operation f caller s)
           in (reply, c, s')))"

section \<open>Connections and the life of the server\<close>

text \<open>
  \<open>start\<close>: \<open>listening\<close> is the result of \<open>listen_on\<close>, which the operating system decides. The
  store path of the runtime configuration is kept beside it, because the model of the runtime
  owns the store itself.
\<close>

definition server_start ::
  "ServerConfig \<Rightarrow> u64 \<Rightarrow> Code + unit \<Rightarrow> Server \<Rightarrow> (Code + OpenOutcome) \<times> Server" where
  "server_start config entropy listening s0 =
     (if sv_running s0 then (Inl AlreadyExists, s0)
      else let s = s0\<lparr>sv_config := config\<rparr> in
        if svc_store_path config = [] then (Inl InvalidArgument, s)
        else case open_runtime (svc_runtime config) entropy (sv_runtime s) of
          (Inl code, r) \<Rightarrow> (Inl code, s\<lparr>sv_runtime := r\<rparr>)
        | (Inr outcome, r) \<Rightarrow>
          (case listening of
             Inl code \<Rightarrow> (Inl code, s\<lparr>sv_runtime := r\<rparr>)
           | Inr _ \<Rightarrow>
             (Inr outcome, s\<lparr>sv_runtime := r, sv_stop_requested := False, sv_running := True\<rparr>)))"

text \<open>An accepted socket is closed at once when the server is full: \<open>None\<close>.\<close>

definition accept_connection :: "Server \<Rightarrow> Server option" where
  "accept_connection s =
     (if svc_max_connections (sv_config s) \<le> sv_active_connections s then None
      else Some (s\<lparr>sv_active_connections := sv_active_connections s + 1\<rparr>))"

definition initial_connection :: ConnectionState where
  "initial_connection =
     \<lparr>cn_session = 0, cn_established = False, cn_is_worker = False, cn_worker = 0, cn_boot = 0\<rparr>"

text \<open>The end of a connection thread: the worker of the connection is fenced.\<close>

definition close_connection :: "ConnectionState \<Rightarrow> Server \<Rightarrow> Server" where
  "close_connection c s =
     (let s1 = (if cn_established c \<and> cn_is_worker c
                then s\<lparr>sv_runtime := snd (end_session (cn_session c) (sv_runtime s))\<rparr> else s)
      in s1\<lparr>sv_active_connections := sv_active_connections s1 - 1\<rparr>)"

text \<open>
  \<open>stop\<close> in its two halves: the request, after which the connection threads end one by one,
  and the end of the joins.
\<close>

definition stop_ignored :: "Server \<Rightarrow> bool" where
  "stop_ignored s \<longleftrightarrow> \<not> sv_running s \<and> \<not> sv_stop_requested s \<and> \<not> sv_accept_finished s"

definition request_stop :: "Server \<Rightarrow> Server" where
  "request_stop s = (if stop_ignored s then s else s\<lparr>sv_stop_requested := True\<rparr>)"

definition finish_stop :: "Server \<Rightarrow> Server" where
  "finish_stop s = s\<lparr>sv_running := False, sv_accept_finished := True\<rparr>"

definition shutdown_runtime :: "Server \<Rightarrow> (Code + unit) \<times> Server" where
  "shutdown_runtime s =
     (case shutdown (sv_runtime s) of (result, r) \<Rightarrow> (result, s\<lparr>sv_runtime := r\<rparr>))"

text \<open>
  The server and its open connections, as a transition system. A step is one iteration of the
  accept loop, one exchange of one connection thread, the end of a connection thread, or a
  call of the owner. The runtime call of an exchange holds the runtime mutex, and the reply
  cache has a mutex of its own; an exchange is one step here. An execution is created only
  where its hashed identity is not taken (see \<open>id_fresh\<close>).
\<close>

fun command_of :: "CallerContext \<Rightarrow> u64 \<Rightarrow> WireRequest \<Rightarrow> Command option" where
  "command_of caller request (CreateQ q) =
     Some (CreateExecution caller (crq_request q) (crq_policy q))"
| "command_of caller request (BindQ q) =
     Some (BindWorker caller (bwq_request q) (bwq_execution q) (bwq_worker q) (bwq_boot q)
       (bwq_bindings q))"
| "command_of caller request (StartQ q) = Some (Start (srq_request q) (srq_token q))"
| "command_of caller request (BeginQ q) = Some (BeginAction q)"
| "command_of caller request (CompleteQ q) = Some (CompleteAction q)"
| "command_of caller request (FailQ q) =
     Some (FailAction (far_request q) (far_token q) (far_action q) (far_action_generation q)
       (far_evidence q))"
| "command_of caller request (ReportQ q) =
     Some (ReportSideEffect (rse_request q) (rse_token q) (rse_action q)
       (rse_action_generation q) (rse_applied q) (rse_evidence q))"
| "command_of caller request (CheckpointQ q) = Some (RegisterCheckpoint q)"
| "command_of caller request (ResumeQ q) =
     Some (Resume (rrq_request q) (rrq_token q) (rrq_observed_bindings q)
       (rrq_revalidate_bindings q))"
| "command_of caller request (ExecutionQ t q) =
     Some (let i = eir_execution q in
       if t = mt_SuspendBegin then SuspendBegin caller request i
       else if t = mt_SuspendCommit then SuspendCommit caller request i
       else if t = mt_Fence then Fence caller request i
       else if t = mt_Cancel then Cancel caller request i
       else if t = mt_Retire then Retire caller request i
       else if t = mt_Drain then Drain caller request i
       else if t = mt_CompleteExecution then CompleteExecution caller request i
       else if t = mt_Classify then Classify caller i
       else if t = mt_Recover then Recover caller request i
       else if t = mt_RevalidateContinuation then ValidateContinuation caller i
       else if t = mt_Query then Query i
       else AdvanceExecutionGeneration caller request i)"
| "command_of caller request (PolicyQ q) =
     Some (UpdatePolicy caller request (upr_execution q) (upr_policy q) (upr_apply q))"
| "command_of caller request (ResolveQ q) = Some (ResolveAmbiguity (q\<lparr>rar_caller := caller\<rparr>))"
| "command_of caller request ListQ = None"
| "command_of caller request (SnapshotQ q) = Some (TakeSnapshot (snr_truncate_journal q))"
| "command_of caller request AuditQ = None"

definition exchange_fresh :: "Frame \<Rightarrow> Server \<Rightarrow> bool" where
  "exchange_fresh f s \<longleftrightarrow>
     (case decode_request (base_type f) (fr_payload f) of
        Some (CreateQ q) \<Rightarrow> fresh_execution_id (rt_state (sv_runtime s))
      | _ \<Rightarrow> True)"

type_synonym server_state = "Server \<times> (nat \<Rightarrow> ConnectionState option)"

inductive server_step :: "server_state \<Rightarrow> server_state \<Rightarrow> bool" where
  accept: "\<not> sv_stop_requested s \<Longrightarrow> accept_connection s = Some s' \<Longrightarrow> conns k = None \<Longrightarrow>
    server_step (s, conns) (s', conns(k \<mapsto> initial_connection))"
| exchange: "conns k = Some c \<Longrightarrow> exchange_fresh f s \<Longrightarrow> serve f c s = (reply, c', s') \<Longrightarrow>
    server_step (s, conns) (s', conns(k \<mapsto> c'))"
| hang_up: "conns k = Some c \<Longrightarrow>
    server_step (s, conns) (close_connection c s, conns(k := None))"
| stop: "server_step (s, conns) (request_stop s, conns)"
| stopped: "sv_stop_requested s \<Longrightarrow> server_step (s, Map.empty) (finish_stop s, Map.empty)"
| halt: "server_step (s, conns) (snd (shutdown_runtime s), conns)"

inductive_cases server_stepE: "server_step x y"

abbreviation server_steps :: "server_state \<Rightarrow> server_state \<Rightarrow> bool" where
  "server_steps \<equiv> rtranclp server_step"

end
