(* ===== verification/Client.thy ===== *)
theory Client
  imports Channel Server
begin

unbundle bit_operations_syntax

text \<open>
  The coordinator client (\<open>include/pef/client.hpp\<close>, \<open>src/client.cpp\<close>): request identities, one
  request and reply over the frame channel, and one method per operation. A method names its
  request by the value that the server decodes; \<open>encode_request\<close> and \<open>decode_reply\<close> are the
  payload it sends and the structure it expects back. The second half of the theory is the
  wire form of the server's replies.
\<close>

section \<open>Requests and replies on the wire\<close>

fun request_type :: "WireRequest \<Rightarrow> MessageType" where
  "request_type (CreateQ q) = mt_CreateExecution"
| "request_type (BindQ q) = mt_BindWorker"
| "request_type (StartQ q) = mt_Start"
| "request_type (BeginQ q) = mt_BeginAction"
| "request_type (CompleteQ q) = mt_CompleteAction"
| "request_type (FailQ q) = mt_FailAction"
| "request_type (ReportQ q) = mt_ReportSideEffect"
| "request_type (CheckpointQ q) = mt_RegisterCheckpoint"
| "request_type (ResumeQ q) = mt_Resume"
| "request_type (ExecutionQ t q) = t"
| "request_type (PolicyQ q) = mt_UpdatePolicy"
| "request_type (ResolveQ q) = mt_ResolveAmbiguity"
| "request_type ListQ = mt_ListExecutions"
| "request_type (SnapshotQ q) = mt_Snapshot"
| "request_type AuditQ = mt_Audit"

fun encode_request :: "WireRequest \<Rightarrow> bytes" where
  "encode_request (CreateQ q) = encode_CreateExecutionRequest q"
| "encode_request (BindQ q) = encode_BindWorkerRequest q"
| "encode_request (StartQ q) = encode_StartRequest q"
| "encode_request (BeginQ q) = encode_BeginActionRequest q"
| "encode_request (CompleteQ q) = encode_CompleteActionRequest q"
| "encode_request (FailQ q) = encode_FailActionRequest q"
| "encode_request (ReportQ q) = encode_ReportSideEffectRequest q"
| "encode_request (CheckpointQ q) = encode_RegisterCheckpointRequest q"
| "encode_request (ResumeQ q) = encode_ResumeRequest q"
| "encode_request (ExecutionQ t q) = encode_ExecutionIdRequest q"
| "encode_request (PolicyQ q) = encode_UpdatePolicyRequest q"
| "encode_request (ResolveQ q) = encode_ResolveAmbiguityRequest q"
| "encode_request ListQ = []"
| "encode_request (SnapshotQ q) = encode_SnapshotRequest q"
| "encode_request AuditQ = []"

text \<open>The typed reply of each method, as its result; a \<open>SimpleReply\<close> is a status alone.\<close>

definition reply_of :: "('a \<Rightarrow> OpResult) \<Rightarrow> 'a field_reader \<Rightarrow> bytes \<Rightarrow> OpResult option" where
  "reply_of g rd b = map_option (\<lambda>r. g (rp_result r)) (decode_from_bytes (decode_Reply rd) b)"

definition simple_reply :: "bytes \<Rightarrow> OpResult option" where
  "simple_reply b = map_option (\<lambda>_. Done) (decode_from_bytes decode_StatusPayload b)"

fun decode_reply :: "WireRequest \<Rightarrow> bytes \<Rightarrow> OpResult option" where
  "decode_reply (CreateQ q) = reply_of Created_R decode_CreateExecutionResult"
| "decode_reply (BindQ q) = reply_of Bound decode_BindWorkerResult"
| "decode_reply (StartQ q) = simple_reply"
| "decode_reply (BeginQ q) = reply_of Begun decode_BeginActionResult"
| "decode_reply (CompleteQ q) = reply_of Completed_R decode_CompleteActionResult"
| "decode_reply (FailQ q) = simple_reply"
| "decode_reply (ReportQ q) = simple_reply"
| "decode_reply (CheckpointQ q) = reply_of Checkpointed decode_RegisterCheckpointResult"
| "decode_reply (ResumeQ q) = reply_of Resumed decode_ResumeResult"
| "decode_reply (ExecutionQ t q) =
     (if t = mt_Classify then reply_of Classified decode_RecoveryPlan
      else if t = mt_Recover then reply_of Recovered decode_RecoveryOutcome
      else if t = mt_RevalidateContinuation then reply_of Validated decode_ContinuationVerdict
      else if t = mt_Query then reply_of Viewed decode_ViewPayload
      else simple_reply)"
| "decode_reply (PolicyQ q) = simple_reply"
| "decode_reply (ResolveQ q) = reply_of Resolved decode_ResolveAmbiguityResult"
| "decode_reply ListQ = reply_of Listed (read_vector decode_ExecutionRecord)"
| "decode_reply (SnapshotQ q) = reply_of Snapshotted read_u64"
| "decode_reply AuditQ = reply_of Audited decode_AuditReport"

section \<open>The client\<close>

record Client =
  cl_channel :: Socket
  cl_request_counter :: u64
  cl_nonce :: u64
  cl_epoch :: u64
  cl_store :: u64
  cl_session :: u64
  cl_is_worker :: bool

type_synonym 'a client_op = "(Code, Client, 'a) oper"

text \<open>The readings of the clocks and the per-process counter are arguments.\<close>

definition mint_client_nonce :: "u64 \<Rightarrow> u64 \<Rightarrow> u64 \<Rightarrow> u64" where
  "mint_client_nonce steady wall counter =
     hb_u64 (hb_u64 (hb_u64 (hb_u64 hb_new 0x3001) steady) wall) counter"

definition peek_request :: "Client \<Rightarrow> u64" where
  "peek_request c = hb_u64 (hb_u64 hb_new (cl_nonce c)) (cl_request_counter c + 1)"

definition next_request :: "u64 client_op" where
  "next_request c =
     (Inr (peek_request c), c\<lparr>cl_request_counter := cl_request_counter c + 1\<rparr>)"

text \<open>\<open>connected\<close> is the result of \<open>connect_to\<close>, which the operating system decides.\<close>

definition client_connect :: "Code + Socket \<Rightarrow> u64 \<Rightarrow> unit client_op" where
  "client_connect connected nonce c =
     (case connected of
        Inl code \<Rightarrow> (Inl code, c)
      | Inr socket \<Rightarrow>
        (Inr (), c\<lparr>cl_channel := socket, cl_request_counter := 0, cl_nonce := nonce\<rparr>))"

definition client_close :: "Client \<Rightarrow> Client" where
  "client_close c = c\<lparr>cl_channel := channel_close (cl_channel c), cl_is_worker := False\<rparr>"

definition on_channel :: "(Code, Socket, 'a) oper \<Rightarrow> 'a client_op" where
  "on_channel m c = (case m (cl_channel c) of (result, s) \<Rightarrow> (result, c\<lparr>cl_channel := s\<rparr>))"

definition request_frame :: "MessageType \<Rightarrow> u64 \<Rightarrow> bytes \<Rightarrow> Frame" where
  "request_frame t request payload =
     \<lparr>fr_version = kProtocolVersion, fr_type = t, fr_request = request, fr_flags = 0,
      fr_payload = payload\<rparr>"

definition exchange :: "MessageType \<Rightarrow> u64 \<Rightarrow> bytes \<Rightarrow> Frame client_op" where
  "exchange t request payload =
     op_read (\<lambda>c. if \<not> sk_valid (cl_channel c) then op_fail TransportFailure
     else
       pef_try (on_channel (channel_send (request_frame t request payload))) (\<lambda>_.
       pef_try (on_channel channel_receive) (\<lambda>reply.
       if base_type reply \<noteq> t then op_fail ProtocolViolation
       else if fr_request reply \<noteq> request then op_fail ProtocolViolation
       else op_return reply)))"

definition call :: "(bytes \<Rightarrow> 'a option) \<Rightarrow> MessageType \<Rightarrow> u64 \<Rightarrow> bytes \<Rightarrow> 'a client_op" where
  "call decode t request payload =
     pef_try (exchange t request payload) (\<lambda>reply.
     case reply_status reply of
       None \<Rightarrow> op_fail ProtocolViolation
     | Some status \<Rightarrow>
       if stp_code status \<noteq> Ok then op_fail (stp_code status)
       else case decode (fr_payload reply) of
         None \<Rightarrow> op_fail ProtocolViolation
       | Some result \<Rightarrow> op_return result)"

definition call_raw :: "(bytes \<Rightarrow> 'a option) \<Rightarrow> MessageType \<Rightarrow> u64 \<Rightarrow> bytes \<Rightarrow> 'a client_op" where
  "call_raw decode t request payload =
     pef_try (exchange t request payload) (\<lambda>reply.
     case decode (fr_payload reply) of
       None \<Rightarrow> op_fail ProtocolViolation
     | Some result \<Rightarrow> op_return result)"

text \<open>The shape of every operation method.\<close>

definition remote :: "u64 \<Rightarrow> WireRequest \<Rightarrow> OpResult client_op" where
  "remote request q = call (decode_reply q) (request_type q) request (encode_request q)"

definition remote_next :: "WireRequest \<Rightarrow> OpResult client_op" where
  "remote_next q = pef_try next_request (\<lambda>request. remote request q)"

section \<open>Methods\<close>

definition hello :: "HelloRequest \<Rightarrow> bool \<Rightarrow> HelloReply client_op" where
  "hello request as_worker =
     pef_try next_request (\<lambda>i.
     pef_try (call_raw (decode_from_bytes decode_HelloReply) mt_Hello i (encode_HelloRequest request))
       (\<lambda>out.
     pef_try (op_modify (\<lambda>c. c\<lparr>cl_epoch := hrp_epoch out, cl_store := hrp_store out,
         cl_session := hrp_session out,
         cl_is_worker := (if as_worker then True else cl_is_worker c)\<rparr>)) (\<lambda>_.
     op_return out)))"

definition hello_as_operator :: "HelloReply client_op" where
  "hello_as_operator =
     hello \<lparr>hrq_client_name = [], hrq_client_version = [], hrq_worker = 0, hrq_boot = 0,
       hrq_as_worker = False\<rparr> False"

definition hello_as_worker :: "u64 \<Rightarrow> u64 \<Rightarrow> HelloReply client_op" where
  "hello_as_worker worker boot =
     hello \<lparr>hrq_client_name = [], hrq_client_version = [], hrq_worker = worker, hrq_boot = boot,
       hrq_as_worker = True\<rparr> True"

definition ping :: "PingReply client_op" where
  "ping =
     op_read (\<lambda>c0.
     pef_try next_request (\<lambda>i.
     pef_try (call_raw (decode_from_bytes decode_PingReply) mt_Ping i
         (encode_PingRequest \<lparr>prq_token = cl_request_counter c0\<rparr>)) (\<lambda>out.
     pef_try (op_modify (\<lambda>c. c\<lparr>cl_epoch := prp_epoch out\<rparr>)) (\<lambda>_.
     op_return out))))"

definition request_shutdown :: "OpResult client_op" where
  "request_shutdown = pef_try next_request (\<lambda>i. call simple_reply mt_Shutdown i [])"

definition client_create_execution :: "ExecutionPolicy \<Rightarrow> OpResult client_op" where
  "client_create_execution policy =
     pef_try next_request (\<lambda>i. remote i (CreateQ \<lparr>crq_request = i, crq_policy = policy\<rparr>))"

text \<open>The methods whose request structure carries the identity.\<close>

definition client_bind_worker :: "BindWorkerRequest \<Rightarrow> OpResult client_op" where
  "client_bind_worker q = remote (bwq_request q) (BindQ q)"

definition client_start :: "StartRequest \<Rightarrow> OpResult client_op" where
  "client_start q = remote (srq_request q) (StartQ q)"

definition client_begin_action :: "BeginActionRequest \<Rightarrow> OpResult client_op" where
  "client_begin_action q = remote (bar_request q) (BeginQ q)"

definition client_complete_action :: "CompleteActionRequest \<Rightarrow> OpResult client_op" where
  "client_complete_action q = remote (car_request q) (CompleteQ q)"

definition client_fail_action :: "FailActionRequest \<Rightarrow> OpResult client_op" where
  "client_fail_action q = remote (far_request q) (FailQ q)"

definition client_report_side_effect :: "ReportSideEffectRequest \<Rightarrow> OpResult client_op" where
  "client_report_side_effect q = remote (rse_request q) (ReportQ q)"

definition client_register_checkpoint :: "RegisterCheckpointRequest \<Rightarrow> OpResult client_op" where
  "client_register_checkpoint q = remote (rcr_request q) (CheckpointQ q)"

definition client_resume :: "ResumeRequest \<Rightarrow> OpResult client_op" where
  "client_resume q = remote (rrq_request q) (ResumeQ q)"

definition client_resolve_ambiguity :: "ResolveAmbiguityRequest \<Rightarrow> OpResult client_op" where
  "client_resolve_ambiguity q = remote (rar_request q) (ResolveQ q)"

text \<open>The methods that mint the identity and name an execution, with a reason or without.\<close>

definition on_execution :: "MessageType \<Rightarrow> u64 \<Rightarrow> string \<Rightarrow> OpResult client_op" where
  "on_execution t i reason = remote_next (ExecutionQ t \<lparr>eir_execution = i, eir_reason = reason\<rparr>)"

definition client_suspend_begin :: "u64 \<Rightarrow> OpResult client_op" where
  "client_suspend_begin i = on_execution mt_SuspendBegin i []"

definition client_suspend_commit :: "u64 \<Rightarrow> OpResult client_op" where
  "client_suspend_commit i = on_execution mt_SuspendCommit i []"

definition client_fence :: "u64 \<Rightarrow> string \<Rightarrow> OpResult client_op" where
  "client_fence i reason = on_execution mt_Fence i reason"

definition client_cancel :: "u64 \<Rightarrow> string \<Rightarrow> OpResult client_op" where
  "client_cancel i reason = on_execution mt_Cancel i reason"

definition client_retire :: "u64 \<Rightarrow> string \<Rightarrow> OpResult client_op" where
  "client_retire i reason = on_execution mt_Retire i reason"

definition client_drain :: "u64 \<Rightarrow> OpResult client_op" where
  "client_drain i = on_execution mt_Drain i []"

definition client_complete_execution :: "u64 \<Rightarrow> OpResult client_op" where
  "client_complete_execution i = on_execution mt_CompleteExecution i []"

definition client_advance_generation :: "u64 \<Rightarrow> string \<Rightarrow> OpResult client_op" where
  "client_advance_generation i reason = on_execution mt_AdvanceGeneration i reason"

definition client_classify :: "u64 \<Rightarrow> OpResult client_op" where
  "client_classify i = on_execution mt_Classify i []"

definition client_recover :: "u64 \<Rightarrow> OpResult client_op" where
  "client_recover i = on_execution mt_Recover i []"

definition client_query :: "u64 \<Rightarrow> OpResult client_op" where
  "client_query i = on_execution mt_Query i []"

definition client_validate_continuation :: "u64 \<Rightarrow> OpResult client_op" where
  "client_validate_continuation i = on_execution mt_RevalidateContinuation i []"

definition client_update_policy :: "u64 \<Rightarrow> ExecutionPolicy \<Rightarrow> bool \<Rightarrow> OpResult client_op" where
  "client_update_policy i policy activate =
     remote_next (PolicyQ \<lparr>upr_execution = i, upr_policy = policy, upr_apply = activate\<rparr>)"

definition client_list_executions :: "OpResult client_op" where
  "client_list_executions = remote_next ListQ"

definition client_snapshot :: "bool \<Rightarrow> OpResult client_op" where
  "client_snapshot truncate_journal = remote_next (SnapshotQ \<lparr>snr_truncate_journal = truncate_journal\<rparr>)"

definition client_audit :: "OpResult client_op" where
  "client_audit = remote_next AuditQ"

section \<open>The server's replies on the wire\<close>

fun encode_result :: "OpResult \<Rightarrow> bytes" where
  "encode_result Done = []"
| "encode_result (Created_R r) = encode_CreateExecutionResult r"
| "encode_result (Bound r) = encode_BindWorkerResult r"
| "encode_result (Begun r) = encode_BeginActionResult r"
| "encode_result (Completed_R r) = encode_CompleteActionResult r"
| "encode_result (Checkpointed r) = encode_RegisterCheckpointResult r"
| "encode_result (Resumed r) = encode_ResumeResult r"
| "encode_result (Classified p) = encode_RecoveryPlan p"
| "encode_result (Recovered r) = encode_RecoveryOutcome r"
| "encode_result (Resolved r) = encode_ResolveAmbiguityResult r"
| "encode_result (Viewed v) = encode_ViewPayload v"
| "encode_result (Listed es) = write_vector encode_ExecutionRecord es"
| "encode_result (Validated v) = encode_ContinuationVerdict v"
| "encode_result (Snapshotted n) = w_u64 n"
| "encode_result (Audited r) = encode_AuditReport r"

text \<open>
  The payload of a reply. The message of a refusal is \<open>message\<close>, and \<open>defaults\<close> are the bytes of
  the result structure that follows the status of a failed operation and that no client reads.
\<close>

fun reply_payload :: "string \<Rightarrow> bytes \<Rightarrow> ReplyBody \<Rightarrow> bytes" where
  "reply_payload message defaults (Refusal code) =
     encode_StatusPayload \<lparr>stp_code = code, stp_message = message\<rparr>"
| "reply_payload message defaults (Hail h) = encode_HelloReply h"
| "reply_payload message defaults (Pong p) = encode_PingReply p"
| "reply_payload message defaults Goodbye =
     encode_StatusPayload \<lparr>stp_code = Ok, stp_message = ''coordinator is shutting down''\<rparr>"
| "reply_payload message defaults (Outcome (Inl code)) =
     encode_StatusPayload \<lparr>stp_code = code, stp_message = message\<rparr> @ defaults"
| "reply_payload message defaults (Outcome (Inr result)) =
     encode_StatusPayload \<lparr>stp_code = Ok, stp_message = []\<rparr> @ encode_result result"

definition reply_frame :: "string \<Rightarrow> bytes \<Rightarrow> ServerReply \<Rightarrow> Frame" where
  "reply_frame message defaults reply =
     \<lparr>fr_version = kProtocolVersion, fr_type = sr_type reply, fr_request = sr_request reply,
      fr_flags = 0, fr_payload = reply_payload message defaults (sr_body reply)\<rparr>"

end
