(* ===== verification/Server_Behaviour.thy ===== *)
theory Server_Behaviour
  imports Server
begin

text \<open>
  What the server adds to the runtime: every exchange is one command of the runtime or leaves
  it alone, the reply cache is a bounded request cache that stores only successes, and the
  connection count is the number of open connections. The invariant of the transition system
  follows, and that a stored reply is repeated for as long as it is not evicted.
\<close>

section \<open>An exchange is a command\<close>

lemma snd_answer [simp]: "snd (answer g m r) = snd (m r)"
  by (simp add: answer_def pef_try_def op_return_def split: prod.split sum.split)

lemma snd_snapshotted:
  "snd (pef_try m (\<lambda>_. op_read (\<lambda>r. op_return (g r))) r) = snd (m r)"
  by (simp add: pef_try_def op_read_def op_return_def split: prod.split sum.split)

lemma execute_command:
  "snd (execute caller request q r) =
     (case command_of caller request q of None \<Rightarrow> r | Some c \<Rightarrow> run_command c r)"
  by (cases q)
    (simp_all add: execute_on_def Let_def snd_snapshotted runtime_audit_def op_read_def
      op_return_def)

text \<open>The caller that \<open>serve\<close> presents to the runtime.\<close>

definition exchange_caller :: "ConnectionState \<Rightarrow> Server \<Rightarrow> CallerContext" where
  "exchange_caller c s =
     \<lparr>caller_session = (if cn_established c then cn_session c else 0),
      caller_epoch = ds_epoch (rt_state (sv_runtime s))\<rparr>"

lemma remember_reply_fields [simp]:
  "sv_runtime (remember_reply i p s) = sv_runtime s"
  "sv_config (remember_reply i p s) = sv_config s"
  "sv_active_connections (remember_reply i p s) = sv_active_connections s"
  by (simp_all add: remember_reply_def split: prod.split)

lemma refuse_fields [simp]:
  "sv_runtime (snd (refuse f c s)) = sv_runtime s"
  "sv_config (snd (refuse f c s)) = sv_config s"
  "sv_active_connections (snd (refuse f c s)) = sv_active_connections s"
  "sv_reply_cache (snd (refuse f c s)) = sv_reply_cache s"
  "sv_reply_order (snd (refuse f c s)) = sv_reply_order s"
  by (simp_all add: refuse_def)

lemma serve_operation_None:
  "decode_request (base_type f) (fr_payload f) = None \<Longrightarrow>
   serve_operation f caller s = refuse f ProtocolViolation s"
  by (simp add: serve_operation_def)

lemma serve_operation_Some:
  "decode_request (base_type f) (fr_payload f) = Some q \<Longrightarrow>
   execute caller (fr_request f) q (sv_runtime s) = (result, r) \<Longrightarrow>
   serve_operation f caller s =
     (make_reply f (base_type f) (Outcome result),
      if \<not> isl result \<and> remembered_request q
      then remember_reply (fr_request f) \<lparr>cr_type = base_type f, cr_body = Outcome result\<rparr>
        (s\<lparr>sv_runtime := r\<rparr>)
      else s\<lparr>sv_runtime := r\<rparr>)"
  by (simp add: serve_operation_def Let_def)

lemma serve_operation_runtime:
  "sv_runtime (snd (serve_operation f caller s)) =
     (case decode_request (base_type f) (fr_payload f) of
        None \<Rightarrow> sv_runtime s
      | Some q \<Rightarrow> snd (execute caller (fr_request f) q (sv_runtime s)))"
  by (cases "decode_request (base_type f) (fr_payload f)")
    (simp_all add: serve_operation_None serve_operation_Some [OF _ surjective_pairing])

lemma exchange_fresh_command:
  "exchange_fresh f s \<Longrightarrow> decode_request (base_type f) (fr_payload f) = Some q \<Longrightarrow>
   command_of caller (fr_request f) q = Some c \<Longrightarrow> id_fresh c (rt_state (sv_runtime s))"
  by (cases q) (auto simp: exchange_fresh_def Let_def split: if_splits)

lemma serve_operation_steps:
  assumes "exchange_fresh f s"
  shows "fabric_steps (sv_runtime s) (sv_runtime (snd (serve_operation f caller s)))"
  using exchange_fresh_command [OF assms]
  by (auto simp: serve_operation_runtime execute_command split: option.split intro: fabric_command)

section \<open>What an exchange changes\<close>

definition caches :: "Server \<Rightarrow> u64 list \<times> (u64 \<Rightarrow> CachedReply option)" where
  "caches s = (sv_reply_order s, sv_reply_cache s)"

definition success :: "CachedReply \<Rightarrow> bool" where
  "success p \<longleftrightarrow> (\<exists>result. cr_body p = Outcome (Inr result))"

text \<open>
  The frame of an exchange: the configuration and the connection count stay, the runtime moves
  by commands, and the caches change at most by remembering one success.
\<close>

definition exchanged :: "u64 \<Rightarrow> Server \<Rightarrow> Server \<Rightarrow> bool" where
  "exchanged i s s' \<longleftrightarrow>
     sv_config s' = sv_config s \<and> sv_active_connections s' = sv_active_connections s \<and>
     fabric_steps (sv_runtime s) (sv_runtime s') \<and>
     (caches s' = caches s \<or> (\<exists>p. success p \<and> caches s' = caches (remember_reply i p s)))"

lemma caches_update [simp]:
  "caches (s\<lparr>sv_runtime := r\<rparr>) = caches s"
  "caches (s\<lparr>sv_requests := n\<rparr>) = caches s"
  "caches (s\<lparr>sv_refusals := n\<rparr>) = caches s"
  "caches (s\<lparr>sv_replayed := n\<rparr>) = caches s"
  "caches (s\<lparr>sv_stop_requested := b\<rparr>) = caches s"
  "caches (s\<lparr>sv_active_connections := k\<rparr>) = caches s"
  by (simp_all add: caches_def)

lemma caches_remember_cong:
  "caches s = caches t \<Longrightarrow> sv_config s = sv_config t \<Longrightarrow>
   caches (remember_reply i p s) = caches (remember_reply i p t)"
  by (auto simp: remember_reply_def caches_def split: prod.split)

lemma exchanged_still:
  "sv_config s' = sv_config s \<Longrightarrow> sv_active_connections s' = sv_active_connections s \<Longrightarrow>
   fabric_steps (sv_runtime s) (sv_runtime s') \<Longrightarrow> caches s' = caches s \<Longrightarrow> exchanged i s s'"
  by (simp add: exchanged_def)

lemma exchanged_after:
  assumes "exchanged i t s'" and "sv_config t = sv_config s"
    and "sv_active_connections t = sv_active_connections s" and "sv_runtime t = sv_runtime s"
    and "caches t = caches s"
  shows "exchanged i s s'"
  using assms caches_remember_cong [of t s] unfolding exchanged_def by metis

lemma caches_refuse [simp]: "caches (snd (refuse f c s)) = caches s"
  by (simp add: caches_def)

lemma exchanged_refuse: "exchanged i s (snd (refuse f c s))"
  by (rule exchanged_still) simp_all

lemma exchanged_operation:
  assumes "exchange_fresh f s"
  shows "exchanged (fr_request f) s (snd (serve_operation f caller s))"
proof (cases "decode_request (base_type f) (fr_payload f)")
  case None
  then show ?thesis by (simp add: serve_operation_None exchanged_refuse)
next
  case (Some q)
  obtain result r where run: "execute caller (fr_request f) q (sv_runtime s) = (result, r)"
    by fastforce
  have moved: "fabric_steps (sv_runtime s) r"
    using serve_operation_steps [OF assms, of caller] Some run by (simp add: serve_operation_runtime)
  have "caches (remember_reply i p (s\<lparr>sv_runtime := r\<rparr>)) = caches (remember_reply i p s)" for i p
    by (rule caches_remember_cong) simp_all
  moreover have "success \<lparr>cr_type = base_type f, cr_body = Outcome result\<rparr>" if "\<not> isl result"
    using that by (cases result) (simp_all add: success_def)
  ultimately show ?thesis
    using moved by (auto simp: serve_operation_Some [OF Some run] exchanged_def)
qed

lemma exchanged_hello: "exchanged i s (snd (snd (serve_hello f c s)))"
proof (cases "decode_from_bytes decode_HelloRequest (fr_payload f)")
  case None
  then show ?thesis by (simp add: serve_hello_def split_beta exchanged_refuse)
next
  case (Some hello)
  obtain result r where
    run: "begin_session (hrq_worker hello) (hrq_boot hello) (sv_runtime s) = (result, r)" by fastforce
  have "fabric_steps (sv_runtime s) r"
    using fabric_command [of "BeginSession (hrq_worker hello) (hrq_boot hello)" "sv_runtime s"] run
    by simp
  then show ?thesis
    by (cases result) (auto simp: serve_hello_def Some run split_beta intro!: exchanged_still)
qed

lemma exchanged_serve:
  assumes "exchange_fresh f s" and "serve f c s = (reply, c', s')"
  shows "exchanged (fr_request f) s s'"
proof -
  let ?t = "s\<lparr>sv_requests := sv_requests s + 1\<rparr>"
  have fresh: "exchange_fresh f ?t"
    using assms(1) by (simp add: exchange_fresh_def split: option.splits WireRequest.splits)
  have "exchanged (fr_request f) ?t (snd (serve_ping f ?t))"
    by (cases "decode_from_bytes decode_PingRequest (fr_payload f)")
      (auto simp: serve_ping_def intro!: exchanged_still)
  moreover have "exchanged (fr_request f) ?t (snd (serve_shutdown f ?t))"
    by (auto simp: serve_shutdown_def intro!: exchanged_still)
  moreover have "exchanged (fr_request f) ?t (?t\<lparr>sv_replayed := n\<rparr>)" "exchanged (fr_request f) ?t ?t" for n
    by (auto intro!: exchanged_still)
  moreover have "s' = snd (snd (serve f c s))" using assms(2) by simp
  ultimately have "exchanged (fr_request f) ?t s'"
    using exchanged_operation [OF fresh] exchanged_hello [of "fr_request f" ?t f c]
    by (simp add: serve_def Let_def split_beta split: option.split)
  then show ?thesis by (rule exchanged_after) simp_all
qed

section \<open>Sessions\<close>

text \<open>
  A second handshake as a worker replaces the session of the connection, and the first session
  stays registered: the end of the connection will not end it.
\<close>

lemma repeated_hello_keeps_session:
  assumes "decode_from_bytes decode_HelloRequest (fr_payload f) = Some h" and "hrq_as_worker h"
    and "id_valid (hrq_worker h)" "id_valid (hrq_boot h)" "rt_open (sv_runtime s)"
    and "\<not> rt_shutting_down (sv_runtime s)" and "rt_sessions (sv_runtime s) i = Some info"
    and "rt_next_session (sv_runtime s) \<noteq> i" and "serve_hello f c s = (reply, c', s')"
  shows "cn_session c' \<noteq> i \<and> rt_sessions (sv_runtime s') i = Some info"
  using assms
  by (auto simp: serve_hello_def begin_session_def op_read_def Let_def pef_try_def op_modify_def
      op_return_def split: option.splits)

section \<open>The reply cache\<close>

interpretation replies: request_cache sv_cache_size sv_reply_order sv_reply_cache remember_reply
  by unfold_locales
    (auto simp: remember_reply_def intro: map_upd_triv [symmetric] split: prod.split)

lemma remember_reply_same: "sv_reply_cache s i = Some p \<Longrightarrow> remember_reply i q s = s"
  by (simp add: remember_reply_def)

text \<open>The reply cache is well formed, and every stored reply is a success.\<close>

definition replies_ok :: "Server \<Rightarrow> bool" where
  "replies_ok s \<longleftrightarrow> cache_wf (sv_cache_size s) (sv_reply_order s) (sv_reply_cache s) \<and>
     (\<forall>i p. sv_reply_cache s i = Some p \<longrightarrow> success p)"

lemma remember_reply_from:
  "sv_reply_cache (remember_reply i p s) j = Some q \<Longrightarrow> q = p \<or> sv_reply_cache s j = Some q"
  by (auto simp: remember_reply_def map_le_def domI split: if_splits prod.splits
      dest!: evict_subset) (metis domI)

lemma replies_ok_remember: "replies_ok s \<Longrightarrow> success p \<Longrightarrow> replies_ok (remember_reply i p s)"
  using replies.remember_wf [of s i p] remember_reply_from [of i p s] unfolding replies_ok_def by metis

lemma replies_ok_cong:
  "caches s = caches t \<Longrightarrow> sv_config s = sv_config t \<Longrightarrow> replies_ok s \<longleftrightarrow> replies_ok t"
  by (simp add: replies_ok_def caches_def)

lemma exchanged_replies_ok:
  assumes "exchanged i s s'" and "replies_ok s"
  shows "replies_ok s'"
proof -
  from assms(1) consider "caches s' = caches s"
    | p where "success p" "caches s' = caches (remember_reply i p s)"
    by (auto simp: exchanged_def)
  then show ?thesis
    using assms replies_ok_cong [of s'] replies_ok_remember
    by cases (auto simp: exchanged_def)
qed

section \<open>The invariant of the server\<close>

fun server_ok :: "server_state \<Rightarrow> bool" where
  "server_ok (s, conns) \<longleftrightarrow>
     fabric_inv (rt_state (sv_runtime s)) \<and> replies_ok s \<and> finite (dom conns) \<and>
     sv_active_connections s = card (dom conns) \<and>
     sv_active_connections s \<le> svc_max_connections (sv_config s)"

lemma close_steps: "fabric_steps (sv_runtime s) (sv_runtime (close_connection c s))"
  using fabric_command [of "EndSession (cn_session c)" "sv_runtime s"]
  by (simp add: close_connection_def Let_def)

lemma close_fields [simp]:
  "caches (close_connection c s) = caches s"
  "sv_config (close_connection c s) = sv_config s"
  "sv_active_connections (close_connection c s) = sv_active_connections s - 1"
  by (simp_all add: close_connection_def Let_def)

lemma halt_fields [simp]:
  "caches (snd (shutdown_runtime s)) = caches s"
  "sv_config (snd (shutdown_runtime s)) = sv_config s"
  "sv_active_connections (snd (shutdown_runtime s)) = sv_active_connections s"
  "sv_runtime (snd (shutdown_runtime s)) = run_command Shutdown (sv_runtime s)"
  by (simp_all add: shutdown_runtime_def split: prod.split)

lemma stop_fields [simp]:
  "caches (request_stop s) = caches s" "caches (finish_stop s) = caches s"
  "sv_config (request_stop s) = sv_config s" "sv_config (finish_stop s) = sv_config s"
  "sv_runtime (request_stop s) = sv_runtime s" "sv_runtime (finish_stop s) = sv_runtime s"
  "sv_active_connections (request_stop s) = sv_active_connections s"
  "sv_active_connections (finish_stop s) = sv_active_connections s"
  by (simp_all add: request_stop_def finish_stop_def caches_def)

lemma accept_connection_Some:
  "accept_connection s = Some s' \<longleftrightarrow>
     sv_active_connections s < svc_max_connections (sv_config s) \<and>
     s' = s\<lparr>sv_active_connections := sv_active_connections s + 1\<rparr>"
  by (auto simp: accept_connection_def)

lemma server_step_steps:
  "server_step (s, conns) (s', conns') \<Longrightarrow> fabric_steps (sv_runtime s) (sv_runtime s')"
  by (erule server_stepE)
    (auto simp: accept_connection_Some close_steps exchanged_def dest!: exchanged_serve
      intro: fabric_command simp del: run_command.simps)

lemma server_step_replies:
  "server_step (s, conns) (s', conns') \<Longrightarrow> replies_ok s \<Longrightarrow> replies_ok s'"
  by (erule server_stepE)
    (auto simp: accept_connection_Some dest!: exchanged_serve intro: exchanged_replies_ok
      cong: replies_ok_cong)

lemma server_step_connections:
  assumes "server_step (s, conns) (s', conns')" and "finite (dom conns)"
    and "sv_active_connections s = card (dom conns)"
    and "sv_active_connections s \<le> svc_max_connections (sv_config s)"
  shows "finite (dom conns') \<and> sv_active_connections s' = card (dom conns') \<and>
    sv_active_connections s' \<le> svc_max_connections (sv_config s')"
  using assms
  by (elim server_stepE)
    (auto simp: accept_connection_Some exchanged_def card_insert_if insert_absorb domIff
      dest!: exchanged_serve)

lemma server_step_ok: "server_step x y \<Longrightarrow> server_ok x \<Longrightarrow> server_ok y"
  using server_step_connections server_step_replies server_step_steps [THEN fabric_inv_steps]
  by (cases x; cases y) auto

lemma server_steps_ok: "server_steps x y \<Longrightarrow> server_ok x \<Longrightarrow> server_ok y"
  by (induction rule: rtranclp_induct) (auto intro: server_step_ok)

lemma server_steps_fabric:
  "server_steps x y \<Longrightarrow> fabric_steps (sv_runtime (fst x)) (sv_runtime (fst y))"
proof (induction rule: rtranclp_induct)
  case (step y z)
  then show ?case using server_step_steps by (metis prod.collapse rtranclp_trans)
qed simp

section \<open>Repeated requests\<close>

definition held :: "nat \<Rightarrow> u64 \<Rightarrow> CachedReply \<Rightarrow> Server \<Rightarrow> bool" where
  "held n i p s \<longleftrightarrow> recent n i (sv_reply_order s) \<and> sv_reply_cache s i = Some p"

lemma held_cong: "caches s = caches t \<Longrightarrow> held n i p s \<longleftrightarrow> held n i p t"
  by (simp add: held_def caches_def)

lemma held_mono: "held n i p s \<Longrightarrow> n \<le> m \<Longrightarrow> held m i p s"
  by (auto simp: held_def intro: recent_mono)

lemma held_remember:
  "held n i p s \<Longrightarrow> replies_ok s \<Longrightarrow> Suc n < sv_cache_size s \<Longrightarrow> held (Suc n) i p (remember_reply j q s)"
  using replies.remember_keeps_recent [of s n i j q]
  by (cases "j = i") (auto simp: held_def replies_ok_def remember_reply_same intro: recent_mono)

lemma held_exchanged:
  assumes "exchanged j s s'" and "held n i p s" "replies_ok s" "Suc n < sv_cache_size s"
  shows "held (Suc n) i p s'"
proof -
  from assms(1) consider "caches s' = caches s" | q where "caches s' = caches (remember_reply j q s)"
    by (auto simp: exchanged_def)
  then show ?thesis
    using held_remember [OF assms(2-4)] held_mono [OF assms(2), of "Suc n"]
    by cases (simp_all add: held_cong [of s'])
qed

lemma held_step:
  assumes "server_step (s, conns) (s', conns')" and "held n i p s" "replies_ok s"
    and "Suc n < sv_cache_size s"
  shows "held (Suc n) i p s' \<and> sv_cache_size s' = sv_cache_size s"
  using assms(1)
proof cases
  case exchange
  then show ?thesis
    using held_exchanged [OF exchanged_serve assms(2-4)] exchanged_serve by (auto simp: exchanged_def)
qed (auto simp: accept_connection_Some
    intro: held_cong [THEN iffD2, OF _ held_mono [OF assms(2), of "Suc n"]])

lemma held_steps:
  "(server_step ^^ m) (s, conns) (s', conns') \<Longrightarrow> held n i p s \<Longrightarrow> replies_ok s \<Longrightarrow>
   n + m < sv_cache_size s \<Longrightarrow> held (n + m) i p s'"
proof (induction m arbitrary: s conns n)
  case (Suc m)
  then obtain t conns1 where first: "server_step (s, conns) (t, conns1)"
    and rest: "(server_step ^^ m) (t, conns1) (s', conns')"
    by (metis relpowp_Suc_D2 surj_pair)
  have "held (Suc n) i p t \<and> sv_cache_size t = sv_cache_size s"
    using held_step [OF first Suc(3,4)] Suc(5) by simp
  then show ?case
    using Suc.IH [OF rest, of "Suc n"] server_step_replies [OF first Suc(4)] Suc(5) by simp
qed simp

text \<open>A request whose identity is cached is answered from the cache.\<close>

lemma serve_cached:
  assumes "sv_reply_cache s i = Some p" and "fr_request f = i" "id_valid i" "\<not> is_reply f"
    and "base_type f \<noteq> mt_Hello" "base_type f \<noteq> mt_Ping"
  shows "serve f c s = (make_reply f (cr_type p) (cr_body p), c,
    s\<lparr>sv_requests := sv_requests s + 1, sv_replayed := sv_replayed s + 1\<rparr>)"
  using assms by (simp add: serve_def Let_def lookup_reply_def)

text \<open>Otherwise an operation is dispatched to the runtime.\<close>

lemma serve_operates:
  assumes "sv_reply_cache s (fr_request f) = None" and "\<not> is_reply f"
    and "base_type f \<notin> {mt_Hello, mt_Ping, mt_Shutdown}"
  shows "serve f c s =
    (let t = serve_operation f (exchange_caller c s) (s\<lparr>sv_requests := sv_requests s + 1\<rparr>)
     in (fst t, c, snd t))"
  using assms by (simp add: serve_def Let_def lookup_reply_def exchange_caller_def split_beta)

text \<open>An exchange that answers with a fresh success of a remembered operation stores it.\<close>

lemma serve_operation_stores:
  assumes "decode_request (base_type f) (fr_payload f) = Some q" and "remembered_request q"
    and "sr_body (fst (serve_operation f caller s)) = Outcome (Inr a)"
    and "id_valid (fr_request f)" "sv_cache_size s \<noteq> 0" "sv_reply_cache s (fr_request f) = None"
  shows "held 0 (fr_request f) \<lparr>cr_type = base_type f, cr_body = Outcome (Inr a)\<rparr>
    (snd (serve_operation f caller s))"
proof -
  obtain result r where run: "execute caller (fr_request f) q (sv_runtime s) = (result, r)"
    by fastforce
  have "result = Inr a"
    using assms(3) by (simp add: serve_operation_Some [OF assms(1) run] make_reply_def)
  then show ?thesis
    using assms replies.remember_found [of "fr_request f" "s\<lparr>sv_runtime := r\<rparr>"]
      replies.remember_recent_new [of "fr_request f" "s\<lparr>sv_runtime := r\<rparr>"]
    by (simp add: serve_operation_Some [OF assms(1) run] held_def)
qed

end
