(* ===== verification/Client_Behaviour.thy ===== *)
theory Client_Behaviour
  imports Client Server_Behaviour
begin

unbundle bit_operations_syntax

text \<open>
  Client, channel and server together: a request that the client encodes is decoded to itself
  by the server, and the reply that the server encodes gives the client the outcome of the
  operation. So a remote call returns what the same call on the runtime returns.
\<close>

section \<open>Requests\<close>

text \<open>Requests within the reader's limits; the others are refused by the server.\<close>

fun wf_request :: "WireRequest \<Rightarrow> bool" where
  "wf_request (BindQ q) \<longleftrightarrow> wf_BindWorkerRequest default_decode_limits q"
| "wf_request (BeginQ q) \<longleftrightarrow> wf_BeginActionRequest default_decode_limits q"
| "wf_request (CompleteQ q) \<longleftrightarrow> wf_CompleteActionRequest default_decode_limits q"
| "wf_request (FailQ q) \<longleftrightarrow> wf_FailActionRequest default_decode_limits q"
| "wf_request (ReportQ q) \<longleftrightarrow> wf_ReportSideEffectRequest default_decode_limits q"
| "wf_request (ResumeQ q) \<longleftrightarrow> wf_ResumeRequest default_decode_limits q"
| "wf_request (ExecutionQ t q) \<longleftrightarrow>
     List.member execution_types t \<and> wf_ExecutionIdRequest default_decode_limits q"
| "wf_request (ResolveQ q) \<longleftrightarrow> wf_ResolveAmbiguityRequest default_decode_limits q"
| "wf_request q \<longleftrightarrow> True"

lemma decode_encode_request:
  assumes "wf_request q" and "length (encode_request q) \<le> max_total default_decode_limits"
  shows "decode_request (request_type q) (encode_request q) = Some q"
proof (cases q)
  case (ExecutionQ t x)
  then have "t \<in> set execution_types" using assms(1) by simp
  then show ?thesis
    using assms ExecutionQ ExecutionIdRequest_codec.decode_write [of x]
    by (auto simp: execution_types_def decode_request_def)
qed (use assms in \<open>simp_all add: decode_request_def execution_types_def
    CreateExecutionRequest_codec.decode_write BindWorkerRequest_codec.decode_write
    StartRequest_codec.decode_write BeginActionRequest_codec.decode_write
    CompleteActionRequest_codec.decode_write FailActionRequest_codec.decode_write
    ReportSideEffectRequest_codec.decode_write RegisterCheckpointRequest_codec.decode_write
    ResumeRequest_codec.decode_write UpdatePolicyRequest_codec.decode_write
    ResolveAmbiguityRequest_codec.decode_write SnapshotRequest_codec.decode_write\<close>)

lemma decode_request_canonical:
  "decode_request t b = Some q \<Longrightarrow> request_type q = t \<and> (b = encode_request q \<or> q \<in> {ListQ, AuditQ})"
  unfolding decode_request_def
  by (auto split: if_splits
      dest!: CreateExecutionRequest_codec.decode_canonical BindWorkerRequest_codec.decode_canonical
        StartRequest_codec.decode_canonical BeginActionRequest_codec.decode_canonical
        CompleteActionRequest_codec.decode_canonical FailActionRequest_codec.decode_canonical
        ReportSideEffectRequest_codec.decode_canonical RegisterCheckpointRequest_codec.decode_canonical
        ResumeRequest_codec.decode_canonical ExecutionIdRequest_codec.decode_canonical
        UpdatePolicyRequest_codec.decode_canonical ResolveAmbiguityRequest_codec.decode_canonical
        SnapshotRequest_codec.decode_canonical)

section \<open>Replies\<close>

text \<open>The result of an operation has the kind that its method expects.\<close>

fun answers :: "WireRequest \<Rightarrow> OpResult \<Rightarrow> bool" where
  "answers (CreateQ q) r \<longleftrightarrow> (\<exists>x. r = Created_R x)"
| "answers (BindQ q) r \<longleftrightarrow> (\<exists>x. r = Bound x)"
| "answers (BeginQ q) r \<longleftrightarrow> (\<exists>x. r = Begun x)"
| "answers (CompleteQ q) r \<longleftrightarrow> (\<exists>x. r = Completed_R x)"
| "answers (CheckpointQ q) r \<longleftrightarrow> (\<exists>x. r = Checkpointed x)"
| "answers (ResumeQ q) r \<longleftrightarrow> (\<exists>x. r = Resumed x)"
| "answers (ExecutionQ t q) r \<longleftrightarrow>
     (if t = mt_Classify then \<exists>x. r = Classified x else if t = mt_Recover then \<exists>x. r = Recovered x
      else if t = mt_RevalidateContinuation then \<exists>x. r = Validated x
      else if t = mt_Query then \<exists>x. r = Viewed x else r = Done)"
| "answers (ResolveQ q) r \<longleftrightarrow> (\<exists>x. r = Resolved x)"
| "answers ListQ r \<longleftrightarrow> (\<exists>x. r = Listed x)"
| "answers (SnapshotQ q) r \<longleftrightarrow> (\<exists>x. r = Snapshotted x)"
| "answers AuditQ r \<longleftrightarrow> (\<exists>x. r = Audited x)"
| "answers q r \<longleftrightarrow> r = Done"

lemma answer_Inr: "answer g m r = (Inr a, r') \<Longrightarrow> \<exists>x. a = g x"
  by (auto simp: answer_def pef_try_def op_return_def split: prod.splits sum.splits)

lemma execute_answers: "execute caller request q r = (Inr a, r') \<Longrightarrow> answers q a"
proof (cases q)
  case (ExecutionQ t x)
  assume "execute caller request q r = (Inr a, r')"
  then show ?thesis
    using ExecutionQ by (auto simp: execute_on_def split: if_splits dest!: answer_Inr)
qed (auto dest!: answer_Inr simp: op_read_def op_return_def pef_try_def split: prod.splits sum.splits)

fun wf_result :: "OpResult \<Rightarrow> bool" where
  "wf_result (Classified p) \<longleftrightarrow> wf_RecoveryPlan default_decode_limits p"
| "wf_result (Recovered r) \<longleftrightarrow> wf_RecoveryOutcome default_decode_limits r"
| "wf_result (Viewed v) \<longleftrightarrow> wf_ViewPayload default_decode_limits v"
| "wf_result (Listed es) \<longleftrightarrow> wf_vector wf_ExecutionRecord default_decode_limits es"
| "wf_result (Validated v) \<longleftrightarrow> wf_ContinuationVerdict default_decode_limits v"
| "wf_result (Audited r) \<longleftrightarrow> wf_AuditReport default_decode_limits r"
| "wf_result r \<longleftrightarrow> True"

abbreviation ok_status :: StatusPayload where
  "ok_status \<equiv> \<lparr>stp_code = Ok, stp_message = []\<rparr>"

context field_codec
begin

lemma reply_of_encoded:
  assumes "wf default_decode_limits a"
    and "length (encode_StatusPayload ok_status @ wr a) \<le> max_total default_decode_limits"
  shows "reply_of g rd (encode_StatusPayload ok_status @ wr a) = Some (g a)"
proof -
  note reply = field_codec.decode_write [OF reply_codec]
  show ?thesis
    using reply [of "\<lparr>rp_status = ok_status, rp_result = a\<rparr>"] assms
    by (simp add: reply_of_def encode_Reply_def wf_Reply_def wf_StatusPayload_def wf_text_def
        default_decode_limits_def)
qed

end

lemma decode_reply_encoded:
  assumes "answers q r" and "wf_result r"
    and "length (encode_StatusPayload ok_status @ encode_result r) \<le> max_total default_decode_limits"
  shows "decode_reply q (encode_StatusPayload ok_status @ encode_result r) = Some r"
proof -
  have simple: "simple_reply (encode_StatusPayload ok_status) = Some Done"
    using StatusPayload_codec.decode_write [of ok_status]
    by (simp add: simple_reply_def wf_StatusPayload_def wf_text_def default_decode_limits_def
        encode_StatusPayload_def)
  note encoded = CreateExecutionResult_codec.reply_of_encoded BindWorkerResult_codec.reply_of_encoded
    BeginActionResult_codec.reply_of_encoded CompleteActionResult_codec.reply_of_encoded
    RegisterCheckpointResult_codec.reply_of_encoded ResumeResult_codec.reply_of_encoded
    RecoveryPlan_codec.reply_of_encoded RecoveryOutcome_codec.reply_of_encoded
    ResolveAmbiguityResult_codec.reply_of_encoded ViewPayload_codec.reply_of_encoded
    ExecutionRecords_codec.reply_of_encoded ContinuationVerdict_codec.reply_of_encoded
    u64_codec.reply_of_encoded AuditReport_codec.reply_of_encoded
  show ?thesis
    using assms by (cases q) (auto simp: simple encoded split: if_splits)
qed

text \<open>The status is the first thing in every operation reply.\<close>

lemma reply_status_prefix:
  assumes "fr_payload f = encode_StatusPayload st @ rest" and "wf_StatusPayload default_decode_limits st"
    and "length (fr_payload f) \<le> max_total default_decode_limits"
  shows "reply_status f = Some st"
  using StatusPayload_codec.read_write [OF assms(2), of "[]" rest] assms(1,3)
  by (simp add: reply_status_def reader_on_mid)

section \<open>A remote call\<close>

lemma reply_base: "(t OR kReplyBit) AND NOT kReplyBit = t AND NOT kReplyBit" for t :: u16
  by (rule bit_word_eqI) (auto simp: bit_simps)

lemma base_base: "(t AND NOT k) AND NOT k = t AND NOT k" for t k :: u16
  by (rule bit_word_eqI) (auto simp: bit_simps)

lemma request_type_base:
  assumes "wf_request q"
  shows "request_type q AND NOT kReplyBit = request_type q" "request_type q AND kReplyBit = 0"
    "request_type q \<notin> {mt_Hello, mt_Ping, mt_Shutdown}" "parse_message_type (request_type q) \<noteq> None"
    "parse_message_type (request_type q OR kReplyBit) \<noteq> None"
proof -
  have "request_type q \<in> set (map fst (drop 3 message_types))"
    using assms by (cases q) (auto simp: message_types_def execution_types_def)
  then have "request_type q \<in> {10, 11, 12, 13, 14, 15, 16, 17, 18, 19, 20, 30, 31, 32, 33, 34, 35, 36,
      37, 38, 39, 40, 50, 51, 52, 53}"
    by (simp add: message_types_def)
  then show "request_type q AND NOT kReplyBit = request_type q" "request_type q AND kReplyBit = 0"
    "request_type q \<notin> {mt_Hello, mt_Ping, mt_Shutdown}" "parse_message_type (request_type q) \<noteq> None"
    "parse_message_type (request_type q OR kReplyBit) \<noteq> None"
    by (auto simp: kReplyBit_def parse_message_type_def kMaxMessageType_def)
qed

lemma request_frame_wf:
  assumes "wf_request q" and "length (encode_request q) \<le> unat kMaxFramePayload"
  shows "wf_frame (request_frame (request_type q) i (encode_request q))"
  using assms request_type_base [OF assms(1)] by (simp add: wf_frame_def request_frame_def)

text \<open>The server executes exactly the request that the client encoded.\<close>

lemma serve_request:
  assumes "wf_request q" and "length (encode_request q) \<le> unat kMaxFramePayload"
    and "sv_reply_cache s i = None"
    and "execute (exchange_caller conn s) i q (sv_runtime s) = (result, r)"
    and "serve (request_frame (request_type q) i (encode_request q)) conn s = (reply, conn', s')"
  shows "reply = \<lparr>sr_type = request_type q OR kReplyBit, sr_request = i, sr_body = Outcome result\<rparr> \<and>
    sv_runtime s' = r"
proof -
  let ?f = "request_frame (request_type q) i (encode_request q)"
  let ?t = "s\<lparr>sv_requests := sv_requests s + 1\<rparr>"
  note type = request_type_base [OF assms(1)]
  have f: "base_type ?f = request_type q" "\<not> is_reply ?f" "fr_request ?f = i"
    using type(1,2) by (simp_all add: base_type_def is_reply_def request_frame_def)
  have "length (encode_request q) \<le> max_total default_decode_limits"
    using assms(2) by (simp add: default_decode_limits_def kMaxFramePayload_def)
  then have "decode_request (base_type ?f) (fr_payload ?f) = Some q"
    using decode_encode_request [OF assms(1)] f(1) by (simp add: request_frame_def)
  note run = serve_operation_Some [OF this, of "exchange_caller conn s" ?t result r]
  have "serve ?f conn s = (fst (serve_operation ?f (exchange_caller conn s) ?t), conn,
      snd (serve_operation ?f (exchange_caller conn s) ?t))"
    using serve_operates [of s ?f conn] assms(3) f type(3) by (simp add: Let_def)
  then show ?thesis
    using run assms(4,5) f by (auto simp: make_reply_def)
qed

text \<open>One request and its reply over the client's channel.\<close>

lemma exchange_delivers:
  assumes "deliverable (cl_channel c)"
    and "channel_send (request_frame t i payload) (cl_channel c) = (Inr (), ch)"
    and "stream (sk_input (cl_channel c)) = encode_frame reply @ rest" and "wf_frame reply"
    and "base_type reply = t" and "fr_request reply = i"
  shows "\<exists>c'. exchange t i payload c = (Inr reply, c') \<and> stream (sk_input (cl_channel c')) = rest"
proof -
  have sent: "sk_input ch = sk_input (cl_channel c)" "sk_valid ch = sk_valid (cl_channel c)"
    using send_all_success assms(2) unfolding channel_send_def by blast+
  then have "deliverable ch" using assms(1) by (simp add: deliverable_def)
  then obtain ch' where got: "channel_receive ch = (Inr reply, ch')" "stream (sk_input ch') = rest"
    using channel_receive_frame [of ch reply rest] assms(3,4) sent(1) by auto
  have "exchange t i payload c = (Inr reply, c\<lparr>cl_channel := ch'\<rparr>)"
    using assms(1,2,5,6) got(1)
    by (simp add: exchange_def op_read_def deliverable_def pef_try_def on_channel_def op_return_def)
  then show ?thesis using got(2) by (intro exI [of _ "c\<lparr>cl_channel := ch'\<rparr>"]) simp
qed

text \<open>The client reads the outcome that the server wrote.\<close>

lemma remote_outcome:
  assumes "deliverable (cl_channel c)" and "wf_request q"
    and "channel_send (request_frame (request_type q) i (encode_request q)) (cl_channel c) = (Inr (), ch)"
    and "stream (sk_input (cl_channel c)) = encode_frame (reply_frame message defaults reply) @ rest"
    and reply: "reply = \<lparr>sr_type = request_type q OR kReplyBit, sr_request = i, sr_body = Outcome result\<rparr>"
    and "length (fr_payload (reply_frame message defaults reply)) \<le> unat kMaxFramePayload"
    and "wf_text default_decode_limits message"
    and "result \<noteq> Inl Ok" and "\<And>a. result = Inr a \<Longrightarrow> answers q a \<and> wf_result a"
  shows "\<exists>c'. remote i q c = (result, c') \<and> stream (sk_input (cl_channel c')) = rest"
proof -
  let ?f = "reply_frame message defaults reply"
  note type = request_type_base [OF assms(2)]
  have base: "base_type ?f = request_type q" "fr_request ?f = i"
    using type(1) reply_base by (simp_all add: base_type_def reply_frame_def reply)
  have "wf_frame ?f"
    using type(5) assms(6) by (simp add: wf_frame_def reply_frame_def reply)
  from exchange_delivers [OF assms(1,3,4) this base] obtain c'
    where ex: "exchange (request_type q) i (encode_request q) c = (Inr ?f, c')"
      and rest: "stream (sk_input (cl_channel c')) = rest" by blast
  have small: "length (fr_payload ?f) \<le> max_total default_decode_limits"
    using assms(6) by (simp add: default_decode_limits_def kMaxFramePayload_def)
  have "remote i q c = (result, c')"
  proof (cases result)
    case (Inl code)
    have "reply_status ?f = Some \<lparr>stp_code = code, stp_message = message\<rparr>"
      by (rule reply_status_prefix [where rest = defaults])
        (use assms(7) small in \<open>simp_all add: reply_frame_def reply Inl wf_StatusPayload_def\<close>)
    then show ?thesis
      using ex Inl assms(8) by (simp add: remote_def call_def pef_try_def op_fail_def)
  next
    case (Inr a)
    have payload: "fr_payload ?f = encode_StatusPayload ok_status @ encode_result a"
      by (simp add: reply_frame_def reply Inr)
    have "reply_status ?f = Some ok_status"
      by (rule reply_status_prefix [OF payload _ small])
        (simp add: wf_StatusPayload_def wf_text_def default_decode_limits_def)
    moreover have "decode_reply q (fr_payload ?f) = Some a"
      using decode_reply_encoded [of q a] assms(9) [OF Inr] small payload by simp
    ultimately show ?thesis
      using ex Inr by (simp add: remote_def call_def pef_try_def op_return_def)
  qed
  then show ?thesis using rest by blast
qed

end
