(* ===== verification/Server_Properties.thy ===== *)
theory Server_Properties
  imports Client_Behaviour Samples
begin

text \<open>
  The properties of the protocol, the frame channel, the coordinator server and the client,
  each with a witness on a server that owns the sample runtime.
\<close>

section \<open>A sample server\<close>

definition server_on :: "Runtime \<Rightarrow> Server" where
  "server_on r =
     \<lparr>sv_config = \<lparr>svc_host = ''127.0.0.1'', svc_port = 0, svc_store_path = ''store'',
        svc_runtime = sample_config, svc_max_connections = 4, svc_request_cache_size = 8,
        svc_allow_remote_shutdown = True\<rparr>,
      sv_runtime = r,
      sv_build_info = [], sv_running = True, sv_stop_requested = False,
      sv_accept_finished = False, sv_requests = 0, sv_refusals = 0, sv_replayed = 0,
      sv_active_connections = 1, sv_reply_cache = Map.empty, sv_reply_order = []\<rparr>"

definition sample_server :: Server where
  "sample_server = server_on sample_runtime"

definition sample_connection :: ConnectionState where
  "sample_connection =
     \<lparr>cn_session = 1, cn_established = True, cn_is_worker = True, cn_worker = 10, cn_boot = 11\<rparr>"

definition sample_fence_request :: ExecutionIdRequest where
  "sample_fence_request = \<lparr>eir_execution = 5, eir_reason = ''stop''\<rparr>"

definition sample_frame :: Frame where
  "sample_frame =
     \<lparr>fr_version = kProtocolVersion, fr_type = mt_Fence, fr_request = 50, fr_flags = 0,
      fr_payload = encode_ExecutionIdRequest sample_fence_request\<rparr>"

abbreviation sample_connections :: "nat \<Rightarrow> ConnectionState option" where
  "sample_connections \<equiv> [0 \<mapsto> sample_connection]"

lemma sample_frame_type: "base_type sample_frame = mt_Fence" "\<not> is_reply sample_frame"
  "fr_request sample_frame = 50"
  by (simp_all add: base_type_def is_reply_def sample_frame_def kReplyBit_def)

lemma sample_frame_decodes:
  "decode_request (base_type sample_frame) (fr_payload sample_frame) =
     Some (ExecutionQ mt_Fence sample_fence_request)"
proof -
  have "decode_from_bytes decode_ExecutionIdRequest (encode_ExecutionIdRequest sample_fence_request) =
      Some sample_fence_request"
    by (rule ExecutionIdRequest_codec.decode_write)
      (simp_all add: wf_ExecutionIdRequest_def wf_text_def sample_fence_request_def
        default_decode_limits_def encode_ExecutionIdRequest_def)
  then show ?thesis
    by (simp add: sample_frame_type decode_request_def execution_types_def)
      (simp add: sample_frame_def)
qed

lemma sample_server_ok: "server_ok (sample_server, sample_connections)"
  using sample_inv
  by (simp add: sample_server_def server_on_def sample_runtime_def replies_ok_def cache_wf_def)

section \<open>Frames\<close>



definition sample_socket :: "Delivery list \<Rightarrow> Socket" where
  "sample_socket input = \<lparr>sk_valid = True, sk_sends = [], sk_output = [], sk_input = input\<rparr>"



section \<open>The server\<close>

text \<open>
  C15. Whatever requests arrive on any number of connections, in any interleaving with
  connections that open and break and with the server stopping, the runtime only moves by
  commands of its interface, its durable state keeps the fabric invariant, the reply cache
  stays within its configured size and holds successful replies only, and the number of open
  connections is counted exactly and never exceeds the configured maximum.
\<close>

theorem server_invariant:
  assumes "server_steps (s, conns) (s', conns')" and "server_ok (s, conns)"
  shows "fabric_steps (sv_runtime s) (sv_runtime s') \<and> fabric_inv (rt_state (sv_runtime s')) \<and>
    length (sv_reply_order s') \<le> svc_request_cache_size (sv_config s') \<and>
    set (sv_reply_order s') = dom (sv_reply_cache s') \<and>
    (\<forall>i p. sv_reply_cache s' i = Some p \<longrightarrow> (\<exists>result. cr_body p = Outcome (Inr result))) \<and>
    sv_active_connections s' = card (dom conns') \<and>
    sv_active_connections s' \<le> svc_max_connections (sv_config s')"
  using server_steps_ok [OF assms] server_steps_fabric [OF assms(1)]
  by (simp add: replies_ok_def cache_wf_def success_def)

theorem server_invariant_witness:
  "fabric_inv (rt_state (sv_runtime (close_connection sample_connection sample_server)))"
proof -
  have "server_steps (sample_server, sample_connections)
      (close_connection sample_connection sample_server, sample_connections(0 := None))"
    by (rule r_into_rtranclp, rule server_step.hang_up) simp
  from server_invariant [OF this sample_server_ok] show ?thesis by simp
qed

text \<open>
  C17. A request that was executed successfully and is repeated with the same identity, on any
  connection and after fewer steps of the server than the reply cache holds entries, is
  answered with the stored reply, and the runtime is not touched.
\<close>

theorem server_replays:
  assumes "server_ok (s, conns)" and "conns k = Some c" and "exchange_fresh f s"
    and "serve f c s = (reply, c', s1)"
    and "decode_request (base_type f) (fr_payload f) = Some q" and "remembered_request q"
    and "sr_body reply = Outcome (Inr a)" and "sv_reply_cache s (fr_request f) = None"
    and "id_valid (fr_request f)" and "\<not> is_reply f" and "base_type f \<notin> {mt_Hello, mt_Ping, mt_Shutdown}"
    and "(server_step ^^ n) (s1, conns(k \<mapsto> c')) (s2, conns2)"
    and "n < svc_request_cache_size (sv_config s)"
    and "fr_request g = fr_request f" and "\<not> is_reply g" and "base_type g \<notin> {mt_Hello, mt_Ping}"
  shows "\<exists>s3. serve g d s2 = (reply, d, s3) \<and> sv_runtime s3 = sv_runtime s2"
proof -
  let ?t = "s\<lparr>sv_requests := sv_requests s + 1\<rparr>"
  have op: "reply = fst (serve_operation f (exchange_caller c s) ?t)"
    "s1 = snd (serve_operation f (exchange_caller c s) ?t)"
    using assms(4) serve_operates [OF assms(8,10,11), of c] by (auto simp: Let_def)
  have first: "server_step (s, conns) (s1, conns(k \<mapsto> c'))"
    using assms(2-4) by (rule server_step.exchange)
  have ok: "replies_ok s" using assms(1) by simp
  have size: "sv_cache_size s1 = sv_cache_size s"
    using exchanged_serve [OF assms(3,4)] by (simp add: exchanged_def)
  let ?p = "\<lparr>cr_type = base_type f, cr_body = Outcome (Inr a)\<rparr>"
  have "held 0 (fr_request f) ?p s1"
    unfolding op(2)
    by (rule serve_operation_stores [OF assms(5,6)]) (use assms(7-9,13) op(1) in simp_all)
  then have "held n (fr_request f) ?p s2"
    using held_steps [OF assms(12), of 0] server_step_replies [OF first ok] assms(13) size by simp
  then have cached: "sv_reply_cache s2 (fr_request f) = Some ?p" by (simp add: held_def)
  have "reply = make_reply f (base_type f) (Outcome (Inr a))"
    using assms(5,7) op(1)
    by (auto simp: serve_operation_def Let_def make_reply_def split: prod.splits)
  then show ?thesis
    using serve_cached [OF cached, of g d] assms(9,14-16) by (simp add: make_reply_def)
qed

lemma sample_call:
  "exchange_caller sample_connection sample_server = sample_caller"
  "sv_runtime sample_server = sample_runtime"
  by (simp_all add: exchange_caller_def sample_connection_def sample_server_def server_on_def
      sample_caller_def sample_runtime_def sample_state_def)

lemma sample_exchange:
  "\<exists>s1. serve sample_frame sample_connection sample_server =
     (\<lparr>sr_type = mt_Fence OR kReplyBit, sr_request = 50, sr_body = Outcome (Inr Done)\<rparr>,
      sample_connection, s1)"
proof -
  obtain r' where run: "fence sample_caller 50 5 sample_runtime = (Inr (), r')"
    using fence_sample by blast
  let ?t = "sample_server\<lparr>sv_requests := sv_requests sample_server + 1\<rparr>"
  have "execute sample_caller 50 (ExecutionQ mt_Fence sample_fence_request) sample_runtime = (Inr Done, r')"
    by (simp add: execute_on_def answer_def pef_try_def run op_return_def sample_fence_request_def)
  then have "fst (serve_operation sample_frame sample_caller ?t) =
      make_reply sample_frame mt_Fence (Outcome (Inr Done))"
    by (simp add: serve_operation_Some [OF sample_frame_decodes] sample_frame_type
        sample_server_def server_on_def)
  moreover have "serve sample_frame sample_connection sample_server =
      (fst (serve_operation sample_frame sample_caller ?t), sample_connection,
       snd (serve_operation sample_frame sample_caller ?t))"
    by (subst serve_operates)
      (simp_all add: sample_call sample_frame_type Let_def, simp add: sample_server_def server_on_def)
  ultimately show ?thesis by (simp add: make_reply_def sample_frame_type)
qed

theorem server_replays_witness:
  "\<exists>s1 reply. serve sample_frame sample_connection sample_server = (reply, sample_connection, s1) \<and>
     (\<exists>s3. serve sample_frame initial_connection s1 = (reply, initial_connection, s3) \<and>
       sv_runtime s3 = sv_runtime s1)"
proof -
  let ?reply = "\<lparr>sr_type = mt_Fence OR kReplyBit, sr_request = 50, sr_body = Outcome (Inr Done)\<rparr>"
  obtain s1 where run: "serve sample_frame sample_connection sample_server = (?reply, sample_connection, s1)"
    using sample_exchange by blast
  have "exchange_fresh sample_frame sample_server"
    by (simp add: exchange_fresh_def sample_frame_decodes)
  moreover have "(server_step ^^ 0) (s1, sample_connections(0 \<mapsto> sample_connection))
      (s1, sample_connections(0 \<mapsto> sample_connection))" by simp
  ultimately have "\<exists>s3. serve sample_frame initial_connection s1 = (?reply, initial_connection, s3) \<and>
      sv_runtime s3 = sv_runtime s1"
    by (intro server_replays [OF sample_server_ok _ _ run sample_frame_decodes, where n = 0])
      (auto simp: sample_frame_type sample_server_def server_on_def)
  with run show ?thesis by blast
qed

section \<open>Disconnected workers\<close>

text \<open>
  C18. When the connection of a worker ends and the disk works, every execution that was bound
  to that worker and is not in a terminal state loses its lease, is moved to \<open>FENCED\<close> where
  the transition table allows, and refuses every lease token from then on.
\<close>

theorem disconnect_fences_worker:
  assumes "cn_established c" and "cn_is_worker c"
    and "rt_sessions (sv_runtime s) (cn_session c) = Some info"
    and "state_ok (rt_state (sv_runtime s))" and "writable (sv_runtime s)" and "records_fit (sv_runtime s)"
    and "find_execution i (rt_state (sv_runtime s)) = Some e"
    and "exec_worker e = ses_worker info" and "exec_boot e = ses_boot info"
    and "\<not> is_terminal_state (exec_lifecycle e)"
    and "tok_execution token = i" and "id_valid (tok_lease token)"
  shows "\<exists>e' code. find_execution i (rt_state (sv_runtime (close_connection c s))) = Some e' \<and>
    \<not> has_lease e' \<and> (is_legal_transition (exec_lifecycle e) Fenced \<longrightarrow> exec_lifecycle e' = Fenced) \<and>
    token_refusal token (rt_state (sv_runtime (close_connection c s))) = Some code"
proof -
  obtain r' where run: "end_session (cn_session c) (sv_runtime s) = (Inr (), r')"
    using end_session_succeeds [OF assms(3,5,6)] by (auto simp: succeeds_def)
  have i: "exec_id e = i" using assms(7) by (auto simp: find_execution_def dest: tbl_find_Some)
  have "cut_off e r'"
    using rely_post [OF rely_end_session [OF assms(4)] run] assms(3,7-10) by (auto simp: bound_to_def)
  then obtain e' where e': "find_execution i (rt_state r') = Some e'" "\<not> has_lease e'"
    "is_legal_transition (exec_lifecycle e) Fenced \<longrightarrow> exec_lifecycle e' = Fenced"
    by (auto simp: cut_off_def i)
  have "token_refusal token (rt_state r') \<noteq> None"
    using token_lease [of token "rt_state r'" e'] e' assms(11,12) by auto
  then show ?thesis using e' assms(1,2) run by (auto simp: close_connection_def Let_def)
qed

theorem disconnect_fences_worker_witness:
  "token_refusal sample_token sample_state = None \<and>
   (\<exists>code. token_refusal sample_token (rt_state (sv_runtime (close_connection sample_connection
      (server_on (sample_runtime\<lparr>rt_sessions := [1 \<mapsto> \<lparr>ses_worker = 10, ses_boot = 11\<rparr>]\<rparr>))))) = Some code)"
proof -
  let ?r = "sample_runtime\<lparr>rt_sessions := [1 \<mapsto> \<lparr>ses_worker = 10, ses_boot = 11\<rparr>]\<rparr>"
  have "\<exists>e' code. find_execution 5 (rt_state (sv_runtime (close_connection sample_connection (server_on ?r)))) =
      Some e' \<and> \<not> has_lease e' \<and>
      (is_legal_transition (exec_lifecycle sample_execution) Fenced \<longrightarrow> exec_lifecycle e' = Fenced) \<and>
      token_refusal sample_token
        (rt_state (sv_runtime (close_connection sample_connection (server_on ?r)))) = Some code"
  proof (rule disconnect_fences_worker [where info = "\<lparr>ses_worker = 10, ses_boot = 11\<rparr>"])
    show "writable (sv_runtime (server_on ?r))" "records_fit (sv_runtime (server_on ?r))"
      using sample_writable(1) [of sample_state] sample_records_fit
      by (simp_all add: server_on_def sample_runtime_def writable_def records_fit_def)
    show "state_ok (rt_state (sv_runtime (server_on ?r)))"
      using sample_inv by (simp add: server_on_def sample_runtime_def fabric_inv_def)
  qed (use sample_found in \<open>simp_all add: server_on_def sample_connection_def sample_token_def
      sample_runtime_def sample_execution_def fresh_execution_def\<close>)
  then show ?thesis using sample_token_accepted by blast
qed

section \<open>Remote calls\<close>

text \<open>
  C16. A remote call is a local call. The client sends a request within the limits of the
  protocol; the server, on any connection and with the request not yet answered, receives
  exactly that request, moves its runtime as the operation does, and its reply makes the call
  of the client return the outcome of the operation: the same result, or the same refusal.
\<close>

theorem remote_call_is_local_call:
  assumes "wf_request q" and "length (encode_request q) \<le> unat kMaxFramePayload"
    and f: "f = request_frame (request_type q) i (encode_request q)"
    and "channel_send f (cl_channel c) = (Inr (), ch)" and "sk_output ch = sk_output (cl_channel c) @ sent"
    and "deliverable sk" and "stream (sk_input sk) = sent"
    and "sv_reply_cache s i = None"
    and "execute (exchange_caller conn s) i q (sv_runtime s) = (result, r)"
    and "serve f conn s = (reply, conn', s')"
    and "result \<noteq> Inl Ok" and "\<And>a. result = Inr a \<Longrightarrow> wf_result a"
    and "wf_text default_decode_limits message"
    and "length (reply_payload message defaults (sr_body reply)) \<le> unat kMaxFramePayload"
    and "deliverable (cl_channel c)"
    and "stream (sk_input (cl_channel c)) = encode_frame (reply_frame message defaults reply) @ rest"
  shows "(\<exists>sk'. channel_receive sk = (Inr f, sk')) \<and> sv_runtime s' = r \<and>
    (\<exists>c'. remote i q c = (result, c') \<and> stream (sk_input (cl_channel c')) = rest)"
proof -
  have "sent = encode_frame f"
    using send_all_success assms(4,5) unfolding channel_send_def by auto
  then have arrives: "\<exists>sk'. channel_receive sk = (Inr f, sk')"
    using channel_receive_frame [OF assms(6), of f "[]"] request_frame_wf [OF assms(1,2)] assms(7) f by auto
  have served: "reply = \<lparr>sr_type = request_type q OR kReplyBit, sr_request = i, sr_body = Outcome result\<rparr>"
    "sv_runtime s' = r"
    using serve_request [OF assms(1,2,8,9) assms(10) [unfolded f]] by simp_all
  have "\<exists>c'. remote i q c = (result, c') \<and> stream (sk_input (cl_channel c')) = rest"
    by (rule remote_outcome [OF assms(15,1) assms(4) [unfolded f] assms(16) served(1)])
      (use assms(9,11-14) execute_answers in \<open>auto simp: reply_frame_def\<close>)
  with arrives served show ?thesis by blast
qed

definition fence_reply :: ServerReply where
  "fence_reply = \<lparr>sr_type = mt_Fence OR kReplyBit, sr_request = 50, sr_body = Outcome (Inr Done)\<rparr>"

definition sample_client :: Client where
  "sample_client =
     \<lparr>cl_channel = sample_socket [Segment (encode_frame (reply_frame [] [] fence_reply))],
      cl_request_counter = 0, cl_nonce = 0, cl_epoch = 1, cl_store = 7, cl_session = 0,
      cl_is_worker = False\<rparr>"

theorem remote_call_is_local_call_witness:
  "\<exists>c'. remote 50 (ExecutionQ mt_Fence sample_fence_request) sample_client = (Inr Done, c')"
proof -
  let ?q = "ExecutionQ mt_Fence sample_fence_request"
  let ?f = "request_frame (request_type ?q) 50 (encode_request ?q)"
  have frame: "?f = sample_frame" by (simp add: request_frame_def sample_frame_def)
  obtain s1 where run: "serve ?f sample_connection sample_server = (fence_reply, sample_connection, s1)"
    using sample_exchange unfolding frame fence_reply_def by blast
  obtain r' where fenced: "fence sample_caller 50 5 sample_runtime = (Inr (), r')"
    using fence_sample by blast
  have exec: "execute (exchange_caller sample_connection sample_server) 50 ?q (sv_runtime sample_server) =
      (Inr Done, r')"
    using fenced
    by (simp add: sample_call execute_on_def answer_def pef_try_def op_return_def sample_fence_request_def)
  have send: "channel_send ?f (cl_channel sample_client) =
      (Inr (), (cl_channel sample_client)\<lparr>sk_output := encode_frame ?f\<rparr>)"
    by (simp add: channel_send_def send_all_no_fault sample_client_def sample_socket_def)
  have ready: "deliverable (cl_channel sample_client)" "deliverable (sample_socket [Segment (encode_frame ?f)])"
    using encode_frame_nonempty [of "reply_frame [] [] fence_reply"] encode_frame_nonempty [of ?f]
    by (auto simp: deliverable_def sample_client_def sample_socket_def)
  have "wf_request ?q" "length (encode_request ?q) \<le> unat kMaxFramePayload"
    by (simp_all add: execution_types_def wf_ExecutionIdRequest_def wf_text_def sample_fence_request_def
        default_decode_limits_def kMaxFramePayload_def encode_ExecutionIdRequest_def)
  from remote_call_is_local_call [OF this refl send _ ready(2) _ _ exec run, of "encode_frame ?f" "[]" "[]" "[]"]
  show ?thesis
    using ready(1)
    by (auto simp: sample_client_def sample_socket_def sample_server_def server_on_def wf_text_def
        fence_reply_def default_decode_limits_def kMaxFramePayload_def encode_StatusPayload_def)
qed

end
