(* ===== verification/Explaining.thy ===== *)
theory Explaining
  imports Wire_View
begin

text \<open>
  Deterministic rendering of durable state (\<open>include/pef/explain.hpp\<close>, \<open>src/explain.cpp\<close>). Every
  renderer is a function to text; what a stream receives is the concatenation of the pieces.
  The view is the structure of the code, with default-constructed records for absent ones.
  The lemmas compare what the text says with what the runtime does: the resumability of a
  checkpoint with the recovery planner, and the listed bindings with continuation validation.
\<close>

section \<open>Pieces\<close>

abbreviation dec :: "'a::len word \<Rightarrow> string" where
  "dec v \<equiv> decimal (unat v)"

definition yes_no :: "bool \<Rightarrow> string" where
  "yes_no b = (if b then ''yes'' else ''no'')"

definition resumable_text :: string where
  "resumable_text = ''resumable: generations are current and integrity metadata is present''"

definition checkpoint_resumability :: "CheckpointRecord \<Rightarrow> ExecutionRecord \<Rightarrow> string" where
  "checkpoint_resumability c e =
     (if ckpt_state c = Corrupt then ''not resumable: integrity check failed''
      else if ckpt_state c = Unsupported_CS
      then ''not resumable: the checkpoint declares an unsupported feature''
      else if ckpt_state c = Superseded_CS
      then ''not resumable: superseded by a newer checkpoint and policy does not allow falling back''
      else if ckpt_state c = RevalidationRequired_CS
      then ''not resumable: a referenced generation changed and revalidation is required''
      else if ckpt_state c = Stale_CS
      then ''not resumable: a newer checkpoint exists and is preferred''
      else if ckpt_state c = Created_CS then ''not resumable: registered but not yet verified''
      else if ckpt_execution c \<noteq> exec_id e
      then ''not resumable: the checkpoint belongs to a different execution''
      else if ckpt_content_hash c = 0
      then ''not resumable: the checkpoint carries no content integrity digest''
      else if ckpt_execution_generation c \<noteq> exec_generation e
      then ''not resumable: created for a previous execution generation''
      else if ckpt_policy_generation c \<noteq> exec_policy_generation e
      then ''not resumable: created under a policy generation that has been replaced''
      else resumable_text)"

definition evidence_label :: "Evidence \<Rightarrow> string" where
  "evidence_label e =
     evidence_kind_name (ev_kind e) @
     (if ev_source e \<noteq> [] then '' source='' @ ev_source e else []) @
     (if evidence_present e then '' observed_sequence='' @ dec (ev_observed_sequence e) else [])"

section \<open>One execution\<close>

definition explain_bindings :: "BindingSet \<Rightarrow> string" where
  "explain_bindings bs =
     (if bset_refs bs = [] then []
      else ''  bindings:'' @ newline @
        concat (map (\<lambda>r. ''    '' @ binding_domain_name (bref_domain r) @ '' '' @ hex64 (bref_id r) @
          '' generation '' @ dec (bref_generation r) @
          (if bref_label r \<noteq> [] then '' ('' @ bref_label r @ '')'' else []) @ newline) (bset_refs bs)))"

definition explain_held_continuation :: "ViewPayload \<Rightarrow> string" where
  "explain_held_continuation v =
     (let k = vp_continuation v in
      if id_valid (exec_continuation (vp_execution v)) then
        ''  continuation             : '' @ hex64 (cont_id k) @ '' generation '' @
        dec (cont_generation k) @ '' state '' @ continuation_state_name (cont_state k) @ newline @
        ''    resume ordinal         : '' @ dec (cont_resume_ordinal k) @ newline @
        ''    bound checkpoint       : '' @ hex64 (cont_checkpoint k) @ newline @
        ''    bound policy generation: '' @ dec (cont_policy_generation k) @ newline @
        ''    bound epoch            : '' @ dec (cont_epoch k) @ newline
      else ''  continuation             : none'' @ newline)"

definition explain_checkpoints :: "ViewPayload \<Rightarrow> string" where
  "explain_checkpoints v =
     (let c = vp_checkpoint v; e = vp_execution v in
      (if id_valid (exec_checkpoint e) then
         ''  current checkpoint       : '' @ hex64 (ckpt_id c) @ '' generation '' @
         dec (ckpt_generation c) @ '' state '' @ checkpoint_state_name (ckpt_state c) @ newline @
         ''    '' @ checkpoint_resumability c e @ newline
       else ''  current checkpoint       : none'' @ newline) @
      (if length (vp_checkpoints v) > 1 then
         ''  checkpoint lineage       :'' @ newline @
         concat (map (\<lambda>c. ''    '' @ hex64 (ckpt_id c) @ '' generation '' @ dec (ckpt_generation c) @
           '' depth '' @ dec (ckpt_lineage_depth c) @ '' parent '' @ hex64 (ckpt_parent c) @
           '' state '' @ checkpoint_state_name (ckpt_state c) @ newline) (vp_checkpoints v))
       else []))"

definition explain_ambiguity :: "ViewPayload \<Rightarrow> string" where
  "explain_ambiguity v =
     (let a = vp_ambiguity v in
      if id_valid (exec_ambiguity (vp_execution v)) then
        ''  ambiguity                : '' @ hex64 (amb_id a) @ '' state '' @
        ambiguity_state_name (amb_state a) @ newline @
        ''    action                 : '' @ hex64 (amb_action a) @ '' generation '' @
        dec (amb_action_generation a) @ '' ordinal '' @ dec (amb_action_ordinal a) @ '' class '' @
        side_effect_class_name (amb_effect_class a) @ newline @
        ''    reason                 : '' @ amb_reason a @ newline @
        (if amb_resolution_note a \<noteq> []
         then ''    resolution note        : '' @ amb_resolution_note a @ newline else []) @
        ''    resolution evidence    : '' @ evidence_label (amb_resolution_evidence a) @ newline
      else [])"

text \<open>
  The stored decision is a byte that is cast to the enumeration; the name of an ordinal outside
  the enumeration is the text after the \<open>switch\<close>.
\<close>

definition stored_decision_name :: "u8 \<Rightarrow> string" where
  "stored_decision_name d =
     (if unat d < length recovery_decisions then recovery_decision_name (recovery_decisions ! unat d)
      else ''UNKNOWN_DECISION'')"

definition explain_last_recovery :: "ViewPayload \<Rightarrow> string" where
  "explain_last_recovery v =
     (let r = vp_recovery v in
      if id_valid (exec_recovery (vp_execution v)) then
        ''  last recovery            : '' @ hex64 (rec_id r) @ '' decision '' @
        stored_decision_name (rec_decision r) @ newline @
        ''    explanation            : '' @ rec_explanation r @ newline
      else [])"

definition replay_safety :: "ActionRecord \<Rightarrow> string" where
  "replay_safety a =
     (if auto_replayable (act_effect_class a) then ''automatic replay permitted for this class''
      else if act_sealed a then ''physically sealed; automatic retry refused''
      else ''automatic retry refused without a durable receipt'')"

definition explain_action :: "ActionRecord \<Rightarrow> string" where
  "explain_action a =
     ''    ordinal '' @ dec (act_sequence a) @ '' action '' @ hex64 (act_id a) @ '' generation '' @
     dec (act_generation a) @ '' class '' @ side_effect_class_name (act_effect_class a) @
     '' status '' @ action_status_name (act_status a) @
     (if id_valid (act_commit a) then '' commit '' @ hex64 (act_commit a) else []) @
     (if requires_request_key (act_effect_class a) then '' request_key='' @ act_request_key a else []) @
     newline @
     ''      replay safety        : '' @ replay_safety a @ newline @
     (if evidence_present (act_receipt a)
      then ''      durable receipt      : '' @ evidence_label (act_receipt a) @ newline else []) @
     (if id_valid (act_replayed_from a)
      then ''      replay of            : '' @ hex64 (act_replayed_from a) @ '' generation '' @
        dec (act_replayed_from_generation a) @ '' replay generation '' @
        dec (act_replay_generation a) @ newline else [])"

definition explain_identity :: "ViewPayload \<Rightarrow> string" where
  "explain_identity v =
     (let e = vp_execution v in
      ''execution '' @ hex64 (exec_id e) @ newline @
      ''  lifecycle                : '' @ lifecycle_name (exec_lifecycle e) @ newline @
      ''  execution generation     : '' @ dec (exec_generation e) @ newline @
      ''  incarnation              : '' @ hex64 (exec_incarnation e) @ '' generation '' @
      dec (exec_incarnation_generation e) @ newline @
      ''  coordinator epoch        : '' @ dec (exec_epoch e) @ newline @
      ''  policy                   : '' @ hex64 (exec_policy e) @ '' generation '' @
      dec (exec_policy_generation e) @ newline @
      ''  authoritative progress   : generation '' @ dec (exec_progress_generation e) @
      '', committed actions '' @ dec (exec_committed_actions e) @ newline @
      ''  action frontier          : ordinal '' @ dec (exec_action_frontier e) @ newline @
      ''  last logical commit      : '' @ hex64 (exec_last_commit e) @ newline @
      ''  worker binding           : worker '' @ hex64 (exec_worker e) @ '' boot '' @
      hex64 (exec_boot e) @ newline @
      ''  lease                    : '' @ hex64 (exec_lease e) @ '' generation '' @
      dec (exec_lease_generation e) @
      (if id_valid (lease_id (vp_lease v))
       then '' state '' @ lease_state_name (lease_state (vp_lease v)) @
         '' epoch '' @ dec (lease_epoch (vp_lease v)) else []) @ newline @
      ''  replay records           : '' @ dec (exec_replay_count e) @ newline @
      ''  ambiguity block          : '' @ (if exec_blocked e then ''engaged'' else ''none'') @
      (if exec_blocked e
       then '' (progress above ordinal '' @ dec (exec_blocked_above_ordinal e) @ '' is not permitted)''
       else []) @ newline)"

definition explain_execution :: "ViewPayload \<Rightarrow> string" where
  "explain_execution v =
     (if \<not> vp_found v then ''execution: not present in the durable store'' @ newline
      else explain_identity v @ explain_bindings (exec_bindings (vp_execution v)) @
        explain_held_continuation v @ explain_checkpoints v @ explain_ambiguity v @
        explain_last_recovery v @
        (if vp_actions v = [] then []
         else ''  actions (newest first):'' @ newline @ concat (map explain_action (vp_actions v))) @
        ''  durable commits          : '' @ dec (vp_commit_count v) @ newline)"

section \<open>The table of executions\<close>

text \<open>
  \<open>std::sort\<close> orders the records by identity; on records of one state identities are distinct,
  so that every sorting algorithm gives this list.
\<close>

definition execution_row :: "ExecutionRecord \<Rightarrow> string" where
  "execution_row e =
     (let name = lifecycle_name (exec_lifecycle e) in
      hex64 (exec_id e) @ ''  '' @ dec (exec_generation e) @ ''           '' @ name @
      replicate (17 - length name) (CHR '' '') @
      dec (exec_progress_generation e) @ ''         '' @ dec (exec_action_frontier e) @
      ''        '' @ dec (exec_committed_actions e) @ ''          '' @ dec (exec_epoch e) @
      ''      '' @ hex64 (exec_boot e) @ newline)"

definition table_header :: string where
  "table_header =
     ''execution         generation  lifecycle          progress  actions  committed  '' @
     ''epoch  worker-boot''"

definition render_execution_table :: "ExecutionRecord list \<Rightarrow> string" where
  "render_execution_table executions =
     table_header @ newline @ concat (map execution_row (sort_key exec_id executions))"

section \<open>A continuation\<close>

definition binding_line :: "BindingSet \<Rightarrow> BindingRef \<Rightarrow> string" where
  "binding_line held r =
     (case bset_find held (bref_id r) of
        None \<Rightarrow> ''  binding not bound    : '' @ hex64 (bref_id r) @ '' ('' @
          binding_domain_name (bref_domain r) @ '')'' @ newline
      | Some b \<Rightarrow>
          if bref_generation b \<noteq> bref_generation r
          then ''  binding moved        : '' @ hex64 (bref_id r) @ '' continuation '' @
            dec (bref_generation b) @ '' -> durable '' @ dec (bref_generation r) @ newline
          else [])"

definition binding_differences :: "BindingSet \<Rightarrow> BindingSet \<Rightarrow> string" where
  "binding_differences held durable =
     (if length (bset_refs held) \<noteq> length (bset_refs durable)
      then ''  binding set size     : continuation '' @ decimal (length (bset_refs held)) @
        '' vs durable '' @ decimal (length (bset_refs durable)) @ newline
      else []) @
     concat (map (binding_line held) (bset_refs durable))"

definition explain_continuation :: "ViewPayload \<Rightarrow> ContinuationState \<Rightarrow> string \<Rightarrow> string" where
  "explain_continuation v state reason =
     (let e = vp_execution v; k = vp_continuation v in
      ''continuation state: '' @ continuation_state_name state @ newline @
      ''  reason: '' @ reason @ newline @
      (if \<not> vp_found v then []
       else
         ''  execution generation : '' @ dec (exec_generation e) @ newline @
         ''  incarnation          : '' @ hex64 (exec_incarnation e) @ '' generation '' @
         dec (exec_incarnation_generation e) @ newline @
         ''  policy generation    : '' @ dec (exec_policy_generation e) @ newline @
         ''  progress generation  : '' @ dec (exec_progress_generation e) @ newline @
         (if id_valid (exec_continuation e) then
            ''  continuation held    : '' @ hex64 (cont_id k) @ '' generation '' @
            dec (cont_generation k) @ '' epoch '' @ dec (cont_epoch k) @ newline @
            binding_differences (cont_bindings k) (exec_bindings e)
          else [])))"

section \<open>Plans, checkpoints, reports and restarts\<close>

definition explain_recovery :: "RecoveryPlan \<Rightarrow> string" where
  "explain_recovery p =
     ''recovery decision: '' @ recovery_decision_name (plan_decision p) @ newline @
     ''  execution            : '' @ hex64 (plan_execution p) @ '' generation '' @
     dec (plan_execution_generation p) @ newline @
     ''  coordinator epoch    : '' @ dec (plan_epoch p) @ newline @
     (if id_valid (plan_action p)
      then ''  interrupted action   : '' @ hex64 (plan_action p) @ '' generation '' @
        dec (plan_action_generation p) @ newline else []) @
     (if id_valid (plan_checkpoint p)
      then ''  continuation from    : checkpoint '' @ hex64 (plan_checkpoint p) @ '' generation '' @
        dec (plan_checkpoint_generation p) @ newline else []) @
     ''  commit from receipt  : '' @ yes_no (plan_commit_from_receipt p) @ newline @
     ''  automatic continue   : '' @
     yes_no (recovery_allows_automatic_continue (plan_decision p)) @ newline @
     ''  operator required    : '' @ yes_no (recovery_requires_operator (plan_decision p)) @ newline @
     ''  why                  : '' @ plan_explanation p @ newline"

definition explain_checkpoint :: "CheckpointRecord \<Rightarrow> ExecutionRecord \<Rightarrow> string" where
  "explain_checkpoint c e =
     ''checkpoint '' @ hex64 (ckpt_id c) @ newline @
     ''  generation         : '' @ dec (ckpt_generation c) @ newline @
     ''  state              : '' @ checkpoint_state_name (ckpt_state c) @ newline @
     ''  lineage depth      : '' @ dec (ckpt_lineage_depth c) @ '' parent '' @
     hex64 (ckpt_parent c) @ newline @
     ''  bound progress     : generation '' @ dec (ckpt_progress_generation c) @ newline @
     ''  bound policy       : generation '' @ dec (ckpt_policy_generation c) @ newline @
     ''  bound epoch        : '' @ dec (ckpt_epoch c) @ newline @
     ''  effect boundary    : ordinal '' @ dec (ckpt_effect_boundary_ordinal c) @ newline @
     ''  content            : '' @ dec (ckpt_content_size c) @ '' bytes digest '' @
     hex64 (ckpt_content_hash c) @ newline @
     ''  creation authority : worker '' @ hex64 (ckpt_worker c) @ '' boot '' @
     hex64 (ckpt_boot c) @ newline @
     ''  resumability       : '' @ checkpoint_resumability c e @ newline"

definition explain_audit :: "AuditReport \<Rightarrow> string" where
  "explain_audit report = render report"

text \<open>\<open>detail\<close> is the text that the runtime collects while it recovers, which its model leaves out.\<close>

definition explain_restart :: "OpenOutcome \<Rightarrow> string \<Rightarrow> string" where
  "explain_restart out detail =
     (let load = oo_load out in
      ''coordinator restart'' @ newline @
      ''  previous epoch            : '' @ dec (oo_previous_epoch out) @ newline @
      ''  current epoch             : '' @ dec (oo_epoch out) @ newline @
      ''  store                     : '' @
      (if oo_created out then ''created'' else ''loaded from durable state'') @ newline @
      ''  snapshot present          : '' @ yes_no (lr_snapshot_present load) @ newline @
      ''  journal present           : '' @ yes_no (lr_journal_present load) @ newline @
      ''  journal records applied   : '' @ decimal (lr_records_loaded load) @ newline @
      ''  journal records skipped   : '' @ decimal (lr_records_skipped load) @ newline @
      ''  torn journal tail         : '' @ yes_no (lr_truncated_tail load) @
      (if lr_truncated_tail load
       then '' (bytes ignored '' @ decimal (lr_bytes_ignored load) @ '', offset '' @
         decimal (lr_corrupt_offset load) @ '')'' else []) @ newline @
      ''  leases revoked            : '' @ decimal (oo_leases_revoked out) @ newline @
      ''  executions reclassified   : '' @ decimal (length (oo_reclassified out)) @ newline @
      ''  process-local sessions    : invalidated (never persisted)'' @ newline @
      (if detail \<noteq> [] then ''  recovery classification   : '' @ detail @ newline else []))"

section \<open>Resumability and the recovery planner\<close>

lemma checkpoint_resumable_iff:
  "checkpoint_resumability c e = resumable_text \<longleftrightarrow>
   checkpoint_can_seed_continuation (ckpt_state c) \<and> ckpt_execution c = exec_id e \<and>
   ckpt_content_hash c \<noteq> 0 \<and> ckpt_execution_generation c = exec_generation e \<and>
   ckpt_policy_generation c = exec_policy_generation e"
  by (cases "ckpt_state c")
    (auto simp: checkpoint_resumability_def resumable_text_def checkpoint_can_seed_continuation_def)

lemma set_newest_first [simp]: "set (newest_first cs) = set cs"
  by (simp add: newest_first_def)

lemma resumable_candidate:
  assumes "checkpoint_resumability c e = resumable_text" and "c \<in> set (ds_checkpoints s)"
  shows "c \<in> set (seed_candidates (exec_id e) s)"
  using assms by (simp add: checkpoint_resumable_iff seed_candidates_def)

lemma resumable_input:
  assumes "checkpoint_resumability c e = resumable_text"
    and "find_checkpoint (exec_checkpoint e) (rt_state r) = Some c"
  shows "\<not> ri_checkpoint_unusable (recovery_input e r)"
    and "id_valid (exec_checkpoint e) \<Longrightarrow> ri_current_checkpoint (recovery_input e r) = Some c"
  using assms
  by (auto simp: checkpoint_resumable_iff checkpoint_can_seed_continuation_def recovery_input_def Let_def)

section \<open>Listed bindings and validation\<close>

lemma binding_line_empty: "binding_line held r = [] \<longleftrightarrow> same_generation_in held r"
  by (auto simp: binding_line_def same_generation_in_def split: option.split)

lemma binding_differences_empty:
  "binding_differences held durable = [] \<longleftrightarrow>
   length (bset_refs held) = length (bset_refs durable) \<and>
   list_all (same_generation_in held) (bset_refs durable)"
  by (auto simp: binding_differences_def binding_line_empty list_all_iff)

lemma same_generation_in_id: "same_generation_in held r \<Longrightarrow> bref_id r \<in> bref_id ` set (bset_refs held)"
  by (auto simp: same_generation_in_def bset_find_def find_Some_iff split: option.splits)
    (metis imageI nth_mem)

text \<open>With distinct identities and equal sizes one direction of the comparison gives the other.\<close>

lemma bset_find_distinct:
  assumes "distinct (map bref_id (bset_refs b))" and "r \<in> set (bset_refs b)"
  shows "bset_find b (bref_id r) = Some r"
proof -
  obtain x where x: "bset_find b (bref_id r) = Some x"
    using assms(2) by (cases "bset_find b (bref_id r)") (auto simp: bset_find_def find_None_iff)
  then have "x \<in> set (bset_refs b)" "bref_id x = bref_id r"
    by (auto simp: bset_find_def find_Some_iff)
  then have "x = r" using assms by (auto simp: distinct_map inj_on_def)
  with x show ?thesis by simp
qed

lemma same_generations_both_ways:
  assumes dist: "distinct (map bref_id (bset_refs durable))"
    and len: "length (bset_refs held) = length (bset_refs durable)"
    and all: "list_all (same_generation_in held) (bset_refs durable)"
  shows "list_all (same_generation_in durable) (bset_refs held)"
proof -
  let ?h = "map bref_id (bset_refs held)" and ?d = "map bref_id (bset_refs durable)"
  have sub: "set ?d \<subseteq> set ?h"
    using all same_generation_in_id by (fastforce simp: list_all_iff)
  have card: "card (set ?d) = length ?d" by (rule distinct_card [OF dist])
  then have ids: "set ?h = set ?d"
    using sub len card_length [of ?h] by (intro card_seteq [symmetric]) auto
  have "distinct ?h" using ids card len by (intro card_distinct) simp
  have "same_generation_in durable h" if h: "h \<in> set (bset_refs held)" for h
  proof -
    obtain r where r: "r \<in> set (bset_refs durable)" "bref_id r = bref_id h"
      using ids h by (metis (no_types, lifting) image_iff list.set_map)
    have "bset_find held (bref_id r) = Some h"
      using bset_find_distinct [OF \<open>distinct ?h\<close> h] r(2) by simp
    then have "bref_generation h = bref_generation r"
      using all r(1) by (auto simp: list_all_iff same_generation_in_def)
    then show ?thesis
      using bset_find_distinct [OF dist r(1)] r(2) by (simp add: same_generation_in_def)
  qed
  then show ?thesis by (simp add: list_all_iff)
qed

lemma differences_exact:
  assumes "distinct (map bref_id (bset_refs durable))"
  shows "binding_differences held durable = [] \<longleftrightarrow>
    length (bset_refs held) = length (bset_refs durable) \<and> equals_generations held durable"
  using same_generations_both_ways [OF assms]
  by (auto simp: binding_differences_empty equals_generations_def)

section \<open>Lines\<close>

definition line_break :: char where
  "line_break = char_of (10 :: nat)"

lemma newline_line_break: "newline = [line_break]"
  by (simp add: newline_def line_break_def)

abbreviation printable :: "string \<Rightarrow> bool" where
  "printable t \<equiv> line_break \<notin> set t"

lemma printable_hex64: "printable (hex64 v)"
proof -
  have "\<forall>d \<in> set [0..<16]. hex_digit d \<noteq> line_break" by code_simp
  then have "hex_digit d \<noteq> line_break" if "d < 16" for d using that by simp
  then have "line_break \<noteq> hex_digit (unat (x AND 0xF))" for x :: u64 using nibble by metis
  then show ?thesis by (auto simp: hex64_def hex_digits_def)
qed

lemma printable_decimal: "printable (decimal n)"
proof (induction n rule: decimal.induct)
  case (1 n)
  have "\<forall>d \<in> set [0..<10]. char_of (48 + d) \<noteq> line_break" by code_simp
  then have "char_of (48 + d) \<noteq> line_break" if "d < 10" for d :: nat using that by simp
  moreover have "n mod 10 < 10" by simp
  ultimately show ?case
    using 1 by (subst decimal.simps) (auto dest: sym)
qed

lemma printable_lifecycle: "printable (lifecycle_name l)"
  by (cases l) (simp_all add: line_break_def char_of_def bit_simps)

lemma space_break: "CHR '' '' \<noteq> line_break"
  by code_simp

text \<open>A row ends with the only line break it has.\<close>

lemma count_row: "count_list (execution_row e) line_break = 1"
  by (simp add: execution_row_def Let_def newline_line_break printable_hex64 printable_decimal
      printable_lifecycle count_list_0_iff space_break space_break [symmetric])

lemma count_rows: "count_list (concat (map execution_row es)) line_break = length es"
  by (induction es) (simp_all add: count_row)

lemma printable_header: "printable table_header"
  by code_simp

lemma count_table: "count_list (render_execution_table es) line_break = length es + 1"
  by (simp add: render_execution_table_def newline_line_break count_rows count_list_0_iff
      printable_header)

end
