(* ===== verification/App_Support.thy ===== *)
theory App_Support
  imports Explaining
begin

text \<open>
  Shared support of the executables (\<open>apps/app_support.hpp\<close>): the argument reader, the number
  readers of the C library that it calls, and the parser of binding arguments. The last section
  shows that what the tools print is read back: numbers, identities and bindings.
\<close>

section \<open>The C number readers\<close>

text \<open>The white space of \<open>isspace\<close> in the C locale.\<close>

definition is_space :: "char \<Rightarrow> bool" where
  "is_space c = (let n = (of_char c :: nat) in n = 32 \<or> (9 \<le> n \<and> n \<le> 13))"

definition digit_in :: "nat \<Rightarrow> char \<Rightarrow> bool" where
  "digit_in base c = (case hex_value c of None \<Rightarrow> False | Some d \<Rightarrow> unat d < base)"

definition digit_of :: "char \<Rightarrow> nat" where
  "digit_of c = (case hex_value c of None \<Rightarrow> 0 | Some d \<Rightarrow> unat d)"

definition digits_value :: "nat \<Rightarrow> string \<Rightarrow> nat" where
  "digits_value base ds = foldl (\<lambda>v c. v * base + digit_of c) 0 ds"

definition read_sign :: "string \<Rightarrow> bool \<times> string" where
  "read_sign t =
     (case t of
        [] \<Rightarrow> (False, t)
      | c # cs \<Rightarrow> if c = CHR ''-'' then (True, cs) else if c = CHR ''+'' then (False, cs) else (False, t))"

text \<open>
  Base 0: \<open>0x\<close> before a hexadecimal digit selects base 16, a leading zero base 8, anything else
  base 10. The result is the base and where its digits begin.
\<close>

definition detect_base :: "string \<Rightarrow> nat \<times> string" where
  "detect_base t =
     (case t of
        z # x # d # rest \<Rightarrow>
          if z = CHR ''0'' \<and> (x = CHR ''x'' \<or> x = CHR ''X'') \<and> digit_in 16 d then (16, d # rest)
          else if z = CHR ''0'' then (8, t) else (10, t)
      | z # rest \<Rightarrow> if z = CHR ''0'' then (8, t) else (10, t)
      | [] \<Rightarrow> (10, t))"

text \<open>
  \<open>strtoull\<close> with base 0, and what \<open>end\<close> points at: the whole text when there is no number. A
  value out of range is \<open>ULLONG_MAX\<close>; a minus sign negates modulo \<open>2 ^ 64\<close>.
\<close>

definition strtoull :: "string \<Rightarrow> u64 \<times> string" where
  "strtoull t =
     (case read_sign (dropWhile is_space t) of
        (negative, u) \<Rightarrow>
        (case detect_base u of
           (base, ds) \<Rightarrow>
           if takeWhile (digit_in base) ds = [] then (0, t)
           else
             (let magnitude = digits_value base (takeWhile (digit_in base) ds);
                  v = (if magnitude \<ge> 2 ^ 64 then - 1
                       else if negative then - word_of_nat magnitude else word_of_nat magnitude)
              in (v, dropWhile (digit_in base) ds))))"

text \<open>\<open>atoi\<close>; the standard leaves values outside \<open>int\<close> undefined, here they are the number read.\<close>

definition atoi :: "string \<Rightarrow> int" where
  "atoi t =
     (case read_sign (dropWhile is_space t) of
        (negative, u) \<Rightarrow>
          (let v = int (digits_value 10 (takeWhile (digit_in 10) u)) in if negative then - v else v))"

section \<open>Arguments\<close>

text \<open>\<open>Args\<close> is the list of the arguments, the program first.\<close>

type_synonym Args = "string list"

definition args_has :: "string \<Rightarrow> Args \<Rightarrow> bool" where
  "args_has flag args \<longleftrightarrow> List.member args flag"

fun args_value :: "string \<Rightarrow> Args \<Rightarrow> string option" where
  "args_value flag (a # b # rest) = (if a = flag then Some b else args_value flag (b # rest))"
| "args_value flag args = None"

definition args_value_or :: "string \<Rightarrow> string \<Rightarrow> Args \<Rightarrow> string" where
  "args_value_or flag fallback args = (case args_value flag args of None \<Rightarrow> fallback | Some v \<Rightarrow> v)"

text \<open>The value and the flag \<open>ok\<close>, which every caller initialises with \<open>true\<close>.\<close>

definition args_u64_checked :: "string \<Rightarrow> u64 \<Rightarrow> Args \<Rightarrow> u64 \<times> bool" where
  "args_u64_checked flag fallback args =
     (case args_value flag args of
        None \<Rightarrow> (fallback, True)
      | Some found \<Rightarrow>
        (case strtoull found of (parsed, rest) \<Rightarrow>
           if rest \<noteq> [] then (fallback, False) else (parsed, True)))"

definition args_u64_or :: "string \<Rightarrow> u64 \<Rightarrow> Args \<Rightarrow> u64" where
  "args_u64_or flag fallback args = fst (args_u64_checked flag fallback args)"

definition args_int_or :: "string \<Rightarrow> int \<Rightarrow> Args \<Rightarrow> int" where
  "args_int_or flag fallback args =
     (case args_value flag args of None \<Rightarrow> fallback | Some found \<Rightarrow> atoi found)"

definition is_flag :: "string \<Rightarrow> bool" where
  "is_flag v \<longleftrightarrow> v \<noteq> [] \<and> hd v = CHR ''-''"

fun positional_from :: "Args \<Rightarrow> Args" where
  "positional_from [] = []"
| "positional_from [v] = (if is_flag v then [] else [v])"
| "positional_from (v # w # rest) =
     (if is_flag v then positional_from rest else v # positional_from (w # rest))"

definition args_positional :: "Args \<Rightarrow> Args" where
  "args_positional args = positional_from (tl args)"

section \<open>Bindings\<close>

fun split_colon :: "string \<Rightarrow> string \<Rightarrow> string list" where
  "split_colon current [] = [current]"
| "split_colon current (c # cs) =
     (if c = CHR '':'' then current # split_colon [] cs else split_colon (current @ [c]) cs)"

definition parse_binding :: "string \<Rightarrow> BindingRef option" where
  "parse_binding text =
     (let parts = split_colon [] text in
      if length parts < 3 then None
      else case parse_binding_domain (parts ! 0) of
        None \<Rightarrow> None
      | Some domain \<Rightarrow>
        (case (parse_id (parts ! 1) True, parse_gen (parts ! 2) True) of
           (Some i, Some g) \<Rightarrow>
             if \<not> id_valid i \<or> g = 0 then None
             else Some \<lparr>bref_domain = domain, bref_id = i, bref_generation = g,
               bref_label = (if length parts > 3 then parts ! 3 else [])\<rparr>
         | _ \<Rightarrow> None))"

text \<open>The values of a flag that may be repeated.\<close>

fun args_values :: "string \<Rightarrow> Args \<Rightarrow> Args" where
  "args_values flag (a # b # rest) =
     (if a = flag then b # args_values flag (b # rest) else args_values flag (b # rest))"
| "args_values flag args = []"

section \<open>What is printed is read back\<close>

lemma args_value_here: "flag \<notin> set before \<Longrightarrow> args_value flag (before @ flag # v # rest) = Some v"
proof (induction before)
  case Nil
  then show ?case by simp
next
  case (Cons a before)
  then show ?case by (cases before) auto
qed

subsection \<open>Numbers\<close>

lemma char_of_digit: "d < 10 \<Longrightarrow> hex_value (char_of (48 + d :: nat)) = Some (word_of_nat d)"
proof -
  assume "d < 10"
  then have "d \<in> set [0..<10]" by simp
  moreover have "\<forall>d \<in> set [0..<10]. hex_value (char_of (48 + d)) = Some (word_of_nat d)" by code_simp
  ultimately show ?thesis by blast
qed

lemma digit_of_char: "d < 10 \<Longrightarrow> digit_of (char_of (48 + d :: nat)) = d"
  by (simp add: digit_of_def char_of_digit unat_of_nat take_bit_nat_eq_self)

lemma digit_in_char: "d < 10 \<Longrightarrow> digit_in 10 (char_of (48 + d :: nat))"
  by (simp add: digit_in_def char_of_digit unat_of_nat take_bit_nat_eq_self)

lemma decimal_digits: "\<forall>c \<in> set (decimal n). digit_in 10 c"
proof (induction n rule: decimal.induct)
  case (1 n)
  then show ?case
    using digit_in_char [of "n mod 10"] digit_in_char [of n] by (subst decimal.simps) auto
qed

lemma decimal_value: "digits_value 10 (decimal n) = n"
proof (induction n rule: decimal.induct)
  case (1 n)
  then show ?case
    using digit_of_char [of "n mod 10"] digit_of_char [of n]
    by (subst decimal.simps) (auto simp: digits_value_def)
qed

lemma decimal_not_Nil [simp]: "decimal n \<noteq> []"
  by (subst decimal.simps) simp

lemma decimal_hd: "n > 0 \<Longrightarrow> hd (decimal n) \<noteq> CHR ''0''"
proof (induction n rule: decimal.induct)
  case (1 n)
  have "\<forall>d \<in> set [1..<10]. char_of (48 + d) \<noteq> CHR ''0''" by code_simp
  then have "char_of (48 + n) \<noteq> CHR ''0''" if "n < 10" using 1(2) that by simp
  then show ?case
    using 1 by (subst decimal.simps) (auto simp: hd_append div_greater_zero_iff)
qed

lemma digit_not_special:
  assumes "digit_in 10 c"
  shows "\<not> is_space c" "c \<noteq> CHR ''-''" "c \<noteq> CHR ''+''"
  using assms by (auto simp: digit_in_def hex_value_def is_space_def Let_def split: if_splits)

lemma strtoull_decimal: "strtoull (decimal (unat v)) = (v, [])" for v :: u64
proof (cases "unat v = 0")
  case True
  moreover have "decimal 0 = ''0''" by code_simp
  ultimately have "decimal (unat v) = ''0''" by simp
  moreover have "strtoull ''0'' = (0, [])"
    by (simp add: strtoull_def read_sign_def is_space_def detect_base_def digit_in_def hex_value_def
        digits_value_def digit_of_def)
  ultimately show ?thesis using True by (simp add: unat_eq_0)
next
  case False
  obtain c cs where t: "decimal (unat v) = c # cs" by (cases "decimal (unat v)") auto
  have c: "digit_in 10 c" and c0: "c \<noteq> CHR ''0''"
    using decimal_digits [of "unat v"] decimal_hd [of "unat v"] False t by auto
  have all: "takeWhile (digit_in 10) (c # cs) = c # cs" "dropWhile (digit_in 10) (c # cs) = []"
    using decimal_digits [of "unat v"] t by (auto simp: takeWhile_eq_all_conv)
  have val: "digits_value 10 (c # cs) = unat v" using decimal_value [of "unat v"] t by simp
  have base: "detect_base (c # cs) = (10, c # cs)"
    using c0 by (auto simp: detect_base_def split: list.split)
  have sign: "read_sign (dropWhile is_space (c # cs)) = (False, c # cs)"
    using digit_not_special [OF c] by (simp add: read_sign_def)
  have bound: "\<not> unat v \<ge> 2 ^ 64" using unsigned_less [of v, where ?'a = nat] by simp
  show ?thesis
    unfolding t strtoull_def sign prod.case base all val using bound by simp
qed

subsection \<open>Bindings\<close>

lemma split_colon_plain: "CHR '':'' \<notin> set t \<Longrightarrow> split_colon acc t = [acc @ t]"
  by (induction t arbitrary: acc) auto

lemma split_colon_part:
  "CHR '':'' \<notin> set t \<Longrightarrow> split_colon acc (t @ CHR '':'' # rest) = (acc @ t) # split_colon [] rest"
  by (induction t arbitrary: acc) auto

lemma colon_hex64: "CHR '':'' \<notin> set (hex64 v)"
proof -
  have "\<forall>d \<in> set [0..<16]. hex_digit d \<noteq> CHR '':''" by code_simp
  then have "hex_digit d \<noteq> CHR '':''" if "d < 16" for d using that by simp
  then have "CHR '':'' \<noteq> hex_digit (unat (x AND 0xF))" for x :: u64 using nibble by metis
  then show ?thesis by (auto simp: hex64_def hex_digits_def)
qed

lemma colon_domain: "CHR '':'' \<notin> set (binding_domain_name d)"
  by (cases d) simp_all

lemma parse_domain_name: "parse_binding_domain (binding_domain_name d) = Some d"
  by (cases d) (simp_all add: parse_binding_domain_def binding_domains_def)

lemma parse_id_hex64: "parse_id (hex64 v) allow_decimal = Some v"
proof -
  have "length (hex64 v) = 16" by (simp add: hex64_def hex_digits_def)
  moreover have "parse_hex_loop 0 (hex64 v) = Some v"
    using parse_hex_digits [of 0 16 v] by (simp add: hex64_def take_bit_word_eq_self)
  ultimately show ?thesis by (simp add: parse_id_def)
qed

text \<open>A binding as an argument: the form that the usage text gives.\<close>

definition binding_text :: "BindingRef \<Rightarrow> string" where
  "binding_text r =
     binding_domain_name (bref_domain r) @ '':'' @ hex64 (bref_id r) @ '':'' @
     hex64 (bref_generation r) @ (if bref_label r = [] then [] else '':'' @ bref_label r)"

lemma parse_binding_text:
  assumes "id_valid (bref_id r)" and "bref_generation r \<noteq> 0" and "CHR '':'' \<notin> set (bref_label r)"
  shows "parse_binding (binding_text r) = Some r"
proof -
  let ?g = "hex64 (bref_generation r)"
  have "split_colon [] (?g @ (if bref_label r = [] then [] else '':'' @ bref_label r)) =
      (if bref_label r = [] then [?g] else [?g, bref_label r])"
    using assms(3) by (simp add: split_colon_plain split_colon_part colon_hex64)
  then have "split_colon [] (binding_text r) =
      binding_domain_name (bref_domain r) # hex64 (bref_id r) #
      (if bref_label r = [] then [?g] else [?g, bref_label r])"
    by (simp add: binding_text_def split_colon_part colon_domain colon_hex64)
  then show ?thesis
    using assms by (simp add: parse_binding_def parse_domain_name parse_id_hex64 parse_gen_def)
qed

end
