(* ===== verification/Tool_Process.thy ===== *)
theory Tool_Process
  imports App_Support Client_Behaviour
begin

text \<open>
  The executables as programs over a process: the coordinator client, the lines written to
  standard output, the count of worker boots minted, and the stores that the file system holds
  by path. A program either goes on with a value or has returned from \<open>main\<close> with an exit code.
  What is written to standard error and the time spent in \<open>sleep_for\<close> are left out.
\<close>

section \<open>Processes\<close>

record Process =
  pr_client :: Client
  pr_lines :: "string list"
  pr_boots :: u64
  pr_stores :: "string \<Rightarrow> FileStore"

type_synonym 'a prog = "(nat, Process, 'a) oper"

text \<open>
  What the process receives from its surroundings: the result of \<open>connect_to\<close> for a host and a
  port, the nonce of the client, the marker of the process start, the compiler's part of
  \<open>build_info_string\<close>, and the text of a refusal, whose message the coordinator composes.
\<close>

record Surroundings =
  su_connect :: "string \<Rightarrow> u16 \<Rightarrow> Code + Socket"
  su_nonce :: u64
  su_marker :: u64
  su_build_info :: string
  su_refusal :: "Code \<Rightarrow> string"

text \<open>\<open>print_line\<close> writes a text and a line break.\<close>

definition print_line :: "string \<Rightarrow> unit prog" where
  "print_line t = op_modify (\<lambda>p. p\<lparr>pr_lines := pr_lines p @ [t]\<rparr>)"

definition say :: "string \<Rightarrow> 'a prog \<Rightarrow> 'a prog" where
  "say t k = pef_try (print_line t) (\<lambda>_. k)"

text \<open>A client call whose status is inspected.\<close>

definition client_status :: "'a client_op \<Rightarrow> (Code + 'a) prog" where
  "client_status m p = (case m (pr_client p) of (result, c) \<Rightarrow> (Inr result, p\<lparr>pr_client := c\<rparr>))"

text \<open>
  A client call whose failure is reported on standard error and ends the program with code 1:
  \<open>PEF_TRY_RETURN\<close>, and \<open>report\<close> or \<open>print_error\<close> on a status that is not ok.
\<close>

definition attempt :: "'a client_op \<Rightarrow> 'a prog" where
  "attempt m =
     pef_try (client_status m) (\<lambda>result. case result of Inl code \<Rightarrow> op_fail 1 | Inr a \<Rightarrow> op_return a)"

definition exit_code :: "(nat + nat) \<times> Process \<Rightarrow> nat" where
  "exit_code run = (case fst run of Inl n \<Rightarrow> n | Inr n \<Rightarrow> n)"

definition mint_boot :: "Surroundings \<Rightarrow> u64 \<Rightarrow> u64 prog" where
  "mint_boot su worker p =
     (Inr (mint_worker_boot_id worker (pr_boots p) (su_marker su)), p\<lparr>pr_boots := pr_boots p + 1\<rparr>)"

definition version_string :: string where
  "version_string = decimal 1 @ ''.'' @ decimal 0 @ ''.'' @ decimal 0"

definition build_info_string :: "Surroundings \<Rightarrow> string" where
  "build_info_string su =
     ''PersistentExecutionFabric '' @ version_string @ '' protocol='' @ dec kProtocolVersion @
     '' schema='' @ dec kPersistenceSchemaVersion @ su_build_info su"

section \<open>Typed calls\<close>

text \<open>
  The methods of the client fill an output of one type. \<open>typed\<close> selects it from the result; a
  result of another kind does not occur (\<open>typed_remote\<close> below).
\<close>

definition typed :: "(OpResult \<Rightarrow> 'a option) \<Rightarrow> OpResult client_op \<Rightarrow> 'a client_op" where
  "typed sel m =
     pef_try m (\<lambda>r. case sel r of None \<Rightarrow> op_fail ProtocolViolation | Some a \<Rightarrow> op_return a)"

fun the_created :: "OpResult \<Rightarrow> CreateExecutionResult option" where
  "the_created (Created_R x) = Some x" | "the_created _ = None"

fun the_bound :: "OpResult \<Rightarrow> BindWorkerResult option" where
  "the_bound (Bound x) = Some x" | "the_bound _ = None"

fun the_begun :: "OpResult \<Rightarrow> BeginActionResult option" where
  "the_begun (Begun x) = Some x" | "the_begun _ = None"

fun the_completed :: "OpResult \<Rightarrow> CompleteActionResult option" where
  "the_completed (Completed_R x) = Some x" | "the_completed _ = None"

fun the_checkpointed :: "OpResult \<Rightarrow> RegisterCheckpointResult option" where
  "the_checkpointed (Checkpointed x) = Some x" | "the_checkpointed _ = None"

fun the_resumed :: "OpResult \<Rightarrow> ResumeResult option" where
  "the_resumed (Resumed x) = Some x" | "the_resumed _ = None"

fun the_plan :: "OpResult \<Rightarrow> RecoveryPlan option" where
  "the_plan (Classified x) = Some x" | "the_plan _ = None"

fun the_recovered :: "OpResult \<Rightarrow> RecoveryOutcome option" where
  "the_recovered (Recovered x) = Some x" | "the_recovered _ = None"

fun the_resolved :: "OpResult \<Rightarrow> ResolveAmbiguityResult option" where
  "the_resolved (Resolved x) = Some x" | "the_resolved _ = None"

fun the_view :: "OpResult \<Rightarrow> ViewPayload option" where
  "the_view (Viewed x) = Some x" | "the_view _ = None"

fun the_list :: "OpResult \<Rightarrow> ExecutionRecord list option" where
  "the_list (Listed x) = Some x" | "the_list _ = None"

fun the_verdict :: "OpResult \<Rightarrow> ContinuationVerdict option" where
  "the_verdict (Validated x) = Some x" | "the_verdict _ = None"

fun the_sequence :: "OpResult \<Rightarrow> u64 option" where
  "the_sequence (Snapshotted x) = Some x" | "the_sequence _ = None"

fun the_report :: "OpResult \<Rightarrow> AuditReport option" where
  "the_report (Audited x) = Some x" | "the_report _ = None"

abbreviation query_view :: "u64 \<Rightarrow> ViewPayload client_op" where
  "query_view i \<equiv> typed the_view (client_query i)"

text \<open>The structures that the tools fill in, with the default members of the code.\<close>

definition evidence_from :: "EvidenceKind \<Rightarrow> string \<Rightarrow> Evidence" where
  "evidence_from kind source = no_evidence\<lparr>ev_kind := kind, ev_source := source\<rparr>"

definition begin_request :: "u64 \<Rightarrow> LeaseToken \<Rightarrow> SideEffectClass \<Rightarrow> string \<Rightarrow> string \<Rightarrow> BeginActionRequest" where
  "begin_request i token cls key source =
     \<lparr>bar_request = i, bar_token = token, bar_effect_class = cls, bar_request_key = key,
      bar_evidence = evidence_from Real source\<rparr>"

definition complete_request :: "u64 \<Rightarrow> LeaseToken \<Rightarrow> BeginActionResult \<Rightarrow> string \<Rightarrow> CompleteActionRequest" where
  "complete_request i token action source =
     \<lparr>car_request = i, car_token = token, car_action = bres_action action,
      car_action_generation = bres_action_generation action, car_effect_applied = True,
      car_evidence = evidence_from Real source\<rparr>"

definition lease_token :: "u64 \<Rightarrow> BindWorkerResult \<Rightarrow> u64 \<Rightarrow> u64 \<Rightarrow> u64 \<Rightarrow> LeaseToken" where
  "lease_token execution bound epoch worker boot =
     \<lparr>tok_execution = execution, tok_execution_generation = 0,
      tok_incarnation = bwr_incarnation bound,
      tok_incarnation_generation = bwr_incarnation_generation bound, tok_lease = bwr_lease bound,
      tok_lease_generation = bwr_lease_generation bound, tok_epoch = epoch, tok_worker = worker,
      tok_boot = boot, tok_policy_generation = 0\<rparr>"

section \<open>Facts\<close>

text \<open>The reply that a call decodes is of the kind that its request asks for.\<close>

lemma reply_of_kind: "reply_of g rd b = Some r \<Longrightarrow> \<exists>x. r = g x"
  by (auto simp: reply_of_def)

lemma decode_reply_answers: "decode_reply q b = Some r \<Longrightarrow> answers q r"
  by (cases q) (auto simp: simple_reply_def split: if_splits dest!: reply_of_kind)

lemma call_decodes:
  assumes "call decode t i payload c = (Inr r, c')"
  shows "\<exists>b. decode b = Some r"
  using assms
  by (auto simp: call_def pef_try_def op_fail_def op_return_def
      split: prod.splits sum.splits option.splits if_splits)

lemma remote_answers: "remote i q c = (Inr r, c') \<Longrightarrow> answers q r"
  unfolding remote_def by (auto dest!: call_decodes decode_reply_answers)

lemma typed_remote:
  assumes "\<And>r. answers q r \<Longrightarrow> sel r \<noteq> None"
  shows "typed sel (remote i q) c =
    (case remote i q c of (Inl e, c') \<Rightarrow> (Inl e, c') | (Inr r, c') \<Rightarrow> (Inr (the (sel r)), c'))"
proof (cases "remote i q c")
  case (Pair result c')
  show ?thesis
  proof (cases result)
    case (Inl e)
    then show ?thesis using Pair by (simp add: typed_def pef_try_def)
  next
    case (Inr r)
    then have "sel r \<noteq> None" using Pair assms remote_answers by blast
    then show ?thesis using Pair Inr by (auto simp: typed_def pef_try_def op_return_def)
  qed
qed

end
