(* ===== verification/Command_Line.thy ===== *)
theory Command_Line
  imports Tool_Process
begin

text \<open>
  The command line \<open>pef_cli\<close> (\<open>apps/pef_cli/main.cpp\<close>): its operands, the connection, a worker
  that the command line binds for itself, offline inspection of a store, and one definition per
  command. A command is a program that ends with the exit code of the process.
\<close>

section \<open>Operands\<close>

definition kValueFlags :: "string list" where
  "kValueFlags =
     [''--host'', ''--port'', ''--store'', ''--worker'', ''--name'', ''--boot'', ''--reason'',
      ''--binding'', ''--hash'', ''--size'', ''--boundary'', ''--ambiguity'', ''--as'', ''--note'',
      ''--worker-name'', ''--interval'', ''--policy-field'', ''--policy-value'', ''--effect-class'',
      ''--request-key'', ''--max-replay-depth'', ''--durability'']"

fun operands_from :: "Args \<Rightarrow> Args" where
  "operands_from [] = []"
| "operands_from [v] = (if is_flag v then [] else [v])"
| "operands_from (v # w # rest) =
     (if is_flag v then
        (if List.member kValueFlags v then operands_from rest else operands_from (w # rest))
      else v # operands_from (w # rest))"

definition operands :: "Args \<Rightarrow> nat \<Rightarrow> Args" where
  "operands args first = operands_from (drop first args)"

definition execution_argument :: "Args \<Rightarrow> nat \<Rightarrow> u64 option" where
  "execution_argument ops index =
     (if length ops \<le> index then None else parse_id (ops ! index) True)"

section \<open>Connection and worker\<close>

text \<open>\<open>fail\<close> writes to standard error; \<open>report\<close> prints \<open>ok\<close> for a call that succeeds.\<close>

definition fail :: "nat prog" where
  "fail = op_return 1"

definition report :: "'a client_op \<Rightarrow> nat prog" where
  "report m = pef_try (attempt m) (\<lambda>_. say ''ok'' (op_return 0))"

definition connect_client :: "Surroundings \<Rightarrow> Args \<Rightarrow> HelloReply client_op" where
  "connect_client su args =
     (let host = args_value_or ''--host'' ''127.0.0.1'' args;
          port = (ucast (args_u64_or ''--port'' 0 args) :: u16)
      in pef_try (client_connect (su_connect su host port) (su_nonce su)) (\<lambda>_. hello_as_operator))"

record BoundWorker =
  bw_worker :: u64
  bw_boot :: u64
  bw_token :: LeaseToken
  bw_bound :: bool
  bw_execution :: ExecutionRecord

definition bw_refresh :: "LeaseToken \<Rightarrow> (LeaseToken \<times> ExecutionRecord) client_op" where
  "bw_refresh token =
     pef_try (query_view (tok_execution token)) (\<lambda>view.
     op_read (\<lambda>c. op_return
       (token\<lparr>tok_execution_generation := exec_generation (vp_execution view),
          tok_policy_generation := exec_policy_generation (vp_execution view),
          tok_epoch := cl_epoch c\<rparr>, vp_execution view)))"

definition refresh :: "BoundWorker \<Rightarrow> BoundWorker client_op" where
  "refresh w =
     pef_try (bw_refresh (bw_token w)) (\<lambda>(token, execution).
     op_return (w\<lparr>bw_token := token, bw_execution := execution\<rparr>))"

definition bind_as :: "u64 \<Rightarrow> u64 \<Rightarrow> u64 \<Rightarrow> BindingSet \<Rightarrow> BoundWorker client_op" where
  "bind_as worker boot execution_id bindings =
     pef_try (hello_as_worker worker boot) (\<lambda>_.
     pef_try next_request (\<lambda>i.
     pef_try (typed the_bound (client_bind_worker
       \<lparr>bwq_request = i, bwq_execution = execution_id, bwq_worker = worker, bwq_boot = boot,
        bwq_bindings = bindings\<rparr>)) (\<lambda>result.
     op_read (\<lambda>c.
     pef_try (bw_refresh (lease_token execution_id result (cl_epoch c) worker boot))
       (\<lambda>(token, execution).
     op_return \<lparr>bw_worker = worker, bw_boot = boot, bw_token = token, bw_bound = True,
       bw_execution = execution\<rparr>)))))"

definition bind_worker_process :: "Surroundings \<Rightarrow> u64 \<Rightarrow> BindingSet \<Rightarrow> BoundWorker prog" where
  "bind_worker_process su execution_id bindings =
     (let worker = derive_worker_id ''pef-cli-worker'' in
      pef_try (mint_boot su worker) (\<lambda>boot. attempt (bind_as worker boot execution_id bindings)))"

definition resume_worker :: "bool \<Rightarrow> BoundWorker \<Rightarrow> BoundWorker client_op" where
  "resume_worker revalidate w =
     pef_try next_request (\<lambda>i.
     pef_try (typed the_resumed (client_resume
       \<lparr>rrq_request = i, rrq_token = bw_token w,
        rrq_observed_bindings = exec_bindings (bw_execution w),
        rrq_revalidate_bindings = revalidate\<rparr>)) (\<lambda>_.
     refresh w))"

definition ensure_running :: "bool \<Rightarrow> BoundWorker \<Rightarrow> BoundWorker client_op" where
  "ensure_running revalidate w0 =
     pef_try (refresh w0) (\<lambda>w.
     if exec_lifecycle (bw_execution w) = Running then op_return w
     else if exec_lifecycle (bw_execution w) = Ready then
       pef_try next_request (\<lambda>i.
       pef_try (client_start \<lparr>srq_request = i, srq_token = bw_token w\<rparr>) (\<lambda>_. refresh w))
     else if exec_lifecycle (bw_execution w) = RecoveryRequired then
       pef_try (typed the_recovered (client_recover (tok_execution (bw_token w)))) (\<lambda>_.
       pef_try (refresh w) (resume_worker revalidate))
     else resume_worker revalidate w)"

text \<open>Binding arguments that do not parse are skipped.\<close>

definition bindings_from :: "Args \<Rightarrow> nat \<Rightarrow> BindingSet" where
  "bindings_from args first =
     canonicalize \<lparr>bset_refs = List.map_filter parse_binding (args_values ''--binding'' (drop first args))\<rparr>"

section \<open>Offline inspection\<close>

text \<open>The entropy is used only when a store is created, which is not permitted here.\<close>

definition open_offline :: "(DurableState \<times> LoadReport) store_op" where
  "open_offline =
     pef_try (store_open False default_store_limits 0) (\<lambda>_.
     pef_try (store_load empty_state) (\<lambda>(state, report, status).
     case status of Inl code \<Rightarrow> op_fail code | Inr _ \<Rightarrow> op_return (state, report)))"

definition offline :: "string \<Rightarrow> (DurableState \<times> LoadReport) prog" where
  "offline path p =
     (case open_offline (pr_stores p path) of
        (result, store) \<Rightarrow>
          (case result of Inl code \<Rightarrow> Inl 1 | Inr loaded \<Rightarrow> Inr loaded,
           p\<lparr>pr_stores := (pr_stores p)(path := store)\<rparr>))"

definition cli_usage :: string where
  "cli_usage =
     ''usage: pef_cli [--host H] [--port N] <command> [arguments]'' @ newline @
     newline @
     ''  version                                  print build identity'' @ newline @
     ''  ping                                     check coordinator liveness and epoch'' @ newline @
     ''  execution create [--interval N] [--allow-older-checkpoints]'' @ newline @
     ''  execution list'' @ newline @
     ''  execution show <execution>'' @ newline @
     ''  execution start <execution> [--worker-name N] [--binding d:id:gen[:label]]'' @ newline @
     ''  execution suspend <execution>'' @ newline @
     ''  execution resume <execution>'' @ newline @
     ''  execution fence <execution> [--reason R]'' @ newline @
     ''  execution cancel <execution> [--reason R]'' @ newline @
     ''  execution retire <execution> [--reason R]'' @ newline @
     ''  execution drain <execution>'' @ newline @
     ''  execution complete <execution>'' @ newline @
     ''  execution advance-generation <execution> [--reason R]'' @ newline @
     ''  execution policy <execution> [--max-replay-depth N] [--durability MODE]'' @ newline @
     ''  action show <execution> [--ordinal N]'' @ newline @
     ''  checkpoint create <execution> --hash H [--size N] [--boundary N]'' @ newline @
     ''  checkpoint list <execution>'' @ newline @
     ''  checkpoint explain <execution> [--generation N]'' @ newline @
     ''  progress show <execution>'' @ newline @
     ''  continuation show <execution>'' @ newline @
     ''  continuation validate <execution>'' @ newline @
     ''  recovery explain <execution>'' @ newline @
     ''  recovery apply <execution>'' @ newline @
     ''  ambiguity list <execution>'' @ newline @
     ''  ambiguity resolve <execution> --ambiguity ID --as'' @ newline @
     ''      applied|not-applied|accepted|abandoned|manual [--note TEXT]'' @ newline @
     ''  lease show <execution>'' @ newline @
     ''  snapshot [--truncate]'' @ newline @
     ''  audit [--store DIR]                      online audit, or offline store audit'' @ newline @
     ''  verify [--store DIR]                     same as audit, exit 1 on violations'' @ newline @
     ''  demo                                     run a self-contained scenario'' @ newline @
     newline @
     ''exit codes: 0 success, 1 refusal or failure, 2 usage, 3 audit violations'' @ newline"

definition print_usage :: "unit prog" where
  "print_usage = print_line cli_usage"

section \<open>Inspection commands\<close>

definition command_version :: "Surroundings \<Rightarrow> nat prog" where
  "command_version su = say (build_info_string su) (op_return 0)"

definition command_ping :: "Surroundings \<Rightarrow> Args \<Rightarrow> nat prog" where
  "command_ping su args =
     pef_try (attempt (connect_client su args)) (\<lambda>greeting.
     say (''coordinator '' @ hrp_coordinator_version greeting)
     (say (''store='' @ hex64 (hrp_store greeting) @ '' epoch='' @ dec (hrp_epoch greeting) @
       '' journal_sequence='' @ dec (hrp_journal_sequence greeting) @
       '' protocol='' @ dec (hrp_protocol_version greeting) @
       '' schema='' @ dec (hrp_persistence_schema greeting))
     (op_return 0)))"

definition audit_exit :: "bool \<Rightarrow> AuditReport \<Rightarrow> nat" where
  "audit_exit as_verify audit = (if as_verify \<and> \<not> clean audit then 3 else 0)"

definition command_audit :: "Surroundings \<Rightarrow> Args \<Rightarrow> bool \<Rightarrow> nat prog" where
  "command_audit su args as_verify =
     (case args_value ''--store'' args of
        Some path \<Rightarrow>
          pef_try (offline path) (\<lambda>(state, load).
          say (''offline store='' @ path)
          (say (''  snapshot_present='' @ yes_no (lr_snapshot_present load) @
            '' journal_present='' @ yes_no (lr_journal_present load) @
            '' records_loaded='' @ decimal (lr_records_loaded load) @
            '' torn_tail='' @ yes_no (lr_truncated_tail load))
          (say (explain_audit (audit_state state))
          (op_return (audit_exit as_verify (audit_state state))))))
      | None \<Rightarrow>
          pef_try (attempt (connect_client su args)) (\<lambda>_.
          pef_try (attempt (typed the_report client_audit)) (\<lambda>audit.
          say (explain_audit audit) (op_return (audit_exit as_verify audit)))))"

section \<open>Executions\<close>

text \<open>The policy of \<open>execution create\<close>.\<close>

definition create_policy :: "Args \<Rightarrow> ExecutionPolicy" where
  "create_policy args =
     (let p0 = unset_policy\<lparr>pol_id := 1, pol_generation := 1,
            pol_checkpoint_interval_actions := ucast (args_u64_or ''--interval'' 0 args),
            pol_allow_older_checkpoints := args_has ''--allow-older-checkpoints'' args,
            pol_allow_recovery_from_failed := args_has ''--allow-recovery-from-failed'' args\<rparr>;
          p1 = (if args_has ''--manual-ambiguity'' args
            then p0\<lparr>pol_ambiguity_handling := ManualResolutionRequired\<rparr> else p0);
          p2 = (if args_has ''--compensate'' args
            then p1\<lparr>pol_ambiguity_handling := RequireCompensation\<rparr> else p1);
          p3 = (if args_has ''--manual-recovery'' args
            then p2\<lparr>pol_recovery_preference := RequireManualSelection\<rparr> else p2);
          p4 = (if args_has ''--forbid-replay'' args
            then p3\<lparr>pol_replay_allowance := ForbidReplay, pol_allow_recompute := False\<rparr> else p3)
      in if args_value_or ''--durability'' ''durable'' args = ''journaled''
         then p4\<lparr>pol_durability := JournaledNotFlushed\<rparr> else p4)"

definition execution_create :: "Args \<Rightarrow> nat prog" where
  "execution_create args =
     pef_try (attempt (typed the_created (client_create_execution (create_policy args)))) (\<lambda>created.
     say (''execution='' @ hex64 (cer_execution created) @ '' generation='' @ dec (cer_generation created) @
       '' policy='' @ hex64 (cer_policy created) @
       '' policy_generation='' @ dec (cer_policy_generation created) @
       '' existing='' @ yes_no (cer_existing created))
     (op_return 0))"

definition execution_list :: "Args \<Rightarrow> nat prog" where
  "execution_list args =
     (case args_value ''--store'' args of
        Some path \<Rightarrow>
          pef_try (offline path) (\<lambda>(state, load).
          say (render_execution_table (sort_key exec_id (ds_executions state))) (op_return 0))
      | None \<Rightarrow>
          pef_try (attempt (typed the_list client_list_executions)) (\<lambda>executions.
          say (render_execution_table executions) (op_return 0)))"

text \<open>The view that \<open>execution show\<close> assembles from a store.\<close>

definition offline_view :: "ExecutionRecord \<Rightarrow> DurableState \<Rightarrow> ViewPayload" where
  "offline_view e s =
     \<lparr>vp_found = True, vp_execution = e, vp_policy = unset_policy,
      vp_lease = (case find_lease (exec_lease e) s of None \<Rightarrow> unset_lease | Some l \<Rightarrow> l),
      vp_continuation = (case find_continuation (exec_continuation e) s of
        None \<Rightarrow> unset_continuation | Some k \<Rightarrow> k),
      vp_checkpoint = (case find_checkpoint (exec_checkpoint e) s of
        None \<Rightarrow> unset_checkpoint | Some c \<Rightarrow> c),
      vp_recovery = (case find_recovery (exec_recovery e) s of None \<Rightarrow> unset_recovery | Some r \<Rightarrow> r),
      vp_ambiguity = (case find_ambiguity (exec_ambiguity e) s of
        None \<Rightarrow> unset_ambiguity | Some a \<Rightarrow> a),
      vp_actions = [], vp_checkpoints = [], vp_replays = [], vp_action_count = 0,
      vp_commit_count = 0\<rparr>"

definition execution_show :: "Args \<Rightarrow> u64 \<Rightarrow> nat prog" where
  "execution_show args i =
     (case args_value ''--store'' args of
        Some path \<Rightarrow>
          pef_try (offline path) (\<lambda>(state, load).
          case find_execution i state of
            None \<Rightarrow> fail
          | Some e \<Rightarrow> say (explain_execution (offline_view e state)) (op_return 0))
      | None \<Rightarrow>
          pef_try (attempt (query_view i)) (\<lambda>view.
          say (explain_execution view) (op_return 0)))"

definition execution_policy :: "Args \<Rightarrow> u64 \<Rightarrow> nat prog" where
  "execution_policy args i =
     pef_try (attempt (query_view i)) (\<lambda>view.
     case args_u64_checked ''--max-replay-depth'' (ucast (pol_max_replay_depth (vp_policy view))) args of
       (depth, ok) \<Rightarrow>
       if \<not> ok then fail
       else
         (let p = (vp_policy view)\<lparr>pol_max_replay_depth := ucast depth\<rparr>;
              changed = (case args_value ''--durability'' args of
                None \<Rightarrow> Some p
              | Some mode \<Rightarrow>
                  if mode = ''durable'' then Some (p\<lparr>pol_durability := DurableOnCommit\<rparr>)
                  else if mode = ''journaled'' then Some (p\<lparr>pol_durability := JournaledNotFlushed\<rparr>)
                  else None)
          in case changed of
               None \<Rightarrow> fail
             | Some policy \<Rightarrow>
               pef_try (attempt (client_update_policy i policy True)) (\<lambda>_.
               pef_try (attempt (query_view i)) (\<lambda>after.
               say (''policy generation advanced to '' @
                 dec (exec_policy_generation (vp_execution after)) @ ''; prior authority invalidated'')
               (op_return 0)))))"

definition execution_suspend :: "u64 \<Rightarrow> nat prog" where
  "execution_suspend i =
     pef_try (attempt (client_suspend_begin i)) (\<lambda>_.
     pef_try (attempt (client_suspend_commit i)) (\<lambda>_.
     say (''execution suspended: '' @ hex64 i) (op_return 0)))"

definition execution_verb :: "string \<Rightarrow> Args \<Rightarrow> u64 \<Rightarrow> nat prog" where
  "execution_verb verb args i =
     (let reason = args_value_or ''--reason'' ''cli'' args in
      if verb = ''show'' then execution_show args i
      else if verb = ''start'' \<or> verb = ''resume'' \<or> verb = ''checkpoint'' then fail
      else if verb = ''suspend'' then execution_suspend i
      else if verb = ''fence'' then report (client_fence i reason)
      else if verb = ''cancel'' then report (client_cancel i reason)
      else if verb = ''retire'' then report (client_retire i reason)
      else if verb = ''drain'' then report (client_drain i)
      else if verb = ''complete'' then report (client_complete_execution i)
      else if verb = ''advance-generation'' then report (client_advance_generation i reason)
      else if verb = ''policy'' then execution_policy args i
      else fail)"

definition usage_error :: "nat prog" where
  "usage_error = pef_try print_usage (\<lambda>_. op_return 2)"

definition command_execution :: "Surroundings \<Rightarrow> Args \<Rightarrow> nat prog" where
  "command_execution su args =
     (let ops = operands args 1 in
      if length ops < 2 then usage_error
      else
        pef_try (attempt (connect_client su args)) (\<lambda>_.
        if ops ! 1 = ''create'' then execution_create args
        else if ops ! 1 = ''list'' then execution_list args
        else case execution_argument ops 2 of
          None \<Rightarrow> fail
        | Some i \<Rightarrow> execution_verb (ops ! 1) args i))"

definition command_execution_start :: "Surroundings \<Rightarrow> Args \<Rightarrow> nat prog" where
  "command_execution_start su args =
     (case execution_argument (operands args 1) 2 of
        None \<Rightarrow> fail
      | Some i \<Rightarrow>
        pef_try (attempt (connect_client su args)) (\<lambda>_.
        pef_try (bind_worker_process su i (bindings_from args 3)) (\<lambda>w0.
        pef_try (attempt (ensure_running True w0)) (\<lambda>w.
        say (''execution='' @ hex64 i @ '' lifecycle='' @
          lifecycle_name (exec_lifecycle (bw_execution w)) @
          '' incarnation='' @ hex64 (tok_incarnation (bw_token w)) @
          '' incarnation_generation='' @ dec (tok_incarnation_generation (bw_token w)) @
          '' lease='' @ hex64 (tok_lease (bw_token w)) @
          '' lease_generation='' @ dec (tok_lease_generation (bw_token w)))
        (if args_int_or ''--hold-ms'' 0 args > 0
         then pef_try (attempt (query_view i)) (\<lambda>_. op_return 0)
         else op_return 0)))))"

section \<open>The other groups of commands\<close>

text \<open>
  The shape of \<open>command_checkpoint\<close>, \<open>command_continuation\<close>, \<open>command_recovery\<close> and
  \<open>command_ambiguity\<close>: two operands at least, a connection, and an execution identity.
\<close>

definition on_operands ::
  "Surroundings \<Rightarrow> Args \<Rightarrow> (string \<Rightarrow> HelloReply \<Rightarrow> u64 \<Rightarrow> nat prog) \<Rightarrow> nat prog" where
  "on_operands su args k =
     (let ops = operands args 1 in
      if length ops < 2 then usage_error
      else
        pef_try (attempt (connect_client su args)) (\<lambda>greeting.
        case execution_argument ops 2 of None \<Rightarrow> fail | Some i \<Rightarrow> k (ops ! 1) greeting i))"

definition checkpoint_line :: "CheckpointRecord \<Rightarrow> string" where
  "checkpoint_line c =
     ''checkpoint '' @ hex64 (ckpt_id c) @ '' generation '' @ dec (ckpt_generation c) @
     '' depth '' @ dec (ckpt_lineage_depth c) @ '' state '' @ checkpoint_state_name (ckpt_state c) @
     '' progress_generation '' @ dec (ckpt_progress_generation c)"

definition checkpoint_create :: "Surroundings \<Rightarrow> Args \<Rightarrow> u64 \<Rightarrow> nat prog" where
  "checkpoint_create su args i =
     (case args_u64_checked ''--hash'' 0 args of
        (digest, ok) \<Rightarrow>
        if \<not> ok \<or> digest = 0 then fail
        else
          pef_try (bind_worker_process su i (bindings_from args 3)) (\<lambda>w0.
          pef_try (attempt (ensure_running True w0)) (\<lambda>w.
          pef_try (attempt next_request) (\<lambda>request.
          pef_try (attempt (typed the_checkpointed (client_register_checkpoint
            \<lparr>rcr_request = request, rcr_token = bw_token w,
             rcr_expected_checkpoint = exec_checkpoint (bw_execution w),
             rcr_expected_checkpoint_generation = exec_checkpoint_generation (bw_execution w),
             rcr_content_size = args_u64_or ''--size'' 0 args, rcr_content_hash = digest,
             rcr_effect_boundary_ordinal =
               args_u64_or ''--boundary'' (exec_action_frontier (bw_execution w)) args\<rparr>)))
            (\<lambda>registered.
          say (''checkpoint='' @ hex64 (rres_checkpoint registered) @
            '' generation='' @ dec (rres_checkpoint_generation registered) @
            '' state='' @ checkpoint_state_name (rres_state registered) @
            '' lineage_depth='' @ dec (rres_lineage_depth registered) @
            '' continuation='' @ hex64 (rres_continuation registered))
          (op_return 0))))))"

definition command_checkpoint :: "Surroundings \<Rightarrow> Args \<Rightarrow> nat prog" where
  "command_checkpoint su args =
     on_operands su args (\<lambda>verb greeting i.
       if verb = ''list'' \<or> verb = ''explain'' then
         pef_try (attempt (query_view i)) (\<lambda>view.
         case vp_checkpoints view of
           [] \<Rightarrow> say ''no checkpoints'' (op_return 0)
         | c # _ \<Rightarrow>
             if verb = ''list'' then
               pef_try (op_for (\<lambda>k. print_line (checkpoint_line k)) (vp_checkpoints view)) (\<lambda>_.
               op_return 0)
             else say (explain_checkpoint c (vp_execution view)) (op_return 0))
       else if verb \<noteq> ''create'' then fail
       else checkpoint_create su args i)"

definition command_continuation :: "Surroundings \<Rightarrow> Args \<Rightarrow> nat prog" where
  "command_continuation su args =
     on_operands su args (\<lambda>verb greeting i.
       pef_try (attempt (query_view i)) (\<lambda>view.
       if verb = ''show'' then
         (if \<not> id_valid (exec_continuation (vp_execution view))
          then say ''no continuation'' (op_return 0)
          else say (explain_execution view) (op_return 0))
       else if verb = ''validate'' then
         pef_try (attempt (typed the_verdict (client_validate_continuation i))) (\<lambda>verdict.
         say (explain_continuation view (cv_state verdict) (cv_reason verdict))
         (op_return (if cv_state verdict = Valid then 0 else 1)))
       else fail))"

definition command_recovery :: "Surroundings \<Rightarrow> Args \<Rightarrow> nat prog" where
  "command_recovery su args =
     on_operands su args (\<lambda>verb greeting i.
       if verb = ''explain'' then
         pef_try (attempt (typed the_plan (client_classify i))) (\<lambda>plan.
         say (explain_recovery plan) (op_return 0))
       else if verb = ''apply'' then
         pef_try (attempt (typed the_recovered (client_recover i))) (\<lambda>out.
         say (explain_recovery (ro_plan out))
         (say (''applied='' @ yes_no (ro_applied out) @
           '' committed_from_receipt='' @ yes_no (ro_committed out) @
           '' recovery='' @ hex64 (ro_recovery out))
         (op_return 0)))
       else fail)"

definition ambiguous_resolution_pending :: "ViewPayload \<Rightarrow> bool" where
  "ambiguous_resolution_pending view \<longleftrightarrow>
     id_valid (exec_ambiguity (vp_execution view)) \<and> ambiguity_is_open (amb_state (vp_ambiguity view))"

definition resolution_argument :: "string \<Rightarrow> AmbiguityState option" where
  "resolution_argument t =
     (if t = ''applied'' then Some ResolvedApplied
      else if t = ''not-applied'' then Some ResolvedNotApplied
      else if t = ''accepted'' then Some Accepted
      else if t = ''abandoned'' then Some Abandoned_AS
      else if t = ''manual'' then Some ManualResolutionRequired_AS
      else None)"

definition ambiguity_list :: "ViewPayload \<Rightarrow> nat prog" where
  "ambiguity_list view =
     (let a = vp_ambiguity view in
      if \<not> id_valid (exec_ambiguity (vp_execution view))
      then say ''no ambiguity recorded'' (op_return 0)
      else
        say (''ambiguity '' @ hex64 (amb_id a) @ '' state '' @ ambiguity_state_name (amb_state a) @
          '' action '' @ hex64 (amb_action a) @ '' ordinal '' @ dec (amb_action_ordinal a) @
          '' class '' @ side_effect_class_name (amb_effect_class a))
        (say (''  reason: '' @ amb_reason a)
        (if ambiguous_resolution_pending view
         then say ''  automatic retry: refused; an explicit resolution is required'' (op_return 0)
         else op_return 0)))"

definition ambiguity_resolve :: "Args \<Rightarrow> HelloReply \<Rightarrow> u64 \<Rightarrow> ViewPayload \<Rightarrow> nat prog" where
  "ambiguity_resolve args greeting i view =
     (case (args_value ''--ambiguity'' args, args_value ''--as'' args) of
        (Some ambiguity_text, Some resolution_text) \<Rightarrow>
        (case parse_id ambiguity_text True of
           None \<Rightarrow> fail
         | Some ambiguity \<Rightarrow>
           (case resolution_argument resolution_text of
              None \<Rightarrow> fail
            | Some resolution \<Rightarrow>
              if \<not> id_valid (exec_ambiguity (vp_execution view)) \<or>
                 exec_ambiguity (vp_execution view) \<noteq> ambiguity then fail
              else
                pef_try (attempt next_request) (\<lambda>request.
                pef_try (attempt (typed the_resolved (client_resolve_ambiguity
                  \<lparr>rar_request = request,
                   rar_caller = \<lparr>caller_session = hrp_session greeting, caller_epoch = hrp_epoch greeting\<rparr>,
                   rar_execution = i, rar_ambiguity = ambiguity,
                   rar_ambiguity_generation = exec_ambiguity_generation (vp_execution view),
                   rar_resolution = resolution,
                   rar_evidence = evidence_from
                     (if args_has ''--synthetic-evidence'' args then Synthetic else Real) ''operator'',
                   rar_note = args_value_or ''--note'' ''cli'' args\<rparr>))) (\<lambda>resolved.
                say (''ambiguity state: '' @ ambiguity_state_name (rars_state resolved))
                (say (''  committed='' @ yes_no (rars_committed resolved) @
                  '' replay_admitted='' @ yes_no (rars_replay_admitted resolved))
                (if rars_committed resolved
                 then say (''  commit='' @ hex64 (rars_commit resolved) @
                   '' progress_generation='' @ dec (rars_progress_generation resolved)) (op_return 0)
                 else op_return 0))))))
      | _ \<Rightarrow> fail)"

definition command_ambiguity :: "Surroundings \<Rightarrow> Args \<Rightarrow> nat prog" where
  "command_ambiguity su args =
     on_operands su args (\<lambda>verb greeting i.
       pef_try (attempt (query_view i)) (\<lambda>view.
       if verb = ''list'' then ambiguity_list view
       else if verb = ''resolve'' then ambiguity_resolve args greeting i view
       else fail))"

text \<open>\<open>command_action\<close> and \<open>command_lease\<close> do not count their operands.\<close>

definition on_execution_operand :: "Surroundings \<Rightarrow> Args \<Rightarrow> (ViewPayload \<Rightarrow> nat prog) \<Rightarrow> nat prog" where
  "on_execution_operand su args k =
     pef_try (attempt (connect_client su args)) (\<lambda>_.
     case execution_argument (operands args 1) 2 of
       None \<Rightarrow> fail
     | Some i \<Rightarrow> pef_try (attempt (query_view i)) k)"

definition command_action :: "Surroundings \<Rightarrow> Args \<Rightarrow> nat prog" where
  "command_action su args =
     on_execution_operand su args (\<lambda>view.
       if vp_actions view = [] then say ''no actions recorded'' (op_return 0)
       else
         (let ordinal = args_u64_or ''--ordinal'' 0 args in
          say (explain_execution view)
          (if ordinal \<noteq> 0 \<and> find (\<lambda>a. act_sequence a = ordinal) (vp_actions view) = None then fail
           else op_return 0)))"

definition command_lease :: "Surroundings \<Rightarrow> Args \<Rightarrow> nat prog" where
  "command_lease su args =
     on_execution_operand su args (\<lambda>view.
       let l = vp_lease view in
       if \<not> has_lease (vp_execution view) then say ''no lease held'' (op_return 0)
       else
         say (''lease '' @ hex64 (lease_id l) @ '' generation '' @ dec (lease_generation l) @
           '' state '' @ lease_state_name (lease_state l))
         (say (''  execution_generation '' @ dec (lease_execution_generation l) @
           '' incarnation_generation '' @ dec (lease_incarnation_generation l))
         (say (''  worker '' @ hex64 (lease_worker l) @ '' boot '' @ hex64 (lease_boot l) @
           '' epoch '' @ dec (lease_epoch l))
         (say (''  policy_generation '' @ dec (lease_policy_generation l)) (op_return 0)))))"

definition command_snapshot :: "Surroundings \<Rightarrow> Args \<Rightarrow> nat prog" where
  "command_snapshot su args =
     pef_try (attempt (connect_client su args)) (\<lambda>_.
     pef_try (attempt (typed the_sequence (client_snapshot (args_has ''--truncate'' args)))) (\<lambda>sequence.
     say (''snapshot written journal_sequence='' @ dec sequence @
       '' journal_truncated='' @ yes_no (args_has ''--truncate'' args))
     (op_return 0)))"

section \<open>The demonstration\<close>

definition demo_policy :: ExecutionPolicy where
  "demo_policy =
     unset_policy\<lparr>pol_id := 1, pol_generation := 1, pol_checkpoint_interval_actions := 0\<rparr>"

definition begin_as :: "LeaseToken \<Rightarrow> SideEffectClass \<Rightarrow> string \<Rightarrow> BeginActionResult client_op" where
  "begin_as token cls source =
     pef_try next_request (\<lambda>i. typed the_begun (client_begin_action (begin_request i token cls [] source)))"

definition complete_as :: "LeaseToken \<Rightarrow> BeginActionResult \<Rightarrow> string \<Rightarrow> CompleteActionResult client_op" where
  "complete_as token action source =
     pef_try next_request (\<lambda>i.
     typed the_completed (client_complete_action (complete_request i token action source)))"

definition demo_step :: "LeaseToken \<Rightarrow> unit prog" where
  "demo_step token =
     pef_try (attempt (begin_as token Idempotent ''demo'')) (\<lambda>action.
     pef_try (attempt (complete_as token action ''demo'')) (\<lambda>committed.
     print_line (''[demo] committed ordinal '' @ dec (cres_ordinal committed) @
       '' progress_generation '' @ dec (cres_progress_generation committed))))"

definition demo_worker :: "Surroundings \<Rightarrow> u64 \<Rightarrow> BoundWorker prog" where
  "demo_worker su i =
     pef_try (bind_worker_process su i empty_bindings) (\<lambda>w. attempt (ensure_running True w))"

text \<open>Phase 1: durable progress with a checkpoint and a validated continuation.\<close>

definition demo_progress :: "Surroundings \<Rightarrow> unit prog" where
  "demo_progress su =
     pef_try (attempt (typed the_created (client_create_execution demo_policy))) (\<lambda>created.
     say (''[demo] created execution '' @ hex64 (cer_execution created))
     (pef_try (demo_worker su (cer_execution created)) (\<lambda>w.
     say (''[demo] bound worker boot='' @ hex64 (bw_boot w) @
       '' incarnation='' @ hex64 (tok_incarnation (bw_token w)))
     (pef_try (op_for (\<lambda>_. demo_step (bw_token w)) [1, 2, 3 :: nat]) (\<lambda>_.
     pef_try (attempt (query_view (cer_execution created))) (\<lambda>view.
     pef_try (attempt next_request) (\<lambda>request.
     pef_try (attempt (typed the_checkpointed (client_register_checkpoint
       \<lparr>rcr_request = request, rcr_token = bw_token w,
        rcr_expected_checkpoint = exec_checkpoint (vp_execution view),
        rcr_expected_checkpoint_generation = exec_checkpoint_generation (vp_execution view),
        rcr_content_size = 4096, rcr_content_hash = fnv1a ''demo-checkpoint'',
        rcr_effect_boundary_ordinal = exec_action_frontier (vp_execution view)\<rparr>))) (\<lambda>registered.
     say (''[demo] checkpoint generation '' @ dec (rres_checkpoint_generation registered) @
       '' lineage depth '' @ dec (rres_lineage_depth registered))
     (pef_try (attempt (typed the_verdict (client_validate_continuation (cer_execution created)))) (\<lambda>verdict.
     print_line (''[demo] continuation '' @ continuation_state_name (cv_state verdict) @
       '' ('' @ cv_reason verdict @ '')'')))))))))))"

text \<open>Phase 2: an interrupted non-repeatable action becomes an ambiguity.\<close>

definition demo_interruption :: "Surroundings \<Rightarrow> (u64 \<times> ViewPayload) prog" where
  "demo_interruption su =
     pef_try (attempt (typed the_created (client_create_execution demo_policy))) (\<lambda>risky.
     pef_try (demo_worker su (cer_execution risky)) (\<lambda>w.
     pef_try (attempt (begin_as (bw_token w) NonRepeatable ''demo'')) (\<lambda>action.
     say (''[demo] dispatched NON_REPEATABLE action ordinal '' @ dec (bres_ordinal action))
     (pef_try (attempt (client_fence (cer_execution risky) ''demo worker loss'')) (\<lambda>_.
     pef_try (attempt (typed the_recovered (client_recover (cer_execution risky)))) (\<lambda>recovered.
     say (''[demo] recovery decision '' @ recovery_decision_name (plan_decision (ro_plan recovered)))
     (say (''[demo] '' @ plan_explanation (ro_plan recovered))
     (pef_try (attempt (query_view (cer_execution risky))) (\<lambda>view.
     pef_try (if exec_blocked (vp_execution view)
       then print_line (''[demo] progress above ordinal '' @
         dec (exec_blocked_above_ordinal (vp_execution view)) @
         '' is blocked; automatic retry is refused'')
       else op_return ()) (\<lambda>_.
     op_return (cer_execution risky, view)))))))))))"

text \<open>Phase 3: an operator establishes that the effect did not apply.\<close>

definition demo_resolution :: "HelloReply \<Rightarrow> u64 \<Rightarrow> ViewPayload \<Rightarrow> unit prog" where
  "demo_resolution greeting risky view =
     pef_try (attempt next_request) (\<lambda>request.
     pef_try (attempt (typed the_resolved (client_resolve_ambiguity
       \<lparr>rar_request = request,
        rar_caller = \<lparr>caller_session = hrp_session greeting, caller_epoch = hrp_epoch greeting\<rparr>,
        rar_execution = risky, rar_ambiguity = exec_ambiguity (vp_execution view),
        rar_ambiguity_generation = exec_ambiguity_generation (vp_execution view),
        rar_resolution = ResolvedNotApplied, rar_evidence = evidence_from Synthetic ''demo-reconciler'',
        rar_note = ''external system confirmed no effect''\<rparr>))) (\<lambda>resolved.
     say (''[demo] ambiguity resolved as '' @ ambiguity_state_name (rars_state resolved) @
       ''; replay admitted='' @ yes_no (rars_replay_admitted resolved))
     (pef_try (attempt (typed the_recovered (client_recover risky))) (\<lambda>after.
     print_line (''[demo] post-resolution decision '' @
       recovery_decision_name (plan_decision (ro_plan after)))))))"

text \<open>Phase 4: the action is re-driven by a replacement worker.\<close>

definition demo_replay :: "Surroundings \<Rightarrow> u64 \<Rightarrow> unit prog" where
  "demo_replay su risky =
     pef_try (demo_worker su risky) (\<lambda>w.
     say (''[demo] replacement incarnation '' @ hex64 (tok_incarnation (bw_token w)) @
       '' lease '' @ hex64 (tok_lease (bw_token w)))
     (pef_try (attempt (begin_as (bw_token w) NonRepeatable ''demo-replay'')) (\<lambda>action.
     say (''[demo] re-drove logical action ordinal '' @ dec (bres_ordinal action) @
       '' generation '' @ dec (bres_action_generation action))
     (pef_try (attempt (complete_as (bw_token w) action ''demo-replay'')) (\<lambda>committed.
     print_line (''[demo] committed replay progress_generation '' @
       dec (cres_progress_generation committed)))))))"

definition command_demo :: "Surroundings \<Rightarrow> Args \<Rightarrow> nat prog" where
  "command_demo su args =
     pef_try (attempt (connect_client su args)) (\<lambda>greeting.
     say (''[demo] coordinator store='' @ hex64 (hrp_store greeting) @ '' epoch='' @ dec (hrp_epoch greeting))
     (pef_try (demo_progress su) (\<lambda>_.
     pef_try (demo_interruption su) (\<lambda>(risky, view).
     pef_try (demo_resolution greeting risky view) (\<lambda>_.
     pef_try (demo_replay su risky) (\<lambda>_.
     pef_try (attempt (typed the_report client_audit)) (\<lambda>audit.
     say (''[demo] audit violations='' @ decimal (violations audit))
     (op_return (if clean audit then 0 else 3)))))))))"

section \<open>The program\<close>

definition cli_main :: "Surroundings \<Rightarrow> Args \<Rightarrow> nat prog" where
  "cli_main su args =
     (if length args < 2 \<or> args_has ''--help'' args \<or> args_has ''-h'' args
      then pef_try print_usage (\<lambda>_. op_return (if length args < 2 then 2 else 0))
      else case operands args 1 of
        [] \<Rightarrow> usage_error
      | command # rest \<Rightarrow>
        if command = ''version'' then command_version su
        else if command = ''ping'' then command_ping su args
        else if command = ''audit'' then command_audit su args False
        else if command = ''verify'' then command_audit su args True
        else if command = ''snapshot'' then command_snapshot su args
        else if command = ''execution'' then
          (let verb = (case rest of [] \<Rightarrow> [] | v # _ \<Rightarrow> v) in
           if verb = ''start'' \<or> verb = ''resume'' then command_execution_start su args
           else command_execution su args)
        else if command = ''checkpoint'' then command_checkpoint su args
        else if command = ''continuation'' then command_continuation su args
        else if command = ''recovery'' then command_recovery su args
        else if command = ''ambiguity'' then command_ambiguity su args
        else if command = ''action'' then command_action su args
        else if command = ''progress'' then command_action su args
        else if command = ''lease'' then command_lease su args
        else if command = ''demo'' then command_demo su args
        else usage_error)"

text \<open>A default-constructed client, and a process that has just started.\<close>

definition new_client :: Client where
  "new_client =
     \<lparr>cl_channel = \<lparr>sk_valid = False, sk_sends = [], sk_output = [], sk_input = []\<rparr>,
      cl_request_counter = 0, cl_nonce = 0, cl_epoch = 0, cl_store = 0, cl_session = 0,
      cl_is_worker = False\<rparr>"

definition new_process :: "(string \<Rightarrow> FileStore) \<Rightarrow> Process" where
  "new_process stores =
     \<lparr>pr_client = new_client, pr_lines = [], pr_boots = 0, pr_stores = stores\<rparr>"

text \<open>The exit code and the process after the destructor of the client.\<close>

definition run_cli :: "Surroundings \<Rightarrow> Args \<Rightarrow> Process \<Rightarrow> nat \<times> Process" where
  "run_cli su args p =
     (let run = cli_main su args p in
      (exit_code run, (snd run)\<lparr>pr_client := client_close (pr_client (snd run))\<rparr>))"

end
