(* ===== verification/Worker_Program.thy ===== *)
theory Worker_Program
  imports Command_Line
begin

unbundle bit_operations_syntax

text \<open>
  The worker executable (\<open>apps/pef_worker/main.cpp\<close>): it connects, binds to an execution, lets
  the coordinator recover it, starts or resumes it and then plays one scenario. An abrupt death
  (\<open>die_now\<close>) is an exit code like any other here: nothing of the program runs after it.
\<close>

section \<open>What a reply consumes\<close>

text \<open>The bytes that a socket can still deliver.\<close>

fun delivered :: "Delivery \<Rightarrow> nat" where
  "delivered (Segment b) = length b"
| "delivered RecvError = 0"

definition pending :: "Socket \<Rightarrow> nat" where
  "pending s = sum_list (map delivered (sk_input s))"

lemma recv_some_pending: "recv_some n s = (Inr got, s') \<Longrightarrow> pending s = length got + pending s'"
  by (auto simp: recv_some_def pending_def Let_def split: if_splits list.splits Delivery.splits)

lemma recv_exact_pending:
  "recv_exact n s = (Inr got, s') \<Longrightarrow> pending s = n + pending s'"
proof (induction n s arbitrary: got s' rule: recv_exact.induct)
  case (1 n s)
  show ?case
  proof (cases "n = 0")
    case True
    then show ?thesis using 1(2) by (simp add: recv_exact.simps)
  next
    case False
    then obtain first s1 later where some: "recv_some n s = (Inr first, s1)" "first \<noteq> []"
      and rest: "recv_exact (n - length first) s1 = (Inr later, s')"
      using 1(2) by (auto simp: recv_exact.simps [of n] split: prod.splits sum.splits if_splits)
    show ?thesis
      using 1(1) [OF False some(1) [symmetric] refl some(2) rest] recv_some_pending [OF some(1)]
        recv_some_length [OF some(1)] by simp
  qed
qed

lemma channel_receive_pending:
  assumes "channel_receive s = (Inr f, s')"
  shows "pending s' < pending s"
  using assms unfolding channel_receive_def
  by (auto simp: pef_try_def op_fail_def op_return_def Let_def kFrameHeaderSize_def
      split: prod.splits sum.splits if_splits dest!: recv_exact_pending)

lemma exchange_pending:
  assumes "exchange t i payload c = (Inr f, c')"
  shows "pending (cl_channel c') < pending (cl_channel c)"
proof -
  obtain ch where sent: "channel_send (request_frame t i payload) (cl_channel c) = (Inr (), ch)"
    and got: "channel_receive ch = (Inr f, cl_channel c')"
    using assms
    by (auto simp: exchange_def op_read_def op_fail_def pef_try_def on_channel_def op_return_def
        split: if_splits prod.splits sum.splits)
  have "sk_input ch = sk_input (cl_channel c)" using send_all_success sent unfolding channel_send_def by blast
  then show ?thesis using channel_receive_pending [OF got] by (simp add: pending_def)
qed

lemma ping_pending:
  assumes "ping c = (Inr r, c')"
  shows "pending (cl_channel c') < pending (cl_channel c)"
  using assms
  by (auto simp: ping_def op_read_def pef_try_def next_request_def call_raw_def op_modify_def
      op_return_def op_fail_def split: prod.splits sum.splits option.splits dest!: exchange_pending)

section \<open>Waiting\<close>

text \<open>
  The worker polls the coordinator until a ping fails. Every answer takes bytes from the
  connection, so the loop ends when the coordinator stops answering; a coordinator that answers
  for ever is not an input of this model.
\<close>

function poll :: "Client \<Rightarrow> Client" where
  "poll c = (case ping c of (Inl e, c') \<Rightarrow> c' | (Inr r, c') \<Rightarrow> poll c')"
  by pat_completeness auto

termination
  by (relation "measure (\<lambda>c. pending (cl_channel c))") (auto dest: ping_pending [OF sym])

declare poll.simps [simp del]

definition poll_coordinator :: "unit prog" where
  "poll_coordinator = op_modify (\<lambda>p. p\<lparr>pr_client := poll (pr_client p)\<rparr>)"

section \<open>Identity, execution and bindings\<close>

definition default_class :: "string \<Rightarrow> SideEffectClass" where
  "default_class name = (case parse_side_effect_class name of None \<Rightarrow> Pure | Some c \<Rightarrow> c)"

definition worker_boot :: "Surroundings \<Rightarrow> Args \<Rightarrow> u64 \<Rightarrow> u64 prog" where
  "worker_boot su args worker =
     (case args_value ''--boot'' args of
        Some t \<Rightarrow> (case parse_id t True of None \<Rightarrow> op_fail 2 | Some boot \<Rightarrow> op_return boot)
      | None \<Rightarrow> mint_boot su worker)"

definition worker_connect :: "Surroundings \<Rightarrow> Args \<Rightarrow> u64 \<Rightarrow> u64 \<Rightarrow> HelloReply client_op" where
  "worker_connect su args worker boot =
     pef_try (client_connect (su_connect su (args_value_or ''--host'' ''127.0.0.1'' args)
       (ucast (args_u64_or ''--port'' 0 args))) (su_nonce su)) (\<lambda>_.
     hello_as_worker worker boot)"

definition worker_policy :: "Args \<Rightarrow> ExecutionPolicy" where
  "worker_policy args =
     (let p0 = unset_policy\<lparr>pol_id := 1, pol_generation := 1, pol_checkpoint_interval_actions := 0\<rparr>;
          p1 = (if args_has ''--allow-older-checkpoints'' args
            then p0\<lparr>pol_allow_older_checkpoints := True\<rparr> else p0);
          p2 = (if args_has ''--policy-recovery-manual'' args
            then p1\<lparr>pol_recovery_preference := RequireManualSelection\<rparr> else p1);
          p3 = (if args_has ''--policy-compensate'' args
            then p2\<lparr>pol_ambiguity_handling := RequireCompensation\<rparr> else p2)
      in if args_has ''--policy-manual-ambiguity'' args
         then p3\<lparr>pol_ambiguity_handling := ManualResolutionRequired\<rparr> else p3)"

definition worker_usage :: string where
  "worker_usage =
     ''usage: pef_worker --port N [--host H] [--name NAME] [--boot HEX16]'' @ newline @
     ''                  (--execution HEX16 | --create) --scenario NAME [options]'' @ newline @
     newline @
     ''scenarios:'' @ newline @
     ''  progress            run --steps actions and checkpoint every --checkpoint-every'' @ newline @
     ''  crash-in-flight     begin a non-repeatable action and die before any receipt'' @ newline @
     ''  crash-after-receipt begin a non-repeatable action, record a receipt, then die'' @ newline @
     ''  crash-before-ack    complete the effect, record a receipt, die before the commit ack'' @ newline @
     ''  idle                bind and wait until killed'' @ newline @
     newline @
     ''options:'' @ newline @
     ''  --steps N               number of actions for the progress scenario'' @ newline @
     ''  --checkpoint-every N    checkpoint cadence, 0 disables automatic checkpoints'' @ newline @
     ''  --effect-class CLS      PURE | IDEMPOTENT | REPEATABLE_WITH_KEY | COMPENSATABLE |'' @ newline @
     ''                          NON_REPEATABLE | UNKNOWN'' @ newline @
     ''  --request-key KEY       idempotency key for the action'' @ newline @
     ''  --receipt applied|not-applied|none'' @ newline @
     ''  --hold-ms N             idle time before the scenario finishes'' @ newline @
     ''  --fail-actions N        fail this many actions before succeeding'' @ newline"

definition worker_execution :: "Args \<Rightarrow> u64 prog" where
  "worker_execution args =
     (if args_has ''--create'' args then
        pef_try (attempt (typed the_created (client_create_execution (worker_policy args)))) (\<lambda>created.
        say (''WORKER CREATED execution='' @ hex64 (cer_execution created))
        (op_return (cer_execution created)))
      else case args_value ''--execution'' args of
        None \<Rightarrow> pef_try (print_line worker_usage) (\<lambda>_. op_fail 2)
      | Some t \<Rightarrow> (case parse_id t True of None \<Rightarrow> op_fail 2 | Some i \<Rightarrow> op_return i))"

text \<open>A binding that does not parse ends the worker; the command line skips it.\<close>

fun parse_bindings :: "Args \<Rightarrow> BindingRef list option" where
  "parse_bindings [] = Some []"
| "parse_bindings (t # ts) =
     (case parse_binding t of
        None \<Rightarrow> None
      | Some r \<Rightarrow> (case parse_bindings ts of None \<Rightarrow> None | Some rs \<Rightarrow> Some (r # rs)))"

definition worker_bindings :: "Args \<Rightarrow> BindingSet prog" where
  "worker_bindings args =
     (case parse_bindings (args_values ''--binding'' (tl args)) of
        None \<Rightarrow> op_fail 2
      | Some refs \<Rightarrow> op_return (canonicalize \<lparr>bset_refs = refs\<rparr>))"

text \<open>
  The token of the binding. Its execution generation is 1 whatever the lifecycle is, until the
  query that follows replaces it.
\<close>

definition worker_bind :: "u64 \<Rightarrow> u64 \<Rightarrow> u64 \<Rightarrow> BindingSet \<Rightarrow> LeaseToken prog" where
  "worker_bind worker boot execution bindings =
     pef_try (attempt next_request) (\<lambda>i.
     pef_try (attempt (typed the_bound (client_bind_worker
       \<lparr>bwq_request = i, bwq_execution = execution, bwq_worker = worker, bwq_boot = boot,
        bwq_bindings = bindings\<rparr>))) (\<lambda>bound.
     say (''WORKER BOUND execution='' @ hex64 execution @ '' incarnation='' @ hex64 (bwr_incarnation bound) @
       '' incarnation_generation='' @ dec (bwr_incarnation_generation bound) @
       '' lease='' @ hex64 (bwr_lease bound) @ '' lease_generation='' @ dec (bwr_lease_generation bound) @
       '' lifecycle='' @ lifecycle_name (bwr_lifecycle bound))
     (op_read (\<lambda>p.
       let token = (lease_token execution bound (cl_epoch (pr_client p)) worker boot)
             \<lparr>tok_execution_generation := 1\<rparr>
       in pef_try (client_status (query_view execution)) (\<lambda>queried.
          case queried of
            Inl e \<Rightarrow> op_return token
          | Inr view \<Rightarrow> op_return (token
              \<lparr>tok_execution_generation := exec_generation (vp_execution view),
               tok_policy_generation := exec_policy_generation (vp_execution view)\<rparr>))))))"

section \<open>Recovery and start\<close>

definition worker_recover :: "Surroundings \<Rightarrow> u64 \<Rightarrow> unit prog" where
  "worker_recover su execution =
     pef_try (client_status (query_view execution)) (\<lambda>queried.
     case queried of
       Inl e \<Rightarrow> op_return ()
     | Inr view \<Rightarrow>
       if exec_lifecycle (vp_execution view) = Running then op_return ()
       else
         pef_try (client_status (typed the_recovered (client_recover execution))) (\<lambda>recovered.
         case recovered of
           Inl e \<Rightarrow> print_line (''WORKER RECOVERY_REFUSED '' @ su_refusal su e)
         | Inr out \<Rightarrow> print_line (''WORKER RECOVERED decision='' @
             recovery_decision_name (plan_decision (ro_plan out)) @
             '' committed_from_receipt='' @ yes_no (ro_committed out))))"

definition worker_go :: "u64 \<Rightarrow> LeaseToken \<Rightarrow> BindingSet \<Rightarrow> unit prog" where
  "worker_go execution token bindings =
     pef_try (attempt (query_view execution)) (\<lambda>view.
     if exec_lifecycle (vp_execution view) = Ready then
       pef_try (attempt next_request) (\<lambda>i.
       pef_try (attempt (client_start \<lparr>srq_request = i, srq_token = token\<rparr>)) (\<lambda>_.
       print_line ''WORKER STARTED''))
     else if exec_lifecycle (vp_execution view) \<noteq> Running then
       pef_try (attempt next_request) (\<lambda>i.
       pef_try (attempt (typed the_resumed (client_resume
         \<lparr>rrq_request = i, rrq_token = token, rrq_observed_bindings = bindings,
          rrq_revalidate_bindings = True\<rparr>))) (\<lambda>resumed.
       print_line (''WORKER RESUMED lifecycle='' @ lifecycle_name (rsr_lifecycle resumed) @
         '' continuation='' @ continuation_state_name (rsr_continuation_state resumed))))
     else op_return ())"

section \<open>Scenarios\<close>

definition worker_idle :: "Args \<Rightarrow> nat prog" where
  "worker_idle args =
     (if args_int_or ''--hold-ms'' 0 args > 0 then op_return 0
      else pef_try poll_coordinator (\<lambda>_. op_return 0))"

definition worker_begin :: "LeaseToken \<Rightarrow> SideEffectClass \<Rightarrow> string \<Rightarrow> BeginActionResult prog" where
  "worker_begin token cls key =
     pef_try (attempt next_request) (\<lambda>i.
     attempt (typed the_begun (client_begin_action (begin_request i token cls key ''worker''))))"

definition worker_receipt :: "LeaseToken \<Rightarrow> BeginActionResult \<Rightarrow> bool \<Rightarrow> unit prog" where
  "worker_receipt token action applied =
     pef_try (attempt next_request) (\<lambda>i.
     pef_try (attempt (client_report_side_effect
       \<lparr>rse_request = i, rse_token = token, rse_action = bres_action action,
        rse_action_generation = bres_action_generation action, rse_applied = applied,
        rse_evidence = evidence_from Real ''external-receipt''\<rparr>)) (\<lambda>_.
     print_line (''WORKER RECEIPT applied='' @ yes_no applied)))"

definition worker_crash :: "string \<Rightarrow> Args \<Rightarrow> LeaseToken \<Rightarrow> SideEffectClass \<Rightarrow> string \<Rightarrow> nat prog" where
  "worker_crash scenario args token cls key =
     pef_try (worker_begin token cls key) (\<lambda>action.
     say (''WORKER ACTION ordinal='' @ dec (bres_ordinal action) @ '' action='' @
       hex64 (bres_action action) @ '' class='' @ side_effect_class_name cls)
     (pef_try (if scenario = ''crash-in-flight'' then op_return ()
       else worker_receipt token action (args_value_or ''--receipt'' ''none'' args \<noteq> ''not-applied'')) (\<lambda>_.
     say (''WORKER CRASHING scenario='' @ scenario) (op_return 3))))"

definition worker_failure :: "LeaseToken \<Rightarrow> BeginActionResult \<Rightarrow> unit prog" where
  "worker_failure token action =
     pef_try (attempt next_request) (\<lambda>i.
     pef_try (attempt (client_fail_action
       \<lparr>far_request = i, far_token = token, far_action = bres_action action,
        far_action_generation = bres_action_generation action,
        far_evidence = evidence_from Real ''worker'', far_reason = ''scripted failure''\<rparr>)) (\<lambda>_.
     print_line (''WORKER ACTION_FAILED ordinal='' @ dec (bres_ordinal action))))"

text \<open>The checkpoint after a step; a query that fails skips it.\<close>

definition worker_checkpoint :: "u64 \<Rightarrow> LeaseToken \<Rightarrow> string \<Rightarrow> u64 \<Rightarrow> u64 \<Rightarrow> unit prog" where
  "worker_checkpoint execution token key step ordinal =
     pef_try (client_status (query_view execution)) (\<lambda>queried.
     case queried of
       Inl e \<Rightarrow> op_return ()
     | Inr view \<Rightarrow>
       pef_try (attempt next_request) (\<lambda>i.
       pef_try (attempt (typed the_checkpointed (client_register_checkpoint
         \<lparr>rcr_request = i, rcr_token = token,
          rcr_expected_checkpoint = exec_checkpoint (vp_execution view),
          rcr_expected_checkpoint_generation = exec_checkpoint_generation (vp_execution view),
          rcr_content_size = 1024 * (step + 1), rcr_content_hash = fnv1a key XOR (step + 1),
          rcr_effect_boundary_ordinal = ordinal\<rparr>))) (\<lambda>registered.
       print_line (''WORKER CHECKPOINT generation='' @ dec (rres_checkpoint_generation registered) @
         '' depth='' @ dec (rres_lineage_depth registered) @
         '' continuation='' @ continuation_state_name Valid))))"

record WorkerPlan =
  wp_execution :: u64
  wp_token :: LeaseToken
  wp_class :: SideEffectClass
  wp_key :: string
  wp_checkpoint_every :: u64
  wp_fail_actions :: u64

definition worker_step :: "WorkerPlan \<Rightarrow> u64 \<Rightarrow> unit prog" where
  "worker_step w step =
     pef_try (worker_begin (wp_token w) (wp_class w)
       (if requires_request_key (wp_class w) then wp_key w else [])) (\<lambda>action.
     if step < wp_fail_actions w then worker_failure (wp_token w) action
     else
       pef_try (attempt next_request) (\<lambda>i.
       pef_try (attempt (typed the_completed (client_complete_action
         (complete_request i (wp_token w) action ''worker'')))) (\<lambda>committed.
       say (''WORKER STEP ordinal='' @ dec (cres_ordinal committed) @
         '' progress_generation='' @ dec (cres_progress_generation committed) @
         '' commit='' @ hex64 (cres_commit committed) @
         '' duplicate='' @ yes_no (cres_duplicate committed))
       (if wp_checkpoint_every w > 0 \<and> (step + 1) mod wp_checkpoint_every w = 0
        then worker_checkpoint (wp_execution w) (wp_token w) (wp_key w) step (cres_ordinal committed)
        else op_return ()))))"

definition worker_steps :: "WorkerPlan \<Rightarrow> u64 \<Rightarrow> unit prog" where
  "worker_steps w steps = op_for (\<lambda>n. worker_step w (word_of_nat n)) [0..<unat steps]"

definition close_process :: "unit prog" where
  "close_process = op_modify (\<lambda>p. p\<lparr>pr_client := client_close (pr_client p)\<rparr>)"

definition worker_finish :: "Args \<Rightarrow> u64 \<Rightarrow> u64 \<Rightarrow> nat prog" where
  "worker_finish args execution steps =
     (if args_int_or ''--hold-ms'' 0 args < 0 then
        say ''WORKER HOLDING''
        (pef_try poll_coordinator (\<lambda>_. say ''WORKER CONNECTION LOST'' (op_return 0)))
      else
        say (''WORKER DONE steps='' @ dec steps)
        (pef_try (client_status (query_view execution)) (\<lambda>queried.
        pef_try (case queried of
            Inl e \<Rightarrow> op_return ()
          | Inr view \<Rightarrow> print_line (''WORKER FINAL progress_generation='' @
              dec (exec_progress_generation (vp_execution view)) @
              '' committed='' @ dec (exec_committed_actions (vp_execution view)) @
              '' lifecycle='' @ lifecycle_name (exec_lifecycle (vp_execution view)))) (\<lambda>_.
        pef_try close_process (\<lambda>_. op_return 0)))))"

section \<open>The program\<close>

definition crash_scenario :: "string \<Rightarrow> bool" where
  "crash_scenario scenario \<longleftrightarrow>
     scenario = ''crash-in-flight'' \<or> scenario = ''crash-after-receipt'' \<or> scenario = ''crash-before-ack''"

definition worker_play :: "Surroundings \<Rightarrow> Args \<Rightarrow> string \<Rightarrow> u64 \<Rightarrow> LeaseToken \<Rightarrow> BindingSet \<Rightarrow> nat prog" where
  "worker_play su args scenario execution token bindings =
     (if scenario = ''idle'' then worker_idle args
      else
        pef_try (worker_recover su execution) (\<lambda>_.
        pef_try (worker_go execution token bindings) (\<lambda>_.
        let cls = default_class (args_value_or ''--effect-class'' ''PURE'' args);
            key = args_value_or ''--request-key''
              (''key-'' @ args_value_or ''--name'' ''pef-worker'' args) args;
            steps = args_u64_or ''--steps'' 3 args
        in if crash_scenario scenario then worker_crash scenario args token cls key
           else
             pef_try (worker_steps
               \<lparr>wp_execution = execution, wp_token = token, wp_class = cls, wp_key = key,
                wp_checkpoint_every = args_u64_or ''--checkpoint-every'' 0 args,
                wp_fail_actions = args_u64_or ''--fail-actions'' 0 args\<rparr> steps) (\<lambda>_.
             worker_finish args execution steps))))"

definition worker_main :: "Surroundings \<Rightarrow> Args \<Rightarrow> nat prog" where
  "worker_main su args =
     (if args_has ''--help'' args \<or> args_has ''-h'' args
      then say worker_usage (op_return 0)
      else if args_has ''--version'' args then say (build_info_string su) (op_return 0)
      else
        (let name = args_value_or ''--name'' ''pef-worker'' args;
             worker = derive_worker_id name
         in
         pef_try (worker_boot su args worker) (\<lambda>boot.
         pef_try (attempt (worker_connect su args worker boot)) (\<lambda>greeting.
         say (''WORKER READY name='' @ name @ '' worker='' @ hex64 worker @ '' boot='' @ hex64 boot @
           '' epoch='' @ dec (hrp_epoch greeting) @ '' session='' @ dec (hrp_session greeting))
         (pef_try (worker_execution args) (\<lambda>execution.
         pef_try (worker_bindings args) (\<lambda>bindings.
         pef_try (worker_bind worker boot execution bindings) (\<lambda>token.
         worker_play su args (args_value_or ''--scenario'' ''progress'' args) execution token bindings))))))))"

end
