(* ===== verification/Coordinator_Program.thy ===== *)
theory Coordinator_Program
  imports Command_Line
begin

text \<open>
  The coordinator executable (\<open>apps/pef_coordinator/main.cpp\<close>): the configuration it reads from
  its arguments, what it does before it serves and after. What happens in between, the accept
  loop and the connection threads until the server is asked to stop, is the argument
  \<open>serving\<close>; the transition system of the server says which functions it can be.
\<close>

record CoordinatorProcess =
  cp_server :: Server
  cp_lines :: "string list"

type_synonym 'a coordinator_op = "(nat, CoordinatorProcess, 'a) oper"

definition cp_print :: "string \<Rightarrow> unit coordinator_op" where
  "cp_print t = op_modify (\<lambda>p. p\<lparr>cp_lines := cp_lines p @ [t]\<rparr>)"

definition coordinator_usage :: string where
  "coordinator_usage =
     ''usage: pef_coordinator --store <dir> [--create] [--host H] [--port N]'' @ newline @
     ''                       [--max-connections N] [--request-cache N]'' @ newline @
     ''                       [--no-remote-shutdown] [--snapshot-on-start]'' @ newline @
     ''                       [--run-ms N]'' @ newline @
     newline @
     ''  --store <dir>            durable store directory (required)'' @ newline @
     ''  --create                 create the store when it does not exist'' @ newline @
     ''  --host <address>         bind address, default 127.0.0.1'' @ newline @
     ''  --port <n>               bind port, 0 selects an ephemeral port'' @ newline @
     ''  --max-connections <n>    concurrent control-plane connections'' @ newline @
     ''  --request-cache <n>      replayed request identities retained'' @ newline @
     ''  --no-remote-shutdown     refuse the SHUTDOWN message'' @ newline @
     ''  --snapshot-on-start      write a snapshot after recovery'' @ newline @
     ''  --run-ms <n>             stop after n milliseconds, 0 means run until asked'' @ newline"

text \<open>The members that no argument sets have the defaults of \<open>RuntimeConfig\<close>.\<close>

definition coordinator_config :: "Args \<Rightarrow> string \<Rightarrow> ServerConfig" where
  "coordinator_config args store =
     (let cache = unat (args_u64_or ''--request-cache'' 8192 args) in
      \<lparr>svc_host = args_value_or ''--host'' ''127.0.0.1'' args,
       svc_port = ucast (args_u64_or ''--port'' 0 args), svc_store_path = store,
       svc_runtime = \<lparr>cfg_create_if_missing = args_has ''--create'' args,
         cfg_store_limits = default_store_limits, cfg_max_executions = 100000,
         cfg_request_cache_size = cache, cfg_max_view_actions = 256\<rparr>,
       svc_max_connections = unat (args_u64_or ''--max-connections'' 64 args),
       svc_request_cache_size = cache,
       svc_allow_remote_shutdown = (\<not> args_has ''--no-remote-shutdown'' args)\<rparr>)"

text \<open>A call of the runtime by the owner of the server; its failure is only reported.\<close>

definition on_runtime :: "'a rt_op \<Rightarrow> unit coordinator_op" where
  "on_runtime m =
     op_modify (\<lambda>p. p\<lparr>cp_server := (cp_server p)
       \<lparr>sv_runtime := snd (m (sv_runtime (cp_server p)))\<rparr>\<rparr>)"

text \<open>
  \<open>entropy\<close> is for a new store, \<open>listening\<close> the result of opening the listener with the port it
  has got, and \<open>detail\<close> the recovery text of the outcome.
\<close>

definition coordinator_start ::
  "Args \<Rightarrow> string \<Rightarrow> u64 \<Rightarrow> Code + u16 \<Rightarrow> string \<Rightarrow> unit coordinator_op" where
  "coordinator_start args store entropy listening detail p =
     (let config = coordinator_config args store in
      case server_start config entropy (map_sum id (\<lambda>_. ()) listening) (cp_server p) of
        (Inl code, s) \<Rightarrow> (Inl 1, p\<lparr>cp_server := s\<rparr>)
      | (Inr out, s) \<Rightarrow>
        (pef_try (cp_print (''PEF COORDINATOR READY host='' @ svc_host config @
            '' port='' @ (case listening of Inl _ \<Rightarrow> [] | Inr port \<Rightarrow> dec port) @
            '' epoch='' @ dec (ds_epoch (rt_state (sv_runtime s))) @
            '' store='' @ hex64 (ds_store (rt_state (sv_runtime s))) @
            '' state='' @ (if oo_created out then ''created'' else ''recovered'') @
            '' leases_revoked='' @ decimal (oo_leases_revoked out) @
            '' reclassified='' @ decimal (length (oo_reclassified out)))) (\<lambda>_.
         pef_try (if args_has ''--verbose'' args then cp_print (explain_restart out detail)
           else op_return ()) (\<lambda>_.
         if args_has ''--snapshot-on-start'' args then on_runtime (take_snapshot False)
         else op_return ()))) (p\<lparr>cp_server := s\<rparr>))"

definition coordinator_finish :: "nat coordinator_op" where
  "coordinator_finish =
     pef_try (op_modify (\<lambda>p. p\<lparr>cp_server :=
       (if stop_ignored (cp_server p) then cp_server p
        else finish_stop (request_stop (cp_server p)))\<rparr>)) (\<lambda>_.
     pef_try (on_runtime rt_flush) (\<lambda>_.
     op_read (\<lambda>p.
     pef_try (cp_print (''PEF COORDINATOR STOPPED requests='' @ dec (sv_requests (cp_server p)) @
       '' refusals='' @ dec (sv_refusals (cp_server p)) @
       '' replayed='' @ dec (sv_replayed (cp_server p)) @
       '' connections='' @ decimal (sv_active_connections (cp_server p)))) (\<lambda>_.
     pef_try (op_modify (\<lambda>p. p\<lparr>cp_server := snd (shutdown_runtime (cp_server p))\<rparr>)) (\<lambda>_.
     op_return 0)))))"

definition coordinator_main ::
  "Surroundings \<Rightarrow> Args \<Rightarrow> u64 \<Rightarrow> Code + u16 \<Rightarrow> string \<Rightarrow> (Server \<Rightarrow> Server) \<Rightarrow> nat coordinator_op" where
  "coordinator_main su args entropy listening detail serving =
     (if args_has ''--help'' args \<or> args_has ''-h'' args
      then pef_try (cp_print coordinator_usage) (\<lambda>_. op_return 0)
      else if args_has ''--version'' args
      then pef_try (cp_print (build_info_string su)) (\<lambda>_. op_return 0)
      else case args_value ''--store'' args of
        None \<Rightarrow> pef_try (cp_print coordinator_usage) (\<lambda>_. op_return 2)
      | Some store \<Rightarrow>
        pef_try (coordinator_start args store entropy listening detail) (\<lambda>_.
        pef_try (op_modify (\<lambda>p. p\<lparr>cp_server := serving (cp_server p)\<rparr>)) (\<lambda>_.
        coordinator_finish)))"

section \<open>Facts\<close>

text \<open>What the coordinator does after serving leaves the durable state as it was.\<close>

lemma rt_flush_state: "rt_state (snd (rt_flush r)) = rt_state r"
  by (simp add: rt_flush_def op_read_def op_fail_def on_store_state)

lemma wp_on_store_state: "wp (on_store m) (\<lambda>res r'. rt_state r' = s) r \<longleftrightarrow> rt_state r = s"
  using on_store_state [of m r] by (simp add: wp_snd)

lemma wp_on_store_step:
  assumes "rt_state r = s" and "\<And>a r'. rt_state r' = s \<Longrightarrow> wp (f a) (\<lambda>res r'. rt_state r' = s) r'"
  shows "wp (pef_try (on_store m) f) (\<lambda>res r'. rt_state r' = s) r"
proof -
  have "wp (on_store m) (\<lambda>res r'. rt_state r' = s) r" using assms(1) by (simp add: wp_on_store_state)
  then show ?thesis
    unfolding wp_try by (rule wp_mono) (simp add: assms(2) split: sum.split)
qed

lemma shutdown_state: "rt_state (snd (shutdown r)) = rt_state r"
proof -
  have "wp shutdown (\<lambda>res r'. rt_state r' = rt_state r) r"
    unfolding shutdown_def wp_read
    by (simp add: wp_return wp_try [of "op_modify _"] wp_modify, rule impI)
      (intro wp_on_store_step; simp add: wp_modify)
  then show ?thesis by (simp add: wp_snd)
qed

lemma coordinator_finish_state:
  "wp coordinator_finish (\<lambda>result p'. result = Inr 0 \<and>
     rt_state (sv_runtime (cp_server p')) = rt_state (sv_runtime (cp_server p))) p"
proof -
  have "rt_state (sv_runtime (snd (shutdown_runtime s))) = rt_state (sv_runtime s)" for s
    using shutdown_state [of "sv_runtime s"]
    by (cases "shutdown (sv_runtime s)") (simp add: shutdown_runtime_def)
  then show ?thesis
    by (simp add: coordinator_finish_def wp_rules on_runtime_def cp_print_def rt_flush_state
        finish_stop_def request_stop_def)
qed

end
