(* ===== verification/Tool_Behaviour.thy ===== *)
theory Tool_Behaviour
  imports Worker_Program Coordinator_Program
begin

text \<open>
  What the executables do: the exit codes that each command can end with, that offline
  inspection leaves the files of a store alone, and how the lines of the worker count its steps.
\<close>

section \<open>Exit codes\<close>

named_theorems exit_rules \<open>which exit codes a program can end with\<close>

definition exits :: "nat set \<Rightarrow> nat prog \<Rightarrow> bool" where
  "exits S m \<longleftrightarrow> (\<forall>p. exit_code (m p) \<in> S)"

text \<open>A part of a program: the codes with which it can end the program.\<close>

definition stops :: "nat set \<Rightarrow> 'a prog \<Rightarrow> bool" where
  "stops S m \<longleftrightarrow> (\<forall>p n. fst (m p) = Inl n \<longrightarrow> n \<in> S)"

lemma exits_try [exit_rules]: "stops S m \<Longrightarrow> (\<And>a. exits S (f a)) \<Longrightarrow> exits S (pef_try m f)"
proof -
  assume m: "stops S m" and f: "\<And>a. exits S (f a)"
  have "exit_code (pef_try m f p) \<in> S" for p
  proof (cases "m p")
    case (Pair result q)
    then show ?thesis
      using m [unfolded stops_def, rule_format, of p] f [unfolded exits_def]
      by (cases result) (simp_all add: pef_try_def exit_code_def)
  qed
  then show ?thesis by (simp add: exits_def)
qed

lemma stops_try [exit_rules]: "stops S m \<Longrightarrow> (\<And>a. stops S (f a)) \<Longrightarrow> stops S (pef_try m f)"
proof -
  assume m: "stops S m" and f: "\<And>a. stops S (f a)"
  have "n \<in> S" if "fst (pef_try m f p) = Inl n" for p n
  proof (cases "m p")
    case (Pair result q)
    then show ?thesis
      using that m [unfolded stops_def, rule_format, of p] f [unfolded stops_def]
      by (cases result) (simp_all add: pef_try_def)
  qed
  then show ?thesis by (simp add: stops_def)
qed

lemma exits_return [exit_rules]: "n \<in> S \<Longrightarrow> exits S (op_return n)"
  by (simp add: exits_def exit_code_def op_return_def)

lemma stops_return [exit_rules]: "stops S (op_return a)"
  by (simp add: stops_def op_return_def)

lemma stops_fail [exit_rules]: "n \<in> S \<Longrightarrow> stops S (op_fail n)"
  by (simp add: stops_def op_fail_def)

lemma stops_modify [exit_rules]: "stops S (op_modify f)"
  by (simp add: stops_def op_modify_def)

lemma exits_read [exit_rules]: "(\<And>p. exits S (f p)) \<Longrightarrow> exits S (op_read f)"
  by (simp add: exits_def op_read_def)

lemma stops_read [exit_rules]: "(\<And>p. stops S (f p)) \<Longrightarrow> stops S (op_read f)"
  by (simp add: stops_def op_read_def)

lemma exits_if [exit_rules]: "exits S x \<Longrightarrow> exits S y \<Longrightarrow> exits S (if b then x else y)"
  by simp

lemma stops_if [exit_rules]: "stops S x \<Longrightarrow> stops S y \<Longrightarrow> stops S (if b then x else y)"
  by simp

lemma exits_option [exit_rules]: "exits S x \<Longrightarrow> (\<And>a. exits S (f a)) \<Longrightarrow> exits S (case_option x f v)"
  by (simp split: option.split)

lemma stops_option [exit_rules]: "stops S x \<Longrightarrow> (\<And>a. stops S (f a)) \<Longrightarrow> stops S (case_option x f v)"
  by (simp split: option.split)

lemma stops_sum [exit_rules]:
  "(\<And>a. stops S (f a)) \<Longrightarrow> (\<And>a. stops S (g a)) \<Longrightarrow> stops S (case_sum f g v)"
  by (simp split: sum.split)

lemma exits_list [exit_rules]: "exits S x \<Longrightarrow> (\<And>a as. exits S (f a as)) \<Longrightarrow> exits S (case_list x f v)"
  by (simp split: list.split)

lemma exits_prod [exit_rules]: "(\<And>a b. exits S (f a b)) \<Longrightarrow> exits S (case_prod f v)"
  by (simp split: prod.split)

lemma stops_prod [exit_rules]: "(\<And>a b. stops S (f a b)) \<Longrightarrow> stops S (case_prod f v)"
  by (simp split: prod.split)

lemma stops_print [exit_rules]: "stops S (print_line t)"
  by (simp add: print_line_def stops_modify)

lemma exits_say [exit_rules]: "exits S k \<Longrightarrow> exits S (say t k)"
  by (simp add: say_def exits_try stops_print)

lemma stops_say [exit_rules]: "stops S k \<Longrightarrow> stops S (say t k)"
  by (simp add: say_def stops_try stops_print)

lemma stops_status [exit_rules]: "stops S (client_status m)"
  by (simp add: stops_def client_status_def split: prod.split)

lemma stops_attempt [exit_rules]: "1 \<in> S \<Longrightarrow> stops S (attempt m)"
  unfolding attempt_def by (intro exit_rules)

lemma stops_mint [exit_rules]: "stops S (mint_boot su w)"
  by (simp add: stops_def mint_boot_def)

lemma stops_offline [exit_rules]: "1 \<in> S \<Longrightarrow> stops S (offline path)"
  by (simp add: stops_def offline_def split: prod.split sum.split)

lemma stops_for [exit_rules]: "(\<And>x. stops S (f x)) \<Longrightarrow> stops S (op_for f xs)"
  by (induction xs) (auto intro: exit_rules)

lemma exits_fail [exit_rules]: "1 \<in> S \<Longrightarrow> exits S fail"
  by (simp add: fail_def exits_return)

lemma exits_report [exit_rules]: "{0, 1} \<subseteq> S \<Longrightarrow> exits S (report m)"
  unfolding report_def by (intro exit_rules) simp_all

lemma exits_usage [exit_rules]: "2 \<in> S \<Longrightarrow> exits S usage_error"
  unfolding usage_error_def print_usage_def by (intro exit_rules)

lemma stops_worker_process [exit_rules]: "1 \<in> S \<Longrightarrow> stops S (bind_worker_process su i bs)"
  unfolding bind_worker_process_def Let_def by (intro exit_rules)

lemma stops_demo_worker [exit_rules]: "1 \<in> S \<Longrightarrow> stops S (demo_worker su i)"
  unfolding demo_worker_def by (intro exit_rules)

lemma stops_demo_step [exit_rules]: "1 \<in> S \<Longrightarrow> stops S (demo_step token)"
  unfolding demo_step_def by (intro exit_rules)

lemma stops_demo [exit_rules]:
  assumes "1 \<in> S"
  shows "stops S (demo_progress su)" "stops S (demo_interruption su)"
    "stops S (demo_resolution g i v)" "stops S (demo_replay su i)"
  unfolding demo_progress_def demo_interruption_def demo_resolution_def demo_replay_def
  by (intro exit_rules assms; simp)+

lemma exits_on_operands [exit_rules]:
  assumes "1 \<in> S" "2 \<in> S" and "\<And>verb g i. exits S (k verb g i)"
  shows "exits S (on_operands su args k)"
  unfolding on_operands_def Let_def by (intro exit_rules assms)

lemma exits_on_execution_operand [exit_rules]:
  assumes "1 \<in> S" and "\<And>v. exits S (k v)"
  shows "exits S (on_execution_operand su args k)"
  unfolding on_execution_operand_def by (intro exit_rules assms)

text \<open>The commands that only end with success, a failure or the usage text.\<close>

lemma exits_inspect [exit_rules]:
  "exits {0, 1, 2} (command_version su)" "exits {0, 1, 2} (command_ping su args)"
  "exits {0, 1, 2} (command_audit su args False)" "exits {0, 1, 2} (command_snapshot su args)"
  unfolding command_version_def command_ping_def command_audit_def audit_exit_def command_snapshot_def
  by (intro exit_rules; simp)+

lemma exits_executions [exit_rules]:
  "exits {0, 1, 2} (execution_create args)" "exits {0, 1, 2} (execution_list args)"
  "exits {0, 1, 2} (execution_show args i)" "exits {0, 1, 2} (execution_policy args i)"
  "exits {0, 1, 2} (execution_suspend i)"
  unfolding execution_create_def execution_list_def execution_show_def execution_policy_def
    execution_suspend_def Let_def
  by (intro exit_rules; simp)+

lemma exits_execution [exit_rules]:
  "exits {0, 1, 2} (execution_verb verb args i)" "exits {0, 1, 2} (command_execution su args)"
  "exits {0, 1, 2} (command_execution_start su args)"
proof -
  show verb: "exits {0, 1, 2} (execution_verb verb args i)" for verb args i
    unfolding execution_verb_def Let_def by (intro exit_rules; simp)+
  show "exits {0, 1, 2} (command_execution su args)"
    unfolding command_execution_def Let_def by (intro exit_rules verb; simp)+
  show "exits {0, 1, 2} (command_execution_start su args)"
    unfolding command_execution_start_def by (intro exit_rules; simp)+
qed

lemma exits_checkpoint [exit_rules]: "exits {0, 1, 2} (command_checkpoint su args)"
proof -
  have "exits {0, 1, 2} (checkpoint_create su args i)" for i
    unfolding checkpoint_create_def by (intro exit_rules; simp)+
  then show ?thesis
    unfolding command_checkpoint_def by (intro exit_rules) simp_all
qed

lemma exits_ambiguity [exit_rules]: "exits {0, 1, 2} (command_ambiguity su args)"
proof -
  have "exits {0, 1, 2} (ambiguity_list v)" "exits {0, 1, 2} (ambiguity_resolve args g i v)" for g i v
    unfolding ambiguity_list_def ambiguity_resolve_def Let_def
    by (intro exit_rules; simp)+
  then show ?thesis unfolding command_ambiguity_def by (intro exit_rules) simp_all
qed

lemma exits_groups [exit_rules]:
  "exits {0, 1, 2} (command_continuation su args)" "exits {0, 1, 2} (command_recovery su args)"
  "exits {0, 1, 2} (command_action su args)" "exits {0, 1, 2} (command_lease su args)"
  unfolding command_continuation_def command_recovery_def command_action_def command_lease_def Let_def
  by (intro exit_rules; simp)+

lemma exits_verify [exit_rules]: "exits {0, 1, 2, 3} (command_audit su args True)"
  unfolding command_audit_def audit_exit_def by (intro exit_rules; simp)+

lemma exits_demo [exit_rules]: "exits {0, 1, 2, 3} (command_demo su args)"
  unfolding command_demo_def by (intro exit_rules; simp)+

lemma exits_mono: "exits S m \<Longrightarrow> S \<subseteq> T \<Longrightarrow> exits T m"
  by (auto simp: exits_def)

text \<open>The same for a program that can also end with 3.\<close>

lemmas exits_three = exits_inspect [THEN exits_mono] exits_execution [THEN exits_mono]
  exits_checkpoint [THEN exits_mono] exits_ambiguity [THEN exits_mono] exits_groups [THEN exits_mono]

section \<open>Offline inspection\<close>

text \<open>The directory and the bytes of the journal, the snapshot and the temporary file.\<close>

definition files :: "FileStore \<Rightarrow> DirState \<times> bytes option \<times> bytes option \<times> bytes option" where
  "files s = (fs_dir s, fs_journal s, fs_snapshot s, fs_temp s)"

definition quiet :: "'a store_op \<Rightarrow> bool" where
  "quiet m \<longleftrightarrow> (\<forall>s. files (snd (m s)) = files s)"

interpretation same_files: state_preorder "\<lambda>s t. files t = files s"
  by unfold_locales auto

lemma quiet_try: "quiet m \<Longrightarrow> (\<And>a. quiet (f a)) \<Longrightarrow> quiet (pef_try m f)"
  unfolding quiet_def by (blast intro: same_files.R_try)

lemma quiet_basic:
  "quiet (op_return a)" "quiet (op_fail e)" "(\<And>s. quiet (g s)) \<Longrightarrow> quiet (op_read g)"
  "(\<And>s. files (f s) = files s) \<Longrightarrow> quiet (op_modify f)"
  by (auto simp: quiet_def same_files.R_return same_files.R_fail op_read_def op_modify_def)

lemma quiet_io_call: "quiet io_call"
  by (auto simp: quiet_def io_call_def files_def split: list.split)

lemma quiet_io_simple: "(\<And>s. files (f s) = files s) \<Longrightarrow> quiet (io_simple f)"
  unfolding io_simple_def
  by (intro quiet_try quiet_io_call) (auto intro: quiet_basic split: IoOutcome.split)

lemma quiet_read_file: "quiet (read_file sel n)"
  unfolding read_file_def
  by (intro quiet_try quiet_io_call quiet_basic) (auto intro: quiet_basic split: IoOutcome.split option.split)

lemma quiet_adopt: "quiet (adopt_journal file)"
  unfolding adopt_journal_def journal_seek_def op_guard_def
  by (rule quiet_basic)
    (auto simp: Let_def files_def split: option.split prod.split
      intro!: quiet_try quiet_basic quiet_io_simple)

text \<open>The journal exists when it is opened, so that opening it does not create it.\<close>

lemma quiet_open_existing:
  assumes "\<And>a. quiet (f a)"
  shows "quiet (pef_try (ensure_journal False entropy) (\<lambda>_. pef_try journal_open_append f))"
proof -
  have "files (snd (journal_open_append s)) = files s" if "fs_journal s \<noteq> None" for s
    using that by (auto simp: journal_open_append_def io_simple_def io_call_def pef_try_def op_modify_def
        op_fail_def files_def split: list.split IoOutcome.split)
  then have "files (snd (pef_try journal_open_append f s)) = files s" if "fs_journal s \<noteq> None" for s
    using that assms by (blast intro: same_files.R_try [unfolded quiet_def] dest: quiet_def [THEN iffD1])
  then show ?thesis
    by (auto simp: quiet_def ensure_journal_def pef_try_def [of "op_read _"] op_read_def op_fail_def
        op_return_def)
qed

lemma quiet_open: "quiet (store_open False limits entropy)"
proof -
  have dir: "quiet (open_directory False)"
    unfolding open_directory_def by (rule quiet_basic) (auto intro: quiet_basic split: DirState.split)
  show ?thesis
    unfolding store_open_def
    by (intro quiet_basic, auto intro!: quiet_basic quiet_try dir quiet_open_existing quiet_read_file quiet_adopt
        simp: files_def split: option.split)
qed

lemma read_file_keeps: "read_file sel n s = (result, t) \<Longrightarrow> files t = files s"
  using quiet_read_file [of sel n] by (metis quiet_def snd_conv)

lemma quiet_load: "quiet (store_load out)"
  unfolding quiet_def store_load_def Let_def
  by (auto split: prod.split sum.split option.split dest!: read_file_keeps)

lemma quiet_offline: "quiet open_offline"
  unfolding open_offline_def
  by (intro quiet_try quiet_open quiet_load) (auto intro: quiet_basic split: prod.split sum.split)

lemma offline_process:
  assumes "offline path p = (result, p')"
  shows "pr_client p' = pr_client p \<and> pr_lines p' = pr_lines p \<and>
    (\<forall>q. files (pr_stores p' q) = files (pr_stores p q))"
  using assms quiet_offline
  by (auto simp: offline_def quiet_def split: prod.splits) (metis snd_conv)

section \<open>The lines of the worker\<close>

lemma exits_worker_finish [exit_rules]: "exits {0, 1, 2} (worker_finish args i n)"
  unfolding worker_finish_def poll_coordinator_def close_process_def
  by (intro exit_rules; simp)+

lemma stops_worker [exit_rules]:
  "stops {0, 1, 2} (worker_boot su args w)" "stops {0, 1, 2} (worker_execution args)"
  "stops {0, 1, 2} (worker_bindings args)" "stops {0, 1, 2} (worker_bind w b i bs)"
  "stops {0, 1, 2} (worker_recover su i)" "stops {0, 1, 2} (worker_go i token bs)"
  "stops {0, 1, 2} (worker_begin token cls key)" "stops {0, 1, 2} (worker_failure token action)"
  "stops {0, 1, 2} (worker_checkpoint i token key step n)" "stops {0, 1, 2} (worker_receipt token action applied)"
  unfolding worker_boot_def worker_execution_def worker_bindings_def worker_bind_def worker_recover_def
    worker_go_def worker_begin_def worker_failure_def worker_checkpoint_def worker_receipt_def Let_def
  by (intro exit_rules; simp)+

lemma stops_worker_steps [exit_rules]: "stops {0, 1, 2} (worker_steps w n)"
  unfolding worker_steps_def worker_step_def by (intro exit_rules; simp)+

lemma stops_mono: "stops S m \<Longrightarrow> S \<subseteq> T \<Longrightarrow> stops T m"
  by (auto simp: stops_def)

lemma exits_worker_play:
  "exits ({0, 1, 2} \<union> (if crash_scenario scenario then {3} else {}))
     (worker_play su args scenario i token bs)"
proof (cases "crash_scenario scenario")
  case True
  have crash: "exits {0, 1, 2, 3} (worker_crash scenario args token cls key)" for cls key
    unfolding worker_crash_def
    by (intro exit_rules stops_worker [THEN stops_mono]; simp)
  have "exits {0, 1, 2, 3} (worker_play su args scenario i token bs)"
    unfolding worker_play_def worker_idle_def poll_coordinator_def Let_def if_P [OF True]
    by (intro exit_rules crash stops_worker [THEN stops_mono]; simp)
  then show ?thesis using True by (simp add: insert_commute)
next
  case False
  have "exits {0, 1, 2} (worker_play su args scenario i token bs)"
    unfolding worker_play_def worker_idle_def poll_coordinator_def Let_def if_not_P [OF False]
    by (intro exit_rules; simp)
  then show ?thesis using False by simp
qed

lemma exits_worker_main:
  "exits ({0, 1, 2} \<union> (if crash_scenario (args_value_or ''--scenario'' ''progress'' args) then {3} else {}))
     (worker_main su args)"
  unfolding worker_main_def Let_def
  by (intro exit_rules exits_worker_play stops_worker [THEN stops_mono]; simp)

text \<open>A step that does not run through ends the worker with code 1.\<close>

lemma stops_worker_steps_one: "stops {1} (worker_steps w n)"
  unfolding worker_steps_def worker_step_def worker_begin_def worker_failure_def worker_checkpoint_def
  by (intro exit_rules; simp)+

fun announces :: "string \<Rightarrow> string \<Rightarrow> bool" where
  "announces [] l = True"
| "announces (c # cs) [] = False"
| "announces (c # cs) (d # ds) \<longleftrightarrow> c = d \<and> announces cs ds"

definition lines_like :: "string \<Rightarrow> Process \<Rightarrow> nat" where
  "lines_like t p = length (filter (announces t) (pr_lines p))"

lemma wp_print: "wp (print_line l) Q p = Q (Inr ()) (p\<lparr>pr_lines := pr_lines p @ [l]\<rparr>)"
  by (simp add: print_line_def wp_modify)

lemma wp_say: "wp (say l k) Q p = wp k Q (p\<lparr>pr_lines := pr_lines p @ [l]\<rparr>)"
  by (simp add: say_def wp_try wp_print)

lemma wp_status:
  assumes "\<And>r c. wp (f r) Q (p\<lparr>pr_client := c\<rparr>)"
  shows "wp (pef_try (client_status m) f) Q p"
  using assms by (cases "m (pr_client p)") (simp add: wp_def pef_try_def client_status_def)

lemma wp_sum:
  assumes "\<And>e. wp (f e) Q p" and "\<And>a. wp (g a) Q p"
  shows "wp (case_sum f g r) Q p"
  using assms by (cases r) simp_all

lemma pef_try_assoc: "pef_try (pef_try m f) g = pef_try m (\<lambda>a. pef_try (f a) g)"
  by (rule ext) (simp add: pef_try_def split: prod.split sum.split)

lemma wp_attempt:
  assumes "\<And>c. Q (Inl 1) (p\<lparr>pr_client := c\<rparr>)" and "\<And>a c. wp (f a) Q (p\<lparr>pr_client := c\<rparr>)"
  shows "wp (pef_try (attempt m) f) Q p"
proof -
  consider c where "attempt m p = (Inl 1, p\<lparr>pr_client := c\<rparr>)"
    | a c where "attempt m p = (Inr a, p\<lparr>pr_client := c\<rparr>)"
    by (cases "m (pr_client p)", cases "fst (m (pr_client p))")
      (simp_all add: attempt_def client_status_def pef_try_def op_fail_def op_return_def)
  then show ?thesis
  proof cases
    case 1
    then show ?thesis using assms(1) by (simp add: wp_def pef_try_def)
  next
    case (2 a c)
    then show ?thesis using assms(2) [of a c] by (simp add: wp_def pef_try_def)
  qed
qed

text \<open>One step prints one line of its kind.\<close>

abbreviation counted :: "nat \<Rightarrow> nat \<Rightarrow> nat + unit \<Rightarrow> Process \<Rightarrow> bool" where
  "counted n m result p \<equiv> result = Inr () \<longrightarrow>
     lines_like ''WORKER STEP '' p = n \<and> lines_like ''WORKER ACTION_FAILED '' p = m"

lemma checkpoint_counted:
  assumes "lines_like ''WORKER STEP '' p = n" "lines_like ''WORKER ACTION_FAILED '' p = m"
  shows "wp (worker_checkpoint i token key step k) (counted n m) p"
  unfolding worker_checkpoint_def
  using assms by (intro wp_status wp_sum wp_attempt) (simp_all add: wp_return wp_print lines_like_def)

lemma commit_counted:
  assumes "lines_like ''WORKER STEP '' p = n" "lines_like ''WORKER ACTION_FAILED '' p = m"
  shows "wp (say (''WORKER STEP ordinal='' @ t) (if b then worker_checkpoint i token key step k else op_return ()))
    (counted (Suc n) m) p"
proof -
  let ?p = "p\<lparr>pr_lines := pr_lines p @ [''WORKER STEP ordinal='' @ t]\<rparr>"
  have "lines_like ''WORKER STEP '' ?p = Suc n" "lines_like ''WORKER ACTION_FAILED '' ?p = m"
    using assms by (simp_all add: lines_like_def)
  then show ?thesis
    unfolding wp_say using checkpoint_counted by (cases b) (simp_all only: if_True if_False wp_return simp_thms)
qed

lemma failure_counted:
  assumes "lines_like ''WORKER STEP '' p = n" "lines_like ''WORKER ACTION_FAILED '' p = m"
  shows "wp (worker_failure token action) (counted n (Suc m)) p"
  unfolding worker_failure_def
  using assms by (intro wp_attempt) (simp_all add: wp_print lines_like_def)

lemma step_counted:
  assumes "lines_like ''WORKER STEP '' p = n" "lines_like ''WORKER ACTION_FAILED '' p = m"
  shows "wp (worker_step w step)
    (if step < wp_fail_actions w then counted n (Suc m) else counted (Suc n) m) p"
proof -
  have client: "lines_like t (q\<lparr>pr_client := c\<rparr>) = lines_like t q" for t q c
    by (simp add: lines_like_def)
  show ?thesis
    unfolding worker_step_def worker_begin_def pef_try_assoc
    by (cases "step < wp_fail_actions w"; simp only: if_True if_False;
        intro wp_attempt failure_counted commit_counted; simp only: client assms sum.simps simp_thms)
qed

lemma steps_counted:
  "lines_like ''WORKER STEP '' p = n \<Longrightarrow> lines_like ''WORKER ACTION_FAILED '' p = m \<Longrightarrow>
   wp (op_for (\<lambda>k. worker_step w (word_of_nat k)) ks)
    (counted (n + length (filter (\<lambda>k. \<not> word_of_nat k < wp_fail_actions w) ks))
       (m + length (filter (\<lambda>k. word_of_nat k < wp_fail_actions w) ks))) p"
proof (induction ks arbitrary: p n m)
  case Nil
  then show ?case by (simp add: wp_return)
next
  case (Cons k ks)
  show ?case
    unfolding op_for.simps wp_try
    by (rule wp_mono [OF step_counted [OF Cons.prems]])
      (auto split: sum.split if_splits intro: wp_mono [OF Cons.IH])
qed

text \<open>The loop over a 64-bit counter fails its first actions and completes the others.\<close>

lemma filter_less_upt: "length (filter (\<lambda>k. k < n) [0..<m]) = min m n"
proof -
  have "filter (\<lambda>k. k < n) [0..<m] = [0..<min m n]"
    by (induction m) (auto simp: min_def le_Suc_eq not_less_eq_eq)
  then show ?thesis by simp
qed

lemma failed_steps:
  fixes steps fails :: u64
  shows "length (filter (\<lambda>k. word_of_nat k < fails) [0..<unat steps]) = min (unat steps) (unat fails)"
    and "length (filter (\<lambda>k. \<not> word_of_nat k < fails) [0..<unat steps]) = unat steps - unat fails"
proof -
  have small: "(word_of_nat k :: u64) < fails \<longleftrightarrow> k < unat fails" if "k < unat steps" for k
  proof -
    have "k < 2 ^ 64" using that unsigned_less [of steps, where ?'a = nat] by simp
    then show ?thesis by (simp add: word_less_nat_alt unat_of_nat take_bit_nat_eq_self)
  qed
  then have same: "filter (\<lambda>k. word_of_nat k < fails) [0..<unat steps] = filter (\<lambda>k. k < unat fails) [0..<unat steps]"
    by (auto intro: filter_cong)
  then show first: "length (filter (\<lambda>k. word_of_nat k < fails) [0..<unat steps]) = min (unat steps) (unat fails)"
    by (simp add: filter_less_upt)
  show "length (filter (\<lambda>k. \<not> word_of_nat k < fails) [0..<unat steps]) = unat steps - unat fails"
    using sum_length_filter_compl [of "\<lambda>k. word_of_nat k < fails" "[0..<unat steps]"] first by simp
qed

end
