(* ===== verification/Tool_Properties.thy ===== *)
theory Tool_Properties
  imports Tool_Behaviour Samples "HOL-Library.Multiset"
begin

text \<open>
  The properties of the explanations and of the executables: what is said about checkpoints,
  continuations and executions agrees with what the runtime does, what is printed can be given
  back as an argument, and the programs end with the documented codes.
\<close>

section \<open>Samples\<close>

definition sample_checkpoint :: CheckpointRecord where
  "sample_checkpoint = unset_checkpoint\<lparr>ckpt_id := 50, ckpt_generation := 1, ckpt_execution := 5,
     ckpt_execution_generation := 1, ckpt_policy_generation := 1, ckpt_content_hash := 9,
     ckpt_state := Current\<rparr>"





section \<open>Explanations\<close>

text \<open>
  C26. When the explanation calls the current checkpoint of an execution resumable, recovery can
  use it: the checkpoint belongs to the execution and to its current generations, carries a
  digest, is among the candidates from which recovery chooses, is not classified as unusable,
  and is the current checkpoint that the planner is given.
\<close>

theorem resumability_explained:
  assumes "find_checkpoint (exec_checkpoint e) (rt_state r) = Some c"
    and "checkpoint_resumability c e = resumable_text"
    and "id_valid (exec_checkpoint e)"
  shows "ckpt_execution c = exec_id e \<and> ckpt_content_hash c \<noteq> 0 \<and>
    ckpt_execution_generation c = exec_generation e \<and>
    ckpt_policy_generation c = exec_policy_generation e \<and>
    c \<in> set (seed_candidates (exec_id e) (rt_state r)) \<and>
    \<not> ri_checkpoint_unusable (recovery_input e r) \<and>
    ri_current_checkpoint (recovery_input e r) = Some c"
proof -
  have "c \<in> set (ds_checkpoints (rt_state r))"
    using assms(1) by (auto simp: find_checkpoint_def dest: tbl_find_Some)
  then show ?thesis
    using assms(2) checkpoint_resumable_iff [of c e] resumable_candidate [OF assms(2)]
      resumable_input [OF assms(2,1)] assms(3) by simp
qed

theorem resumability_explained_witness:
  "ri_current_checkpoint (recovery_input (sample_execution\<lparr>exec_checkpoint := 50\<rparr>)
     (runtime_on (sample_state\<lparr>ds_checkpoints := [sample_checkpoint]\<rparr>))) = Some sample_checkpoint"
proof -
  let ?e = "sample_execution\<lparr>exec_checkpoint := 50\<rparr>"
  let ?r = "runtime_on (sample_state\<lparr>ds_checkpoints := [sample_checkpoint]\<rparr>)"
  have "find_checkpoint (exec_checkpoint ?e) (rt_state ?r) = Some sample_checkpoint"
    by (simp add: find_checkpoint_def runtime_on_def sample_checkpoint_def)
  moreover have "checkpoint_resumability sample_checkpoint ?e = resumable_text"
    by (simp add: checkpoint_resumable_iff checkpoint_can_seed_continuation_def sample_checkpoint_def
        sample_execution_def fresh_execution_def default_policy_def)
  ultimately show ?thesis using resumability_explained [of ?e ?r sample_checkpoint] by simp
qed





text \<open>
  The table of executions depends only on which executions there are: any order of the
  records gives the same text. It has one line for each of them, and one for the heading.
\<close>

theorem execution_table_canonical:
  assumes "mset es = mset fs" and "distinct (map exec_id es)"
  shows "render_execution_table es = render_execution_table fs \<and>
    count_list (render_execution_table es) line_break = length es + 1"
proof -
  have "inj_on exec_id (set es)" using assms(2) by (simp add: distinct_map)
  then have "sort_key exec_id es = sort_key exec_id fs"
    using assms(1) by (intro sort_key_inj_key_eq) simp_all
  then show ?thesis
    by (simp add: count_table) (simp add: render_execution_table_def)
qed

theorem execution_table_canonical_witness:
  "render_execution_table [sample_execution, sample_execution\<lparr>exec_id := 2\<rparr>] =
   render_execution_table [sample_execution\<lparr>exec_id := 2\<rparr>, sample_execution]"
  using execution_table_canonical [of "[sample_execution, sample_execution\<lparr>exec_id := 2\<rparr>]"
      "[sample_execution\<lparr>exec_id := 2\<rparr>, sample_execution]"]
  by (simp add: sample_execution_def fresh_execution_def add_mset_commute)

section \<open>Arguments\<close>



section \<open>Programs\<close>






text \<open>
  When the progress scenario of the worker runs through, it has completed every step but the
  first ones that it was told to fail, and has said so: one line for each completed step and one
  for each failed action. When it does not run through, the worker has ended with code 1.
\<close>

theorem worker_reports_steps:
  "case worker_steps w steps p of
     (Inl code, p') \<Rightarrow> code = 1
   | (Inr _, p') \<Rightarrow>
       lines_like ''WORKER STEP '' p' =
         lines_like ''WORKER STEP '' p + (unat steps - unat (wp_fail_actions w)) \<and>
       lines_like ''WORKER ACTION_FAILED '' p' =
         lines_like ''WORKER ACTION_FAILED '' p + min (unat steps) (unat (wp_fail_actions w))"
proof (cases "worker_steps w steps p")
  case (Pair result p')
  show ?thesis
  proof (cases result)
    case (Inl code)
    then show ?thesis
      using Pair stops_worker_steps_one [of w steps, unfolded stops_def, rule_format, of p code] by simp
  next
    case (Inr u)
    then show ?thesis
      using wpD [OF steps_counted [OF refl refl] Pair [unfolded worker_steps_def]] Pair
      by (simp add: failed_steps)
  qed
qed

end
