(* ===== verification/Spec2Isabelle.thy ===== *)
theory Spec2Isabelle
  imports Storage_Properties Audit_Soundness Server_Properties Tool_Properties
begin

text \<open>
  \<^bold>\<open>Persistent Execution Fabric: a verification development.\<close>

  The program is a coordinator that keeps long-running executions alive across crashes of
  workers and of itself. Clients create executions under a policy, workers bind to them under
  a lease, begin and complete actions with side effects, register checkpoints, suspend and
  resume. Everything the coordinator decides is first appended to a journal; after a crash it
  loads a snapshot and the journal, takes the next epoch, revokes the authority of the
  previous one and classifies each interrupted execution.

  \<^bold>\<open>Parts, theories and sources\<close> (paths under \<open>src/\<close>).
  \<^item> \<open>Prelude\<close>: word types, the operation monad \<open>'s \<Rightarrow> (Code + 'a) \<times> 's\<close> behind the macro
    \<open>PEF_TRY\<close>, the locale of preorders on states, shared lemmas on lists and options.
  \<^item> \<open>Status_Codes\<close>, \<open>Lifecycle\<close>, \<open>Side_Effect\<close>, \<open>Hashing\<close>: \<open>status\<close>, \<open>lifecycle\<close>,
    \<open>side_effect\<close> and \<open>hash\<close> (\<open>.hpp\<close> and \<open>.cpp\<close>): the enumerations with their text forms
    and predicates, the transition table, FNV-1a and CRC-64 on 64-bit words.
  \<^item> \<open>Byte_Codec\<close>, \<open>Records\<close>, \<open>Record_Codec\<close>: \<open>bytes\<close>, \<open>codec.hpp\<close>, \<open>identity.hpp\<close>, \<open>policy\<close>,
    \<open>records\<close>: the bounded reader and writer, every durable record with its canonical
    encoding, binding sets and derived identities. The locale \<open>field_codec\<close> is the contract
    of an encoder and its decoder; it is interpreted for every primitive and every record.
  \<^item> \<open>Record_Table\<close>, \<open>Durable_State\<close>: \<open>RecordTable\<close> and \<open>DurableState\<close> of \<open>persistence\<close>: the
    vector with a key index, its contract \<open>record_store\<close> interpreted on it and on plain
    lists, the tables, the application of a journal record and start-up reconciliation.
  \<^item> \<open>File_Store\<close>, \<open>Journal\<close>: \<open>FileDurableStore\<close>: the files as byte lists, open, append,
    flush, load and snapshot over an operating system given as the outcomes of its calls, so
    every call may fail and a write may be short.
  \<^item> \<open>Recovery_Plan\<close>: \<open>recovery\<close>: the classification of an interrupted execution.
  \<^item> \<open>Runtime_Core\<close>, \<open>Runtime_Lifecycle\<close>, \<open>Runtime_Actions\<close>, \<open>Runtime_Recovery\<close>: \<open>runtime\<close>:
    the state of \<open>Runtime::Impl\<close> as a record and every operation of the class, with all
    guards, early returns and journal writes in the order of the code.
  \<^item> \<open>Auditing\<close>: \<open>audit\<close>: the read-only auditor of a durable state with its report, text and
    digest; \<open>Audit_Soundness\<close> relates its findings to the invariants of the fabric.
  \<^item> \<open>Request_Cache\<close>: the bounded cache by request identity that \<open>runtime.cpp\<close> and \<open>server.cpp\<close>
    both keep, as the locale \<open>request_cache\<close>, interpreted on the runtime in \<open>Indexes\<close> and on
    the server in \<open>Server_Behaviour\<close>.
  \<^item> \<open>Wire_Requests\<close>, \<open>Wire_Replies\<close>, \<open>Wire_View\<close>, \<open>Protocol\<close>: \<open>protocol\<close>: the request and reply structures
    with their encodings (further interpretations of \<open>field_codec\<close>), message types and frames
    with their checksums.
  \<^item> \<open>Server\<close>: \<open>server\<close>: decoding and dispatch of every message, the reply cache, the session of a
    connection, start and stop, and \<open>server_step\<close>, the step relation of the server with its
    open connections.
  \<^item> \<open>Channel\<close>: the frame channel of \<open>net\<close> over a socket whose calls may be short or fail.
  \<^item> \<open>Client\<close>: \<open>client\<close>: request identities, one request and reply over the channel, every method.
  \<^item> \<open>Fabric\<close>: one command per public operation and \<open>fabric_step\<close>, the step relation of the
    whole coordinator.
  \<^item> \<open>Explaining\<close>: \<open>explain\<close>: every renderer as a function to text, and the comparison of what it
    says with the recovery planner and with continuation validation.
  \<^item> \<open>App_Support\<close>, \<open>Tool_Process\<close>, \<open>Command_Line\<close>, \<open>Worker_Program\<close>, \<open>Coordinator_Program\<close>:
    \<open>apps\<close> and \<open>version\<close>: the argument reader with \<open>strtoull\<close> and \<open>atoi\<close>, and the three executables as
    programs over a process (its client, its standard output, the stores on disk) that end with
    an exit code.

  \<^bold>\<open>What the lemmas show.\<close>
  \<^item> \<open>Transitions\<close> defines the abstract specification \<open>evolution\<close> of durable states and its
    invariants; \<open>Refinement_Rules\<close> and \<open>Runtime_Refinement\<close> prove by a small calculus that
    every operation, with any outcome, refines it; \<open>Fabric\<close> lifts this to commands.
  \<^item> \<open>Durable_Writes\<close> proves once, in the locale \<open>durable_writes\<close>, that a relation kept by each
    durable write is kept by every command. \<open>Durability\<close> interprets it for the agreement of
    memory and journal, \<open>Indexes\<close> for the request cache and the derived indexes.
  \<^item> \<open>Restart\<close> is about loading, reconciling and opening; \<open>Runtime_Behaviour\<close> about the
    results of single operations; \<open>Liveness\<close> gives sufficient conditions for success.
  \<^item> \<open>Server_Behaviour\<close> shows that an exchange is one command of the runtime or none, derives the
    invariant of the server, and that a stored reply survives until it is evicted.
    \<open>Client_Behaviour\<close> composes client, channel and server: a remote call is a local call.
  \<^item> \<open>Tool_Behaviour\<close> has rules for the exit codes of programs, shows that offline inspection
    leaves the files of a store alone (a further interpretation of the locale of state
    preorders), and counts the lines of the worker.
  \<^item> \<open>Samples\<close> is a small concrete fabric for the witnesses. \<open>Storage_Properties\<close> states the
    properties of storage and encodings, \<open>Server_Properties\<close> those of the protocol, the
    channel, the server and the client, \<open>Tool_Properties\<close> those of the explanations and the
    executables, this theory those of the coordinator.

  \<^bold>\<open>Modelling choices.\<close> Identities and generations are 64-bit words and wrap as in the code; the
  compile-time tags that keep them apart are not modelled. A hash map of the code is a list
  in insertion order or a map where order cannot be observed. Status messages are dropped, the
  codes are kept. The only loops that are not structural recursion walk over a journal or
  over the bytes of a socket, the polling loop of the worker included; they are total functions
  with the rest as measure, so no fuel is needed. Operations run one at a time, as the mutex of \<open>Runtime\<close> enforces. The random store identity and boot
  identities are arguments.

  \<^bold>\<open>Hypotheses.\<close> Derived identities are hashes. Where the code relies on a derived identity
  being new, the property either carries it as a hypothesis or the code checks it. The
  liveness properties assume a working disk and records within the journal limits.

  A server exchange is one step: the code holds the runtime mutex for the runtime call and the
  cache mutex for the cache, not one lock for both. A reply is kept as the value that is
  encoded; the message text that accompanies a refusal is dropped.

  In the executables the result of connecting, the client nonce, the process marker, the
  compiler's part of the build information and the text of a refusal are arguments; sleeping
  takes no time. What the coordinator does between its start and its stop is an argument of
  \<open>coordinator_main\<close>; \<open>server_step\<close> describes it.

  \<^bold>\<open>Not modelled.\<close> The creation of sockets, listening, timeouts and threads (the rest of \<open>net\<close>),
  signal handlers and standard error of the executables, the CUDA demonstration (\<open>cuda\<close>, calls
  to a driver that is not part of the repository), examples and benchmarks: they hold no state
  of the fabric and reach it only through the operations above.
\<close>

section \<open>The fabric as a state machine\<close>

text \<open>
  C1. Every durable state the coordinator can reach by any sequence of commands keeps the
  fabric invariant: tables with unique keys, progress counters equal to the number of commit
  records, at most one valid continuation per execution, no lease on a fenced or terminal
  execution, and no commit without its progress record and its action. This holds whatever
  each command returns, so also when an append fails halfway through one.
\<close>

theorem fabric_invariant:
  assumes "fabric_steps r r'" and "fabric_inv (rt_state r)"
  shows "fabric_inv (rt_state r')"
  using assms by (rule fabric_inv_steps)

theorem fabric_invariant_witness:
  "fabric_inv (rt_state (run_command (Fence sample_caller 50 5) sample_runtime))"
proof (rule fabric_invariant)
  show "fabric_steps sample_runtime (run_command (Fence sample_caller 50 5) sample_runtime)"
    by (rule r_into_rtranclp, rule fabric_step.command) simp
  show "fabric_inv (rt_state sample_runtime)"
    using sample_inv by (simp add: sample_runtime_def runtime_on_def)
qed

text \<open>
  C2. Refinement: every command, with every outcome, moves the durable state along the steps
  of the abstract transition system \<open>evolution\<close>, which only creates executions with a fresh
  identity, moves lifecycles along the transition table, ends leases and continuations or
  adds ones of the current epoch, and commits under a fresh commit identity.
\<close>

theorem command_refines_evolution:
  assumes "state_ok (rt_state r)" and "id_fresh c (rt_state r)"
  shows "evolutions (rt_state r) (rt_state (run_command c r))"
  using assms by (rule run_command_refines)

theorem command_refines_evolution_witness:
  "evolutions sample_state (rt_state (run_command (CompleteAction sample_completion) sample_runtime))"
  using command_refines_evolution [of sample_runtime "CompleteAction sample_completion"] sample_inv
  by (simp add: sample_runtime_def runtime_on_def fabric_inv_def)

text \<open>
  C3. The commit history is append-only: after any sequence of commands the commit table is the
  old one with new records behind it, and every commit record that was durable is found
  unchanged.
\<close>

theorem commit_history_immutable:
  assumes "fabric_steps r r'" and "state_ok (rt_state r)"
  shows "(\<exists>new. ds_commits (rt_state r') = ds_commits (rt_state r) @ new) \<and>
    (\<forall>i c. find_commit i (rt_state r) = Some c \<longrightarrow> find_commit i (rt_state r') = Some c)"
proof -
  have grow: "commits_grow (rt_state r) (rt_state r')"
    by (rule evolutions_commits [OF fabric_steps_refine [OF assms]])
  show ?thesis
    using commits_grow_find [OF grow] grow by (auto simp: commits_grow_def)
qed

definition committed_state :: DurableState where
  "committed_state = apply_group (staged_group sample_state sample_execution sample_action 40 no_evidence) sample_state"

definition sample_commit :: CommitRecord where
  "sample_commit = staged_commit sample_state sample_execution sample_action 40"

lemma committed_state_facts:
  "state_ok committed_state" "find_commit (com_id sample_commit) committed_state = Some sample_commit"
  using sample_inv
  by (simp_all add: committed_state_def fabric_inv_def apply_group_def, simp add: find_commit_def
      sample_commit_def staged_group_def Let_def)

theorem commit_history_immutable_witness:
  "find_commit (com_id sample_commit)
     (rt_state (run_command (Fence sample_caller 50 5) (runtime_on committed_state))) = Some sample_commit"
  using commit_history_immutable [OF fabric_command [of "Fence sample_caller 50 5"],
      of "runtime_on committed_state"]
  by (simp add: committed_state_facts)



text \<open>
  No lifecycle state is a trap: from every state the transition table has a path
  to \<open>RETIRED\<close>.
\<close>

theorem retirement_reachable: "evolves l Retired"
proof -
  have e: "evolves a b" if "is_legal_transition a b" for a b using that by (rule evolves_step)
  have "evolves Suspended Retired" by (rule e) (simp add: is_legal_transition_def)
  moreover have "is_legal_transition l Suspended \<or> is_legal_transition l Retired \<or> l = Retired"
    by (cases l) (simp_all add: is_legal_transition_def)
  ultimately show ?thesis using e evolves_trans by (metis evolves_refl)
qed

text \<open>
  No command changes the epoch or the identity of the store.
\<close>

theorem epoch_constant:
  assumes "fabric_steps r r'" and "state_ok (rt_state r)"
  shows "ds_epoch (rt_state r') = ds_epoch (rt_state r) \<and> ds_store (rt_state r') = ds_store (rt_state r)"
  using fabric_steps_refine [OF assms] by (rule evolutions_epoch)

section \<open>Durability and restart\<close>




text \<open>
  C8. A restart takes the next epoch and revokes the previous one's authority: every active
  lease and valid continuation that remains belongs to the new epoch, and every token of
  another epoch is refused with \<open>STALE_EPOCH\<close>.
\<close>

theorem restart_revokes_authority:
  assumes "open_runtime config entropy r = (Inr oo, r')"
  shows "oo_epoch oo = oo_previous_epoch oo + 1 \<and> ds_epoch (rt_state r') = oo_epoch oo \<and>
    state_ok (rt_state r') \<and> current_authority (rt_state r') \<and>
    (\<forall>token. tok_epoch token \<noteq> oo_epoch oo \<longrightarrow>
       token_refusal token (rt_state r') = Some StaleEpoch)"
proof -
  obtain s where s: "restarted (oo_epoch oo) s" "state_ok s" "ds_epoch s = oo_epoch oo"
    "oo_epoch oo = oo_previous_epoch oo + 1" "evolutions s (rt_state r')"
    using open_runtime_success [OF assms] by blast
  have "current_authority s" using s(1,3) restarted_current by metis
  then show ?thesis
    using s evolutions_epoch [OF s(5)] evolutions_ok [OF s(5)] evolutions_current_authority [OF s(5)]
    by (simp add: token_refusal_def)
qed

theorem restart_revokes_authority_witness:
  "\<exists>oo r'. open_runtime sample_config 7 closed_runtime = (Inr oo, r') \<and>
     ds_epoch (rt_state r') = oo_previous_epoch oo + 1 \<and> current_authority (rt_state r')"
  using open_success restart_revokes_authority [of sample_config 7 closed_runtime] by metis

section \<open>Authority\<close>

text \<open>
  C14. A lease token is accepted exactly when it is the token of the execution's current
  binding: same generations, incarnation, lease, worker and boot, in the current epoch, with
  the lease still active and agreeing with the execution.
\<close>

theorem token_accepted_iff:
  "token_refusal token s = None \<longleftrightarrow>
    (\<exists>e l. find_execution (tok_execution token) s = Some e \<and> find_lease (exec_lease e) s = Some l \<and>
       token = authority_token s e \<and> lease_state l = Active \<and> lease_epoch l = ds_epoch s \<and>
       lease_generation l = exec_lease_generation e \<and> lease_worker l = exec_worker e \<and>
       lease_boot l = exec_boot e)"
proof
  assume "token_refusal token s = None"
  from token_acceptedD [OF this] show "\<exists>e l. find_execution (tok_execution token) s = Some e \<and>
       find_lease (exec_lease e) s = Some l \<and>
       token = authority_token s e \<and> lease_state l = Active \<and> lease_epoch l = ds_epoch s \<and>
       lease_generation l = exec_lease_generation e \<and> lease_worker l = exec_worker e \<and>
       lease_boot l = exec_boot e"
    by (auto simp: grants_def)
next
  assume "\<exists>e l. find_execution (tok_execution token) s = Some e \<and> find_lease (exec_lease e) s = Some l \<and>
       token = authority_token s e \<and> lease_state l = Active \<and> lease_epoch l = ds_epoch s \<and>
       lease_generation l = exec_lease_generation e \<and> lease_worker l = exec_worker e \<and>
       lease_boot l = exec_boot e"
  then show "token_refusal token s = None"
    by (auto simp: grants_def authority_token_def dest: find_execution_mem intro!: token_acceptedI
        [unfolded authority_token_def])
qed

text \<open>
  C12. A fence that is not a repeated request moves the execution to \<open>FENCED\<close> along a legal
  transition and cuts its authority: the execution holds no lease, and every token that names
  a lease of it is refused from then on.
\<close>

theorem fence_cuts_authority:
  assumes "fence caller request i r = (Inr (), r')" and "rt_request_cache r request = None"
    and "tok_execution token = i" and "id_valid (tok_lease token)"
  shows "\<exists>e e' c. find_execution i (rt_state r) = Some e \<and> find_execution i (rt_state r') = Some e' \<and>
    is_legal_transition (exec_lifecycle e) Fenced \<and> exec_lifecycle e' = Fenced \<and> \<not> has_lease e' \<and>
    token_refusal token (rt_state r') = Some c"
proof -
  obtain e e' where e: "find_execution i (rt_state r) = Some e" "find_execution i (rt_state r') = Some e'"
    "is_legal_transition (exec_lifecycle e) Fenced" "exec_lifecycle e' = Fenced" "\<not> has_lease e'"
    using rely_post [OF rely_transition_op assms(1) [unfolded fence_def]] assms(2)
    by (auto simp: drops_authority_def)
  have "token_refusal token (rt_state r') \<noteq> None"
    using token_lease [of token "rt_state r'" e'] e(2,5) assms(3,4) by auto
  with e show ?thesis by blast
qed

theorem fence_cuts_authority_witness:
  "\<exists>r' c. fence sample_caller 50 5 sample_runtime = (Inr (), r') \<and>
     token_refusal sample_token sample_state = None \<and> token_refusal sample_token (rt_state r') = Some c"
proof -
  obtain r' where run: "fence sample_caller 50 5 sample_runtime = (Inr (), r')"
    using fence_sample by blast
  have "rt_request_cache sample_runtime 50 = None" "tok_execution sample_token = 5"
    "id_valid (tok_lease sample_token)"
    by (simp_all add: sample_runtime_def sample_token_def)
  from fence_cuts_authority [OF run this] run sample_token_accepted show ?thesis by blast
qed

text \<open>
  C13. An execution that is fenced or in a terminal state accepts no lease token, in every
  state the fabric can reach.
\<close>

theorem fenced_refuses_tokens:
  assumes "fabric_steps r r'" and "fabric_inv (rt_state r)"
    and "find_execution (tok_execution token) (rt_state r') = Some e"
    and "exec_lifecycle e = Fenced \<or> is_terminal_state (exec_lifecycle e)"
    and "id_valid (tok_lease token)"
  shows "\<exists>c. token_refusal token (rt_state r') = Some c"
proof -
  have "authority_ok (rt_state r')"
    using fabric_inv_steps [OF assms(1,2)] by (simp add: fabric_inv_def)
  then have "\<not> has_lease e"
    using authority_ok_found(1) [OF _ assms(3)] assms(4) by (auto simp: unleased_def)
  then have "token_refusal token (rt_state r') \<noteq> None"
    using token_lease [of token "rt_state r'" e] assms(3,5) by auto
  then show ?thesis by blast
qed

theorem fenced_refuses_tokens_witness:
  "\<exists>c. token_refusal sample_token
     (rt_state (run_command (Fence sample_caller 50 5) sample_runtime)) = Some c"
proof -
  obtain r' where run: "fence sample_caller 50 5 sample_runtime = (Inr (), r')"
    using fence_sample by blast
  have "rt_request_cache sample_runtime 50 = None" by (simp add: sample_runtime_def)
  with rely_post [OF rely_transition_op run [unfolded fence_def]] obtain e'
    where "find_execution 5 (rt_state r') = Some e'" "exec_lifecycle e' = Fenced" by auto
  moreover have "tok_execution sample_token = 5" "id_valid (tok_lease sample_token)"
    "fabric_inv (rt_state sample_runtime)"
    using sample_inv by (simp_all add: sample_token_def sample_runtime_def)
  ultimately show ?thesis
    using fenced_refuses_tokens [OF fabric_command [of "Fence sample_caller 50 5"], of sample_runtime
        sample_token e'] run by simp
qed

text \<open>
  Fencing cannot be refused for any other reason than those of the code: on an open
  runtime with a working disk, a caller of the current epoch fences every execution whose
  state has \<open>FENCED\<close> as a successor, and gets success.
\<close>

theorem transition_liveness:
  assumes "rt_open r" and "\<not> rt_shutting_down r" and "caller_epoch caller = ds_epoch (rt_state r)"
    and "writable r" and "records_fit r" and "find_execution i (rt_state r) = Some e"
    and "rt_request_cache r request = None"
    and "is_legal_transition (exec_lifecycle e) Fenced"
  shows "\<exists>r'. fence caller request i r = (Inr (), r')"
  using transition_succeeds [OF assms(1-7), of "\<lambda>_ _. False" Fenced] assms(8)
  by (auto simp: succeeds_def fence_def)

section \<open>Creation and completion\<close>

text \<open>
  Creating an execution is idempotent by request identity: repeating a request
  that succeeded, even with another policy, returns the same identities marked as existing
  and changes nothing.
\<close>

theorem creation_idempotent:
  assumes "create_execution caller request policy r = (Inr res, r')"
    and "rt_request_cache r request = None" and "id_valid request"
    and "cfg_request_cache_size (rt_config r) \<noteq> 0"
  shows "create_execution caller request policy' r' = (Inr (res\<lparr>cer_existing := True\<rparr>), r')"
  using assms by (rule create_again)

lemma derived_policy_id: "id_valid (derive_policy_id (derive_execution_id 7 1) 1)"
  by code_simp

lemma create_sample:
  "\<exists>res r'. create_execution sample_caller 70 (default_policy 1) sample_runtime = (Inr res, r')"
proof -
  have s: "ds_store sample_state = 7" "ds_next_execution_sequence sample_state = 1"
    "ds_epoch sample_state = 1" "length (ds_executions sample_state) = 1"
    by (simp_all add: sample_state_def fresh_state_def empty_state_def)
  have "succeeds (create_execution sample_caller 70 (default_policy 1)) (\<lambda>_ _. True) sample_runtime"
    by (rule create_succeeds)
      (simp_all add: sample_runtime_def sample_writable sample_store_sel sample_caller_def s
        sample_config_def validate_policy_def default_policy_def derived_policy_id)
  then show ?thesis by (auto simp: succeeds_def)
qed

theorem creation_idempotent_witness:
  "\<exists>res r'. create_execution sample_caller 70 (default_policy 1) sample_runtime = (Inr res, r') \<and>
     create_execution sample_caller 70 (default_policy 2) r' = (Inr (res\<lparr>cer_existing := True\<rparr>), r')"
proof -
  obtain res r' where "create_execution sample_caller 70 (default_policy 1) sample_runtime = (Inr res, r')"
    using create_sample by blast
  then show ?thesis
    using creation_idempotent [of sample_caller 70 "default_policy 1" sample_runtime res r' "default_policy 2"]
    by (auto simp: sample_runtime_def sample_config_def)
qed

text \<open>
  C4. A completion that is not a duplicate commits exactly once: the execution was running,
  the commit identity was unused, and afterwards the commit record names the action and the
  next progress generation while the action is committed and names the commit.
\<close>

theorem completion_commits_once:
  assumes "complete_action request r = (Inr res, r')" and "\<not> cres_duplicate res"
  shows "\<exists>e a c. find_execution (tok_execution (car_token request)) (rt_state r) = Some e \<and>
    exec_lifecycle e = Running \<and>
    find_commit (cres_commit res) (rt_state r) = None \<and>
    find_commit (cres_commit res) (rt_state r') = Some c \<and>
    com_action c = car_action request \<and> com_execution c = exec_id e \<and>
    com_progress_generation c = exec_progress_generation e + 1 \<and>
    find_action (car_action request) (car_action_generation request) (rt_state r') = Some a \<and>
    act_status a = Committed \<and> act_commit a = cres_commit res"
  by (rule complete_commits [OF assms])
    (auto simp: complete_refusal_def split: if_splits)

theorem completion_commits_once_witness:
  "\<exists>res r' c. complete_action sample_completion sample_runtime = (Inr res, r') \<and>
     find_commit (cres_commit res) (rt_state r') = Some c \<and> com_action c = 3"
proof -
  obtain res r' where run: "complete_action sample_completion sample_runtime = (Inr res, r')"
    "\<not> cres_duplicate res"
    using complete_sample by blast
  from completion_commits_once [OF this] run show ?thesis
    by (auto simp: sample_completion_def)
qed

text \<open>
  C5. Completing again is harmless: the same request after a successful completion returns
  the same result marked as a duplicate, with no checkpoint due, and does not change the
  runtime.
\<close>

theorem completion_idempotent:
  assumes "complete_action request r = (Inr res, r')" and "\<not> cres_duplicate res"
  shows "complete_action request r' =
    (Inr (res\<lparr>cres_duplicate := True, cres_checkpoint_due := False\<rparr>), r')"
  using assms by (rule complete_again)

theorem completion_idempotent_witness:
  "\<exists>res r'. complete_action sample_completion sample_runtime = (Inr res, r') \<and>
     fst (complete_action sample_completion r') =
       Inr (res\<lparr>cres_duplicate := True, cres_checkpoint_due := False\<rparr>)"
proof -
  obtain res r' where run: "complete_action sample_completion sample_runtime = (Inr res, r')"
    "\<not> cres_duplicate res"
    using complete_sample by blast
  from completion_idempotent [OF this] run show ?thesis by auto
qed

text \<open>
  C24. A completion that no rule of the code refuses succeeds: with a valid token, a known
  uncommitted action, a fresh commit identity, a working disk and room for the commit group
  in a journal record, it returns a result that is not a duplicate.
\<close>

theorem completion_liveness:
  fixes r request
  defines "s \<equiv> rt_state r"
  assumes "rt_open r" and "\<not> rt_shutting_down r" and "writable r"
    and "token_refusal (car_token request) s = None"
    and "find_execution (tok_execution (car_token request)) s = Some e"
    and "find_action (car_action request) (car_action_generation request) s = Some a"
    and "rt_request_cache r (car_request request) = None" and "act_status a \<noteq> Committed"
    and "complete_refusal e (Some a) request = None"
    and "find_commit (com_id (staged_commit s e a (car_request request))) s = None"
    and "length (encode_CommitGroupRecord
      (staged_group s e a (car_request request) (car_evidence request))) \<le> room r"
  shows "\<exists>res r'. complete_action request r = (Inr res, r') \<and> \<not> cres_duplicate res"
  using complete_succeeds [OF assms(2-12) [unfolded s_def]] by (auto simp: succeeds_def)

theorem completion_liveness_witness:
  "\<exists>res r'. complete_action sample_completion sample_runtime = (Inr res, r') \<and> \<not> cres_duplicate res"
proof (rule completion_liveness [where e = sample_execution and a = sample_action])
  show "length (encode_CommitGroupRecord (staged_group (rt_state sample_runtime) sample_execution
      sample_action (car_request sample_completion) (car_evidence sample_completion)))
      \<le> room sample_runtime"
    by (simp add: sample_runtime_def sample_store_sel sample_group_size)
qed (use sample_found sample_token_accepted sample_writable in
    \<open>simp_all add: sample_runtime_def sample_completion_def complete_refusal_def
      sample_token_def, simp_all add: sample_defs\<close>)

section \<open>Recovery\<close>





text \<open>
  C11. When recovery cannot tell whether the action in flight took effect, it records that
  durably: the action becomes ambiguous, an open ambiguity is attached to the execution, and
  unless the policy says otherwise every later action is blocked.
\<close>

theorem recovery_records_ambiguity:
  fixes e r
  defines "plan \<equiv> classify_recovery (recovery_input e r)"
  assumes "recover caller request i r = (Inr outcome, r')"
    and "find_execution i (rt_state r) = Some e"
    and "opens_ambiguity (plan_decision plan)" and "id_valid (plan_action plan)"
    and "find_action (plan_action plan) (plan_action_generation plan) (rt_state r) = Some a"
  shows "find_action (act_id a) (act_generation a) (rt_state r') = Some (a\<lparr>act_status := Ambiguous\<rparr>) \<and>
    (\<exists>e' m. find_execution i (rt_state r') = Some e' \<and>
       find_ambiguity (exec_ambiguity e') (rt_state r') = Some m \<and> ambiguity_is_open (amb_state m) \<and>
       (\<not> policy_test (\<lambda>p. \<not> pol_ambiguity_blocks_later_progress p) (policy_of e r) \<longrightarrow>
          exec_blocked e' \<and> exec_blocked_above_ordinal e' = act_sequence a - 1))"
proof -
  have id: "exec_id e = i" using find_execution_mem [OF assms(3)] by simp
  have "recover_found request e r = (Inr outcome, r')"
    using assms(2,3) unfolding recover_def
    by (auto simp: check_caller_success op_read_def op_fail_def elim!: try_success split: if_splits)
  from rely_post [OF recover_found_ambiguous this] assms(3-6) id
  show ?thesis by (simp add: ambiguity_recorded_def plan_def)
qed

theorem recovery_records_ambiguity_witness:
  "\<exists>outcome r'. recover sample_caller 60 5 (runtime_on interrupted_state) = (Inr outcome, r') \<and>
     find_action 3 1 (rt_state r') = Some (sample_action\<lparr>act_status := Ambiguous\<rparr>)"
proof -
  obtain outcome r' where run: "recover sample_caller 60 5 (runtime_on interrupted_state) = (Inr outcome, r')"
    using recover_interrupted by blast
  have "act_id sample_action = 3" "act_generation sample_action = 1"
    by (simp_all add: sample_action_def)
  then show ?thesis
    using recovery_records_ambiguity [OF run, of interrupted_execution sample_action] run
      interrupted_found interrupted_plan by simp
qed

definition blocked_state :: DurableState where
  "blocked_state = sample_state\<lparr>ds_executions := [sample_execution\<lparr>exec_blocked := True,
     exec_blocked_above_ordinal := 0\<rparr>]\<rparr>"

definition sample_begin :: BeginActionRequest where
  "sample_begin = \<lparr>bar_request = 41, bar_token = sample_token, bar_effect_class = Pure,
     bar_request_key = [], bar_evidence = no_evidence\<rparr>"

text \<open>
  C23. A blocked execution begins no new action: the request fails and the runtime,
  its journal included, is unchanged.
\<close>

theorem blocked_refuses_actions:
  assumes "find_execution (tok_execution (bar_token request)) (rt_state r) = Some e"
    and "exec_blocked e" and "exec_blocked_above_ordinal e < exec_action_frontier e"
    and "exec_action_frontier e \<noteq> - 1" and "rt_request_cache r (bar_request request) = None"
  shows "\<exists>c. begin_action request r = (Inl c, r)"
  using assms by (rule begin_blocked)

theorem blocked_refuses_actions_witness:
  "\<exists>c. begin_action sample_begin (runtime_on blocked_state) = (Inl c, runtime_on blocked_state)"
  by (rule blocked_refuses_actions [where e = "sample_execution\<lparr>exec_blocked := True,
     exec_blocked_above_ordinal := 0\<rparr>"])
    (simp_all add: sample_begin_def sample_token_def blocked_state_def find_execution_def
      sample_execution_def fresh_execution_def)

text \<open>
  C22. Resuming leaves exactly one way on: the execution runs, its continuation is valid, of
  the current epoch and at the current frontier and progress generation, and no other
  continuation of the execution is valid.
\<close>

theorem resume_sole_continuation:
  assumes "state_ok (rt_state r)" and "rt_request_cache r request = None"
    and "resume request token observed revalidate r = (Inr res, r')"
  shows "\<exists>e c. find_execution (tok_execution token) (rt_state r') = Some e \<and>
    exec_lifecycle e = Running \<and>
    find_continuation (exec_continuation e) (rt_state r') = Some c \<and> cont_state c = Valid \<and>
    cont_execution c = tok_execution token \<and> cont_epoch c = ds_epoch (rt_state r') \<and>
    cont_resume_ordinal c = exec_action_frontier e \<and>
    cont_progress_generation c = exec_progress_generation e \<and>
    (\<forall>d \<in> set (ds_continuations (rt_state r')).
       cont_execution d = tok_execution token \<and> cont_id d \<noteq> cont_id c \<longrightarrow> cont_state d \<noteq> Valid)"
  using rely_post [OF rely_resume [OF assms(1,2)] assms(3)]
  by (auto simp: resumed_def sole_valid_def)

definition recovering_state :: DurableState where
  "recovering_state = sample_state\<lparr>ds_executions := [sample_execution\<lparr>exec_lifecycle := Recovering\<rparr>]\<rparr>"

lemma recovering_facts:
  "state_ok recovering_state" "token_refusal sample_token recovering_state = None"
  "find_execution 5 recovering_state = Some (sample_execution\<lparr>exec_lifecycle := Recovering\<rparr>)"
  "resume_refusal (sample_execution\<lparr>exec_lifecycle := Recovering\<rparr>) recovering_state empty_bindings False = None"
  by (simp_all add: token_refusal_def find_execution_def find_lease_def recovering_state_def state_ok_def tbl_ok_def
      resume_refusal_def resumable_def equals_generations_def sample_defs)

lemma resume_sample:
  "\<exists>res r'. resume 61 sample_token empty_bindings False (runtime_on recovering_state) = (Inr res, r')"
proof -
  have "succeeds (resume 61 sample_token empty_bindings False) (\<lambda>_ _. True) (runtime_on recovering_state)"
    by (rule resume_succeeds [where e = "sample_execution\<lparr>exec_lifecycle := Recovering\<rparr>"])
     (use recovering_facts in \<open>simp_all add: sample_writable sample_store_sel sample_token_def\<close>,
       simp_all add: validate_continuation_state_def continuation_claim_def continuation_verdict_def
       mint_continuation_def ambiguous_point_def equals_generations_def find_policy_def Let_def
       encode_ExecutionRecord_def encode_ContinuationRecord_def encode_BindingSet_def write_vector_def
       recovering_state_def sample_state_def sample_execution_def fresh_execution_def empty_bindings_def
       fresh_state_def empty_state_def)
  then show ?thesis by (auto simp: succeeds_def)
qed

theorem resume_sole_continuation_witness:
  "\<exists>res r' e. resume 61 sample_token empty_bindings False (runtime_on recovering_state) = (Inr res, r') \<and>
     find_execution 5 (rt_state r') = Some e \<and> exec_lifecycle e = Running"
proof -
  obtain res r' where run: "resume 61 sample_token empty_bindings False (runtime_on recovering_state) = (Inr res, r')"
    using resume_sample by blast
  have "tok_execution sample_token = 5" by (simp add: sample_token_def)
  then show ?thesis
    using resume_sole_continuation [OF _ _ run] recovering_facts run by fastforce
qed

section \<open>Volatile indexes and the request cache\<close>

text \<open>
  C35. The request cache stays consistent and bounded: through any sequence of commands its
  eviction order lists each cached request once and nothing else, and is never longer than
  the configured size.
\<close>

theorem request_cache_bounded:
  assumes "cache_ok r" and "list_all logged cs"
  defines "r' \<equiv> fold run_command cs r"
  shows "distinct (rt_request_order r') \<and> set (rt_request_order r') = dom (rt_request_cache r') \<and>
    length (rt_request_order r') \<le> cfg_request_cache_size (rt_config r')"
  using cache.run_commands_writes [OF assms(2), of r] assms(1) by (simp add: r'_def cache_ok_def cache_wf_def)

theorem request_cache_bounded_witness:
  "length (rt_request_order (fold run_command [Fence sample_caller 50 5, Fence sample_caller 51 5]
     sample_runtime)) \<le>
   cfg_request_cache_size (rt_config (fold run_command [Fence sample_caller 50 5, Fence sample_caller 51 5]
     sample_runtime))"
  using request_cache_bounded [of sample_runtime "[Fence sample_caller 50 5, Fence sample_caller 51 5]"]
  by (simp add: cache_ok_def cache_wf_def sample_runtime_def)



text \<open>
  A query changes nothing and reports the durable truth: the execution record itself, the
  number of its commit records, and a bounded list of actions from the action table.
\<close>

theorem query_counts_commits:
  assumes "index_ok r" and "query i r = (Inr view, r')"
  shows "r' = r \<and> find_execution i (rt_state r) = Some (vw_execution view) \<and>
    vw_commit_count view = length (commits_of i (rt_state r)) \<and>
    length (vw_actions view) \<le> cfg_max_view_actions (rt_config r) \<and>
    set (vw_actions view) \<subseteq> set (ds_actions (rt_state r))"
proof -
  have "rt_commit_index r = keys_by com_execution com_id (ds_commits (rt_state r))"
    using assms(1) by (simp add: index_ok_def)
  then show ?thesis
    using assms(2)
    by (auto simp: query_def op_read_def op_return_def op_fail_def Let_def keys_by_def commits_of_def
        view_records_def mem_map_filter dest!: in_set_takeD tbl_find_Some split: option.splits)
qed

text \<open>
  The action that recovery takes as the latest is the one of greatest key, that is of
  greatest derived identity; keys are hashes, so this need not be the newest ordinal.
\<close>

theorem latest_action_is_greatest_key:
  assumes "index_ok r" and "b \<in> set (ds_actions (rt_state r))" and "act_execution b = i"
  shows "\<exists>a. latest_action i r = Some a \<and> action_key b \<le> action_key a"
  using latest_action_greatest [OF assms] by metis

section \<open>The auditor\<close>

text \<open>
  C19. A clean audit report is a proof of the invariants it checks: at most one valid
  continuation per execution, complete commits and only one per action and generation,
  progress generations that count the committed progress, and active leases that are the
  current authority of a live execution in the current epoch.
\<close>

theorem audit_clean_sound:
  assumes "clean (audit_state s)" and "state_ok s"
  shows "one_valid s \<and> commits_complete s \<and>
    distinct (map (\<lambda>c. (com_action c, com_action_generation c)) (ds_commits s)) \<and>
    (\<forall>e \<in> set (ds_executions s).
       exec_progress_generation e = word_of_nat (length (committed_progress (exec_id e) s)) \<and>
       exec_committed_actions e = exec_progress_generation e) \<and>
    (\<forall>l \<in> set (ds_leases s). lease_state l = Active \<and> id_valid (lease_id l) \<longrightarrow>
       (\<exists>e. find_execution (lease_execution l) s = Some e \<and> exec_lease e = lease_id l \<and>
          lease_epoch l = ds_epoch s \<and> lease_worker l = exec_worker e \<and> lease_boot l = exec_boot e \<and>
          \<not> is_terminal_state (exec_lifecycle e)))"
proof (intro conjI)
  note commits = clean_commits [OF clean_sections(6) [OF assms(1)]]
  show "one_valid s" using assms(1) by (rule clean_one_valid)
  show "commits_complete s" using commits by (simp add: commits_complete_def)
  have "distinct (map (\<lambda>(a, g). hex64 a @ '':'' @ hex64 g)
      (map (\<lambda>c. (com_action c, com_action_generation c)) (ds_commits s)))"
    using commits by (simp add: commit_key_def [abs_def] comp_def)
  then show "distinct (map (\<lambda>c. (com_action c, com_action_generation c)) (ds_commits s))"
    unfolding distinct_map [of "\<lambda>(a, g). hex64 a @ '':'' @ hex64 g"] by (rule conjunct1)
  show "\<forall>e \<in> set (ds_executions s).
       exec_progress_generation e = word_of_nat (length (committed_progress (exec_id e) s)) \<and>
       exec_committed_actions e = exec_progress_generation e"
    using clean_frontier clean_execution(2) clean_sections(1) [OF assms(1)] by metis
qed (use clean_lease [OF assms] in blast)

definition audited_state :: DurableState where
  "audited_state = sample_state\<lparr>ds_executions := [sample_execution\<lparr>exec_lifecycle := Ready,
     exec_incarnation := derive_incarnation_id 5 1\<rparr>], ds_actions := []\<rparr>"

lemma audited_state_clean: "clean (audit_state audited_state)" "state_ok audited_state"
  by (simp_all add: clean_def audit_state_def audit_findings_def audit_execution_def audit_identity_def
      audit_authority_def audit_held_lease_def audit_continuation_ref_def audit_checkpoint_ref_def
      audit_frontier_def committed_progress_def audit_ambiguity_ref_def audit_exclusive_def
      valid_continuations_def audit_lease_def audit_policy_def validate_policy_def Let_def
      find_policy_def find_lease_def find_execution_def binding_set_defect_def sort_refs_def
      state_ok_def tbl_ok_def audited_state_def sample_state_def sample_execution_def sample_lease_def
      fresh_execution_def default_policy_def empty_bindings_def fresh_state_def empty_state_def)

theorem audit_clean_sound_witness:
  "one_valid audited_state \<and> commits_complete audited_state \<and>
   (\<exists>e. find_execution 5 audited_state = Some e \<and> exec_lease e = 12 \<and> exec_worker e = 10)"
proof -
  have "sample_lease \<in> set (ds_leases audited_state)" "lease_state sample_lease = Active"
    "lease_id sample_lease = 12" "lease_execution sample_lease = 5" "lease_worker sample_lease = 10"
    by (simp_all add: audited_state_def sample_state_def) (simp_all add: sample_lease_def)
  then show ?thesis using audit_clean_sound [OF audited_state_clean] by fastforce
qed

text \<open>
  C20. The auditor agrees with the coordinator: for no reachable state does it report two
  valid continuations, a terminal execution with a lease, or a commit without its action or
  its progress record.
\<close>

theorem audit_never_charges:
  assumes "fabric_steps r r'" and "fabric_inv (rt_state r)"
  shows "\<forall>f \<in> set (ar_findings (audit_state (rt_state r'))).
    af_code f \<notin> {''MULTIPLE_VALID_CONTINUATIONS'', ''TERMINAL_EXECUTION_HOLDS_LEASE'',
      ''COMMIT_ACTION_MISSING'', ''COMMIT_PROGRESS_MISSING''}"
  using fabric_inv_avoids [OF fabric_inv_steps [OF assms]]
  by (simp add: audit_state_def avoids_def never_charged_def)

theorem audit_never_charges_witness:
  "''TERMINAL_EXECUTION_HOLDS_LEASE'' \<notin>
     af_code ` set (ar_findings (audit_state (rt_state (run_command (Fence sample_caller 50 5) sample_runtime))))"
  using audit_never_charges [OF fabric_command [of "Fence sample_caller 50 5" sample_runtime]]
    sample_inv by (auto simp: sample_runtime_def simp del: run_command.simps)

text \<open>
  C21. After a restart, and after any commands that follow, the auditor reports no active
  lease of an older epoch and no current continuation marked valid from another epoch.
\<close>

theorem audit_after_restart:
  assumes "open_runtime config entropy r = (Inr oo, r')" and "fabric_steps r' r''"
  shows "\<forall>f \<in> set (ar_findings (audit_state (rt_state r''))).
    af_code f \<notin> {''STALE_LEASE_STILL_ACTIVE'', ''VALID_CONTINUATION_STALE_EPOCH''}"
proof -
  obtain s where s: "restarted (oo_epoch oo) s" "state_ok s" "ds_epoch s = oo_epoch oo"
    "evolutions s (rt_state r')"
    using open_runtime_success [OF assms(1)] by blast
  have "current_authority s" using s(1,3) restarted_current by metis
  then have "current_authority (rt_state r')" using evolutions_current_authority [OF s(4)] by blast
  then have "current_authority (rt_state r'')"
    using evolutions_current_authority [OF fabric_steps_refine [OF assms(2)]] evolutions_ok [OF s(4,2)]
    by blast
  from current_authority_avoids [OF this] show ?thesis
    by (simp add: audit_state_def avoids_def settled_by_restart_def)
qed

theorem audit_after_restart_witness:
  "\<exists>oo r'. open_runtime sample_config 7 closed_runtime = (Inr oo, r') \<and>
    ''STALE_LEASE_STILL_ACTIVE'' \<notin> af_code ` set (ar_findings (audit_state (rt_state r')))"
proof -
  obtain oo r' where run: "open_runtime sample_config 7 closed_runtime = (Inr oo, r')"
    using open_success by blast
  from audit_after_restart [OF run rtranclp.rtrancl_refl] run show ?thesis by auto
qed

text \<open>
  The text and the digest of a report depend on which findings it has and not on
  the order in which the checks produced them.
\<close>

theorem report_order_independent:
  assumes "mset (ar_findings r) = mset fs"
  shows "render (r\<lparr>ar_findings := fs\<rparr>) = render r \<and>
    report_digest (r\<lparr>ar_findings := fs\<rparr>) = report_digest r"
proof -
  let ?r = "r\<lparr>ar_findings := fs\<rparr>"
  have all: "list_all2 (\<lambda>f g. finding_key f = finding_key g) (ordered_findings ?r) (ordered_findings r)"
    using assms by (intro ordered_findings_keys) simp
  have "length fs = length (ar_findings r)" using assms by (metis size_mset)
  then show ?thesis
    using render_findings_cong [OF all] hash_findings_cong [OF all]
    by (simp add: render_def report_digest_def violations_def Let_def)
qed

theorem report_order_independent_witness:
  "report_digest ((audit_state empty_state)\<lparr>ar_findings := rev (ar_findings (audit_state empty_state))\<rparr>) =
   report_digest (audit_state empty_state)"
  using report_order_independent [of "audit_state empty_state" "rev (ar_findings (audit_state empty_state))"]
  by simp

end
